(* ===== verification/Prelude.thy ===== *)
theory Prelude
  imports Main
begin

text \<open>
  Shared vocabulary of the development: JavaScript errors as values, the action type that
  threads a state through code that may throw or not return, the weakest-precondition
  calculus for it, and the frame rules every component uses.
\<close>

named_theorems wp_simps \<open>weakest-precondition equations of the action combinators\<close>
named_theorems act_simps \<open>evaluation equations of the action combinators\<close>
named_theorems frame_rules \<open>what an operation leaves unchanged\<close>

section \<open>Errors\<close>

text \<open>
  \<open>throw new Error(m)\<close> is \<open>JsError m\<close>. The subclasses are the ones the sources distinguish
  with \<open>instanceof\<close>: zod's validation error, the relayer's readiness error and the browser's
  configuration error.
\<close>

datatype js_error =
    JsError string
  | ZodError string
  | ReadinessError string
  | ConfigurationError string

primrec error_message :: "js_error \<Rightarrow> string" where
  "error_message (JsError m) = m"
| "error_message (ZodError m) = m"
| "error_message (ReadinessError m) = m"
| "error_message (ConfigurationError m) = m"

section \<open>Actions\<close>

text \<open>
  An asynchronous function of the sources, run to its end, is an action: from a state it
  does not return (\<open>None\<close>), throws (\<open>Inl\<close>) or returns (\<open>Inr\<close>). In every case that ends
  the state reached is kept, as a JavaScript throw undoes nothing.
\<close>

type_synonym ('s, 'a) act = "'s \<Rightarrow> ((js_error + 'a) \<times> 's) option"

definition ret :: "'a \<Rightarrow> ('s, 'a) act" where
  "ret x = (\<lambda>s. Some (Inr x, s))"

definition throw :: "js_error \<Rightarrow> ('s, 'a) act" where
  "throw e = (\<lambda>s. Some (Inl e, s))"

definition bindA :: "('s, 'a) act \<Rightarrow> ('a \<Rightarrow> ('s, 'b) act) \<Rightarrow> ('s, 'b) act" where
  "bindA m f = (\<lambda>s. case m s of
      None \<Rightarrow> None
    | Some (r, t) \<Rightarrow> (case r of Inl e \<Rightarrow> Some (Inl e, t) | Inr x \<Rightarrow> f x t))"

definition tryA :: "('s, 'a) act \<Rightarrow> (js_error \<Rightarrow> ('s, 'a) act) \<Rightarrow> ('s, 'a) act" where
  "tryA m h = (\<lambda>s. case m s of
      None \<Rightarrow> None
    | Some (r, t) \<Rightarrow> (case r of Inl e \<Rightarrow> h e t | Inr x \<Rightarrow> Some (Inr x, t)))"

definition thenA :: "('s, 'a) act \<Rightarrow> ('s, 'b) act \<Rightarrow> ('s, 'b) act" where
  "thenA m k = bindA m (\<lambda>_. k)"

text \<open>The outcome of \<open>m\<close> as a value, for a \<open>catch\<close> that needs to know how far \<open>m\<close> came.\<close>

definition outcomeA :: "('s, 'a) act \<Rightarrow> ('s, js_error + 'a) act" where
  "outcomeA m = (\<lambda>s. case m s of None \<Rightarrow> None | Some (r, t) \<Rightarrow> Some (Inr r, t))"

text \<open>\<open>try { m } finally { k }\<close> for a \<open>k\<close> that only changes the state.\<close>

definition finallyA :: "('s, 'a) act \<Rightarrow> ('s \<Rightarrow> 's) \<Rightarrow> ('s, 'a) act" where
  "finallyA m k = (\<lambda>s. case m s of None \<Rightarrow> None | Some (r, t) \<Rightarrow> Some (r, k t))"

definition getA :: "('s, 's) act" where
  "getA = (\<lambda>s. Some (Inr s, s))"

definition modifyA :: "('s \<Rightarrow> 's) \<Rightarrow> ('s, unit) act" where
  "modifyA f = (\<lambda>s. Some (Inr (), f s))"

text \<open>The answer of code that may throw but keeps no state here.\<close>

definition liftA :: "js_error + 'a \<Rightarrow> ('s, 'a) act" where
  "liftA r = (\<lambda>s. Some (r, s))"

text \<open>The value of a computation that may not return.\<close>

definition liftO :: "'a option \<Rightarrow> ('s, 'a) act" where
  "liftO m = (\<lambda>s. case m of None \<Rightarrow> None | Some x \<Rightarrow> Some (Inr x, s))"

text \<open>\<open>Promise.all([a, b])\<close>: both calls are made; it rejects when one of them does.\<close>

definition bothA :: "('s, 'a) act \<Rightarrow> ('s, 'b) act \<Rightarrow> ('s, 'a \<times> 'b) act" where
  "bothA a b = (\<lambda>s. case a s of
      None \<Rightarrow> None
    | Some (r, t) \<Rightarrow>
        (case b t of
           None \<Rightarrow> None
         | Some (q, u) \<Rightarrow>
             Some (case r of
                     Inl e \<Rightarrow> Inl e
                   | Inr x \<Rightarrow> (case q of Inl e \<Rightarrow> Inl e | Inr y \<Rightarrow> Inr (x, y)), u)))"

text \<open>A \<open>for ... of\<close> loop and the collecting \<open>Promise.all(xs.map(f))\<close>.\<close>

fun forA :: "'b list \<Rightarrow> ('b \<Rightarrow> ('s, unit) act) \<Rightarrow> ('s, unit) act" where
  "forA [] f = ret ()"
| "forA (x # xs) f = thenA (f x) (forA xs f)"

fun mapA :: "('b \<Rightarrow> ('s, 'a) act) \<Rightarrow> 'b list \<Rightarrow> ('s, 'a list) act" where
  "mapA f [] = ret []"
| "mapA f (x # xs) = bindA (bothA (f x) (mapA f xs)) (\<lambda>(y, ys). ret (y # ys))"

text \<open>A loop that collects one result per turn and stops at the first that throws.\<close>

fun eachA :: "('b \<Rightarrow> ('s, 'a) act) \<Rightarrow> 'b list \<Rightarrow> ('s, 'a list) act" where
  "eachA f [] = ret []"
| "eachA f (x # xs) = bindA (f x) (\<lambda>y. bindA (eachA f xs) (\<lambda>ys. ret (y # ys)))"

lemmas act_defs = ret_def throw_def bindA_def tryA_def thenA_def outcomeA_def finallyA_def getA_def
  modifyA_def liftA_def liftO_def bothA_def

lemma bindA_mono [partial_function_mono]:
  fixes m :: "('x \<Rightarrow> 'y option) \<Rightarrow> ('s, 'a) act"
    and k :: "('x \<Rightarrow> 'y option) \<Rightarrow> 'a \<Rightarrow> ('s, 'b) act"
  assumes m: "\<And>s. mono_option (\<lambda>f. m f s)" and k: "\<And>x s. mono_option (\<lambda>f. k f x s)"
  shows "mono_option (\<lambda>f. bindA (m f) (k f) s)"
proof -
  have eq: "bindA (m f) (k f) s = Option.bind (m f s) (\<lambda>p.
      case fst p of Inl e \<Rightarrow> Some (Inl e, snd p) | Inr x \<Rightarrow> k f x (snd p))" for f
    by (simp add: bindA_def split: option.splits sum.splits prod.splits)
  have "mono_option (\<lambda>f. case fst p of Inl e \<Rightarrow> Some (Inl e, snd p) | Inr x \<Rightarrow> k f x (snd p))"
    for p :: "(js_error + 'a) \<times> 's"
    using k by (cases "fst p") (auto simp: monotone_def flat_ord_def)
  then show ?thesis
    unfolding eq by (intro bind_mono [OF m]) simp
qed

text \<open>A loop is defined from the state on; these rewrite its body to an action and back.\<close>

lemma option_appl:
  "(case x of None \<Rightarrow> f | Some y \<Rightarrow> g y) p = (case x of None \<Rightarrow> f p | Some y \<Rightarrow> g y p)"
  by (cases x) auto

lemmas body_simps = bindA_def if_distribR option_appl

section \<open>Weakest preconditions\<close>

text \<open>
  \<open>wp m Q E s\<close>: if \<open>m\<close> ends from \<open>s\<close>, it returns into \<open>Q\<close> or throws into \<open>E\<close>.
  \<open>ends m s\<close> is the other half, that it does end.
\<close>

definition wp :: "('s, 'a) act \<Rightarrow> ('a \<Rightarrow> 's \<Rightarrow> bool) \<Rightarrow> (js_error \<Rightarrow> 's \<Rightarrow> bool) \<Rightarrow> 's \<Rightarrow> bool" where
  "wp m Q E s = (case m s of
      None \<Rightarrow> True
    | Some (r, t) \<Rightarrow> (case r of Inl e \<Rightarrow> E e t | Inr x \<Rightarrow> Q x t))"

definition ends :: "('s, 'a) act \<Rightarrow> 's \<Rightarrow> bool" where
  "ends m s = (m s \<noteq> None)"

lemma wp_ret [wp_simps]: "wp (ret x) Q E s = Q x s"
  by (simp add: wp_def ret_def)

lemma wp_throw [wp_simps]: "wp (throw e) Q E s = E e s"
  by (simp add: wp_def throw_def)

lemma wp_liftA [wp_simps]: "wp (liftA r) Q E s = (case r of Inl e \<Rightarrow> E e s | Inr x \<Rightarrow> Q x s)"
  by (simp add: wp_def liftA_def)

lemma wp_liftO [wp_simps]: "wp (liftO m) Q E s = (case m of None \<Rightarrow> True | Some x \<Rightarrow> Q x s)"
  by (simp add: wp_def liftO_def split: option.splits)

lemma wp_getA [wp_simps]: "wp getA Q E s = Q s s"
  by (simp add: wp_def getA_def)

lemma wp_modifyA [wp_simps]: "wp (modifyA f) Q E s = Q () (f s)"
  by (simp add: wp_def modifyA_def)

lemma wp_bindA [wp_simps]: "wp (bindA m f) Q E s = wp m (\<lambda>x. wp (f x) Q E) E s"
  by (simp add: wp_def bindA_def split: option.splits prod.splits sum.splits)

lemma wp_thenA [wp_simps]: "wp (thenA m k) Q E s = wp m (\<lambda>_. wp k Q E) E s"
  by (simp add: thenA_def wp_bindA)

lemma wp_tryA [wp_simps]: "wp (tryA m h) Q E s = wp m Q (\<lambda>e. wp (h e) Q E) s"
  by (simp add: wp_def tryA_def split: option.splits prod.splits sum.splits)

lemma wp_outcomeA [wp_simps]: "wp (outcomeA m) Q E s = wp m (\<lambda>x. Q (Inr x)) (\<lambda>e. Q (Inl e)) s"
  by (simp add: wp_def outcomeA_def split: option.splits prod.splits sum.splits)

lemma wp_finallyA [wp_simps]:
  "wp (finallyA m k) Q E s = wp m (\<lambda>x t. Q x (k t)) (\<lambda>e t. E e (k t)) s"
  by (simp add: wp_def finallyA_def split: option.splits prod.splits sum.splits)

lemma wp_bothA [wp_simps]:
  "wp (bothA a b) Q E s =
     wp a (\<lambda>x. wp b (\<lambda>y. Q (x, y)) E) (\<lambda>e. wp b (\<lambda>_. E e) (\<lambda>_. E e)) s"
  by (auto simp: wp_def bothA_def split: option.splits prod.splits sum.splits)

lemma wp_if [wp_simps]: "wp (if b then m else k) Q E s = (if b then wp m Q E s else wp k Q E s)"
  by simp

lemma wp_True [simp, wp_simps]: "wp m (\<lambda>_ _. True) (\<lambda>_ _. True) s"
  by (simp add: wp_def split: option.splits prod.splits sum.splits)

lemma wp_mono:
  assumes "wp m Q E s" and "\<And>x t. Q x t \<Longrightarrow> Q' x t" and "\<And>e t. E e t \<Longrightarrow> E' e t"
  shows "wp m Q' E' s"
  using assms by (auto simp: wp_def split: option.splits prod.splits sum.splits)

lemma wp_conj:
  assumes "wp m Q E s" and "wp m Q' E' s"
  shows "wp m (\<lambda>x t. Q x t \<and> Q' x t) (\<lambda>e t. E e t \<and> E' e t) s"
  using assms by (auto simp: wp_def split: option.splits prod.splits sum.splits)

lemma wp_bind_liftI:
  "(\<And>e. r = Inl e \<Longrightarrow> E e s) \<Longrightarrow> (\<And>x. r = Inr x \<Longrightarrow> wp (k x) Q E s) \<Longrightarrow> wp (bindA (liftA r) k) Q E s"
  by (simp add: wp_bindA wp_liftA split: sum.split)

lemma wp_bind_anyI:
  "wp m (\<lambda>_ _. True) E s \<Longrightarrow> (\<And>x t. wp (k x) Q E t) \<Longrightarrow> wp (bindA m k) Q E s"
  unfolding wp_bindA by (rule wp_mono)

text \<open>Sequential composition with a condition in between.\<close>

lemma wp_bind_via:
  "wp m P E s \<Longrightarrow> (\<And>x t. P x t \<Longrightarrow> wp (k x) Q E t) \<Longrightarrow> wp (bindA m k) Q E s"
  unfolding wp_bindA by (rule wp_mono)

lemma wp_then_via: "wp m (\<lambda>_. P) E s \<Longrightarrow> (\<And>t. P t \<Longrightarrow> wp k Q E t) \<Longrightarrow> wp (thenA m k) Q E s"
  unfolding thenA_def by (rule wp_bind_via)

lemma wp_ret_eta: "wp (ret x) Q E = Q x"
  by (rule ext) (rule wp_ret)

lemma wp_Some: "wp m Q E s \<Longrightarrow> m s = Some (Inr x, t) \<Longrightarrow> Q x t"
  by (simp add: wp_def)

lemma wp_Some_throw: "wp m Q E s \<Longrightarrow> m s = Some (Inl e, t) \<Longrightarrow> E e t"
  by (simp add: wp_def)

lemma wpI:
  assumes "\<And>x t. m s = Some (Inr x, t) \<Longrightarrow> Q x t" and "\<And>e t. m s = Some (Inl e, t) \<Longrightarrow> E e t"
  shows "wp m Q E s"
  using assms by (auto simp: wp_def split: option.splits prod.splits sum.splits)

section \<open>Coming to an end\<close>

text \<open>An action that never calls anything that may hang ends by evaluation.\<close>

lemma ends_basic [wp_simps]:
  "ends (ret x) s" "ends (throw e) s" "ends (liftA r) s" "ends getA s" "ends (modifyA f) s"
  by (simp_all add: ends_def act_defs)

lemma ends_liftO [wp_simps]: "ends (liftO m) s \<longleftrightarrow> m \<noteq> None"
  by (simp add: ends_def liftO_def split: option.splits)

lemma ends_bindA [wp_simps]:
  "ends (bindA m f) s \<longleftrightarrow> ends m s \<and> wp m (\<lambda>x t. ends (f x) t) (\<lambda>_ _. True) s"
  by (auto simp: ends_def wp_def bindA_def split: option.splits prod.splits sum.splits)

lemma ends_thenA [wp_simps]:
  "ends (thenA m k) s \<longleftrightarrow> ends m s \<and> wp m (\<lambda>_ t. ends k t) (\<lambda>_ _. True) s"
  by (simp add: thenA_def ends_bindA)

lemma ends_tryA [wp_simps]:
  "ends (tryA m h) s \<longleftrightarrow> ends m s \<and> wp m (\<lambda>_ _. True) (\<lambda>e t. ends (h e) t) s"
  by (auto simp: ends_def wp_def tryA_def split: option.splits prod.splits sum.splits)

lemma ends_outcomeA [wp_simps]: "ends (outcomeA m) s \<longleftrightarrow> ends m s"
  by (auto simp: ends_def outcomeA_def split: option.splits)

lemma ends_finallyA [wp_simps]: "ends (finallyA m k) s \<longleftrightarrow> ends m s"
  by (auto simp: ends_def finallyA_def split: option.splits)

lemma ends_bothA [wp_simps]:
  "ends (bothA a b) s \<longleftrightarrow> ends a s \<and> wp a (\<lambda>_ t. ends b t) (\<lambda>_ t. ends b t) s"
  by (auto simp: ends_def wp_def bothA_def split: option.splits prod.splits sum.splits)

text \<open>An action that ends from every state; totality composes along every combinator.\<close>

definition total :: "('s, 'a) act \<Rightarrow> bool" where
  "total m = (\<forall>s. ends m s)"

lemma total_ends: "total m \<Longrightarrow> ends m s"
  by (simp add: total_def)

lemma total_basic:
  "total (ret x)" "total (throw e)" "total (liftA r)" "total getA" "total (modifyA f)"
  by (simp_all add: total_def wp_simps)

lemma wp_total: "(\<And>x t. Q x t) \<Longrightarrow> (\<And>e t. E e t) \<Longrightarrow> wp m Q E s"
  by (simp add: wp_def split: option.splits prod.splits sum.splits)

lemma total_bindA: "total m \<Longrightarrow> (\<And>x. total (f x)) \<Longrightarrow> total (bindA m f)"
  by (auto simp: total_def ends_bindA intro: wp_total)

lemma total_thenA: "total m \<Longrightarrow> total k \<Longrightarrow> total (thenA m k)"
  unfolding thenA_def by (rule total_bindA)

lemma total_tryA: "total m \<Longrightarrow> (\<And>e. total (h e)) \<Longrightarrow> total (tryA m h)"
  by (auto simp: total_def ends_tryA intro: wp_total)

lemma total_outcomeA: "total m \<Longrightarrow> total (outcomeA m)"
  by (simp add: total_def ends_outcomeA)

lemma total_finallyA: "total m \<Longrightarrow> total (finallyA m k)"
  by (simp add: total_def ends_finallyA)

lemma total_bothA: "total a \<Longrightarrow> total b \<Longrightarrow> total (bothA a b)"
  by (auto simp: total_def ends_bothA intro: wp_total)

lemma total_forA: "(\<And>x. total (f x)) \<Longrightarrow> total (forA xs f)"
  by (induction xs) (auto intro: total_basic total_thenA)

lemma total_mapA: "(\<And>x. total (f x)) \<Longrightarrow> total (mapA f xs)"
  by (induction xs) (auto intro!: total_basic total_bindA total_bothA split: prod.splits)

lemma total_eachA: "(\<And>x. total (f x)) \<Longrightarrow> total (eachA f xs)"
  by (induction xs) (auto intro!: total_basic total_bindA)

lemmas total_intros = total_basic total_bindA total_thenA total_tryA total_outcomeA total_finallyA total_bothA
  total_forA total_mapA total_eachA

lemma endsE: "ends m s \<Longrightarrow> (\<And>r t. m s = Some (r, t) \<Longrightarrow> P) \<Longrightarrow> P"
  by (auto simp: ends_def)

section \<open>Frames\<close>

text \<open>
  \<open>keeps R m\<close>: however \<open>m\<close> ends, the state before and the state after are related by \<open>R\<close>.
  For a reflexive and transitive \<open>R\<close> (nothing of the database changed, the call history only
  grew, no settlement was written) frames compose along every combinator; the locale proves
  that once, and the components interpret it for their relations.
\<close>

definition keeps :: "('s \<Rightarrow> 's \<Rightarrow> bool) \<Rightarrow> ('s, 'a) act \<Rightarrow> bool" where
  "keeps R m = (\<forall>s r t. m s = Some (r, t) \<longrightarrow> R s t)"

lemma keepsI: "(\<And>s r t. m s = Some (r, t) \<Longrightarrow> R s t) \<Longrightarrow> keeps R m"
  by (auto simp: keeps_def)

lemma keepsD: "keeps R m \<Longrightarrow> m s = Some (r, t) \<Longrightarrow> R s t"
  by (auto simp: keeps_def)

lemma keeps_wp: "keeps R m \<Longrightarrow> wp m (\<lambda>_ t. R s t) (\<lambda>_ t. R s t) s"
  by (auto intro!: wpI dest: keepsD)

lemma wp_frame:
  "keeps R m \<Longrightarrow> (\<And>x t. R s t \<Longrightarrow> Q x t) \<Longrightarrow> (\<And>e t. R s t \<Longrightarrow> E e t) \<Longrightarrow> wp m Q E s"
  by (auto intro!: wpI dest: keepsD)

lemma wp_keeps: "(\<And>s. wp m (\<lambda>_ t. R s t) (\<lambda>_ t. R s t) s) \<Longrightarrow> keeps R m"
  by (auto simp: keeps_def wp_def split: option.splits prod.splits sum.splits)
    (metis (mono_tags, lifting) case_prod_conv option.simps(5) sum.case_eq_if sum.exhaust_sel)

text \<open>\<open>leaves Q m\<close>: whenever \<open>m\<close> returns, \<open>Q\<close> holds of its value and the state it leaves.\<close>

definition leaves :: "('a \<Rightarrow> 's \<Rightarrow> bool) \<Rightarrow> ('s, 'a) act \<Rightarrow> bool" where
  "leaves Q m = (\<forall>s x t. m s = Some (Inr x, t) \<longrightarrow> Q x t)"

lemma leavesD: "leaves Q m \<Longrightarrow> m s = Some (Inr x, t) \<Longrightarrow> Q x t"
  by (auto simp: leaves_def)

lemma leaves_mono: "leaves P m \<Longrightarrow> (\<And>x t. P x t \<Longrightarrow> Q x t) \<Longrightarrow> leaves Q m"
  by (auto simp: leaves_def)

lemma leaves_bindA: "(\<And>x. leaves Q (f x)) \<Longrightarrow> leaves Q (bindA m f)"
  unfolding leaves_def bindA_def by (auto split: option.splits prod.splits sum.splits)

lemma leaves_bindA_result:
  "leaves P m \<Longrightarrow> (\<And>x t. P x t \<Longrightarrow> leaves Q (f x)) \<Longrightarrow> leaves Q (bindA m f)"
  unfolding leaves_def bindA_def by (fastforce split: option.splits prod.splits sum.splits)

lemma leaves_thenA: "leaves Q k \<Longrightarrow> leaves Q (thenA m k)"
  unfolding thenA_def by (rule leaves_bindA)

lemma leaves_then_ret: "leaves (\<lambda>_ t. Q y t) m \<Longrightarrow> leaves Q (thenA m (ret y))"
  unfolding leaves_def thenA_def bindA_def ret_def
  by (auto split: option.splits prod.splits sum.splits)

lemma leaves_tryA: "leaves Q m \<Longrightarrow> (\<And>e. leaves Q (h e)) \<Longrightarrow> leaves Q (tryA m h)"
  unfolding leaves_def tryA_def by (auto split: option.splits prod.splits sum.splits)

lemma leaves_throw: "leaves Q (throw e)"
  by (simp add: leaves_def throw_def)

lemma leaves_ret: "leaves (\<lambda>y _. y = x) (ret x)"
  by (simp add: leaves_def ret_def)

lemma leaves_retI: "(\<And>s. Q x s) \<Longrightarrow> leaves Q (ret x)"
  by (simp add: leaves_def ret_def)

lemma leaves_liftA: "leaves (\<lambda>y _. r = Inr y) (liftA r)"
  by (simp add: leaves_def liftA_def)

locale frame =
  fixes R :: "'s \<Rightarrow> 's \<Rightarrow> bool"
  assumes refl: "R s s"
    and trans: "R s t \<Longrightarrow> R t u \<Longrightarrow> R s u"
begin

lemma keeps_ret: "keeps R (ret x)"
  by (simp add: keeps_def ret_def refl)

lemma keeps_throw: "keeps R (throw e)"
  by (simp add: keeps_def throw_def refl)

lemma keeps_liftA: "keeps R (liftA r)"
  by (simp add: keeps_def liftA_def refl)

lemma keeps_liftO: "keeps R (liftO m)"
  by (auto simp: keeps_def liftO_def refl split: option.splits)

lemma keeps_getA: "keeps R getA"
  by (simp add: keeps_def getA_def refl)

lemma keeps_modifyA: "(\<And>s. R s (f s)) \<Longrightarrow> keeps R (modifyA f)"
  by (simp add: keeps_def modifyA_def)

lemma keeps_bindA: "keeps R m \<Longrightarrow> (\<And>x. keeps R (f x)) \<Longrightarrow> keeps R (bindA m f)"
  unfolding keeps_def bindA_def
  by (auto split: option.splits prod.splits sum.splits) (metis trans)

text \<open>The same, where what comes next relies on what the first action returned.\<close>

lemma keeps_bindA_result:
  assumes m: "keeps R m" and P: "leaves P m" and f: "\<And>x t. P x t \<Longrightarrow> keeps R (f x)"
  shows "keeps R (bindA m f)"
proof (rule keepsI)
  fix s r t assume run: "bindA m f s = Some (r, t)"
  then obtain q u where first: "m s = Some (q, u)"
    by (auto simp: bindA_def split: option.splits)
  show "R s t"
  proof (cases q)
    case (Inl e)
    then show ?thesis using run first keepsD [OF m first] by (auto simp: bindA_def)
  next
    case (Inr x)
    then have next_run: "f x u = Some (r, t)" using run first by (simp add: bindA_def)
    have "keeps R (f x)" by (rule f) (rule leavesD [OF P first [unfolded Inr]])
    from keepsD [OF this next_run] show ?thesis by (rule trans [OF keepsD [OF m first]])
  qed
qed

lemma keeps_thenA: "keeps R m \<Longrightarrow> keeps R k \<Longrightarrow> keeps R (thenA m k)"
  unfolding thenA_def by (rule keeps_bindA)

lemma keeps_tryA: "keeps R m \<Longrightarrow> (\<And>e. keeps R (h e)) \<Longrightarrow> keeps R (tryA m h)"
  unfolding keeps_def tryA_def
  by (auto split: option.splits prod.splits sum.splits) (metis trans)

lemma keeps_outcomeA: "keeps R m \<Longrightarrow> keeps R (outcomeA m)"
  unfolding keeps_def outcomeA_def by (auto split: option.splits prod.splits)

lemma keeps_finallyA: "keeps R m \<Longrightarrow> (\<And>s. R s (k s)) \<Longrightarrow> keeps R (finallyA m k)"
  unfolding keeps_def finallyA_def by (auto split: option.splits prod.splits) (metis trans)

lemma keeps_bothA: "keeps R a \<Longrightarrow> keeps R b \<Longrightarrow> keeps R (bothA a b)"
  unfolding keeps_def bothA_def
  by (auto split: option.splits prod.splits sum.splits) (metis trans)+

lemma keeps_mapA: "(\<And>x. keeps R (f x)) \<Longrightarrow> keeps R (mapA f xs)"
  by (induction xs) (auto intro!: keeps_ret keeps_bindA keeps_bothA split: prod.splits)

lemma keeps_forA: "(\<And>x. keeps R (f x)) \<Longrightarrow> keeps R (forA xs f)"
  by (induction xs) (auto intro!: keeps_ret keeps_thenA)

lemma keeps_eachA: "(\<And>x. keeps R (f x)) \<Longrightarrow> keeps R (eachA f xs)"
  by (induction xs) (auto intro!: keeps_ret keeps_bindA)

lemmas keeps_intros = keeps_ret keeps_throw keeps_liftA keeps_liftO keeps_getA keeps_modifyA keeps_bindA
  keeps_thenA keeps_tryA keeps_outcomeA keeps_finallyA keeps_bothA keeps_mapA keeps_forA keeps_eachA

end

end
