(* ===== verification/Js_Text.thy ===== *)
theory Js_Text
  imports Prelude "HOL-Library.Sublist"
begin

text \<open>
  The string functions of the JavaScript library that the sources use, and the decimal and
  hexadecimal conversions \<open>String(n)\<close> and \<open>BigInt(s)\<close>, with the round trip between them.
\<close>

section \<open>JavaScript strings\<close>

text \<open>
  \<open>toLowerCase\<close> on the ASCII letters (addresses, hashes and error texts are ASCII),
  \<open>includes\<close>, \<open>split\<close> on one character, and decimal numerals.
\<close>

definition lower_char :: "char \<Rightarrow> char" where
  "lower_char c =
     (let n = (of_char c :: nat) in if 65 \<le> n \<and> n \<le> 90 then char_of (n + 32) else c)"

definition lower :: "string \<Rightarrow> string" where
  "lower s = List.map lower_char s"

fun text_includes :: "string \<Rightarrow> string \<Rightarrow> bool" where
  "text_includes [] p = (p = [])"
| "text_includes (c # s) p = (prefix p (c # s) \<or> text_includes s p)"

fun split_on :: "char \<Rightarrow> string \<Rightarrow> string list" where
  "split_on d [] = [[]]"
| "split_on d (c # s) =
     (if c = d then [] # split_on d s
      else (case split_on d s of [] \<Rightarrow> [[c]] | p # ps \<Rightarrow> (c # p) # ps))"

definition digit_char :: "nat \<Rightarrow> char" where
  "digit_char n = char_of (48 + n)"

fun show_nat :: "nat \<Rightarrow> string" where
  "show_nat n = (if n < 10 then [digit_char n] else show_nat (n div 10) @ [digit_char (n mod 10)])"

declare show_nat.simps [simp del]

definition show_int :: "int \<Rightarrow> string" where
  "show_int i = (if i < 0 then ''-'' @ show_nat (nat (- i)) else show_nat (nat i))"


text \<open>
  \<open>BigInt(s)\<close> on a string: surrounding white space is dropped, the empty string is 0,
  \<open>0x\<close>, \<open>0o\<close> and \<open>0b\<close> announce a base, a decimal numeral may carry a sign; anything else
  is a \<open>SyntaxError\<close>, here \<open>None\<close>.
\<close>

definition char_digit :: "char \<Rightarrow> nat option" where
  "char_digit c =
     (let n = (of_char c :: nat) in
      if 48 \<le> n \<and> n \<le> 57 then Some (n - 48)
      else if 65 \<le> n \<and> n \<le> 70 then Some (n - 55)
      else if 97 \<le> n \<and> n \<le> 102 then Some (n - 87)
      else None)"

fun parse_base :: "nat \<Rightarrow> nat \<Rightarrow> string \<Rightarrow> nat option" where
  "parse_base b acc [] = Some acc"
| "parse_base b acc (c # s) =
     (case char_digit c of
        None \<Rightarrow> None
      | Some d \<Rightarrow> if d < b then parse_base b (b * acc + d) s else None)"

definition digits_to_nat :: "nat \<Rightarrow> string \<Rightarrow> nat option" where
  "digits_to_nat b s = (if s = [] then None else parse_base b 0 s)"

text \<open>White space of the ASCII range.\<close>

definition is_space :: "char \<Rightarrow> bool" where
  "is_space c = (let n = (of_char c :: nat) in (9 \<le> n \<and> n \<le> 13) \<or> n = 32)"

definition trim_start :: "string \<Rightarrow> string" where
  "trim_start s = dropWhile is_space s"

definition trim_end :: "string \<Rightarrow> string" where
  "trim_end s = rev (dropWhile is_space (rev s))"

definition string_to_bigint :: "string \<Rightarrow> int option" where
  "string_to_bigint s =
     (let t = trim_end (trim_start s) in
      if t = [] then Some 0
      else if prefix ''0x'' t \<or> prefix ''0X'' t then map_option int (digits_to_nat 16 (drop 2 t))
      else if prefix ''0o'' t \<or> prefix ''0O'' t then map_option int (digits_to_nat 8 (drop 2 t))
      else if prefix ''0b'' t \<or> prefix ''0B'' t then map_option int (digits_to_nat 2 (drop 2 t))
      else if prefix ''-'' t then map_option (\<lambda>n. - int n) (digits_to_nat 10 (drop 1 t))
      else if prefix ''+'' t then map_option int (digits_to_nat 10 (drop 1 t))
      else map_option int (digits_to_nat 10 t))"

text \<open>An optional text that is absent or empty counts as absent where a condition tests it.\<close>

definition present :: "string option \<Rightarrow> string option" where
  "present x = (case x of Some s \<Rightarrow> if s = [] then None else Some s | None \<Rightarrow> None)"

text \<open>\<open>/^0x[0-9a-fA-F]{n}$/\<close>, the shape every address, hash and key is tested against.\<close>

definition is_hex_of :: "nat \<Rightarrow> string \<Rightarrow> bool" where
  "is_hex_of n s = (prefix ''0x'' s \<and> length s = n + 2 \<and> list_all (\<lambda>c. char_digit c \<noteq> None) (drop 2 s))"

lemma lower_char_idem: "lower_char (lower_char c) = lower_char c"
  by (auto simp: lower_char_def Let_def)

lemma lower_idem [simp]: "lower (lower s) = lower s"
  by (simp add: lower_def comp_def lower_char_idem)

lemma lower_eq_Nil [simp]: "lower s = [] \<longleftrightarrow> s = []"
  by (simp add: lower_def)

lemma length_lower [simp]: "length (lower s) = length s"
  by (simp add: lower_def)

lemma text_includes_sublist: "text_includes s p \<longleftrightarrow> sublist p s"
  by (induction s) (auto simp: sublist_Cons_right)

lemma split_on_nonempty [simp]: "split_on d s \<noteq> []"
  by (induction s) (auto split: list.splits)

lemma split_on_absent: "d \<notin> set s \<Longrightarrow> split_on d s = [s]"
  by (induction s) auto

lemma split_on_append: "d \<notin> set p \<Longrightarrow> split_on d (p @ d # s) = p # split_on d s"
  by (induction p) auto

lemma show_nat_nonempty [simp]: "show_nat n \<noteq> []"
  by (subst show_nat.simps) simp

lemma of_char_digit [simp]: "n < 10 \<Longrightarrow> (of_char (digit_char n) :: nat) = 48 + n"
  by (simp add: digit_char_def)

lemma char_digit_digit_char [simp]: "n < 10 \<Longrightarrow> char_digit (digit_char n) = Some n"
  by (simp add: char_digit_def)

lemma show_nat_digits: "c \<in> set (show_nat n) \<Longrightarrow> \<exists>d < 10. c = digit_char d"
proof (induction n rule: show_nat.induct)
  case (1 n)
  show ?case
  proof (cases "n < 10")
    case True
    with "1.prems" show ?thesis by (subst (asm) show_nat.simps) auto
  next
    case False
    with "1.prems" consider "c \<in> set (show_nat (n div 10))" | "c = digit_char (n mod 10)"
      by (subst (asm) show_nat.simps) auto
    then show ?thesis
    proof cases
      case 1
      then show ?thesis using "1.IH" [OF False] by simp
    next
      case 2
      then show ?thesis by (intro exI [of _ "n mod 10"]) simp
    qed
  qed
qed

lemma parse_base_append:
  "parse_base b acc (s @ t) =
     (case parse_base b acc s of None \<Rightarrow> None | Some n \<Rightarrow> parse_base b n t)"
  by (induction b acc s rule: parse_base.induct) (auto split: option.splits)

lemma parse_show_nat: "parse_base 10 0 (show_nat n) = Some n"
proof (induction n rule: show_nat.induct)
  case (1 n)
  show ?case
  proof (cases "n < 10")
    case True
    then show ?thesis by (subst show_nat.simps) simp
  next
    case False
    with "1.IH" [OF False] show ?thesis
      by (subst show_nat.simps) (simp add: parse_base_append)
  qed
qed

lemma digits_show_nat [simp]: "digits_to_nat 10 (show_nat n) = Some n"
  by (simp add: digits_to_nat_def parse_show_nat)

lemma digit_char_plain:
  assumes "d < 10"
  shows "\<not> is_space (digit_char d)" and "digit_char d \<noteq> CHR ''-''" and "digit_char d \<noteq> CHR ''+''"
    and "digit_char d \<noteq> CHR ''x''" and "digit_char d \<noteq> CHR ''X''" and "digit_char d \<noteq> CHR ''o''"
    and "digit_char d \<noteq> CHR ''O''" and "digit_char d \<noteq> CHR ''b''" and "digit_char d \<noteq> CHR ''B''"
proof -
  have n: "(of_char (digit_char d) :: nat) = 48 + d" using assms by simp
  show "\<not> is_space (digit_char d)"
    using assms by (simp add: is_space_def n)
  have ne: "digit_char d \<noteq> c" if "(of_char c :: nat) < 48 \<or> 57 < (of_char c :: nat)" for c
  proof
    assume "digit_char d = c"
    then have "(of_char c :: nat) = 48 + d" using n by simp
    then show False using that assms by arith
  qed
  show "digit_char d \<noteq> CHR ''-''" "digit_char d \<noteq> CHR ''+''" "digit_char d \<noteq> CHR ''x''"
    "digit_char d \<noteq> CHR ''X''" "digit_char d \<noteq> CHR ''o''" "digit_char d \<noteq> CHR ''O''"
    "digit_char d \<noteq> CHR ''b''" "digit_char d \<noteq> CHR ''B''"
    by (rule ne, simp)+
qed

lemma trim_plain:
  assumes "\<And>c. c \<in> set s \<Longrightarrow> \<not> is_space c"
  shows "trim_end (trim_start s) = s"
proof -
  have start: "dropWhile is_space t = t" if "set t \<subseteq> set s" for t
    using assms that by (cases t) auto
  show ?thesis by (simp add: trim_start_def trim_end_def start)
qed

lemma bigint_show_nat: "string_to_bigint (show_nat n) = Some (int n)"
proof -
  have plain: "\<not> is_space c \<and> c \<noteq> CHR ''-'' \<and> c \<noteq> CHR ''+'' \<and> c \<noteq> CHR ''x'' \<and> c \<noteq> CHR ''X''
      \<and> c \<noteq> CHR ''o'' \<and> c \<noteq> CHR ''O'' \<and> c \<noteq> CHR ''b'' \<and> c \<noteq> CHR ''B''"
    if "c \<in> set (show_nat n)" for c
  proof -
    obtain d where "d < 10" and "c = digit_char d" using show_nat_digits [of c n] \<open>c \<in> set (show_nat n)\<close> by blast
    then show ?thesis using digit_char_plain [of d] by simp
  qed
  have trim: "trim_end (trim_start (show_nat n)) = show_nat n"
    using plain by (intro trim_plain) blast
  have pre: "\<not> prefix [a, c] (show_nat n)"
    if "c \<in> {CHR ''x'', CHR ''X'', CHR ''o'', CHR ''O'', CHR ''b'', CHR ''B''}" for a c
  proof
    assume "prefix [a, c] (show_nat n)"
    then have "c \<in> set (show_nat n)" by (auto simp: prefix_def)
    then show False using plain [of c] that by auto
  qed
  have sign: "\<not> prefix [c] (show_nat n)" if "c \<in> {CHR ''-'', CHR ''+''}" for c
  proof
    assume "prefix [c] (show_nat n)"
    then have "c \<in> set (show_nat n)" by (auto simp: prefix_def)
    then show False using plain [of c] that by auto
  qed
  show ?thesis
    by (simp add: string_to_bigint_def Let_def trim pre sign)
qed

lemma bigint_show_int: "string_to_bigint (show_int i) = Some i"
proof (cases "i < 0")
  case False
  then show ?thesis by (simp add: show_int_def bigint_show_nat)
next
  case True
  have minus: "\<not> is_space (CHR ''-'')" by (simp add: is_space_def)
  have "\<not> is_space c" if "c \<in> set (show_int i)" for c
    using that True minus show_nat_digits [of c "nat (- i)"] digit_char_plain(1)
    by (auto simp: show_int_def)
  then have "trim_end (trim_start (show_int i)) = show_int i" by (rule trim_plain)
  with True show ?thesis by (simp add: string_to_bigint_def Let_def show_int_def)
qed

end
