(* ===== verification/Wire.thy ===== *)
theory Wire
  imports Js_Text
begin

text \<open>
  The data that crosses the relayer's boundaries: settlements and anchors signed by the
  confidential extension (\<^verbatim>\<open>relayer/src/chain.ts\<close>), the payloads of jobs and the
  responses of the extension (\<^verbatim>\<open>relayer/src/orchestrator.ts\<close>), and the life cycle of a
  job (\<^verbatim>\<open>relayer/src/db.ts\<close>). Where TypeScript casts a decoded value to a declared type, the
  model reads it as a value of that type.
\<close>

type_synonym hex = string
type_synonym address = string

section \<open>Settlements\<close>

text \<open>\<open>amount: string | number | bigint\<close>, as it comes out of a JSON document.\<close>

datatype amount = AmountText string | AmountNumber int

primrec bigint_of_amount :: "amount \<Rightarrow> js_error + int" where
  "bigint_of_amount (AmountText s) =
     (case string_to_bigint s of
        None \<Rightarrow> Inl (JsError (''Cannot convert '' @ s @ '' to a BigInt''))
      | Some n \<Rightarrow> Inr n)"
| "bigint_of_amount (AmountNumber n) = Inr n"

record settlement =
  s_protocolVersion :: int
  s_settlementType :: int
  s_account :: address
  s_token :: address
  s_amount :: amount
  s_destination :: address
  s_requestId :: hex
  s_settlementId :: hex
  s_previousSequence :: int
  s_nextSequence :: int
  s_previousRoot :: hex
  s_nextRoot :: hex
  s_deadline :: int

text \<open>
  A decoded value is cast to \<open>Anchor\<close> without a check, so its signature may be missing.
\<close>

record anchor =
  a_settlement :: settlement
  a_signature :: "hex option"

record chain_instruction =
  ci_externalKey :: string
  ci_account :: address
  ci_requestId :: hex
  ci_command :: string
  ci_blockNumber :: int

record deposit_record =
  dr_depositId :: hex
  dr_account :: address
  dr_token :: address
  dr_amount :: string

section \<open>Responses of the extension\<close>

text \<open>
  The decoded result of an action is a JSON value: an object, in which each of the members
  the relayer looks for may be absent, or something that is not an object.
\<close>

record response_fields =
  rf_settlement :: "settlement option"
  rf_signature :: "hex option"
  rf_anchor :: "anchor option"
  rf_ciphertext :: "hex option"
  rf_result :: "string option"

datatype fcc_response = RespObject response_fields | RespScalar string

section \<open>Jobs\<close>

datatype job_status = Queued | Submitted | Processing | Settling | Confirming | Confirmed | Failed

text \<open>
  \<open>DirectPayload\<close> and \<open>ChainPayload\<close> by their \<open>source\<close> member; \<open>OpaquePayload\<close> is a stored
  value that is not an object with a \<open>source\<close>.
\<close>

datatype payload =
    DirectPayload string hex
  | ChainPayload string hex string
  | OpaquePayload string

text \<open>The JSON bodies the relayer sends to the extension as hexadecimal text.\<close>

datatype direct_message =
    Ciphertext hex
  | EmptyMessage
  | AnchorMessage int hex
  | DepositMessage deposit_record

section \<open>The attestation\<close>

record public_key =
  pk_x :: "string option"
  pk_y :: "string option"

text \<open>\<open>info.machineData?.publicKey\<close> and \<open>info.teeInfo?.publicKey\<close>, absent as \<open>None\<close>.\<close>

record fcc_info =
  info_machine_key :: "public_key option"
  info_tee_key :: "public_key option"

section \<open>Sessions\<close>

text \<open>The payload of a session token: the wallet, and the time in seconds when it expires.\<close>

record session =
  ses_sub :: string
  ses_exp :: int

section \<open>The order of the life cycle\<close>

text \<open>
  The life cycle is ordered as the relayer drives it; \<open>Failed\<close> is last, since any job may
  still fail.
\<close>

primrec status_rank :: "job_status \<Rightarrow> nat" where
  "status_rank Queued = 0"
| "status_rank Submitted = 1"
| "status_rank Processing = 2"
| "status_rank Settling = 3"
| "status_rank Confirming = 4"
| "status_rank Confirmed = 5"
| "status_rank Failed = 6"

lemma status_rank_inject [simp]: "status_rank a = status_rank b \<longleftrightarrow> a = b"
  by (cases a; cases b) simp_all

instantiation job_status :: linorder
begin

definition less_eq_job_status :: "job_status \<Rightarrow> job_status \<Rightarrow> bool" where
  "less_eq_job_status a b = (status_rank a \<le> status_rank b)"

definition less_job_status :: "job_status \<Rightarrow> job_status \<Rightarrow> bool" where
  "less_job_status a b = (status_rank a < status_rank b)"

instance
  by standard (auto simp: less_eq_job_status_def less_job_status_def)

end

text \<open>The statuses \<open>nextRunnableJob\<close> asks the database for.\<close>

definition runnable :: "job_status \<Rightarrow> bool" where
  "runnable s = (s \<in> {Queued, Submitted, Processing, Settling, Confirming})"

lemma runnable_iff: "runnable s \<longleftrightarrow> s < Confirmed"
  by (cases s) (simp_all add: runnable_def less_job_status_def)

lemma not_runnable_iff: "\<not> runnable s \<longleftrightarrow> s = Confirmed \<or> s = Failed"
  by (cases s) (simp_all add: runnable_def)

end
