(* ===== verification/Store.thy ===== *)
theory Store
  imports Wire
begin

text \<open>
  The relayer's durable store, \<^verbatim>\<open>relayer/src/db.ts\<close>: the SQLite tables as a record, each
  method of \<open>Store\<close> as a function on it. \<open>row\<close> is a row of the table \<open>jobs\<close> with its nullable
  columns, \<open>job\<close> the object the methods hand out. The job list is in order of insertion
  (\<open>rowid\<close>). The clock and the identifier generator are arguments. A column that holds
  \<open>JSON.stringify\<close> of a value holds the value here.
\<close>

section \<open>State\<close>

record job =
  jobId :: string
  externalKey :: "string option"
  jobType :: string
  jobStatus :: job_status
  jobAccount :: address
  actionId :: "hex option"
  txHash :: "hex option"
  jobError :: "string option"
  jobPayload :: payload
  jobResponse :: "fcc_response option"
  attempts :: int
  createdAt :: int
  updatedAt :: int

record row =
  rId :: string
  rExternalKey :: "string option"
  rType :: string
  rStatus :: job_status
  rAccount :: address
  rActionId :: "hex option"
  rTxHash :: "hex option"
  rError :: "string option"
  rPayload :: payload
  rResponse :: "fcc_response option"
  rAttempts :: int
  rCreatedAt :: int
  rUpdatedAt :: int

record store =
  tables :: "string \<rightharpoonup> string list"
  challenges :: "string \<rightharpoonup> string \<times> int"
  jobs :: "row list"
  cursors :: "string \<rightharpoonup> string"

section \<open>Opening the database\<close>

definition create_table :: "string \<Rightarrow> string list \<Rightarrow> store \<Rightarrow> store" where
  "create_table table columns st =
     (case tables st table of
        None \<Rightarrow> st\<lparr>tables := (tables st)(table \<mapsto> columns)\<rparr>
      | Some _ \<Rightarrow> st)"

definition ensureColumn :: "string \<Rightarrow> string \<Rightarrow> store \<Rightarrow> store" where
  "ensureColumn table column st =
     (case tables st table of
        None \<Rightarrow> st
      | Some columns \<Rightarrow>
          if column \<in> set columns then st
          else st\<lparr>tables := (tables st)(table \<mapsto> columns @ [column])\<rparr>)"

definition job_columns :: "string list" where
  "job_columns = [''id'', ''external_key'', ''type'', ''status'', ''account'', ''action_id'',
     ''tx_hash'', ''error'', ''payload'', ''response'', ''attempts'', ''created_at'', ''updated_at'']"

definition openStore :: "store \<Rightarrow> store" where
  "openStore st =
     ensureColumn ''jobs'' ''attempts''
      (ensureColumn ''jobs'' ''response''
       (ensureColumn ''jobs'' ''external_key''
        (create_table ''cursors'' [''name'', ''value'']
         (create_table ''jobs'' job_columns
          (create_table ''challenges'' [''address'', ''nonce'', ''expires_at''] st)))))"

definition empty_store :: store where
  "empty_store = \<lparr>tables = Map.empty, challenges = Map.empty, jobs = [], cursors = Map.empty\<rparr>"

section \<open>Challenges\<close>

definition putChallenge :: "address \<Rightarrow> string \<Rightarrow> int \<Rightarrow> store \<Rightarrow> store" where
  "putChallenge address nonce expiresAt st =
     st\<lparr>challenges := (challenges st)(lower address \<mapsto> (nonce, expiresAt))\<rparr>"

definition consumeChallenge :: "address \<Rightarrow> string \<Rightarrow> int \<Rightarrow> store \<Rightarrow> bool \<times> store" where
  "consumeChallenge address nonce now st =
     (case challenges st (lower address) of
        None \<Rightarrow> (False, st)
      | Some (n, expires) \<Rightarrow>
          if n \<noteq> nonce \<or> expires < now then (False, st)
          else (True, st\<lparr>challenges := (challenges st)(lower address := None)\<rparr>))"

section \<open>Jobs\<close>

text \<open>\<open>...(row.x ? { x: String(row.x) } : {})\<close>: a null and an empty text are both absent.\<close>

definition fromRow :: "row \<Rightarrow> job" where
  "fromRow r = \<lparr>jobId = rId r, externalKey = present (rExternalKey r), jobType = rType r,
     jobStatus = rStatus r, jobAccount = rAccount r, actionId = present (rActionId r),
     txHash = present (rTxHash r), jobError = present (rError r), jobPayload = rPayload r,
     jobResponse = rResponse r, attempts = rAttempts r, createdAt = rCreatedAt r,
     updatedAt = rUpdatedAt r\<rparr>"

definition getJob :: "store \<Rightarrow> string \<Rightarrow> job option" where
  "getJob st i = map_option fromRow (List.find (\<lambda>r. rId r = i) (jobs st))"

definition getJobByExternalKey :: "store \<Rightarrow> string \<Rightarrow> job option" where
  "getJobByExternalKey st k =
     map_option fromRow (List.find (\<lambda>r. rExternalKey r = Some k) (jobs st))"

text \<open>\<open>INSERT\<close> under the constraints of the schema: \<open>id\<close> is the primary key, \<open>external_key\<close>
  is unique among the rows that have one.\<close>

definition insertRow :: "row \<Rightarrow> (store, unit) act" where
  "insertRow r = bindA getA (\<lambda>st.
     if rId r \<in> set (List.map rId (jobs st)) then throw (JsError ''UNIQUE constraint failed: jobs.id'')
     else if rExternalKey r \<noteq> None \<and> rExternalKey r \<in> set (List.map rExternalKey (jobs st))
       then throw (JsError ''UNIQUE constraint failed: jobs.external_key'')
     else modifyA (\<lambda>s. s\<lparr>jobs := jobs s @ [r]\<rparr>))"

definition newJob :: "string \<Rightarrow> int \<Rightarrow> string \<Rightarrow> address \<Rightarrow> payload \<Rightarrow> string option \<Rightarrow> job" where
  "newJob uuid now type account load key =
     \<lparr>jobId = uuid, externalKey = present key, jobType = type, jobStatus = Queued,
      jobAccount = lower account, actionId = None, txHash = None, jobError = None,
      jobPayload = load, jobResponse = None, attempts = 0, createdAt = now, updatedAt = now\<rparr>"

definition createJob ::
    "string \<Rightarrow> int \<Rightarrow> string \<Rightarrow> address \<Rightarrow> payload \<Rightarrow> string option \<Rightarrow> (store, job) act" where
  "createJob uuid now type account load key = bindA getA (\<lambda>st.
     case (case present key of None \<Rightarrow> None | Some k \<Rightarrow> getJobByExternalKey st k) of
       Some existing \<Rightarrow> ret existing
     | None \<Rightarrow>
         let job = newJob uuid now type account load key in
         thenA
           (insertRow \<lparr>rId = jobId job, rExternalKey = externalKey job, rType = jobType job,
              rStatus = jobStatus job, rAccount = jobAccount job, rActionId = None, rTxHash = None,
              rError = None, rPayload = load, rResponse = None, rAttempts = attempts job,
              rCreatedAt = now, rUpdatedAt = now\<rparr>)
           (ret job))"

text \<open>
  A patch is the list of the members it has, as an object literal names them: a member with
  the value \<open>undefined\<close> (\<open>None\<close>) clears the column, a missing member leaves it.
\<close>

datatype patch_field =
    SetStatus job_status
  | SetActionId "hex option"
  | SetTxHash "hex option"
  | SetError "string option"
  | SetResponse "fcc_response option"
  | SetAttempts int

primrec apply_field :: "patch_field \<Rightarrow> job \<Rightarrow> job" where
  "apply_field (SetStatus s) j = j\<lparr>jobStatus := s\<rparr>"
| "apply_field (SetActionId a) j = j\<lparr>actionId := a\<rparr>"
| "apply_field (SetTxHash h) j = j\<lparr>txHash := h\<rparr>"
| "apply_field (SetError e) j = j\<lparr>jobError := e\<rparr>"
| "apply_field (SetResponse r) j = j\<lparr>jobResponse := r\<rparr>"
| "apply_field (SetAttempts n) j = j\<lparr>attempts := n\<rparr>"

definition write_row :: "job \<Rightarrow> row \<Rightarrow> row" where
  "write_row j r = r\<lparr>rStatus := jobStatus j, rActionId := actionId j, rTxHash := txHash j,
     rError := jobError j, rResponse := jobResponse j, rAttempts := attempts j,
     rUpdatedAt := updatedAt j\<rparr>"

definition updateJob :: "int \<Rightarrow> string \<Rightarrow> patch_field list \<Rightarrow> (store, job) act" where
  "updateJob now i patch = bindA getA (\<lambda>st.
     case getJob st i of
       None \<Rightarrow> throw (JsError ''job not found'')
     | Some current \<Rightarrow>
         let next = (fold apply_field patch current)\<lparr>updatedAt := now\<rparr> in
         thenA
           (modifyA (\<lambda>s. s\<lparr>jobs := List.map (\<lambda>r. if rId r = i then write_row next r else r) (jobs s)\<rparr>))
           (ret next))"

text \<open>
  \<open>ORDER BY created_at DESC LIMIT n\<close> is served by the index on \<open>(account, created_at DESC)\<close>,
  which keeps rows with equal keys in \<open>rowid\<close> order, so the sort is stable.
\<close>

definition listJobs :: "store \<Rightarrow> address \<Rightarrow> nat \<Rightarrow> job list" where
  "listJobs st account limit =
     List.map fromRow (take limit
       (sort_key (\<lambda>r. - rCreatedAt r) (filter (\<lambda>r. rAccount r = lower account) (jobs st))))"

text \<open>
  \<open>ORDER BY created_at ASC LIMIT 1\<close> over the runnable rows. SQL leaves the choice among rows
  with the same \<open>created_at\<close> open; \<open>tie\<close> is that choice, any function at all.
\<close>

definition oldest_runnable :: "store \<Rightarrow> row list" where
  "oldest_runnable st =
     (let rs = filter (\<lambda>r. runnable (rStatus r)) (jobs st) in
      filter (\<lambda>r. list_all (\<lambda>q. rCreatedAt r \<le> rCreatedAt q) rs) rs)"

definition nextRunnableJob :: "(row list \<Rightarrow> nat) \<Rightarrow> store \<Rightarrow> job option" where
  "nextRunnableJob tie st =
     (let rs = oldest_runnable st in
      if rs = [] then None else Some (fromRow (rs ! (tie rs mod length rs))))"

definition resetForRetry :: "int \<Rightarrow> string \<Rightarrow> (store, job) act" where
  "resetForRetry now i = bindA getA (\<lambda>st.
     case getJob st i of
       None \<Rightarrow> throw (JsError ''job not found'')
     | Some current \<Rightarrow>
         if jobStatus current \<noteq> Failed then throw (JsError ''only failed jobs can be retried'')
         else updateJob now i
           [SetStatus (if present (actionId current) \<noteq> None then Submitted else Queued), SetError None])"

section \<open>Cursors\<close>

definition getCursor :: "store \<Rightarrow> string \<Rightarrow> int \<Rightarrow> js_error + int" where
  "getCursor st name fallback =
     (case cursors st name of
        None \<Rightarrow> Inr fallback
      | Some v \<Rightarrow> bigint_of_amount (AmountText v))"

definition setCursor :: "string \<Rightarrow> int \<Rightarrow> store \<Rightarrow> store" where
  "setCursor name v st = st\<lparr>cursors := (cursors st)(name \<mapsto> show_int v)\<rparr>"

section \<open>Invariant\<close>

text \<open>
  What the schema and the code keep true of the table: identifiers and external keys are
  unique, no empty external key is stored, accounts are in lower case.
\<close>

definition row_ok :: "row \<Rightarrow> bool" where
  "row_ok r = (rAccount r = lower (rAccount r) \<and> rExternalKey r \<noteq> Some [])"

definition store_ok :: "store \<Rightarrow> bool" where
  "store_ok st =
     (distinct (List.map rId (jobs st)) \<and>
      distinct (List.map_filter rExternalKey (jobs st)) \<and>
      list_all row_ok (jobs st))"

text \<open>The stores a relayer process can reach: every method that writes, in any order.\<close>

inductive store_step :: "store \<Rightarrow> store \<Rightarrow> bool" where
  step_open: "store_step st (openStore st)"
| step_put: "store_step st (putChallenge address nonce expiresAt st)"
| step_consume: "store_step st (snd (consumeChallenge address nonce now st))"
| step_create: "createJob uuid now type account load key st = Some (res, t) \<Longrightarrow> store_step st t"
| step_update: "updateJob now i patch st = Some (res, t) \<Longrightarrow> store_step st t"
| step_reset: "resetForRetry now i st = Some (res, t) \<Longrightarrow> store_step st t"
| step_cursor: "store_step st (setCursor name v st)"

inductive store_reachable :: "store \<Rightarrow> bool" where
  reach_empty: "store_reachable empty_store"
| reach_step: "store_reachable st \<Longrightarrow> store_step st t \<Longrightarrow> store_reachable t"

text \<open>What a job looks like once it went through the table: empty texts are gone.\<close>

definition stored :: "job \<Rightarrow> job" where
  "stored j = j\<lparr>actionId := present (actionId j), txHash := present (txHash j),
     jobError := present (jobError j)\<rparr>"

text \<open>The columns no \<open>UPDATE\<close> touches.\<close>

definition identity_of :: "job \<Rightarrow> string \<times> string option \<times> string \<times> address \<times> payload \<times> int" where
  "identity_of j = (jobId j, externalKey j, jobType j, jobAccount j, jobPayload j, createdAt j)"

section \<open>Lemmas\<close>

lemma present_simps [simp]:
  "present None = None" "present (Some []) = None" "present (Some (c # s)) = Some (c # s)"
  "present (present x) = present x"
  by (auto simp: present_def split: option.splits)

lemma present_Some_iff [simp]: "present x = Some s \<longleftrightarrow> x = Some s \<and> s \<noteq> []"
  by (auto simp: present_def split: option.splits)

lemma present_Some_None [simp]: "present (Some s) = None \<longleftrightarrow> s = []"
  by (simp add: present_def)

lemma present_eq_None_iff: "present x = None \<longleftrightarrow> x = None \<or> x = Some []"
  by (auto simp: present_def split: option.splits if_splits)

lemma find_by_id: "distinct (List.map rId rs) \<Longrightarrow> r \<in> set rs \<Longrightarrow>
    List.find (\<lambda>q. rId q = rId r) rs = Some r"
  by (induction rs) auto

lemma find_map_keyed:
  assumes "\<And>r. rId (f r) = rId r"
  shows "List.find (\<lambda>r. rId r = i) (List.map f rs) = map_option f (List.find (\<lambda>r. rId r = i) rs)"
  using assms by (induction rs) auto

lemma find_append: "List.find P (xs @ ys) =
    (case List.find P xs of None \<Rightarrow> List.find P ys | Some x \<Rightarrow> Some x)"
  by (induction xs) auto

lemma find_id_None: "List.find (\<lambda>r. rId r = i) rs = None \<longleftrightarrow> i \<notin> rId ` set rs"
  by (induction rs) auto

lemma find_key_None: "List.find (\<lambda>r. rExternalKey r = Some k) rs = None \<longleftrightarrow>
    Some k \<notin> rExternalKey ` set rs"
  by (induction rs) auto

lemma map_filter_set: "set (List.map_filter f xs) = {y. \<exists>x \<in> set xs. f x = Some y}"
  by (induction xs) (auto simp: List.map_filter_simps split: option.splits)

lemma write_row_frame [simp]:
  "rId (write_row j r) = rId r" "rExternalKey (write_row j r) = rExternalKey r"
  "rAccount (write_row j r) = rAccount r" "rType (write_row j r) = rType r"
  "rPayload (write_row j r) = rPayload r" "rCreatedAt (write_row j r) = rCreatedAt r"
  by (simp_all add: write_row_def)

lemma row_ok_write [simp]: "row_ok (write_row j r) = row_ok r"
  by (simp add: row_ok_def)

lemma apply_field_frame [simp]: "identity_of (apply_field f j) = identity_of j"
  by (cases f) (simp_all add: identity_of_def)

lemma apply_fields_frame [simp]: "identity_of (fold apply_field fs j) = identity_of j"
  by (induction fs arbitrary: j) simp_all

lemma identity_updatedAt [simp]: "identity_of (j\<lparr>updatedAt := n\<rparr>) = identity_of j"
  by (simp add: identity_of_def)

lemma identity_stored [simp]: "identity_of (stored j) = identity_of j"
  by (simp add: identity_of_def stored_def)

lemma fromRow_write:
  assumes "identity_of j = identity_of (fromRow r)"
  shows "fromRow (write_row j r) = stored j"
  using assms by (cases j) (auto simp: fromRow_def write_row_def stored_def identity_of_def)

lemma getJob_id: "getJob st i = Some j \<Longrightarrow> jobId j = i"
  by (auto simp: getJob_def fromRow_def find_Some_iff)

text \<open>\<open>updateJob\<close>, as a function of the job it finds.\<close>

definition patched :: "int \<Rightarrow> patch_field list \<Rightarrow> job \<Rightarrow> job" where
  "patched now patch j = (fold apply_field patch j)\<lparr>updatedAt := now\<rparr>"

definition write_job :: "job \<Rightarrow> store \<Rightarrow> store" where
  "write_job j st = st\<lparr>jobs := List.map (\<lambda>r. if rId r = jobId j then write_row j r else r) (jobs st)\<rparr>"

lemma identity_patched [simp]: "identity_of (patched now patch j) = identity_of j"
  by (simp add: patched_def)

lemma identity_id: "identity_of a = identity_of b \<Longrightarrow> jobId a = jobId b"
  by (simp add: identity_of_def)

lemma updateJob_Some:
  assumes "getJob st i = Some j"
  shows "updateJob now i patch st = Some (Inr (patched now patch j), write_job (patched now patch j) st)"
proof -
  have "jobId (patched now patch j) = i"
    using getJob_id [OF assms] identity_id [OF identity_patched] by metis
  with assms show ?thesis
    by (simp add: updateJob_def act_defs write_job_def patched_def Let_def)
qed

lemma updateJob_None:
  "getJob st i = None \<Longrightarrow> updateJob now i patch st = Some (Inl (JsError ''job not found''), st)"
  by (simp add: updateJob_def act_defs)

lemma getJob_write_same:
  assumes "getJob st i = Some j" and "identity_of n = identity_of j"
  shows "getJob (write_job n st) i = Some (stored n)"
proof -
  have i: "jobId n = i" using assms getJob_id identity_id by metis
  from assms(1) obtain r where r: "List.find (\<lambda>r. rId r = i) (jobs st) = Some r" "j = fromRow r"
    by (auto simp: getJob_def)
  have "rId r = i" using r(1) by (auto simp: find_Some_iff)
  moreover have "fromRow (write_row n r) = stored n"
    using assms(2) r(2) by (intro fromRow_write) simp
  ultimately show ?thesis
    by (simp add: getJob_def write_job_def i find_map_keyed r(1))
qed

lemma getJob_write_other:
  assumes "k \<noteq> jobId n"
  shows "getJob (write_job n st) k = getJob st k"
proof (cases "List.find (\<lambda>r. rId r = k) (jobs st)")
  case None
  then show ?thesis by (simp add: getJob_def write_job_def find_map_keyed)
next
  case (Some r)
  then have "rId r = k" by (auto simp: find_Some_iff)
  with Some assms show ?thesis by (simp add: getJob_def write_job_def find_map_keyed)
qed

lemma map_filter_write [simp]:
  "List.map_filter rExternalKey (List.map (\<lambda>r. if P r then write_row n r else r) rs) =
   List.map_filter rExternalKey rs"
  by (induction rs) (simp_all add: List.map_filter_simps split: option.splits)

lemma store_ok_write: "store_ok st \<Longrightarrow> store_ok (write_job n st)"
  by (auto simp: store_ok_def write_job_def comp_def list_all_iff if_distrib cong: if_cong)

lemma jobs_write_other [simp]:
  "tables (write_job n st) = tables st" "challenges (write_job n st) = challenges st"
  "cursors (write_job n st) = cursors st"
  by (simp_all add: write_job_def)

text \<open>\<open>createJob\<close>: an existing external key wins; otherwise a fresh row is appended.\<close>

definition found_job :: "string option \<Rightarrow> store \<Rightarrow> job option" where
  "found_job key st = (case present key of None \<Rightarrow> None | Some k \<Rightarrow> getJobByExternalKey st k)"

definition row_of :: "job \<Rightarrow> row" where
  "row_of j = \<lparr>rId = jobId j, rExternalKey = externalKey j, rType = jobType j,
     rStatus = jobStatus j, rAccount = jobAccount j, rActionId = None, rTxHash = None,
     rError = None, rPayload = jobPayload j, rResponse = None, rAttempts = attempts j,
     rCreatedAt = createdAt j, rUpdatedAt = updatedAt j\<rparr>"

lemma createJob_found:
  "found_job key st = Some j \<Longrightarrow> createJob uuid now type account load key st = Some (Inr j, st)"
  by (simp add: createJob_def found_job_def act_defs)

lemma found_job_None:
  assumes "found_job key st = None" and "present key = Some k"
  shows "Some k \<notin> rExternalKey ` set (jobs st)"
proof -
  have "List.find (\<lambda>r. rExternalKey r = Some k) (jobs st) = None"
    using assms by (simp add: found_job_def getJobByExternalKey_def del: present_Some_iff)
  then show ?thesis by (simp add: find_key_None)
qed

lemma createJob_new:
  assumes "found_job key st = None" and "uuid \<notin> rId ` set (jobs st)"
  shows "createJob uuid now type account load key st =
     Some (Inr (newJob uuid now type account load key),
           st\<lparr>jobs := jobs st @ [row_of (newJob uuid now type account load key)]\<rparr>)"
proof -
  have found: "(case present key of None \<Rightarrow> None | Some k \<Rightarrow> getJobByExternalKey st k) = None"
    using assms(1) by (simp add: found_job_def)
  have key: "present key \<notin> rExternalKey ` set (jobs st)" if "present key \<noteq> None"
  proof -
    from that obtain k where k: "present key = Some k" by (auto simp del: present_Some_iff)
    from found_job_None [OF assms(1) k] show ?thesis by (simp add: k del: present_Some_iff)
  qed
  show ?thesis
    unfolding createJob_def
    using assms(2) key
    by (auto simp: found act_defs insertRow_def Let_def row_of_def newJob_def)
qed

lemma createJob_clash:
  assumes "found_job key st = None" and "uuid \<in> rId ` set (jobs st)"
  shows "createJob uuid now type account load key st =
    Some (Inl (JsError ''UNIQUE constraint failed: jobs.id''), st)"
proof -
  have found: "(case present key of None \<Rightarrow> None | Some k \<Rightarrow> getJobByExternalKey st k) = None"
    using assms(1) by (simp add: found_job_def)
  show ?thesis
    unfolding createJob_def
    using assms(2) by (auto simp: found act_defs insertRow_def Let_def newJob_def)
qed

lemma createJob_cases:
  obtains (found) j where "found_job key st = Some j"
      "createJob uuid now type account load key st = Some (Inr j, st)"
  | (fresh) "found_job key st = None" "uuid \<notin> rId ` set (jobs st)"
      "createJob uuid now type account load key st =
         Some (Inr (newJob uuid now type account load key),
           st\<lparr>jobs := jobs st @ [row_of (newJob uuid now type account load key)]\<rparr>)"
  | (clash) "found_job key st = None" "uuid \<in> rId ` set (jobs st)"
      "createJob uuid now type account load key st =
         Some (Inl (JsError ''UNIQUE constraint failed: jobs.id''), st)"
proof (cases "found_job key st")
  case None
  then show ?thesis
    using fresh clash createJob_new createJob_clash by (cases "uuid \<in> rId ` set (jobs st)") simp_all
next
  case (Some j)
  then show ?thesis using found createJob_found by simp
qed

lemma fromRow_row_of:
  "actionId j = None \<Longrightarrow> txHash j = None \<Longrightarrow> jobError j = None \<Longrightarrow> jobResponse j = None \<Longrightarrow>
   externalKey j = present (externalKey j) \<Longrightarrow> fromRow (row_of j) = j"
  by (cases j) (auto simp: fromRow_def row_of_def)

lemma fromRow_newJob [simp]:
  "fromRow (row_of (newJob uuid now type account load key)) = newJob uuid now type account load key"
  by (rule fromRow_row_of) (simp_all add: newJob_def)

lemma newJob_fields [simp]:
  "jobId (newJob uuid now type account load key) = uuid"
  "externalKey (newJob uuid now type account load key) = present key"
  "jobStatus (newJob uuid now type account load key) = Queued"
  "jobAccount (newJob uuid now type account load key) = lower account"
  "jobType (newJob uuid now type account load key) = type"
  "jobPayload (newJob uuid now type account load key) = load"
  "createdAt (newJob uuid now type account load key) = now"
  by (simp_all add: newJob_def)

lemma row_of_fields [simp]:
  "rId (row_of j) = jobId j" "rExternalKey (row_of j) = externalKey j"
  "rAccount (row_of j) = jobAccount j" "rStatus (row_of j) = jobStatus j"
  "rCreatedAt (row_of j) = createdAt j"
  by (simp_all add: row_of_def)

lemma getJob_append:
  "getJob (st\<lparr>jobs := jobs st @ [r]\<rparr>) i =
     (case getJob st i of None \<Rightarrow> if rId r = i then Some (fromRow r) else None | Some j \<Rightarrow> Some j)"
  by (auto simp: getJob_def find_append split: option.splits)

lemma getJob_None_iff: "getJob st i = None \<longleftrightarrow> i \<notin> rId ` set (jobs st)"
  by (simp add: getJob_def find_id_None)

lemma found_append:
  "getJobByExternalKey (st\<lparr>jobs := jobs st @ [r]\<rparr>) k =
     (case getJobByExternalKey st k of
        None \<Rightarrow> if rExternalKey r = Some k then Some (fromRow r) else None
      | Some j \<Rightarrow> Some j)"
  by (auto simp: getJobByExternalKey_def find_append split: option.splits)

lemma map_filter_append:
  "List.map_filter f (xs @ ys) = List.map_filter f xs @ List.map_filter f ys"
  by (induction xs) (simp_all add: List.map_filter_simps split: option.splits)

lemma store_ok_append:
  assumes ok: "store_ok st" and id: "uuid \<notin> rId ` set (jobs st)" and none: "found_job key st = None"
  shows "store_ok (st\<lparr>jobs := jobs st @ [row_of (newJob uuid now type account load key)]\<rparr>)"
proof -
  have "k \<notin> set (List.map_filter rExternalKey (jobs st))" if "present key = Some k" for k
    using found_job_None [OF none that] by (auto simp: map_filter_set image_iff)
  then have "distinct (List.map_filter rExternalKey
      (jobs st @ [row_of (newJob uuid now type account load key)]))"
    using ok by (auto simp: store_ok_def map_filter_append List.map_filter_simps split: option.splits)
  then show ?thesis
    using ok id by (auto simp: store_ok_def row_ok_def)
qed

lemma createJob_ok:
  assumes "store_ok st" and "createJob uuid now type account load key st = Some (res, t)"
  shows "store_ok t"
  by (cases rule: createJob_cases [of key st uuid now type account load])
    (use assms store_ok_append in auto)

lemma updateJob_ok:
  "store_ok st \<Longrightarrow> updateJob now i patch st = Some (res, t) \<Longrightarrow> store_ok t"
  by (cases "getJob st i") (auto simp: updateJob_None updateJob_Some store_ok_write)

lemma resetForRetry_eq:
  "resetForRetry now i st = (case getJob st i of
      None \<Rightarrow> Some (Inl (JsError ''job not found''), st)
    | Some j \<Rightarrow>
        if jobStatus j \<noteq> Failed then Some (Inl (JsError ''only failed jobs can be retried''), st)
        else updateJob now i
          [SetStatus (if present (actionId j) \<noteq> None then Submitted else Queued), SetError None] st)"
  by (simp add: resetForRetry_def act_defs split: option.splits)

lemma resetForRetry_ok:
  "store_ok st \<Longrightarrow> resetForRetry now i st = Some (res, t) \<Longrightarrow> store_ok t"
  by (auto simp: resetForRetry_eq split: option.splits if_splits dest: updateJob_ok)

lemma ensureColumn_adds:
  "tables st t = Some cols \<Longrightarrow>
   \<exists>cols'. tables (ensureColumn t c st) t = Some cols' \<and> set cols' = insert c (set cols)"
  by (auto simp: ensureColumn_def)

lemma ensureColumn_other: "u \<noteq> t \<Longrightarrow> tables (ensureColumn t c st) u = tables st u"
  by (auto simp: ensureColumn_def split: option.splits)

lemma distinct_keys_count:
  "distinct (List.map_filter rExternalKey rs) \<Longrightarrow>
   length (filter (\<lambda>r. rExternalKey r = Some k) rs) \<le> 1"
proof (induction rs)
  case (Cons r rs)
  have "filter (\<lambda>r. rExternalKey r = Some k) rs = []" if "rExternalKey r = Some k"
    using Cons.prems that by (auto simp: List.map_filter_simps map_filter_set filter_empty_conv)
  then show ?case
    using Cons by (auto simp: List.map_filter_simps split: option.splits)
qed simp

lemma jobs_frame [simp]:
  "jobs (create_table n cs st) = jobs st" "jobs (ensureColumn n c st) = jobs st"
  "jobs (putChallenge a k e st) = jobs st" "jobs (setCursor n v st) = jobs st"
  "jobs (snd (consumeChallenge a k now st)) = jobs st"
  by (simp_all add: create_table_def ensureColumn_def putChallenge_def consumeChallenge_def
      setCursor_def split: option.splits)

lemma jobs_openStore [simp]: "jobs (openStore st) = jobs st"
  by (simp add: openStore_def)

lemma store_ok_frame [simp]:
  "store_ok (openStore st) = store_ok st" "store_ok (putChallenge a n e st) = store_ok st"
  "store_ok (snd (consumeChallenge a n now st)) = store_ok st" "store_ok (setCursor c v st) = store_ok st"
  by (simp_all add: store_ok_def)

lemma store_step_ok: "store_step st t \<Longrightarrow> store_ok st \<Longrightarrow> store_ok t"
  by (induction rule: store_step.induct)
    (auto simp: store_ok_frame dest: createJob_ok updateJob_ok resetForRetry_ok)

lemma getJob_present:
  assumes "getJob st i = Some j"
  shows "actionId j = present (actionId j)" and "txHash j = present (txHash j)"
    and "jobError j = present (jobError j)"
  using assms by (auto simp: getJob_def fromRow_def)

lemma oldest_runnable_nonempty:
  assumes "r \<in> set (jobs st)" and "runnable (rStatus r)"
  shows "oldest_runnable st \<noteq> []"
proof -
  define rs where "rs = filter (\<lambda>r. runnable (rStatus r)) (jobs st)"
  have ne: "set rs \<noteq> {}" using assms by (auto simp: rs_def)
  define q where "q = arg_min_on rCreatedAt (set rs)"
  have q: "q \<in> set rs" "\<forall>p \<in> set rs. rCreatedAt q \<le> rCreatedAt p"
    using arg_min_if_finite(1) [OF finite_set ne, of rCreatedAt] arg_min_least [OF finite_set ne]
    by (auto simp: q_def)
  then show ?thesis
    by (auto simp: oldest_runnable_def rs_def [symmetric] list_all_iff filter_empty_conv)
qed

lemma set_oldest_runnable:
  "r \<in> set (oldest_runnable st) \<longleftrightarrow>
     r \<in> set (jobs st) \<and> runnable (rStatus r) \<and>
     (\<forall>q \<in> set (jobs st). runnable (rStatus q) \<longrightarrow> rCreatedAt r \<le> rCreatedAt q)"
  by (auto simp: oldest_runnable_def list_all_iff)

lemma nextRunnableJob_cases:
  obtains (none) "nextRunnableJob tie st = None" "\<And>r. r \<in> set (jobs st) \<Longrightarrow> \<not> runnable (rStatus r)"
  | (some) r where "nextRunnableJob tie st = Some (fromRow r)" "r \<in> set (oldest_runnable st)"
proof (cases "oldest_runnable st = []")
  case True
  then show ?thesis using none oldest_runnable_nonempty by (auto simp: nextRunnableJob_def Let_def)
next
  case False
  then have "oldest_runnable st ! (tie (oldest_runnable st) mod length (oldest_runnable st))
      \<in> set (oldest_runnable st)"
    by (intro nth_mem) simp
  then show ?thesis using some False by (auto simp: nextRunnableJob_def Let_def)
qed

lemma nextRunnableJob_stored:
  assumes "store_ok st" and "nextRunnableJob tie st = Some j"
  shows "getJob st (jobId j) = Some j" and "runnable (jobStatus j)"
proof -
  obtain r where r: "j = fromRow r" "r \<in> set (jobs st)" "runnable (rStatus r)"
    using assms(2) by (cases rule: nextRunnableJob_cases [of tie st]) (auto simp: set_oldest_runnable)
  then show "getJob st (jobId j) = Some j" "runnable (jobStatus j)"
    using assms(1) find_by_id [of "jobs st" r] by (auto simp: getJob_def fromRow_def store_ok_def)
qed

section \<open>Properties\<close>

text \<open>
  C28. Every store the relayer reaches from an empty file, by any sequence of its writing
  methods with any arguments, has unique job identifiers, unique external keys, no empty
  external key, and lower-case accounts.
\<close>
theorem store_reachable_ok: "store_reachable st \<Longrightarrow> store_ok st"
proof (induction rule: store_reachable.induct)
  case reach_empty
  show ?case by (simp add: store_ok_def empty_store_def List.map_filter_simps)
next
  case (reach_step st t)
  then show ?case by (blast intro: store_step_ok)
qed

theorem store_reachable_ok_witness:
  "store_ok (setCursor ''quiet_vault'' 7 (openStore empty_store))"
  by (rule store_reachable_ok)
    (intro store_reachable.reach_step [OF _ step_cursor] store_reachable.reach_step [OF _ step_open]
      reach_empty)

text \<open>
  \<open>createJob\<close> is idempotent in the external key: when a call with a non-empty key
  succeeded, every later call with that key returns the same job and writes nothing, whatever
  its other arguments, and the table holds exactly one row with the key.
\<close>
lemma createJob_once:
  assumes "store_ok st" and "k \<noteq> []"
    and "createJob uuid now type account load (Some k) st = Some (Inr j, t)"
  shows "createJob uuid' now' type' account' load' (Some k) t = Some (Inr j, t)
    \<and> externalKey j = Some k
    \<and> length (filter (\<lambda>r. rExternalKey r = Some k) (jobs t)) = 1"
proof (intro conjI)
  have k: "present (Some k) = Some k" using assms(2) by simp
  have found: "found_job (Some k) t = Some j"
  proof (cases rule: createJob_cases [of "Some k" st uuid now type account load])
    case (fresh)
    then show ?thesis
      using assms(3) k by (auto simp: found_job_def found_append simp del: present_Some_iff)
  qed (use assms(3) in auto)
  then show "createJob uuid' now' type' account' load' (Some k) t = Some (Inr j, t)"
    by (rule createJob_found)
  from found obtain r where r: "List.find (\<lambda>r. rExternalKey r = Some k) (jobs t) = Some r" "j = fromRow r"
    by (auto simp: found_job_def getJobByExternalKey_def k simp del: present_Some_iff)
  then have rk: "rExternalKey r = Some k" "r \<in> set (jobs t)"
    by (auto simp: find_Some_iff)
  then show "externalKey j = Some k" using r(2) assms(2) by (simp add: fromRow_def)
  have "distinct (List.map_filter rExternalKey (jobs t))"
    using createJob_ok [OF assms(1,3)] by (simp add: store_ok_def)
  then have "length (filter (\<lambda>r. rExternalKey r = Some k) (jobs t)) \<le> 1"
    by (rule distinct_keys_count)
  moreover have "filter (\<lambda>r. rExternalKey r = Some k) (jobs t) \<noteq> []"
    using rk by (auto simp: filter_empty_conv)
  ultimately show "length (filter (\<lambda>r. rExternalKey r = Some k) (jobs t)) = 1"
    by (simp add: le_Suc_eq)
qed

lemma createJob_once_witness:
  "\<exists>j t. createJob ''a'' 5 ''DEPOSIT'' ''0xA'' (OpaquePayload []) (Some ''chain:1'') empty_store = Some (Inr j, t)
     \<and> createJob ''b'' 9 ''RISK_TICK'' ''0xB'' (OpaquePayload []) (Some ''chain:1'') t = Some (Inr j, t)"
proof -
  let ?j = "newJob ''a'' 5 ''DEPOSIT'' ''0xA'' (OpaquePayload []) (Some ''chain:1'')"
  have first: "createJob ''a'' 5 ''DEPOSIT'' ''0xA'' (OpaquePayload []) (Some ''chain:1'') empty_store =
      Some (Inr ?j, empty_store\<lparr>jobs := jobs empty_store @ [row_of ?j]\<rparr>)"
    by (rule createJob_new) (simp_all add: found_job_def getJobByExternalKey_def empty_store_def)
  have ok: "store_ok empty_store" by (simp add: store_ok_def empty_store_def List.map_filter_simps)
  show ?thesis
    using first createJob_once [OF ok _ first] by blast
qed

text \<open>
  \<open>updateJob\<close> on a stored job writes exactly that job: it returns the job with the patch
  applied and the new time stamp, the table then reads back that job with empty texts dropped,
  the immutable columns and every other job are as before, and the table invariant holds.
\<close>
lemma updateJob_exact:
  assumes "store_ok st" and "getJob st i = Some j"
  shows "\<exists>n t. updateJob now i patch st = Some (Inr n, t)
     \<and> n = (fold apply_field patch j)\<lparr>updatedAt := now\<rparr> \<and> identity_of n = identity_of j
     \<and> getJob t i = Some (stored n) \<and> (\<forall>k. k \<noteq> i \<longrightarrow> getJob t k = getJob st k) \<and> store_ok t"
proof (intro exI conjI)
  let ?n = "patched now patch j"
  show "updateJob now i patch st = Some (Inr ?n, write_job ?n st)" by (rule updateJob_Some [OF assms(2)])
  show "?n = (fold apply_field patch j)\<lparr>updatedAt := now\<rparr>" by (simp add: patched_def)
  show idn: "identity_of ?n = identity_of j" by simp
  show "getJob (write_job ?n st) i = Some (stored ?n)" by (rule getJob_write_same [OF assms(2) idn])
  have "jobId ?n = i" using getJob_id [OF assms(2)] identity_id [OF idn] by simp
  then show "\<forall>k. k \<noteq> i \<longrightarrow> getJob (write_job ?n st) k = getJob st k"
    by (auto intro: getJob_write_other)
  show "store_ok (write_job ?n st)" by (rule store_ok_write [OF assms(1)])
qed

definition sample_job :: job where
  "sample_job = newJob ''a'' 5 ''DEPOSIT'' ''0x1'' (OpaquePayload []) (Some ''chain:1'')"

definition sample_store :: store where
  "sample_store = empty_store\<lparr>jobs := [row_of sample_job]\<rparr>"

lemma sample_store_facts: "store_ok sample_store" "getJob sample_store ''a'' = Some sample_job"
  by (simp_all add: sample_store_def sample_job_def store_ok_def empty_store_def row_ok_def
      List.map_filter_simps getJob_def lower_def lower_char_def)

lemma updateJob_exact_witness:
  "\<exists>n t. updateJob 9 ''a'' [SetStatus Failed, SetError (Some [])] sample_store = Some (Inr n, t)
     \<and> jobError n = Some [] \<and> map_option jobError (getJob t ''a'') = Some None"
proof -
  obtain n t where *: "updateJob 9 ''a'' [SetStatus Failed, SetError (Some [])] sample_store = Some (Inr n, t)"
    "n = (fold apply_field [SetStatus Failed, SetError (Some [])] sample_job)\<lparr>updatedAt := 9\<rparr>"
    "getJob t ''a'' = Some (stored n)"
    using updateJob_exact [OF sample_store_facts] by blast
  then show ?thesis by (intro exI [of _ n] exI [of _ t]) (simp add: stored_def)
qed

text \<open>
  A sign-in challenge works once: when \<open>consumeChallenge\<close> accepts, the challenge stored for
  the address was exactly this one and had not expired, and afterwards no nonce is accepted for
  that address in any letter case at any time; challenges of other addresses are untouched.
\<close>
lemma challenge_single_use:
  assumes "consumeChallenge a n now st = (True, t)" and "lower a' = lower a"
  shows "(\<exists>e. challenges st (lower a) = Some (n, e) \<and> now \<le> e)
    \<and> consumeChallenge a' n' now' t = (False, t)
    \<and> (\<forall>b. lower b \<noteq> lower a \<longrightarrow> challenges t (lower b) = challenges st (lower b))"
  using assms by (auto simp: consumeChallenge_def split: option.splits if_splits)

lemma challenge_single_use_witness:
  "consumeChallenge ''0xAB'' ''n1'' 10 (putChallenge ''0xab'' ''n1'' 20 empty_store) =
     (True, empty_store\<lparr>challenges := (\<lambda>_. None)(''0xab'' := None)\<rparr>)
   \<and> consumeChallenge ''0xab'' ''n1'' 10 (empty_store\<lparr>challenges := (\<lambda>_. None)(''0xab'' := None)\<rparr>) =
     (False, empty_store\<lparr>challenges := (\<lambda>_. None)(''0xab'' := None)\<rparr>)"
proof -
  have low: "lower ''0xAB'' = ''0xab''" "lower ''0xab'' = ''0xab''"
    by code_simp+
  have first: "consumeChallenge ''0xAB'' ''n1'' 10 (putChallenge ''0xab'' ''n1'' 20 empty_store) =
     (True, empty_store\<lparr>challenges := (\<lambda>_. None)(''0xab'' := None)\<rparr>)"
    by (simp add: consumeChallenge_def putChallenge_def low empty_store_def)
  have "lower ''0xab'' = lower ''0xAB''" by (simp add: low)
  from first challenge_single_use [OF first this] show ?thesis by simp
qed

text \<open>
  \<open>nextRunnableJob\<close> schedules fairly, whichever way the database breaks ties: it answers
  nothing exactly when no stored job is runnable, and otherwise a stored, runnable job such that
  no runnable job was created earlier.
\<close>
lemma nextRunnableJob_oldest:
  assumes "store_ok st"
  shows "case nextRunnableJob tie st of
      None \<Rightarrow> (\<forall>k j. getJob st k = Some j \<longrightarrow> jobStatus j \<in> {Confirmed, Failed})
    | Some j \<Rightarrow> getJob st (jobId j) = Some j \<and> jobStatus j \<notin> {Confirmed, Failed}
        \<and> (\<forall>k q. getJob st k = Some q \<and> jobStatus q \<notin> {Confirmed, Failed} \<longrightarrow> createdAt j \<le> createdAt q)"
proof -
  have member: "\<exists>r \<in> set (jobs st). q = fromRow r" if "getJob st k = Some q" for k q
    using that by (auto simp: getJob_def find_Some_iff)
  show ?thesis
  proof (cases rule: nextRunnableJob_cases [of tie st])
    case none
    have "jobStatus j \<in> {Confirmed, Failed}" if q: "getJob st k = Some j" for k j
    proof -
      obtain r where "r \<in> set (jobs st)" "j = fromRow r" using member [OF q] by blast
      then show ?thesis using none(2) by (simp add: fromRow_def not_runnable_iff)
    qed
    then show ?thesis using none(1) by simp
  next
    case (some r)
    have "createdAt (fromRow r) \<le> createdAt q"
      if q: "getJob st k = Some q" "jobStatus q \<notin> {Confirmed, Failed}" for k q
    proof -
      obtain p where p: "p \<in> set (jobs st)" "q = fromRow p" using member [OF q(1)] by blast
      then have "runnable (rStatus p)" using q(2) not_runnable_iff by (auto simp: fromRow_def)
      then show ?thesis using some(2) p by (auto simp: set_oldest_runnable fromRow_def)
    qed
    moreover have "jobStatus (fromRow r) \<notin> {Confirmed, Failed}"
      using nextRunnableJob_stored(2) [OF assms some(1)] not_runnable_iff by blast
    ultimately show ?thesis
      using nextRunnableJob_stored(1) [OF assms some(1)] some(1) by auto
  qed
qed

lemma nextRunnableJob_oldest_witness: "nextRunnableJob (\<lambda>_. 3) sample_store = Some sample_job"
proof -
  have "oldest_runnable sample_store = [row_of sample_job]"
    by (simp add: oldest_runnable_def sample_store_def sample_job_def runnable_def empty_store_def)
  then have next_job: "nextRunnableJob (\<lambda>_. 3) sample_store = Some sample_job"
    by (simp add: nextRunnableJob_def sample_job_def)
  show ?thesis
    using nextRunnableJob_oldest [OF sample_store_facts(1), of "\<lambda>_. 3"] next_job by simp
qed

text \<open>
  \<open>listJobs\<close> shows an account only its own jobs, at most the limit, newest first, and no
  job it leaves out is newer than one it shows.
\<close>
lemma listJobs_own_newest:
  "list_all (\<lambda>j. jobAccount j = lower account) (listJobs st account limit)
   \<and> length (listJobs st account limit) \<le> limit
   \<and> sorted_wrt (\<lambda>a b. createdAt b \<le> createdAt a) (listJobs st account limit)
   \<and> list_all (\<lambda>r. rAccount r \<noteq> lower account \<or> fromRow r \<in> set (listJobs st account limit)
        \<or> list_all (\<lambda>j. rCreatedAt r \<le> createdAt j) (listJobs st account limit)) (jobs st)"
proof -
  define own where "own = filter (\<lambda>r. rAccount r = lower account) (jobs st)"
  define srt where "srt = sort_key (\<lambda>r. - rCreatedAt r) own"
  have list: "listJobs st account limit = List.map fromRow (take limit srt)"
    by (simp add: listJobs_def srt_def own_def)
  have set_srt: "set srt = set own" by (simp add: srt_def)
  have sorted: "sorted_wrt (\<lambda>a b. rCreatedAt b \<le> rCreatedAt a) srt"
    using sorted_sort_key [of "\<lambda>r. - rCreatedAt r" own]
    by (simp add: srt_def sorted_wrt_map sorted_map)
  then have split: "sorted_wrt (\<lambda>a b. rCreatedAt b \<le> rCreatedAt a) (take limit srt @ drop limit srt)"
    by simp
  have mine: "list_all (\<lambda>j. jobAccount j = lower account) (listJobs st account limit)"
    using set_take_subset [of limit srt]
    by (auto simp: list list_all_iff set_srt own_def fromRow_def)
  have order: "sorted_wrt (\<lambda>a b. createdAt b \<le> createdAt a) (listJobs st account limit)"
    using sorted_wrt_append [THEN iffD1, OF split]
    by (simp add: list sorted_wrt_map fromRow_def)
  have rest: "fromRow r \<in> set (listJobs st account limit)
      \<or> list_all (\<lambda>j. rCreatedAt r \<le> createdAt j) (listJobs st account limit)"
    if "r \<in> set own" for r
  proof (cases "r \<in> set (take limit srt)")
    case True
    then show ?thesis by (simp add: list)
  next
    case False
    then have "r \<in> set (drop limit srt)"
      using that set_srt by (metis Un_iff append_take_drop_id set_append)
    then show ?thesis
      using sorted_wrt_append [THEN iffD1, OF split] by (auto simp: list list_all_iff fromRow_def)
  qed
  then have "list_all (\<lambda>r. rAccount r \<noteq> lower account \<or> fromRow r \<in> set (listJobs st account limit)
        \<or> list_all (\<lambda>j. rCreatedAt r \<le> createdAt j) (listJobs st account limit)) (jobs st)"
    by (auto simp: list_all_iff own_def)
  then show ?thesis using mine order by (simp add: list)
qed

lemma listJobs_own_newest_witness:
  "listJobs sample_store ''0x1'' 50 = [sample_job]
   \<and> list_all (\<lambda>j. jobAccount j = lower ''0x1'') (listJobs sample_store ''0x1'' 50)"
  using listJobs_own_newest [of "''0x1''" sample_store 50]
  by (simp add: listJobs_def sample_store_def sample_job_def empty_store_def)

text \<open>
  Opening the database upgrades it and is repeatable: whatever columns an older file's
  \<open>jobs\<close> table had, afterwards it has them and the three added since, no row is touched, and
  opening again changes nothing.
\<close>
lemma openStore_migrates:
  "openStore (openStore st) = openStore st
   \<and> jobs (openStore st) = jobs st
   \<and> (\<exists>cols. tables (openStore st) ''jobs'' = Some cols
     \<and> {''external_key'', ''response'', ''attempts''} \<union> set (case_option job_columns id (tables st ''jobs''))
         = set cols)"
proof (intro conjI)
  show "jobs (openStore st) = jobs st" by simp
  let ?base = "create_table ''cursors'' [''name'', ''value''] (create_table ''jobs'' job_columns
      (create_table ''challenges'' [''address'', ''nonce'', ''expires_at''] st))"
  have jobs_table: "tables ?base ''jobs'' = Some (case_option job_columns id (tables st ''jobs''))"
    by (simp add: create_table_def split: option.splits)
  obtain cols where cols: "tables (openStore st) ''jobs'' = Some cols"
    "set cols = {''external_key'', ''response'', ''attempts''}
       \<union> set (case_option job_columns id (tables st ''jobs''))"
  proof -
    obtain c1 where c1: "tables (ensureColumn ''jobs'' ''external_key'' ?base) ''jobs'' = Some c1"
      "set c1 = insert ''external_key'' (set (case_option job_columns id (tables st ''jobs'')))"
      using ensureColumn_adds [OF jobs_table] by blast
    obtain c2 where c2: "tables (ensureColumn ''jobs'' ''response''
        (ensureColumn ''jobs'' ''external_key'' ?base)) ''jobs'' = Some c2"
      "set c2 = insert ''response'' (set c1)"
      using ensureColumn_adds [OF c1(1)] by blast
    obtain c3 where "tables (openStore st) ''jobs'' = Some c3" "set c3 = insert ''attempts'' (set c2)"
      using ensureColumn_adds [OF c2(1)] unfolding openStore_def by blast
    then show ?thesis using that c1 c2 by auto
  qed
  then show "\<exists>cols. tables (openStore st) ''jobs'' = Some cols
     \<and> {''external_key'', ''response'', ''attempts''} \<union> set (case_option job_columns id (tables st ''jobs''))
         = set cols"
    by blast
  have others: "tables (openStore st) ''challenges'' \<noteq> None" "tables (openStore st) ''cursors'' \<noteq> None"
    by (simp_all add: openStore_def ensureColumn_other)
      (auto simp: create_table_def split: option.splits)
  have created: "create_table n cs t = t" if "tables t n \<noteq> None" for n cs t
    using that by (auto simp: create_table_def split: option.splits)
  have ensured: "ensureColumn ''jobs'' c (openStore st) = openStore st"
    if "c \<in> {''external_key'', ''response'', ''attempts''}" for c
    using that cols by (auto simp: ensureColumn_def)
  show "openStore (openStore st) = openStore st"
    unfolding openStore_def [of "openStore st"] by (simp add: created others cols ensured)
qed

end
