(* ===== verification/World.thy ===== *)
theory World
  imports Store Complex_Main
begin

text \<open>
  The relayer's surroundings: the FCC proxy it reaches over HTTP, the chain it reaches through
  viem, the clock and the random generators. None of that is code of the repository, so it is a
  parameter: \<open>env\<close> holds one function per kind of call. Each answers from the whole history of
  calls, the current one at its head, so that any surroundings that behave deterministically
  are an \<open>env\<close>, and a theorem for every \<open>env\<close> covers every sequence of answers.
\<close>

section \<open>Calls and answers\<close>

datatype call =
    CNow
  | CUuid
  | CRandom nat
  | CDelay rat
  | CInfo string
  | CDirect string string hex hex direct_message
  | CResult string
  | CVerifySession address string int int hex
  | CSettlementUsed hex
  | CSettlementLogs hex
  | CWriteSettlement settlement int int int int "hex option"
  | CWriteRiskTick int
  | CReceipt hex
  | CBlockNumber
  | CSequence
  | CRoot
  | CSigner
  | CMachines int
  | CMachineStatus address
  | CPrice
  | CBalance address
  | CDepositLogs int int
  | CRequestLogs int int

text \<open>An HTTP response: its status, its text, and what \<open>response.json()\<close> gives or throws.\<close>

record 'b reply =
  reply_status :: int
  reply_text :: string
  reply_json :: "js_error + 'b"

definition reply_ok :: "'b reply \<Rightarrow> bool" where
  "reply_ok r = (200 \<le> reply_status r \<and> reply_status r \<le> 299)"

record action_result =
  ar_status :: int
  ar_log :: string
  ar_data :: "hex option"

record deposit_log =
  dl_depositId :: "hex option"
  dl_account :: "address option"
  dl_token :: "address option"
  dl_amount :: "int option"
  dl_requestId :: "hex option"
  dl_blockNumber :: int

record request_log =
  rl_requestId :: hex
  rl_command :: hex
  rl_account :: address
  rl_blockNumber :: int

text \<open>
  The functions of \<open>env\<close>. The pure ones at the end are library functions: viem's
  \<open>stringToHex(s, {size: 32})\<close>, \<open>hexToString\<close> with \<open>JSON.parse\<close>, \<open>hexToString(h, {size: 32})\<close>,
  \<open>publicKeyToAddress\<close> and \<open>isAddress\<close>, the HMAC-SHA256 digest of a text under a secret,
  \<open>JSON.parse\<close> of a session payload, and the text zod gives for the members that fail.
\<close>

record env =
  e_now :: "call list \<Rightarrow> int"
  e_uuid :: "call list \<Rightarrow> string"
  e_random :: "call list \<Rightarrow> string"
  e_info :: "call list \<Rightarrow> js_error + fcc_info reply"
  e_direct :: "call list \<Rightarrow> js_error + hex option reply"
  e_result :: "call list \<Rightarrow> js_error + action_result reply"
  e_verify :: "call list \<Rightarrow> js_error + bool"
  e_used :: "call list \<Rightarrow> js_error + bool"
  e_settlement_logs :: "call list \<Rightarrow> js_error + hex option list"
  e_write :: "call list \<Rightarrow> js_error + hex"
  e_receipt :: "call list \<Rightarrow> js_error + string"
  e_block :: "call list \<Rightarrow> js_error + int"
  e_sequence :: "call list \<Rightarrow> js_error + int"
  e_root :: "call list \<Rightarrow> js_error + hex"
  e_signer :: "call list \<Rightarrow> js_error + address"
  e_machines :: "call list \<Rightarrow> js_error + address list"
  e_machine_status :: "call list \<Rightarrow> js_error + int"
  e_price :: "call list \<Rightarrow> js_error + int \<times> int"
  e_balance :: "call list \<Rightarrow> js_error + int"
  e_deposit_logs :: "call list \<Rightarrow> js_error + deposit_log list"
  e_request_logs :: "call list \<Rightarrow> js_error + request_log list"
  p_bytes32 :: "string \<Rightarrow> js_error + hex"
  p_decode :: "hex \<Rightarrow> js_error + fcc_response"
  p_bytes32_text :: "hex \<Rightarrow> string"
  p_key_address :: "hex \<Rightarrow> js_error + address"
  p_is_address :: "string \<Rightarrow> bool"
  p_mac :: "string \<Rightarrow> string \<Rightarrow> nat list"
  p_session :: "string \<Rightarrow> js_error + session"
  p_zod :: "string list \<Rightarrow> string"

text \<open>The settings of \<^verbatim>\<open>relayer/src/config.ts\<close> that the components are built with.\<close>

record config =
  FCC_PROXY_URL :: string
  DIRECT_API_KEY :: string
  QUIET_VAULT :: address
  TEE_MANAGER :: address
  EXTENSION_ID :: int
  START_BLOCK :: int
  FCC_INSTRUCTION_FEE_WEI :: int
  OPERATIONS_API_KEY :: string
  SESSION_SECRET :: string

section \<open>The state of the relayer process\<close>

text \<open>
  The store, the history of calls (newest first), the \<open>job.updated\<close> events emitted (newest
  first), the two flags of the orchestrator's work loop, the busy flags of the indexer and of the
  keeper, and the errors the two handed to their \<open>onError\<close> callbacks (newest first).
\<close>

record world =
  db :: store
  hist :: "call list"
  emitted :: "job list"
  running :: bool
  wakeRequested :: bool
  polling :: bool
  ticking :: bool
  reported :: "js_error list"

definition ask :: "(call list \<Rightarrow> 'a) \<Rightarrow> call \<Rightarrow> (world, 'a) act" where
  "ask f c = (\<lambda>w. let h = c # hist w in Some (Inr (f h), w\<lparr>hist := h\<rparr>))"

definition askE :: "(call list \<Rightarrow> js_error + 'a) \<Rightarrow> call \<Rightarrow> (world, 'a) act" where
  "askE f c = bindA (ask f c) liftA"

definition nowA :: "env \<Rightarrow> (world, int) act" where
  "nowA env = ask (e_now env) CNow"

definition liftDb :: "(store, 'a) act \<Rightarrow> (world, 'a) act" where
  "liftDb m = (\<lambda>w. case m (db w) of None \<Rightarrow> None | Some (r, st) \<Rightarrow> Some (r, w\<lparr>db := st\<rparr>))"

definition emitJob :: "job \<Rightarrow> (world, unit) act" where
  "emitJob j = modifyA (\<lambda>w. w\<lparr>emitted := j # emitted w\<rparr>)"

text \<open>\<open>store.createJob(...)\<close> and \<open>store.updateJob(...)\<close> with their clock and generator.\<close>

definition dbCreateJob ::
    "env \<Rightarrow> string \<Rightarrow> address \<Rightarrow> payload \<Rightarrow> string option \<Rightarrow> (world, job) act" where
  "dbCreateJob env type account load key =
     bindA (nowA env) (\<lambda>now. bindA (ask (e_uuid env) CUuid) (\<lambda>uuid.
       liftDb (createJob uuid now type account load key)))"

definition dbUpdateJob :: "env \<Rightarrow> string \<Rightarrow> patch_field list \<Rightarrow> (world, job) act" where
  "dbUpdateJob env i patch = bindA (nowA env) (\<lambda>now. liftDb (updateJob now i patch))"

definition dbResetForRetry :: "env \<Rightarrow> string \<Rightarrow> (world, job) act" where
  "dbResetForRetry env i = bindA (nowA env) (\<lambda>now. liftDb (resetForRetry now i))"

section \<open>Laws of the clock\<close>

text \<open>
  \<open>Date.now()\<close> does not go back while the process runs, and a timer of at least a millisecond
  takes at least a millisecond.
\<close>

definition clock_ok :: "env \<Rightarrow> bool" where
  "clock_ok env = (\<forall>h c. e_now env h \<le> e_now env (c # h)
     \<and> (\<forall>d. 1 \<le> d \<longrightarrow> e_now env h + 1 \<le> e_now env (CDelay d # h)))"

section \<open>Frames\<close>

definition same_db :: "world \<Rightarrow> world \<Rightarrow> bool" where
  "same_db w w' = (db w' = db w \<and> emitted w' = emitted w \<and> running w' = running w
     \<and> wakeRequested w' = wakeRequested w \<and> polling w' = polling w \<and> ticking w' = ticking w
     \<and> reported w' = reported w)"

definition grows :: "world \<Rightarrow> world \<Rightarrow> bool" where
  "grows w w' = suffix (hist w) (hist w')"

definition is_write :: "call \<Rightarrow> bool" where
  "is_write c = (case c of CWriteSettlement _ _ _ _ _ _ \<Rightarrow> True | CWriteRiskTick _ \<Rightarrow> True | _ \<Rightarrow> False)"

definition chain_writes :: "world \<Rightarrow> call list" where
  "chain_writes w = filter is_write (hist w)"

definition no_write :: "world \<Rightarrow> world \<Rightarrow> bool" where
  "no_write w w' = (chain_writes w' = chain_writes w)"

interpretation same_db_frame: frame same_db
  by unfold_locales (auto simp: same_db_def)

interpretation grows_frame: frame grows
  by unfold_locales (auto simp: grows_def intro: suffix_order.trans)

interpretation no_write_frame: frame no_write
  by unfold_locales (auto simp: no_write_def)

lemma wp_ask [wp_simps]:
  "wp (ask f c) Q E w = Q (f (c # hist w)) (w\<lparr>hist := c # hist w\<rparr>)"
  by (simp add: wp_def ask_def Let_def)

lemma wp_askE [wp_simps]:
  "wp (askE f c) Q E w =
     (case f (c # hist w) of
        Inl e \<Rightarrow> E e (w\<lparr>hist := c # hist w\<rparr>)
      | Inr x \<Rightarrow> Q x (w\<lparr>hist := c # hist w\<rparr>))"
  by (simp add: askE_def wp_simps)

lemma wp_nowA [wp_simps]:
  "wp (nowA env) Q E w = Q (e_now env (CNow # hist w)) (w\<lparr>hist := CNow # hist w\<rparr>)"
  by (simp add: nowA_def wp_simps)

lemma wp_liftDb [wp_simps]:
  "wp (liftDb m) Q E w = wp m (\<lambda>x st. Q x (w\<lparr>db := st\<rparr>)) (\<lambda>e st. E e (w\<lparr>db := st\<rparr>)) (db w)"
  by (simp add: wp_def liftDb_def split: option.splits prod.splits sum.splits)

lemma wp_emitJob [wp_simps]: "wp (emitJob j) Q E w = Q () (w\<lparr>emitted := j # emitted w\<rparr>)"
  by (simp add: emitJob_def wp_simps)

lemma ends_world [wp_simps]:
  "ends (ask f c) w" "ends (askE f' c') w" "ends (nowA env) w" "ends (emitJob j) w"
  "ends (liftDb m) w = ends m (db w)"
  by (auto simp: ends_def ask_def askE_def nowA_def emitJob_def liftDb_def act_defs Let_def
      split: option.splits sum.splits)

lemma total_world [intro!, simp]:
  "total (ask f c)" "total (askE f' c')" "total (nowA env)" "total (emitJob j)"
  by (simp_all add: total_def wp_simps)

text \<open>Every answer of the surroundings changes only the history.\<close>

lemma ask_keeps [intro!, simp]:
  "keeps same_db (ask f c)" "keeps grows (ask f c)" "\<not> is_write c \<Longrightarrow> keeps no_write (ask f c)"
  by (auto simp: keeps_def ask_def same_db_def grows_def no_write_def chain_writes_def Let_def
      intro: suffix_ConsI)

lemma askE_keeps [intro!, simp]:
  "keeps same_db (askE f c)" "keeps grows (askE f c)" "\<not> is_write c \<Longrightarrow> keeps no_write (askE f c)"
  unfolding askE_def
  by (intro same_db_frame.keeps_intros ask_keeps grows_frame.keeps_intros no_write_frame.keeps_intros,
      assumption?)+

lemma nowA_keeps [intro!, simp]:
  "keeps same_db (nowA env)" "keeps grows (nowA env)" "keeps no_write (nowA env)"
  by (auto simp: nowA_def is_write_def)

lemma liftDb_keeps [intro!, simp]: "keeps grows (liftDb m)" "keeps no_write (liftDb m)"
  by (auto simp: keeps_def liftDb_def grows_def no_write_def chain_writes_def
      split: option.splits prod.splits)

lemma emitJob_keeps [intro!, simp]: "keeps grows (emitJob j)" "keeps no_write (emitJob j)"
  by (auto simp: keeps_def emitJob_def modifyA_def grows_def no_write_def chain_writes_def)

lemma clock_mono: "clock_ok env \<Longrightarrow> e_now env h \<le> e_now env (c # h)"
  by (simp add: clock_ok_def)

lemma clock_delay: "clock_ok env \<Longrightarrow> 1 \<le> d \<Longrightarrow> e_now env h + 1 \<le> e_now env (CDelay d # h)"
  by (simp add: clock_ok_def)

section \<open>Surroundings for the witnesses\<close>

text \<open>
  A concrete \<open>env\<close> whose clock counts the calls; the proxy accepts every submission and answers
  every poll with success and no data; the vault has settled nothing. Witnesses update the
  fields they are about.
\<close>

definition sample_env :: env where
  "sample_env = \<lparr>e_now = (\<lambda>h. int (length h)), e_uuid = (\<lambda>h. ''job-'' @ show_nat (length h)),
     e_random = (\<lambda>h. show_nat (length h)),
     e_info = (\<lambda>_. Inr \<lparr>reply_status = 200, reply_text = [],
        reply_json = Inr \<lparr>info_machine_key = None, info_tee_key = None\<rparr>\<rparr>),
     e_direct = (\<lambda>_. Inr \<lparr>reply_status = 200, reply_text = [], reply_json = Inr (Some ''0xa1'')\<rparr>),
     e_result = (\<lambda>_. Inr \<lparr>reply_status = 200, reply_text = [],
        reply_json = Inr \<lparr>ar_status = 1, ar_log = ''ok'', ar_data = None\<rparr>\<rparr>),
     e_verify = (\<lambda>_. Inr True), e_used = (\<lambda>_. Inr False), e_settlement_logs = (\<lambda>_. Inr []),
     e_write = (\<lambda>_. Inr ''0xc0''), e_receipt = (\<lambda>_. Inr ''success''), e_block = (\<lambda>_. Inr 0),
     e_sequence = (\<lambda>_. Inr 0), e_root = (\<lambda>_. Inr ''0x00''), e_signer = (\<lambda>_. Inr ''0x0''),
     e_machines = (\<lambda>_. Inr []), e_machine_status = (\<lambda>_. Inr 2), e_price = (\<lambda>_. Inr (600000, 0)),
     e_balance = (\<lambda>_. Inr 0), e_deposit_logs = (\<lambda>_. Inr []), e_request_logs = (\<lambda>_. Inr []),
     p_bytes32 = (\<lambda>s. Inr s), p_decode = (\<lambda>s. Inr (RespScalar s)), p_bytes32_text = (\<lambda>s. s),
     p_key_address = (\<lambda>s. Inr s), p_is_address = is_hex_of 40, p_mac = (\<lambda>k s. [length s mod 256]),
     p_session = (\<lambda>_. Inl (JsError ''Unexpected token'')), p_zod = (\<lambda>_. ''invalid'')\<rparr>"

definition sample_config :: config where
  "sample_config = \<lparr>FCC_PROXY_URL = ''http://fcc'', DIRECT_API_KEY = ''key'',
     QUIET_VAULT = ''0x01'', TEE_MANAGER = ''0x02'', EXTENSION_ID = 65536, START_BLOCK = 0,
     FCC_INSTRUCTION_FEE_WEI = 1, OPERATIONS_API_KEY = ''ops'', SESSION_SECRET = ''secret''\<rparr>"

definition sample_world :: world where
  "sample_world = \<lparr>db = sample_store, hist = [], emitted = [], running = False,
     wakeRequested = False, polling = False, ticking = False, reported = []\<rparr>"

lemma sample_clock_ok [simp]: "clock_ok sample_env"
  by (simp add: clock_ok_def sample_env_def)

end
