(* ===== verification/Fcc.thy ===== *)
theory Fcc
  imports World
begin

text \<open>
  The client of the FCC proxy, \<^verbatim>\<open>relayer/src/fcc.ts\<close>: reading the machine's identity,
  submitting a direct action, polling for its result with exponential back-off until a
  deadline, and decoding the result. The poll is a loop over the wall clock, so it is a partial
  function; under the laws of the clock it ends.
\<close>

datatype submission_tag = TagSubmit | TagThreshold | TagEnd

primrec tag_text :: "submission_tag \<Rightarrow> string" where
  "tag_text TagSubmit = ''submit''"
| "tag_text TagThreshold = ''threshold''"
| "tag_text TagEnd = ''end''"

definition info :: "env \<Rightarrow> config \<Rightarrow> (world, fcc_info) act" where
  "info env cfg = bindA (askE (e_info env) (CInfo (FCC_PROXY_URL cfg @ ''/info''))) (\<lambda>response.
     if \<not> reply_ok response
     then throw (JsError (''FCC info returned '' @ show_int (reply_status response)))
     else liftA (reply_json response))"

definition machineSigner :: "env \<Rightarrow> config \<Rightarrow> (world, address) act" where
  "machineSigner env cfg = bindA (info env cfg) (\<lambda>i.
     let key = (case info_machine_key i of Some k \<Rightarrow> Some k | None \<Rightarrow> info_tee_key i);
         coords = (case key of
             None \<Rightarrow> None
           | Some k \<Rightarrow> (case (pk_x k, pk_y k) of
               (Some x, Some y) \<Rightarrow> if is_hex_of 64 x \<and> is_hex_of 64 y then Some (x, y) else None
             | _ \<Rightarrow> None))
     in case coords of
          None \<Rightarrow> throw (JsError ''FCC /info did not include a valid secp256k1 public key'')
        | Some (x, y) \<Rightarrow> liftA (p_key_address env (''0x04'' @ drop 2 x @ drop 2 y)))"

definition submitRaw :: "env \<Rightarrow> config \<Rightarrow> string \<Rightarrow> direct_message \<Rightarrow> (world, hex) act" where
  "submitRaw env cfg command message =
     bindA (liftA (p_bytes32 env ''CREDIT'')) (\<lambda>opType.
     bindA (liftA (p_bytes32 env command)) (\<lambda>opCommand.
     bindA (askE (e_direct env)
              (CDirect (FCC_PROXY_URL cfg @ ''/direct'') (DIRECT_API_KEY cfg) opType opCommand message))
       (\<lambda>response.
         if \<not> reply_ok response
         then throw (JsError (''FCC direct submission returned '' @ show_int (reply_status response)
                 @ '': '' @ reply_text response))
         else bindA (liftA (reply_json response)) (\<lambda>body.
           case present body of
             None \<Rightarrow> throw (JsError ''FCC direct submission omitted action id'')
           | Some i \<Rightarrow> ret i))))"

definition submitCiphertext :: "env \<Rightarrow> config \<Rightarrow> string \<Rightarrow> hex \<Rightarrow> (world, hex) act" where
  "submitCiphertext env cfg command ciphertext = submitRaw env cfg command (Ciphertext ciphertext)"

definition submitJson :: "env \<Rightarrow> config \<Rightarrow> string \<Rightarrow> direct_message \<Rightarrow> (world, hex) act" where
  "submitJson env cfg command body = submitRaw env cfg command body"

text \<open>\<open>Math.min(250 * 1.5 ** attempt, 3_000)\<close>\<close>

definition backoff :: "nat \<Rightarrow> rat" where
  "backoff attempt = min (250 * (3 / 2) ^ attempt) 3000"

definition delayA :: "env \<Rightarrow> nat \<Rightarrow> (world, unit) act" where
  "delayA env attempt = ask (\<lambda>_. ()) (CDelay (backoff attempt))"

partial_function (option) poll_loop ::
    "env \<Rightarrow> string \<Rightarrow> hex \<Rightarrow> int \<Rightarrow> nat \<Rightarrow> world \<Rightarrow> ((js_error + action_result) \<times> world) option" where
  "poll_loop env url action_id deadline attempt w =
     bindA (nowA env) (\<lambda>now w1.
       if now < deadline then
         bindA (askE (e_result env) (CResult url)) (\<lambda>response w2.
           if reply_ok response then
             bindA (liftA (reply_json response)) (\<lambda>body w3.
               if ar_status body = 2 then
                 bindA (delayA env attempt)
                   (\<lambda>_ w4. poll_loop env url action_id deadline (Suc attempt) w4) w3
               else ret body w3) w2
           else
             bindA (delayA env attempt)
               (\<lambda>_ w4. poll_loop env url action_id deadline (Suc attempt) w4) w2) w1
       else throw (JsError (''timed out waiting for FCC action '' @ action_id)) w1) w"

definition poll :: "env \<Rightarrow> config \<Rightarrow> hex \<Rightarrow> submission_tag \<Rightarrow> int \<Rightarrow> (world, action_result) act" where
  "poll env cfg action_id tag timeoutMs = bindA (nowA env) (\<lambda>now.
     poll_loop env
       (FCC_PROXY_URL cfg @ ''/action/result/'' @ action_id @ ''?submissionTag='' @ tag_text tag)
       action_id (now + timeoutMs) 0)"

definition decode :: "env \<Rightarrow> hex option \<Rightarrow> js_error + fcc_response" where
  "decode env data = (case present data of
      None \<Rightarrow> Inl (JsError ''FCC result did not include data'')
    | Some d \<Rightarrow> if d = ''0x'' then Inl (JsError ''FCC result did not include data'') else p_decode env d)"

section \<open>Frames\<close>

lemma info_keeps [intro!, simp]:
  "keeps same_db (info env cfg)" "keeps grows (info env cfg)" "keeps no_write (info env cfg)"
  unfolding info_def
  by (auto intro!: same_db_frame.keeps_intros grows_frame.keeps_intros no_write_frame.keeps_intros
      simp: is_write_def)

lemma machineSigner_keeps [intro!, simp]:
  "keeps same_db (machineSigner env cfg)" "keeps grows (machineSigner env cfg)"
  "keeps no_write (machineSigner env cfg)"
  unfolding machineSigner_def Let_def
  by (auto intro!: same_db_frame.keeps_intros grows_frame.keeps_intros no_write_frame.keeps_intros
      split: option.splits prod.splits)

lemma submitRaw_keeps [intro!, simp]:
  "keeps same_db (submitRaw env cfg c m)" "keeps grows (submitRaw env cfg c m)"
  "keeps no_write (submitRaw env cfg c m)"
  unfolding submitRaw_def
  by (auto intro!: same_db_frame.keeps_intros grows_frame.keeps_intros no_write_frame.keeps_intros
      split: option.splits simp: is_write_def)

lemma submit_keeps [intro!, simp]:
  "keeps same_db (submitCiphertext env cfg c x)" "keeps grows (submitCiphertext env cfg c x)"
  "keeps no_write (submitCiphertext env cfg c x)" "keeps same_db (submitJson env cfg c m)"
  "keeps grows (submitJson env cfg c m)" "keeps no_write (submitJson env cfg c m)"
  by (simp_all add: submitCiphertext_def submitJson_def)

lemma delayA_keeps [intro!, simp]:
  "keeps same_db (delayA env n)" "keeps grows (delayA env n)" "keeps no_write (delayA env n)"
  by (simp_all add: delayA_def is_write_def)

section \<open>The poll\<close>

lemma backoff_bounds: "250 \<le> backoff n" "backoff n \<le> 3000"
proof -
  have "(1 :: rat) \<le> (3 / 2) ^ n" by (rule one_le_power) simp
  then show "250 \<le> backoff n" by (simp add: backoff_def)
  show "backoff n \<le> 3000" by (simp add: backoff_def)
qed

text \<open>\<open>body\<close> is the body of a successful response of the proxy, and not "still running".\<close>

definition answered :: "env \<Rightarrow> action_result \<Rightarrow> bool" where
  "answered env body = (ar_status body \<noteq> 2 \<and>
     (\<exists>h response. e_result env h = Inr response \<and> reply_ok response \<and> reply_json response = Inr body))"

text \<open>However the poll ends, it made only the calls of its loop, and returns only an answer.\<close>

lemma poll_loop_rule:
  assumes "frame R"
    and now: "\<And>w. R w (w\<lparr>hist := CNow # hist w\<rparr>)"
    and res: "\<And>w u. R w (w\<lparr>hist := CResult u # hist w\<rparr>)"
    and wait: "\<And>w d. R w (w\<lparr>hist := CDelay d # hist w\<rparr>)"
    and run: "poll_loop env url a deadline n w = Some (r, t)"
  shows "R w t \<and> (\<forall>body. r = Inr body \<longrightarrow> answered env body)"
proof -
  have trans: "R x y \<Longrightarrow> R y z \<Longrightarrow> R x z" for x y z
    using assms(1) by (rule frame.trans)
  have "case p of (r, t) \<Rightarrow> R w t \<and> (\<forall>body. r = Inr body \<longrightarrow> answered env body)"
    if "poll_loop env url a deadline n w = Some p" for env url a deadline n w p
  proof (rule poll_loop.raw_induct [where P = "\<lambda>env url a deadline n w p. case p of (r, t) \<Rightarrow>
      R w t \<and> (\<forall>body. r = Inr body \<longrightarrow> answered env body)", OF _ that])
    fix loop env url a deadline n w p
    assume IH: "\<And>env url a deadline n w p. loop env url a deadline n w = Some p \<Longrightarrow>
        (case p of (r, t) \<Rightarrow> R w t \<and> (\<forall>body. r = Inr body \<longrightarrow> answered env body))"
      and body: "bindA (nowA env) (\<lambda>now w1.
       if now < deadline then
         bindA (askE (e_result env) (CResult url)) (\<lambda>response w2.
           if reply_ok response then
             bindA (liftA (reply_json response)) (\<lambda>body w3.
               if ar_status body = 2 then
                 bindA (delayA env n) (\<lambda>_ w4. loop env url a deadline (Suc n) w4) w3
               else ret body w3) w2
           else bindA (delayA env n) (\<lambda>_ w4. loop env url a deadline (Suc n) w4) w2) w1
       else throw (JsError (''timed out waiting for FCC action '' @ a)) w1) w = Some p"
    let ?w1 = "w\<lparr>hist := CNow # hist w\<rparr>"
    let ?w2 = "w\<lparr>hist := CResult url # CNow # hist w\<rparr>"
    have r1: "R w ?w1" by (rule now)
    have r2: "R w ?w2" using trans [OF r1 res [of ?w1 url]] by simp
    have again: "case q of (r, t) \<Rightarrow> R w t \<and> (\<forall>body. r = Inr body \<longrightarrow> answered env body)"
      if "loop env url a deadline (Suc n) (?w2\<lparr>hist := CDelay (backoff n) # hist ?w2\<rparr>) = Some q" for q
      using IH [OF that] trans [OF trans [OF r2 wait [of ?w2 "backoff n"]]]
      by (auto split: prod.splits)
    show "case p of (r, t) \<Rightarrow> R w t \<and> (\<forall>body. r = Inr body \<longrightarrow> answered env body)"
      using body r1 r2 again
      by (auto simp: bindA_def nowA_def ask_def askE_def delayA_def liftA_def ret_def throw_def Let_def
          answered_def split: if_splits sum.splits)
  qed
  then show ?thesis using run by fastforce
qed

lemma poll_keeps [intro!, simp]:
  "keeps same_db (poll env cfg a tag ms)" "keeps grows (poll env cfg a tag ms)"
  "keeps no_write (poll env cfg a tag ms)"
proof -
  have loop: "keeps R (poll_loop env url a deadline n)"
    if "frame R" "\<And>w. R w (w\<lparr>hist := CNow # hist w\<rparr>)" "\<And>w u. R w (w\<lparr>hist := CResult u # hist w\<rparr>)"
      "\<And>w d. R w (w\<lparr>hist := CDelay d # hist w\<rparr>)" for R url deadline n
    using poll_loop_rule [OF that] by (auto simp: keeps_def)
  show "keeps same_db (poll env cfg a tag ms)"
    unfolding poll_def
    by (intro same_db_frame.keeps_bindA nowA_keeps loop same_db_frame.frame_axioms)
      (auto simp: same_db_def)
  show "keeps grows (poll env cfg a tag ms)"
    unfolding poll_def
    by (intro grows_frame.keeps_bindA nowA_keeps loop grows_frame.frame_axioms)
      (auto simp: grows_def intro: suffix_ConsI)
  show "keeps no_write (poll env cfg a tag ms)"
    unfolding poll_def
    by (intro no_write_frame.keeps_bindA nowA_keeps loop no_write_frame.frame_axioms)
      (auto simp: no_write_def chain_writes_def is_write_def)
qed

lemma poll_answered: "poll env cfg a tag ms w = Some (Inr body, t) \<Longrightarrow> answered env body"
  using poll_loop_rule [OF same_db_frame.frame_axioms, where r = "Inr body" and t = t]
  unfolding poll_def bindA_def nowA_def ask_def Let_def
  by (simp add: same_db_def)

lemma poll_leaves: "leaves (\<lambda>body _. answered env body) (poll env cfg a tag ms)"
  unfolding leaves_def using poll_answered by blast

lemma poll_loop_ends:
  assumes "clock_ok env"
  shows "ends (poll_loop env url a deadline n) w"
proof (induction "nat (deadline - e_now env (hist w))" arbitrary: n w rule: less_induct)
  case less
  let ?h1 = "CNow # hist w"
  let ?h2 = "CResult url # ?h1"
  let ?h3 = "CDelay (backoff n) # ?h2"
  have again: "ends (poll_loop env url a deadline (Suc n)) (w\<lparr>hist := ?h3\<rparr>)"
    if "e_now env ?h1 < deadline"
  proof (rule less.hyps)
    have "1 \<le> backoff n" using backoff_bounds(1) [of n] by simp
    then have "e_now env (hist w) + 1 \<le> e_now env ?h3"
      using clock_delay [OF assms, of "backoff n" ?h2] clock_mono [OF assms, of ?h1 "CResult url"]
        clock_mono [OF assms, of "hist w" CNow] by simp
    moreover have "e_now env (hist w) < deadline"
      using that clock_mono [OF assms, of "hist w" CNow] by simp
    ultimately show "nat (deadline - e_now env (hist (w\<lparr>hist := ?h3\<rparr>))) < nat (deadline - e_now env (hist w))"
      by simp
  qed
  show ?case
    unfolding ends_def
    by (subst poll_loop.simps)
      (use again in \<open>auto simp: ends_def bindA_def nowA_def ask_def askE_def delayA_def liftA_def
        ret_def throw_def Let_def split: sum.splits\<close>)
qed

lemma poll_ends [simp]: "clock_ok env \<Longrightarrow> ends (poll env cfg a tag ms) w"
  unfolding poll_def by (auto simp: wp_simps intro: poll_loop_ends)

section \<open>Properties\<close>

text \<open>
  Polling for an action's result always comes to an end under a clock that advances:
  it returns a result that is not "still running", or throws; either way it has changed neither
  the database nor the chain, and its requests only extend the history of calls.
\<close>
lemma poll_terminates:
  assumes "clock_ok env"
  shows "\<exists>r t. poll env cfg a tag ms w = Some (r, t) \<and> same_db w t \<and> no_write w t \<and> grows w t
    \<and> (case r of Inl e \<Rightarrow> True | Inr body \<Rightarrow> ar_status body \<noteq> 2)"
proof -
  obtain r t where run: "poll env cfg a tag ms w = Some (r, t)"
    using poll_ends [OF assms] by (rule endsE)
  moreover have "case r of Inl e \<Rightarrow> True | Inr body \<Rightarrow> ar_status body \<noteq> 2"
    using run poll_answered by (auto simp: answered_def split: sum.splits)
  ultimately show ?thesis
    using keepsD [OF poll_keeps(1) run] keepsD [OF poll_keeps(2) run] keepsD [OF poll_keeps(3) run]
    by blast
qed

lemma poll_terminates_witness:
  "\<exists>r t. poll (sample_env\<lparr>e_result := \<lambda>_. Inr \<lparr>reply_status = 404, reply_text = [],
     reply_json = Inl (JsError [])\<rparr>\<rparr>) sample_config ''0xa1'' TagSubmit 10 sample_world = Some (r, t)
     \<and> same_db sample_world t"
proof -
  have "clock_ok (sample_env\<lparr>e_result := \<lambda>_. Inr \<lparr>reply_status = 404, reply_text = [],
     reply_json = Inl (JsError [])\<rparr>\<rparr>)"
    by (simp add: clock_ok_def sample_env_def)
  from poll_terminates [OF this, of sample_config "''0xa1''" TagSubmit 10 sample_world]
  show ?thesis by blast
qed

end
