(* ===== verification/Chain.thy ===== *)
theory Chain
  imports World "HOL-Library.Multiset"
begin

text \<open>
  The chain client, \<^verbatim>\<open>relayer/src/chain.ts\<close>: executing a signed settlement so that a
  settlement already on chain is recognised instead of paid for twice, reading the anchor the
  vault holds and the machines registered for the extension, the market view, the risk tick, and
  turning the vault's logs into instructions in block order.
\<close>

section \<open>Settlement execution\<close>

definition settlementTransaction :: "env \<Rightarrow> hex \<Rightarrow> (world, hex option) act" where
  "settlementTransaction env settlementId =
     bindA (askE (e_used env) (CSettlementUsed settlementId)) (\<lambda>used.
       if \<not> used then ret None
       else bindA (askE (e_settlement_logs env) (CSettlementLogs settlementId)) (\<lambda>logs.
         case present (if logs = [] then None else last logs) of
           None \<Rightarrow> throw (JsError (''settlement '' @ settlementId @ '' is used but its event was not found''))
         | Some hash \<Rightarrow> ret (Some hash)))"

text \<open>The body of the \<open>try\<close> block.\<close>

definition attempt_settlement :: "env \<Rightarrow> anchor \<Rightarrow> (world, hex) act" where
  "attempt_settlement env anchor = (let s = a_settlement anchor in
     bindA (liftA (bigint_of_amount (s_amount s))) (\<lambda>amount.
     bindA (askE (e_write env) (CWriteSettlement s amount (s_previousSequence s)
              (s_nextSequence s) (s_deadline s) (a_signature anchor))) (\<lambda>hash.
     bindA (askE (e_receipt env) (CReceipt hash)) (\<lambda>status.
       if status \<noteq> ''success''
       then throw (JsError (''settlement transaction '' @ hash @ '' reverted''))
       else ret hash))))"

definition execute :: "env \<Rightarrow> anchor \<Rightarrow> (world, hex) act" where
  "execute env anchor =
     bindA (settlementTransaction env (s_settlementId (a_settlement anchor))) (\<lambda>existing.
       case present existing of
         Some hash \<Rightarrow> ret hash
       | None \<Rightarrow>
           tryA (attempt_settlement env anchor)
             (\<lambda>error.
                bindA (settlementTransaction env (s_settlementId (a_settlement anchor))) (\<lambda>recovered.
                  case present recovered of
                    Some hash \<Rightarrow> ret hash
                  | None \<Rightarrow> throw error)))"

section \<open>Reading the vault and the registry\<close>

definition blockNumber :: "env \<Rightarrow> (world, int) act" where
  "blockNumber env = askE (e_block env) CBlockNumber"

record anchor_state =
  as_sequence :: int
  as_root :: hex

definition anchorState :: "env \<Rightarrow> (world, anchor_state) act" where
  "anchorState env =
     bindA (bothA (askE (e_sequence env) CSequence) (askE (e_root env) CRoot))
       (\<lambda>(sequence, root). ret \<lparr>as_sequence = sequence, as_root = root\<rparr>)"

definition activeTeeSigner :: "env \<Rightarrow> (world, address) act" where
  "activeTeeSigner env = askE (e_signer env) CSigner"

record machine =
  m_teeId :: address
  m_status :: int

definition fccMachineState :: "env \<Rightarrow> config \<Rightarrow> (world, machine list) act" where
  "fccMachineState env cfg =
     bindA (askE (e_machines env) (CMachines (EXTENSION_ID cfg))) (\<lambda>active.
     bindA (mapA (\<lambda>teeId. askE (e_machine_status env) (CMachineStatus teeId)) active) (\<lambda>statuses.
       ret (List.map (\<lambda>(teeId, status). \<lparr>m_teeId = teeId, m_status = status\<rparr>) (zip active statuses))))"

record market_view =
  mv_xrpUsdE6 :: int
  mv_updatedAt :: int
  mv_vaultUsdt0Balance :: string

definition usdt0_address :: address where
  "usdt0_address = ''0xC1A5B41512496B80903D1f32d6dEa3a73212E71F''"

definition market :: "env \<Rightarrow> (world, market_view) act" where
  "market env =
     bindA (bothA (askE (e_price env) CPrice) (askE (e_balance env) (CBalance usdt0_address)))
       (\<lambda>(price, liquidity). ret \<lparr>mv_xrpUsdE6 = fst price, mv_updatedAt = snd price,
          mv_vaultUsdt0Balance = show_int liquidity\<rparr>)"

definition requestRiskTick :: "env \<Rightarrow> config \<Rightarrow> (world, hex) act" where
  "requestRiskTick env cfg =
     bindA (askE (e_write env) (CWriteRiskTick (FCC_INSTRUCTION_FEE_WEI cfg))) (\<lambda>hash.
     bindA (askE (e_receipt env) (CReceipt hash)) (\<lambda>status.
       if status \<noteq> ''success'' then throw (JsError (''risk tick transaction '' @ hash @ '' reverted''))
       else ret hash))"

section \<open>Logs as instructions\<close>

text \<open>
  A entry member behind \<open>!\<close> is trusted to be there; in a template text a missing one reads
  \<open>undefined\<close>.
\<close>

definition asserted :: "string option \<Rightarrow> string" where
  "asserted x = (case x of Some s \<Rightarrow> s | None \<Rightarrow> ''undefined'')"

definition decodeBytes32 :: "env \<Rightarrow> hex \<Rightarrow> string" where
  "decodeBytes32 env v = rev (dropWhile (\<lambda>c. c = CHR 0x00) (rev (p_bytes32_text env v)))"

definition deposit_instruction :: "deposit_log \<Rightarrow> chain_instruction" where
  "deposit_instruction entry = \<lparr>ci_externalKey = ''chain:'' @ asserted (dl_requestId entry),
     ci_account = asserted (dl_account entry), ci_requestId = asserted (dl_requestId entry),
     ci_command = ''DEPOSIT'', ci_blockNumber = dl_blockNumber entry\<rparr>"

definition request_instruction :: "env \<Rightarrow> request_log \<Rightarrow> chain_instruction" where
  "request_instruction env entry = \<lparr>ci_externalKey = ''chain:'' @ rl_requestId entry,
     ci_account = rl_account entry, ci_requestId = rl_requestId entry,
     ci_command = decodeBytes32 env (rl_command entry), ci_blockNumber = rl_blockNumber entry\<rparr>"

definition instructions_of :: "env \<Rightarrow> deposit_log list \<Rightarrow> request_log list \<Rightarrow> chain_instruction list" where
  "instructions_of env deposits requests =
     sort_key ci_blockNumber
       (List.map deposit_instruction deposits @ List.map (request_instruction env) requests)"

definition chain_events :: "env \<Rightarrow> int \<Rightarrow> int \<Rightarrow> (world, chain_instruction list) act" where
  "chain_events env fromBlock toBlock =
     bindA (bothA (askE (e_deposit_logs env) (CDepositLogs fromBlock toBlock))
              (askE (e_request_logs env) (CRequestLogs fromBlock toBlock)))
       (\<lambda>(deposits, requests). ret (instructions_of env deposits requests))"

definition deposit_match :: "hex \<Rightarrow> deposit_log list \<Rightarrow> deposit_record option" where
  "deposit_match requestId logs =
     (case List.find (\<lambda>entry. map_option lower (dl_requestId entry) = Some (lower requestId)) logs of
        None \<Rightarrow> None
      | Some entry \<Rightarrow>
          (case (present (dl_depositId entry), present (dl_account entry), present (dl_token entry), dl_amount entry) of
             (Some depositId, Some account, Some token, Some amount) \<Rightarrow>
               Some \<lparr>dr_depositId = depositId, dr_account = account, dr_token = token,
                 dr_amount = show_int amount\<rparr>
           | _ \<Rightarrow> None))"

definition depositForRequest :: "env \<Rightarrow> hex \<Rightarrow> int \<Rightarrow> (world, deposit_record) act" where
  "depositForRequest env requestId block =
     bindA (askE (e_deposit_logs env) (CDepositLogs block block)) (\<lambda>logs.
       case deposit_match requestId logs of
         None \<Rightarrow> throw (JsError (''deposit record for request '' @ requestId @ '' was not found on-chain''))
       | Some record \<Rightarrow> ret record)"

section \<open>Frames\<close>

lemma filter_sort_stable: "filter (\<lambda>c. f c = n) (sort_key f xs) = filter (\<lambda>c. f c = n) xs"
  by (rule sort_key_stable)

lemma settlementTransaction_keeps [intro!, simp]:
  "keeps same_db (settlementTransaction env i)" "keeps grows (settlementTransaction env i)"
  "keeps no_write (settlementTransaction env i)"
  unfolding settlementTransaction_def
  by (auto intro!: same_db_frame.keeps_intros grows_frame.keeps_intros no_write_frame.keeps_intros
      split: option.splits simp: is_write_def)

lemma execute_keeps [intro!, simp]:
  "keeps same_db (execute env a)" "keeps grows (execute env a)"
  unfolding execute_def attempt_settlement_def Let_def
  by (auto intro!: same_db_frame.keeps_intros grows_frame.keeps_intros split: option.splits)

lemma chain_reads_keep [intro!, simp]:
  "keeps same_db (blockNumber env)" "keeps grows (blockNumber env)" "keeps no_write (blockNumber env)"
  "keeps same_db (anchorState env)" "keeps grows (anchorState env)" "keeps no_write (anchorState env)"
  "keeps same_db (activeTeeSigner env)" "keeps grows (activeTeeSigner env)"
  "keeps no_write (activeTeeSigner env)"
  unfolding blockNumber_def anchorState_def activeTeeSigner_def
  by (auto intro!: same_db_frame.keeps_intros grows_frame.keeps_intros no_write_frame.keeps_intros
      simp: is_write_def split: prod.splits)

lemma fccMachineState_keeps [intro!, simp]:
  "keeps same_db (fccMachineState env cfg)" "keeps grows (fccMachineState env cfg)"
  "keeps no_write (fccMachineState env cfg)"
  unfolding fccMachineState_def
  by (auto intro!: same_db_frame.keeps_intros grows_frame.keeps_intros no_write_frame.keeps_intros
      simp: is_write_def)

lemma chain_logs_keep [intro!, simp]:
  "keeps same_db (chain_events env f b)" "keeps grows (chain_events env f b)"
  "keeps no_write (chain_events env f b)" "keeps same_db (depositForRequest env q n)"
  "keeps grows (depositForRequest env q n)" "keeps no_write (depositForRequest env q n)"
  unfolding chain_events_def depositForRequest_def
  by (auto intro!: same_db_frame.keeps_intros grows_frame.keeps_intros no_write_frame.keeps_intros
      simp: is_write_def split: prod.splits option.splits)

lemma requestRiskTick_keeps [intro!, simp]:
  "keeps same_db (requestRiskTick env cfg)" "keeps grows (requestRiskTick env cfg)"
  unfolding requestRiskTick_def
  by (auto intro!: same_db_frame.keeps_intros grows_frame.keeps_intros)

lemma settlementTransaction_total [intro!, simp]: "total (settlementTransaction env i)"
  unfolding settlementTransaction_def by (auto intro!: total_intros split: option.split)

lemma attempt_settlement_total [intro!, simp]: "total (attempt_settlement env a)"
  unfolding attempt_settlement_def Let_def by (auto intro!: total_intros)

lemma chain_total [intro!, simp]:
  "total (execute env a)" "total (blockNumber env)" "total (anchorState env)"
  "total (activeTeeSigner env)" "total (chain_events env f b)" "total (depositForRequest env q n)"
  "total (requestRiskTick env cfg)" "total (fccMachineState env cfg)" "total (market env)"
  unfolding execute_def blockNumber_def anchorState_def activeTeeSigner_def chain_events_def
    depositForRequest_def requestRiskTick_def fccMachineState_def market_def Let_def
  by (auto intro!: total_intros split: option.split prod.split)

section \<open>What an execution can have done\<close>

text \<open>The vault reported, at some point of the call, that the settlement was executed in \<open>hash\<close>.\<close>

definition seen_settled :: "env \<Rightarrow> hex \<Rightarrow> hex \<Rightarrow> bool" where
  "seen_settled env i hash = (\<exists>h logs. e_used env (CSettlementUsed i # h) = Inr True
     \<and> e_settlement_logs env (CSettlementLogs i # CSettlementUsed i # h) = Inr logs
     \<and> logs \<noteq> [] \<and> last logs = Some hash)"

text \<open>The write that an execution of an anchor sends.\<close>

definition settlement_write :: "anchor \<Rightarrow> int \<Rightarrow> call" where
  "settlement_write a amount = (let s = a_settlement a in
     CWriteSettlement s amount (s_previousSequence s) (s_nextSequence s) (s_deadline s) (a_signature a))"

lemma settlementTransaction_none:
  "settlementTransaction env i w = Some (Inr None, t) \<Longrightarrow>
   e_used env (CSettlementUsed i # hist w) = Inr False \<and> t = w\<lparr>hist := CSettlementUsed i # hist w\<rparr>"
  by (auto simp: settlementTransaction_def bindA_def askE_def ask_def liftA_def ret_def throw_def Let_def
      split: sum.splits if_splits option.splits)

lemma settlementTransaction_some:
  "settlementTransaction env i w = Some (Inr (Some hash), t) \<Longrightarrow> seen_settled env i hash \<and> hash \<noteq> []"
  by (auto simp: settlementTransaction_def bindA_def askE_def ask_def liftA_def ret_def throw_def Let_def
      seen_settled_def split: sum.splits if_splits option.splits)

lemma settlementTransaction_writes:
  "settlementTransaction env i w = Some (r, t) \<Longrightarrow> chain_writes t = chain_writes w"
  using keepsD [OF settlementTransaction_keeps(3)] unfolding no_write_def by blast

lemma attempt_settlement_runs:
  assumes "attempt_settlement env a w = Some (r, t)"
  shows "(\<exists>amount. bigint_of_amount (s_amount (a_settlement a)) = Inr amount
        \<and> chain_writes t = settlement_write a amount # chain_writes w
        \<and> (\<forall>hash. r = Inr hash \<longrightarrow> e_write env (settlement_write a amount # hist w) = Inr hash
            \<and> e_receipt env (CReceipt hash # settlement_write a amount # hist w) = Inr ''success''))
     \<or> (chain_writes t = chain_writes w \<and> (\<exists>e. r = Inl e))"
  using assms
  by (auto simp: attempt_settlement_def settlement_write_def bindA_def askE_def ask_def liftA_def
      ret_def throw_def Let_def chain_writes_def is_write_def split: sum.splits if_splits)

lemma execute_runs:
  assumes run: "execute env a w = Some (r, t)"
  defines "i \<equiv> s_settlementId (a_settlement a)"
  shows "(chain_writes t = chain_writes w \<and> (\<forall>hash. r = Inr hash \<longrightarrow> seen_settled env i hash))
     \<or> (\<exists>amount. bigint_of_amount (s_amount (a_settlement a)) = Inr amount
         \<and> e_used env (CSettlementUsed i # hist w) = Inr False
         \<and> chain_writes t = settlement_write a amount # chain_writes w
         \<and> (\<forall>hash. r = Inr hash \<longrightarrow> seen_settled env i hash
              \<or> (\<exists>h. e_write env (settlement_write a amount # h) = Inr hash
                  \<and> e_receipt env (CReceipt hash # settlement_write a amount # h) = Inr ''success'')))"
proof -
  obtain q u where first: "settlementTransaction env i w = Some (q, u)"
    using total_ends [OF settlementTransaction_total] by (rule endsE)
  note wu = settlementTransaction_writes [OF first]
  have exe: "execute env a w = (case q of Inl e \<Rightarrow> Some (Inl e, u) | Inr x \<Rightarrow>
      (case present x of Some hash \<Rightarrow> ret hash | None \<Rightarrow>
        tryA (attempt_settlement env a) (\<lambda>e. bindA (settlementTransaction env i) (\<lambda>x.
          case present x of Some hash \<Rightarrow> ret hash | None \<Rightarrow> throw e))) u)"
    unfolding execute_def i_def [symmetric] bindA_def [of "settlementTransaction env i"] first
    by simp
  show ?thesis
  proof (cases q)
    case (Inl e)
    then show ?thesis using run exe wu by auto
  next
    case (Inr x)
    show ?thesis
    proof (cases x)
      case (Some hash)
      then have "present x = Some hash" "seen_settled env i hash"
        using settlementTransaction_some first Inr by auto
      then show ?thesis using run exe wu Inr by (auto simp: ret_def present_def)
    next
      case None
      have used: "e_used env (CSettlementUsed i # hist w) = Inr False"
        using settlementTransaction_none first Inr None by blast
      obtain r1 v where att: "attempt_settlement env a u = Some (r1, v)"
        using total_ends [OF attempt_settlement_total] by (rule endsE)
      note body = attempt_settlement_runs [OF att]
      show ?thesis
      proof (cases r1)
        case (Inr hash)
        then show ?thesis using run exe None \<open>q = Inr x\<close> att body used wu by (auto simp: tryA_def)
      next
        case (Inl e)
        obtain q2 v2 where again: "settlementTransaction env i v = Some (q2, v2)"
          using total_ends [OF settlementTransaction_total] by (rule endsE)
        have "r = (case q2 of Inl e2 \<Rightarrow> Inl e2 | Inr y \<Rightarrow> (case present y of Some h \<Rightarrow> Inr h | None \<Rightarrow> Inl e))"
          and "t = v2"
          using run exe None \<open>q = Inr x\<close> att Inl again
          by (auto simp: tryA_def bindA_def ret_def throw_def split: sum.splits option.splits)
        moreover have "seen_settled env i hash" if "q2 = Inr y" "present y = Some hash" for y hash
          using settlementTransaction_some again that by auto
        ultimately have "\<forall>hash. r = Inr hash \<longrightarrow> seen_settled env i hash"
          by (auto split: sum.splits option.splits)
        then show ?thesis
          using body used wu settlementTransaction_writes [OF again] \<open>t = v2\<close> by auto
      qed
    qed
  qed
qed

lemma execute_writes:
  assumes "execute env a w = Some (r, t)"
  obtains (none) "chain_writes t = chain_writes w"
  | (one) amount where "chain_writes t = settlement_write a amount # chain_writes w"
      "e_used env (CSettlementUsed (s_settlementId (a_settlement a)) # hist w) = Inr False"
  using execute_runs [OF assms] by blast

section \<open>Properties\<close>

text \<open>
  C5. Executing a signed settlement pays at most once: a call sends no transaction, or exactly
  one, for this settlement and only after the vault answered that its identifier is unused; and a
  transaction hash is returned only for a transaction whose receipt says success or which the
  vault's own event names.
\<close>
theorem execute_pays_once:
  assumes "execute env a w = Some (r, t)"
  shows "(chain_writes t = chain_writes w
     \<or> (\<exists>amount. chain_writes t = settlement_write a amount # chain_writes w
         \<and> bigint_of_amount (s_amount (a_settlement a)) = Inr amount
         \<and> e_used env (CSettlementUsed (s_settlementId (a_settlement a)) # hist w) = Inr False))
    \<and> (\<forall>hash. r = Inr hash \<longrightarrow> seen_settled env (s_settlementId (a_settlement a)) hash
     \<or> (\<exists>h amount. e_write env (settlement_write a amount # h) = Inr hash
         \<and> e_receipt env (CReceipt hash # settlement_write a amount # h) = Inr ''success''))"
  using execute_runs [OF assms] by blast

definition sample_settlement :: settlement where
  "sample_settlement = \<lparr>s_protocolVersion = 2, s_settlementType = 2, s_account = ''0x1'',
     s_token = ''0x0'', s_amount = AmountText ''0'', s_destination = ''0x0'', s_requestId = ''0xa'',
     s_settlementId = ''0xd'', s_previousSequence = 0, s_nextSequence = 1, s_previousRoot = ''0x00'',
     s_nextRoot = ''0xee'', s_deadline = 2000000000\<rparr>"

definition sample_anchor :: anchor where
  "sample_anchor = \<lparr>a_settlement = sample_settlement, a_signature = Some ''0xff''\<rparr>"

theorem execute_pays_once_witness:
  "\<exists>t. execute sample_env sample_anchor sample_world = Some (Inr ''0xc0'', t)
     \<and> (chain_writes t = chain_writes sample_world
         \<or> (\<exists>amount. chain_writes t = settlement_write sample_anchor amount # chain_writes sample_world))"
proof -
  have zero: "string_to_bigint ''0'' = Some 0" by code_simp
  have "\<exists>t. execute sample_env sample_anchor sample_world = Some (Inr ''0xc0'', t)"
    by (simp add: execute_def attempt_settlement_def settlementTransaction_def sample_env_def sample_anchor_def
        sample_settlement_def act_defs askE_def ask_def Let_def zero)
  then obtain t where run: "execute sample_env sample_anchor sample_world = Some (Inr ''0xc0'', t)" ..
  from execute_pays_once [OF run] run show ?thesis by blast
qed

text \<open>
  The instructions read from a block range are those of its logs, each once: a permutation of
  the deposit and request instructions, in ascending block order, and with deposits before
  requests within a block.
\<close>
lemma chain_events_ordered:
  "mset (instructions_of env deposits requests) =
     mset (List.map deposit_instruction deposits) + mset (List.map (request_instruction env) requests)
   \<and> sorted (List.map ci_blockNumber (instructions_of env deposits requests))
   \<and> filter (\<lambda>c. ci_blockNumber c = n) (instructions_of env deposits requests) =
     List.map deposit_instruction (filter (\<lambda>l. dl_blockNumber l = n) deposits)
     @ List.map (request_instruction env) (filter (\<lambda>l. rl_blockNumber l = n) requests)"
proof (intro conjI)
  show "mset (instructions_of env deposits requests) =
     mset (List.map deposit_instruction deposits) + mset (List.map (request_instruction env) requests)"
    by (simp add: instructions_of_def)
  show "sorted (List.map ci_blockNumber (instructions_of env deposits requests))"
    by (simp add: instructions_of_def)
  have "(\<lambda>c. ci_blockNumber c = n) \<circ> deposit_instruction = (\<lambda>l. dl_blockNumber l = n)"
    "(\<lambda>c. ci_blockNumber c = n) \<circ> request_instruction env = (\<lambda>l. rl_blockNumber l = n)"
    by (auto simp: deposit_instruction_def request_instruction_def)
  then show "filter (\<lambda>c. ci_blockNumber c = n) (instructions_of env deposits requests) =
     List.map deposit_instruction (filter (\<lambda>l. dl_blockNumber l = n) deposits)
     @ List.map (request_instruction env) (filter (\<lambda>l. rl_blockNumber l = n) requests)"
    by (simp add: instructions_of_def filter_sort_stable filter_map)
qed

end
