(* ===== verification/Orchestrator.thy ===== *)
theory Orchestrator
  imports Fcc Chain
begin

text \<open>
  The orchestrator, \<^verbatim>\<open>relayer/src/orchestrator.ts\<close>: what a job goes through, from its
  submission to the extension to the settlement on chain and its confirmation, the recovery when
  the extension still waits for an earlier anchor, and the loop that works off the queue.
\<close>

section \<open>Reading payloads, responses and errors\<close>

definition parsePayload :: "payload \<Rightarrow> js_error + payload" where
  "parsePayload v = (case v of
      OpaquePayload _ \<Rightarrow> Inl (JsError ''job payload is invalid'')
    | _ \<Rightarrow> Inr v)"

definition findAnchor :: "fcc_response option \<Rightarrow> anchor option" where
  "findAnchor v = (case v of
      Some (RespObject f) \<Rightarrow>
        (case (rf_settlement f, rf_signature f) of
           (Some s, Some g) \<Rightarrow> Some \<lparr>a_settlement = s, a_signature = Some g\<rparr>
         | _ \<Rightarrow> rf_anchor f)
    | _ \<Rightarrow> None)"

definition isPendingAnchorError :: "js_error \<Rightarrow> bool" where
  "isPendingAnchorError e =
     text_includes (error_message e) ''previous confidential mutation is awaiting on-chain anchor''"

definition sameHex :: "string \<Rightarrow> string \<Rightarrow> bool" where
  "sameHex l r = (lower l = lower r)"

text \<open>\<open>throw new Error(result.log || fallback)\<close>\<close>

definition log_or :: "action_result \<Rightarrow> string \<Rightarrow> js_error" where
  "log_or result fallback = JsError (if ar_log result = [] then fallback @ show_int (ar_status result)
     else ar_log result)"

text \<open>\<open>data ? decode(data) : undefined\<close>\<close>

definition decode_optional :: "env \<Rightarrow> action_result \<Rightarrow> (world, fcc_response option) act" where
  "decode_optional env result = (case present (ar_data result) of
      None \<Rightarrow> ret None
    | Some _ \<Rightarrow> bindA (liftA (decode env (ar_data result))) (\<lambda>r. ret (Some r)))"

section \<open>Updating and announcing a job\<close>

definition update :: "env \<Rightarrow> string \<Rightarrow> patch_field list \<Rightarrow> (world, job) act" where
  "update env i patch =
     bindA (dbUpdateJob env i patch) (\<lambda>job. thenA (emitJob job) (ret job))"

section \<open>Settlement and confirmation\<close>

definition default_timeout :: int where
  "default_timeout = 300000"

definition confirmAnchor :: "env \<Rightarrow> config \<Rightarrow> anchor \<Rightarrow> (world, unit) act" where
  "confirmAnchor env cfg anchor =
     bindA (submitJson env cfg ''ANCHOR_CONFIRMED''
              (AnchorMessage (s_nextSequence (a_settlement anchor)) (s_nextRoot (a_settlement anchor))))
       (\<lambda>confirmationId.
     bindA (poll env cfg confirmationId TagSubmit default_timeout) (\<lambda>confirmation.
       if ar_status confirmation \<noteq> 1
       then throw (log_or confirmation ''anchor confirmation returned status '')
       else ret ()))"

definition settleAnchor :: "env \<Rightarrow> config \<Rightarrow> anchor \<Rightarrow> hex option \<Rightarrow> (world, hex) act" where
  "settleAnchor env cfg anchor existingTxHash =
     bindA (case existingTxHash of Some h \<Rightarrow> ret h | None \<Rightarrow> execute env anchor) (\<lambda>txHash.
       thenA (confirmAnchor env cfg anchor) (ret txHash))"

section \<open>Recovery\<close>

definition chain_at :: "anchor_state \<Rightarrow> int \<Rightarrow> hex \<Rightarrow> bool" where
  "chain_at state seq r = (as_sequence state = seq \<and> sameHex (as_root state) r)"

text \<open>
  The decoded recovery response is cast to \<open>Anchor\<close>; reading a member of its missing
  settlement throws, after the vault's state was read.
\<close>

definition settlement_of :: "fcc_response \<Rightarrow> js_error + anchor" where
  "settlement_of v = (case v of
      RespScalar t \<Rightarrow> Inl (JsError (if t = ''null''
         then ''Cannot read properties of null (reading 'settlement')''
         else ''Cannot read properties of undefined (reading 'previousSequence')''))
    | RespObject f \<Rightarrow> (case rf_settlement f of
        None \<Rightarrow> Inl (JsError ''Cannot read properties of undefined (reading 'previousSequence')'')
      | Some s \<Rightarrow> Inr \<lparr>a_settlement = s, a_signature = rf_signature f\<rparr>))"

definition settle_recovered :: "env \<Rightarrow> config \<Rightarrow> anchor_state \<Rightarrow> fcc_response \<Rightarrow> (world, unit) act" where
  "settle_recovered env cfg state response =
     bindA (liftA (settlement_of response)) (\<lambda>anchor.
       let s = a_settlement anchor;
           chainAtPrevious = chain_at state (s_previousSequence s) (s_previousRoot s);
           chainAtNext = chain_at state (s_nextSequence s) (s_nextRoot s)
       in if \<not> chainAtPrevious \<and> \<not> chainAtNext
          then throw (JsError ''vault anchor diverges from the recoverable FCC checkpoint'')
          else thenA (if chainAtPrevious then bindA (execute env anchor) (\<lambda>_. ret ()) else ret ())
                 (confirmAnchor env cfg anchor))"

definition recoverPendingAnchor :: "env \<Rightarrow> config \<Rightarrow> (world, unit) act" where
  "recoverPendingAnchor env cfg =
     bindA (submitJson env cfg ''RECOVER_ANCHOR'' EmptyMessage) (\<lambda>recoveryId.
     bindA (poll env cfg recoveryId TagSubmit default_timeout) (\<lambda>recovery.
       if ar_status recovery \<noteq> 1
       then throw (log_or recovery ''anchor recovery returned status '')
       else
         bindA (liftA (decode env (ar_data recovery))) (\<lambda>response.
         bindA (anchorState env) (\<lambda>state.
         settle_recovered env cfg state response))))"

definition recoverPendingAnchorAllowingAlreadyCleared :: "env \<Rightarrow> config \<Rightarrow> (world, unit) act" where
  "recoverPendingAnchorAllowingAlreadyCleared env cfg =
     tryA (recoverPendingAnchor env cfg) (\<lambda>error.
       if \<not> text_includes (error_message error) ''no confidential anchor is pending''
       then throw error else ret ())"

record deposit_recovery =
  rec_response :: "fcc_response option"
  rec_txHash :: "hex option"

definition recoverDeposit :: "env \<Rightarrow> config \<Rightarrow> hex \<Rightarrow> string \<Rightarrow> (world, deposit_recovery) act" where
  "recoverDeposit env cfg requestId block =
     bindA (liftA (bigint_of_amount (AmountText block))) (\<lambda>n.
     bindA (depositForRequest env requestId n) (\<lambda>deposit.
     bindA (submitJson env cfg ''RECOVER_DEPOSIT'' (DepositMessage deposit)) (\<lambda>recoveryId.
     bindA (poll env cfg recoveryId TagSubmit default_timeout) (\<lambda>recovery.
       if ar_status recovery \<noteq> 1
       then throw (log_or recovery ''deposit recovery returned status '')
       else
         bindA (decode_optional env recovery) (\<lambda>response.
           case findAnchor response of
             None \<Rightarrow> ret \<lparr>rec_response = response, rec_txHash = None\<rparr>
           | Some anchor \<Rightarrow>
               bindA (settleAnchor env cfg anchor None) (\<lambda>txHash.
                 ret \<lparr>rec_response = response, rec_txHash = Some txHash\<rparr>))))))"

section \<open>Processing one job\<close>

text \<open>
  The \<open>try\<close> block of \<open>process\<close>, in two parts: up to \<open>parsePayload\<close>, and from there on, where the
  handler knows the payload.
\<close>

definition begin_job :: "env \<Rightarrow> job \<Rightarrow> (world, job \<times> payload) act" where
  "begin_job env initial =
     bindA (update env (jobId initial) [SetAttempts (attempts initial + 1), SetError None]) (\<lambda>job.
     bindA (liftA (parsePayload (jobPayload job))) (\<lambda>load. ret (job, load)))"

definition ensure_submitted :: "env \<Rightarrow> config \<Rightarrow> job \<Rightarrow> payload \<Rightarrow> (world, job) act" where
  "ensure_submitted env cfg job load =
     (if present (actionId job) \<noteq> None then ret job
      else (case load of
          DirectPayload command ciphertext \<Rightarrow>
            bindA (submitCiphertext env cfg command ciphertext) (\<lambda>actionId.
              update env (jobId job) [SetActionId (Some actionId), SetStatus Submitted])
        | ChainPayload command requestId block \<Rightarrow>
            update env (jobId job) [SetActionId (Some requestId), SetStatus Submitted]
        | OpaquePayload _ \<Rightarrow> ret job))"

text \<open>\<open>job.actionId as Hex\<close> in the URL of the poll; it is set here, as the branches above set it.\<close>

definition tag_of :: "payload \<Rightarrow> submission_tag" where
  "tag_of load = (case load of DirectPayload _ _ \<Rightarrow> TagSubmit | _ \<Rightarrow> TagThreshold)"

definition work_job :: "env \<Rightarrow> config \<Rightarrow> job \<Rightarrow> payload \<Rightarrow> (world, unit) act" where
  "work_job env cfg job0 load =
     bindA (ensure_submitted env cfg job0 load) (\<lambda>job1.
     bindA (update env (jobId job1) [SetStatus Processing]) (\<lambda>job2.
     bindA (poll env cfg (asserted (actionId job2)) (tag_of load) default_timeout) (\<lambda>action.
       if ar_status action \<noteq> 1
       then throw (log_or action ''FCC action returned status '')
       else
         bindA (decode_optional env action) (\<lambda>response.
         bindA (update env (jobId job2) [SetResponse response]) (\<lambda>job3.
           case findAnchor response of
             None \<Rightarrow> thenA (update env (jobId job3) [SetStatus Confirmed]) (ret ())
           | Some anchor \<Rightarrow>
               bindA (update env (jobId job3) [SetStatus Settling]) (\<lambda>job4.
               bindA (settleAnchor env cfg anchor (txHash job4)) (\<lambda>txHash.
               bindA (update env (jobId job4) [SetTxHash (Some txHash), SetStatus Confirming]) (\<lambda>job5.
                 thenA (update env (jobId job5) [SetStatus Confirmed]) (ret ())))))))))"

definition fail_job :: "env \<Rightarrow> string \<Rightarrow> string \<Rightarrow> (world, unit) act" where
  "fail_job env i message =
     thenA (update env i [SetStatus Failed, SetError (Some message)]) (ret ())"

definition recover_job :: "env \<Rightarrow> config \<Rightarrow> string \<Rightarrow> payload \<Rightarrow> (world, unit) act" where
  "recover_job env cfg i load =
     thenA (recoverPendingAnchorAllowingAlreadyCleared env cfg)
       (let retry_later =
              fail_job env i ''A prior confidential checkpoint was recovered. Retry this request.''
        in case load of
          ChainPayload command requestId block \<Rightarrow>
            if command = ''DEPOSIT'' then
              bindA (recoverDeposit env cfg requestId block) (\<lambda>recovery.
                thenA
                  (update env i ([SetStatus Confirmed, SetResponse (rec_response recovery)]
                     @ (case present (rec_txHash recovery) of
                          Some h \<Rightarrow> [SetTxHash (Some h)] | None \<Rightarrow> [])))
                  (ret ()))
            else retry_later
        | _ \<Rightarrow> retry_later)"

definition handle_error :: "env \<Rightarrow> config \<Rightarrow> string \<Rightarrow> payload option \<Rightarrow> js_error \<Rightarrow> (world, unit) act" where
  "handle_error env cfg i load error =
     (case load of
        Some p \<Rightarrow>
          if isPendingAnchorError error then
            tryA (recover_job env cfg i p) (\<lambda>recoveryError.
              fail_job env i (error_message error @ ''; anchor recovery failed: ''
                @ error_message recoveryError))
          else fail_job env i (error_message error)
      | None \<Rightarrow> fail_job env i (error_message error))"

definition process :: "env \<Rightarrow> config \<Rightarrow> job \<Rightarrow> (world, unit) act" where
  "process env cfg initial =
     bindA (outcomeA (begin_job env initial)) (\<lambda>start.
       case start of
         Inl error \<Rightarrow> handle_error env cfg (jobId initial) None error
       | Inr (job, load) \<Rightarrow>
           tryA (work_job env cfg job load)
             (handle_error env cfg (jobId initial) (Some load)))"

section \<open>Frames\<close>

text \<open>
  \<open>core\<close> is what the work on a job after its start never changes: its identity, the number of
  its attempts and its error; \<open>own_job i\<close> says that nothing but the other columns of job \<open>i\<close>
  changed in the database, that its invariant was kept and that calls were only added.
\<close>

definition core :: "job \<Rightarrow> (string \<times> string option \<times> string \<times> address \<times> payload \<times> int) \<times> int \<times> string option" where
  "core j = (identity_of j, attempts j, jobError j)"

definition others_same :: "string \<Rightarrow> world \<Rightarrow> world \<Rightarrow> bool" where
  "others_same i w t = ((\<forall>k. k \<noteq> i \<longrightarrow> getJob (db t) k = getJob (db w) k)
     \<and> map_option identity_of (getJob (db t) i) = map_option identity_of (getJob (db w) i)
     \<and> challenges (db t) = challenges (db w) \<and> cursors (db t) = cursors (db w)
     \<and> running t = running w \<and> wakeRequested t = wakeRequested w
     \<and> suffix (hist w) (hist t) \<and> (store_ok (db w) \<longrightarrow> store_ok (db t)))"

definition own_job :: "string \<Rightarrow> world \<Rightarrow> world \<Rightarrow> bool" where
  "own_job i w t = (others_same i w t
     \<and> map_option core (getJob (db t) i) = map_option core (getJob (db w) i))"

interpretation others_frame: frame "others_same i" for i
  by unfold_locales (auto simp: others_same_def intro: suffix_order.trans)

interpretation own_job_frame: frame "own_job i" for i
  by unfold_locales (auto simp: own_job_def intro: others_frame.refl others_frame.trans)

lemma keeps_own_job: "keeps same_db m \<Longrightarrow> keeps grows m \<Longrightarrow> keeps (own_job i) m"
  by (auto simp: keeps_def own_job_def others_same_def same_db_def grows_def)

lemma own_job_others: "keeps (own_job i) m \<Longrightarrow> keeps (others_same i) m"
  by (auto simp: keeps_def own_job_def)

definition is_core_patch :: "patch_field \<Rightarrow> bool" where
  "is_core_patch f = (case f of SetAttempts _ \<Rightarrow> True | SetError _ \<Rightarrow> True | _ \<Rightarrow> False)"

lemma core_patched: "list_all (\<lambda>f. \<not> is_core_patch f) fs \<Longrightarrow> core (patched now fs j) = core j"
proof -
  assume "list_all (\<lambda>f. \<not> is_core_patch f) fs"
  then have "core (fold apply_field fs j) = core j"
  proof (induction fs arbitrary: j)
    case (Cons f fs)
    have "core (apply_field f j) = core j"
      using Cons.prems by (cases f) (auto simp: is_core_patch_def core_def identity_of_def)
    then show ?case using Cons by simp
  qed simp
  then show ?thesis by (simp add: patched_def core_def)
qed

lemma core_stored: "core (stored j) = (identity_of j, attempts j, present (jobError j))"
  unfolding core_def identity_stored by (simp add: stored_def)

text \<open>One update of a stored job, in full.\<close>

lemma update_run:
  assumes "getJob (db w) i = Some j"
    and "n = patched (e_now env (CNow # hist w)) fs j"
  shows "update env i fs w = Some (Inr n, w\<lparr>db := write_job n (db w), hist := CNow # hist w,
     emitted := n # emitted w\<rparr>)"
  using updateJob_Some [OF assms(1)] assms(2)
  by (simp add: update_def dbUpdateJob_def nowA_def ask_def liftDb_def emitJob_def act_defs Let_def)

lemma update_missing:
  assumes "getJob (db w) i = None"
  shows "update env i fs w = Some (Inl (JsError ''job not found''), w\<lparr>hist := CNow # hist w\<rparr>)"
  using updateJob_None [OF assms]
  by (simp add: update_def dbUpdateJob_def nowA_def ask_def liftDb_def emitJob_def act_defs Let_def)

lemma write_job_others:
  assumes "getJob (db w) i = Some j" "identity_of n = identity_of j"
  shows "others_same i w (w\<lparr>db := write_job n (db w), hist := c # hist w, emitted := q\<rparr>)"
proof -
  have "jobId n = i" using getJob_id [OF assms(1)] identity_id [OF assms(2)] by simp
  then show ?thesis
    using getJob_write_same [OF assms] assms getJob_write_other [of _ n "db w"] store_ok_write
    by (auto simp: others_same_def intro: suffix_ConsI)
qed

lemma update_others [intro!, simp]: "keeps (others_same i) (update env i fs)"
proof (rule keepsI)
  fix w r t assume run: "update env i fs w = Some (r, t)"
  show "others_same i w t"
  proof (cases "getJob (db w) i")
    case None
    then show ?thesis using run update_missing [OF None, of env fs]
      by (auto simp: others_same_def intro: suffix_ConsI)
  next
    case (Some j)
    then show ?thesis using run update_run [OF Some refl, of env fs] write_job_others [OF Some]
      by auto
  qed
qed

lemma update_own_job [intro!]:
  assumes "list_all (\<lambda>f. \<not> is_core_patch f) fs"
  shows "keeps (own_job i) (update env i fs)"
proof (rule keepsI)
  fix w r t assume run: "update env i fs w = Some (r, t)"
  show "own_job i w t"
  proof (cases "getJob (db w) i")
    case None
    then show ?thesis using run update_missing [OF None, of env fs]
      by (auto simp: own_job_def others_same_def intro: suffix_ConsI)
  next
    case (Some j)
    define n where "n = patched (e_now env (CNow # hist w)) fs j"
    have "identity_of n = identity_of j" by (simp add: n_def)
    from getJob_write_same [OF Some this]
    have got: "getJob (write_job n (db w)) i = Some (stored n)" .
    have "core (stored n) = core j"
      using core_patched [OF assms, of "e_now env (CNow # hist w)" j] getJob_present(3) [OF Some]
      by (simp add: core_stored n_def) (simp add: core_def)
    then show ?thesis
      using run update_run [OF Some refl, of env fs] write_job_others [OF Some] got Some
      by (auto simp: own_job_def n_def)
  qed
qed

lemma update_no_write [intro!, simp]: "keeps no_write (update env i fs)" "keeps grows (update env i fs)"
  unfolding update_def dbUpdateJob_def
  by (auto intro!: no_write_frame.keeps_intros grows_frame.keeps_intros)

lemma update_total [intro!, simp]: "total (update env i fs)"
  unfolding total_def
proof
  fix w show "ends (update env i fs) w"
    by (cases "getJob (db w) i") (auto simp: ends_def update_run [OF _ refl] update_missing)
qed

lemma update_id: "leaves (\<lambda>j _. jobId j = i) (update env i fs)"
proof -
  have "jobId x = i" if run: "update env i fs w = Some (Inr x, t)" for w x t
  proof (cases "getJob (db w) i")
    case None
    then show ?thesis using run update_missing [OF None, of env fs] by simp
  next
    case (Some j)
    have "jobId (patched n fs j) = i" for n
      using getJob_id [OF Some] identity_id [OF identity_patched] by metis
    then show ?thesis using run update_run [OF Some refl, of env fs] by auto
  qed
  then show ?thesis by (auto simp: leaves_def)
qed

text \<open>The parts that write nothing to the database.\<close>

lemma decode_optional_keeps [intro!, simp]:
  "keeps same_db (decode_optional env x)" "keeps grows (decode_optional env x)"
  "keeps no_write (decode_optional env x)"
  unfolding decode_optional_def
  by (auto intro!: same_db_frame.keeps_intros grows_frame.keeps_intros no_write_frame.keeps_intros
      split: option.splits)

lemma confirmAnchor_keeps [intro!, simp]:
  "keeps same_db (confirmAnchor env cfg a)" "keeps grows (confirmAnchor env cfg a)"
  "keeps no_write (confirmAnchor env cfg a)"
  unfolding confirmAnchor_def
  by (auto intro!: same_db_frame.keeps_intros grows_frame.keeps_intros no_write_frame.keeps_intros)

lemma settleAnchor_keeps [intro!, simp]:
  "keeps same_db (settleAnchor env cfg a h)" "keeps grows (settleAnchor env cfg a h)"
  unfolding settleAnchor_def
  by (auto intro!: same_db_frame.keeps_intros grows_frame.keeps_intros split: option.splits)

lemma recoverPendingAnchor_keeps [intro!, simp]:
  "keeps same_db (recoverPendingAnchor env cfg)" "keeps grows (recoverPendingAnchor env cfg)"
  unfolding recoverPendingAnchor_def settle_recovered_def Let_def
  by (auto intro!: same_db_frame.keeps_intros grows_frame.keeps_intros)

lemma recoverAllowing_keeps [intro!, simp]:
  "keeps same_db (recoverPendingAnchorAllowingAlreadyCleared env cfg)"
  "keeps grows (recoverPendingAnchorAllowingAlreadyCleared env cfg)"
  unfolding recoverPendingAnchorAllowingAlreadyCleared_def
  by (auto intro!: same_db_frame.keeps_intros grows_frame.keeps_intros)

lemma recoverDeposit_keeps [intro!, simp]:
  "keeps same_db (recoverDeposit env cfg q b)" "keeps grows (recoverDeposit env cfg q b)"
  unfolding recoverDeposit_def
  by (auto intro!: same_db_frame.keeps_intros grows_frame.keeps_intros split: option.splits)

section \<open>Coming to an end\<close>

lemma fcc_total [intro!, simp]:
  "total (submitRaw env cfg c m)" "total (submitCiphertext env cfg c x)" "total (submitJson env cfg c m)"
  unfolding submitCiphertext_def submitJson_def submitRaw_def
  by (auto intro!: total_intros split: option.split)

lemma poll_total [intro]: "clock_ok env \<Longrightarrow> total (poll env cfg a tag ms)"
  by (simp add: total_def)

lemma decode_optional_total [intro!, simp]: "total (decode_optional env x)"
  unfolding decode_optional_def by (auto intro!: total_intros split: option.split)

lemma orchestrator_total:
  assumes "clock_ok env"
  shows "total (confirmAnchor env cfg a)" and "total (settleAnchor env cfg a h)"
    and "total (recoverPendingAnchor env cfg)"
    and "total (recoverPendingAnchorAllowingAlreadyCleared env cfg)"
    and "total (recoverDeposit env cfg q b)"
proof -
  note polls = poll_total [OF assms]
  show confirm: "total (confirmAnchor env cfg a)" for a
    unfolding confirmAnchor_def by (auto intro!: total_intros polls)
  show settle: "total (settleAnchor env cfg a h)" for a h
    unfolding settleAnchor_def by (auto intro!: total_intros confirm split: option.split)
  show pending: "total (recoverPendingAnchor env cfg)"
    unfolding recoverPendingAnchor_def settle_recovered_def Let_def by (auto intro!: total_intros polls confirm)
  show "total (recoverPendingAnchorAllowingAlreadyCleared env cfg)"
    unfolding recoverPendingAnchorAllowingAlreadyCleared_def by (auto intro!: total_intros pending)
  show "total (recoverDeposit env cfg q b)"
    unfolding recoverDeposit_def by (auto intro!: total_intros polls settle split: option.split)
qed

lemma fail_job_total [intro!, simp]: "total (fail_job env i m)"
  unfolding fail_job_def by (auto intro!: total_intros)

lemma begin_job_total [intro!, simp]: "total (begin_job env j)"
  unfolding begin_job_def by (auto intro!: total_intros)

lemma work_job_total: "clock_ok env \<Longrightarrow> total (work_job env cfg j p)"
  unfolding work_job_def ensure_submitted_def
  by (auto intro!: total_intros poll_total orchestrator_total split: option.split payload.split)

lemma recover_job_total: "clock_ok env \<Longrightarrow> total (recover_job env cfg i p)"
  unfolding recover_job_def Let_def
  by (auto intro!: total_intros orchestrator_total split: payload.split)

lemma handle_error_total: "clock_ok env \<Longrightarrow> total (handle_error env cfg i p e)"
  unfolding handle_error_def by (auto intro!: total_intros recover_job_total split: option.split)

lemma process_total: "clock_ok env \<Longrightarrow> total (process env cfg j)"
  unfolding process_def
  by (auto intro!: total_intros handle_error_total work_job_total split: sum.split)

section \<open>Where a job ends\<close>

lemma keeps_own [intro!, simp]:
  "keeps (own_job i) (submitCiphertext env cfg c x)" "keeps (own_job i) (poll env cfg a tag ms)"
  "keeps (own_job i) (decode_optional env r)" "keeps (own_job i) (settleAnchor env cfg an h)"
  "keeps (own_job i) (recoverPendingAnchorAllowingAlreadyCleared env cfg)"
  "keeps (own_job i) (recoverDeposit env cfg q b)"
  by (rule keeps_own_job; simp)+

lemma ensure_submitted_id:
  "jobId j = i \<Longrightarrow> leaves (\<lambda>j _. jobId j = i) (ensure_submitted env cfg j p)"
  unfolding ensure_submitted_def
  by (auto intro!: leaves_bindA update_id split: payload.split) (auto simp: leaves_def ret_def)+

lemma ensure_submitted_own: "jobId j = i \<Longrightarrow> keeps (own_job i) (ensure_submitted env cfg j p)"
  unfolding ensure_submitted_def
  by (auto intro!: own_job_frame.keeps_intros simp: is_core_patch_def split: payload.split)

lemma work_job_own:
  assumes "jobId j = i"
  shows "keeps (own_job i) (work_job env cfg j p)"
  unfolding work_job_def
  by (intro own_job_frame.keeps_bindA_result [OF _ ensure_submitted_id [OF assms]]
      own_job_frame.keeps_bindA_result [OF _ update_id] ensure_submitted_own [OF assms])
    (auto intro!: own_job_frame.keeps_intros own_job_frame.keeps_bindA_result [OF _ update_id]
      simp: is_core_patch_def split: option.split)

text \<open>
  \<open>finished i j0 w t\<close>: between \<open>w\<close> and \<open>t\<close> job \<open>i\<close>, which was \<open>j0\<close>, came to an end: it failed, or it
  is confirmed and carries the error it had, and nothing else in the database changed.
\<close>

definition finished :: "string \<Rightarrow> job \<Rightarrow> world \<Rightarrow> world \<Rightarrow> bool" where
  "finished i j0 w t = (others_same i w t \<and> (\<exists>j. getJob (db t) i = Some j \<and> attempts j = attempts j0
     \<and> (jobStatus j = Failed \<or> jobStatus j = Confirmed \<and> jobError j = jobError j0)))"

lemma update_leaves:
  assumes "\<And>j. jobStatus (fold apply_field fs j) = s"
  shows "leaves (\<lambda>_ t. \<exists>j. getJob (db t) i = Some j \<and> jobStatus j = s) (update env i fs)"
proof -
  have "\<exists>j. getJob (db t) i = Some j \<and> jobStatus j = s" if run: "update env i fs w = Some (Inr x, t)" for w x t
  proof (cases "getJob (db w) i")
    case None
    then show ?thesis using run update_missing [OF None, of env fs] by simp
  next
    case (Some j)
    define n where "n = patched (e_now env (CNow # hist w)) fs j"
    have "identity_of n = identity_of j" by (simp add: n_def)
    from getJob_write_same [OF Some this]
    have "getJob (write_job n (db w)) i = Some (stored n)" .
    moreover have "jobStatus (stored n) = s" using assms by (simp add: stored_def n_def patched_def)
    ultimately show ?thesis using run update_run [OF Some n_def] by auto
  qed
  then show ?thesis by (auto simp: leaves_def)
qed

lemma work_job_leaves:
  assumes "jobId j = i"
  shows "leaves (\<lambda>_ t. \<exists>j. getJob (db t) i = Some j \<and> jobStatus j = Confirmed) (work_job env cfg j p)"
proof -
  have confirmed: "leaves (\<lambda>_ t. \<exists>j. getJob (db t) i = Some j \<and> jobStatus j = Confirmed)
      (thenA (update env i [SetStatus Confirmed]) (ret ()))" for i
    by (rule leaves_then_ret [OF update_leaves]) simp
  show ?thesis
    unfolding work_job_def
    by (rule leaves_bindA_result [OF ensure_submitted_id [OF assms]],
        rule leaves_bindA_result [OF update_id])
      (auto intro!: leaves_bindA leaves_throw leaves_bindA_result [OF update_id] confirmed
        split: option.split)
qed

lemma fail_job_run:
  assumes "getJob (db w) i = Some j"
  obtains t where "fail_job env i m w = Some (Inr (), t)" "finished i j w t"
    and "\<exists>q. getJob (db t) i = Some q \<and> jobStatus q = Failed \<and> jobError q = present (Some m)"
    and "no_write w t"
proof -
  define n where "n = patched (e_now env (CNow # hist w)) [SetStatus Failed, SetError (Some m)] j"
  have id: "identity_of n = identity_of j" by (simp add: n_def)
  note run = update_run [OF assms n_def]
  have fields: "attempts (stored n) = attempts j" "jobStatus (stored n) = Failed"
    "jobError (stored n) = present (Some m)"
    by (simp_all add: n_def patched_def stored_def)
  let ?t = "w\<lparr>db := write_job n (db w), hist := CNow # hist w, emitted := n # emitted w\<rparr>"
  have "fail_job env i m w = Some (Inr (), ?t)"
    using run by (simp add: fail_job_def thenA_def bindA_def ret_def)
  moreover have "finished i j w ?t"
    using write_job_others [OF assms id] getJob_write_same [OF assms id] fields
    by (simp add: finished_def)
  moreover have "no_write w ?t" by (simp add: no_write_def chain_writes_def is_write_def)
  ultimately show thesis
    using that getJob_write_same [OF assms id] fields by simp
qed

lemma own_job_core: "own_job i w t \<Longrightarrow> getJob (db w) i = Some j \<Longrightarrow>
    \<exists>q. getJob (db t) i = Some q \<and> attempts q = attempts j \<and> jobError q = jobError j"
  by (auto simp: own_job_def core_def)

lemma others_exists: "others_same i w t \<Longrightarrow> getJob (db w) i = Some j \<Longrightarrow> \<exists>q. getJob (db t) i = Some q"
  by (auto simp: others_same_def)

lemma finished_trans:
  assumes "own_job i w u" and "getJob (db w) i = Some j" and "getJob (db u) i = Some q" and "finished i q u t"
  shows "finished i j w t"
proof -
  have "attempts q = attempts j" "jobError q = jobError j"
    using own_job_core [OF assms(1,2)] assms(3) by auto
  moreover have "others_same i w u" using assms(1) by (simp add: own_job_def)
  ultimately show ?thesis
    using assms(4) others_frame.trans [of i w u t] by (auto simp: finished_def)
qed

text \<open>The recovery of a job, however it ends.\<close>

lemma confirm_run:
  assumes "getJob (db w) i = Some j" and "list_all (\<lambda>f. \<not> is_core_patch f) fs"
    and "\<And>j. jobStatus (fold apply_field fs j) = Confirmed"
  obtains t where "thenA (update env i fs) (ret ()) w = Some (Inr (), t)" "finished i j w t" "no_write w t"
proof -
  obtain n where n: "n = patched (e_now env (CNow # hist w)) fs j" by simp
  note run = update_run [OF assms(1) n]
  from run have "update env i fs w = Some (Inr n, w\<lparr>db := write_job n (db w), hist := CNow # hist w,
     emitted := n # emitted w\<rparr>)" (is "_ = Some (_, ?t)") .
  moreover have "own_job i w ?t" by (rule keepsD [OF update_own_job [OF assms(2)] run])
  moreover have "\<exists>q. getJob (db ?t) i = Some q \<and> jobStatus q = Confirmed"
    by (rule leavesD [OF update_leaves [OF assms(3)] run])
  moreover have "no_write w ?t" by (simp add: no_write_def chain_writes_def is_write_def)
  ultimately show thesis
    using that own_job_core [OF _ assms(1), of ?t]
    by (auto simp: thenA_def bindA_def ret_def finished_def own_job_def)
qed

lemma recover_job_runs:
  assumes "clock_ok env" and j: "getJob (db w) i = Some j" and run: "recover_job env cfg i p w = Some (r, t)"
  shows "if isl r then own_job i w t else finished i j w t"
proof -
  define retry where "retry = fail_job env i ''A prior confidential checkpoint was recovered. Retry this request.''"
  have fail_ok: "if isl r then own_job i w t else finished i j w t"
    if "own_job i w u" "retry u = Some (r, t)" for u
  proof -
    note own = that(1)
    obtain q where q: "getJob (db u) i = Some q" using own_job_core [OF own j] by blast
    obtain t' where "retry u = Some (Inr (), t')" "finished i q u t'"
      unfolding retry_def by (rule fail_job_run [OF q])
    then show ?thesis using that(2) finished_trans [OF own j q] by auto
  qed
  have conf_ok: "if isl r then own_job i w t else finished i j w t"
    if "own_job i w u" "thenA (update env i ([SetStatus Confirmed, SetResponse a] @ fs)) (ret ()) u = Some (r, t)"
      "fs = [] \<or> (\<exists>h. fs = [SetTxHash h])" for u a fs
  proof -
    note own = that(1)
    obtain q where q: "getJob (db u) i = Some q" using own_job_core [OF own j] by blast
    have "list_all (\<lambda>f. \<not> is_core_patch f) ([SetStatus Confirmed, SetResponse a] @ fs)"
      "\<And>j. jobStatus (fold apply_field ([SetStatus Confirmed, SetResponse a] @ fs) j) = Confirmed"
      using that(3) by (auto simp: is_core_patch_def)
    from confirm_run [OF q this, of env] obtain t' where
      "thenA (update env i ([SetStatus Confirmed, SetResponse a] @ fs)) (ret ()) u = Some (Inr (), t')"
      "finished i q u t'" by blast
    then show ?thesis using that(2) finished_trans [OF own j q] by auto
  qed
  let ?rec = "recoverPendingAnchorAllowingAlreadyCleared env cfg"
  obtain q u where first: "?rec w = Some (q, u)"
    using total_ends [OF orchestrator_total(4) [OF assms(1)]] by (rule endsE)
  have own: "own_job i w u" by (rule keepsD [OF keeps_own(5) first])
  show ?thesis
  proof (cases q)
    case (Inl e)
    then show ?thesis using run first own by (auto simp: recover_job_def thenA_def bindA_def)
  next
    case (Inr x)
    show ?thesis
    proof (cases "\<exists>requestId block. p = ChainPayload ''DEPOSIT'' requestId block")
      case False
      then have "recover_job env cfg i p w = retry u"
        using first Inr by (cases p) (auto simp: recover_job_def retry_def thenA_def bindA_def Let_def)
      then show ?thesis using fail_ok [OF own] run by simp
    next
      case True
      then obtain requestId block where p: "p = ChainPayload ''DEPOSIT'' requestId block" by blast
      obtain q2 v where second: "recoverDeposit env cfg requestId block u = Some (q2, v)"
        using total_ends [OF orchestrator_total(5) [OF assms(1)]] by (rule endsE)
      have "own_job i u v" by (rule keepsD [OF keeps_own(6) second])
      then have own2: "own_job i w v" using own_job_frame.trans own by blast
      show ?thesis
      proof (cases q2)
        case (Inl e)
        then show ?thesis using run first \<open>q = Inr x\<close> second own2 p
          by (auto simp: recover_job_def thenA_def bindA_def)
      next
        case (Inr rec)
        let ?fs = "case present (rec_txHash rec) of Some h \<Rightarrow> [SetTxHash (Some h)] | None \<Rightarrow> []"
        have "recover_job env cfg i p w =
            thenA (update env i ([SetStatus Confirmed, SetResponse (rec_response rec)] @ ?fs)) (ret ()) v"
          using first \<open>q = Inr x\<close> second Inr p by (simp add: recover_job_def thenA_def [of ?rec] bindA_def)
        moreover have "?fs = [] \<or> (\<exists>h. ?fs = [SetTxHash h])" by (simp split: option.split)
        ultimately show ?thesis using conf_ok [OF own2] run by simp
      qed
    qed
  qed
qed

lemma handle_error_runs:
  assumes "clock_ok env" and j: "getJob (db w) i = Some j"
  obtains t where "handle_error env cfg i p e w = Some (Inr (), t)" "finished i j w t"
proof (cases "\<exists>q. p = Some q \<and> isPendingAnchorError e")
  case False
  then have "handle_error env cfg i p e = fail_job env i (error_message e)"
    by (auto simp: handle_error_def split: option.splits)
  then show thesis using fail_job_run [OF j] that by metis
next
  case True
  then obtain q where q: "p = Some q" "isPendingAnchorError e" by blast
  obtain r u where rec: "recover_job env cfg i q w = Some (r, u)"
    using total_ends [OF recover_job_total [OF assms(1)]] by (rule endsE)
  note outcome = recover_job_runs [OF assms rec]
  show thesis
  proof (cases r)
    case (Inr x)
    then show thesis using that rec outcome q by (simp add: handle_error_def tryA_def)
  next
    case (Inl e2)
    then have own: "own_job i w u" using outcome by simp
    obtain k where k: "getJob (db u) i = Some k" using own_job_core [OF own j] by blast
    from fail_job_run [OF k, of env "error_message e @ ''; anchor recovery failed: '' @ error_message e2"]
    obtain t where "fail_job env i (error_message e @ ''; anchor recovery failed: '' @ error_message e2) u
        = Some (Inr (), t)" "finished i k u t" by metis
    then show thesis using that rec Inl q finished_trans [OF own j k] by (simp add: handle_error_def tryA_def)
  qed
qed

lemma begin_job_runs:
  assumes "getJob (db w) (jobId j) = Some j"
  obtains u n where "getJob (db u) (jobId j) = Some n" "attempts n = attempts j + 1" "jobError n = None"
    "others_same (jobId j) w u" "no_write w u"
    "(\<exists>e. begin_job env j w = Some (Inl e, u) \<and> parsePayload (jobPayload j) = Inl e)
     \<or> (\<exists>k p. begin_job env j w = Some (Inr (k, p), u) \<and> jobId k = jobId j
          \<and> parsePayload (jobPayload j) = Inr p \<and> actionId k = actionId j \<and> txHash k = txHash j)"
proof -
  let ?fs = "[SetAttempts (attempts j + 1), SetError None]"
  define n where "n = patched (e_now env (CNow # hist w)) ?fs j"
  have id: "identity_of n = identity_of j" by (simp add: n_def)
  note run = update_run [OF assms n_def]
  let ?u = "w\<lparr>db := write_job n (db w), hist := CNow # hist w, emitted := n # emitted w\<rparr>"
  have fields: "attempts (stored n) = attempts j + 1" "jobError (stored n) = None"
    "jobPayload n = jobPayload j" "jobId n = jobId j" "actionId n = actionId j" "txHash n = txHash j"
    by (simp_all add: n_def patched_def stored_def)
  have "begin_job env j w = (case parsePayload (jobPayload j) of
      Inl e \<Rightarrow> Some (Inl e, ?u) | Inr p \<Rightarrow> Some (Inr (n, p), ?u))"
    using run fields by (simp add: begin_job_def bindA_def liftA_def ret_def split: sum.split)
  moreover have "no_write w ?u" by (simp add: no_write_def chain_writes_def is_write_def)
  ultimately show thesis
    using that [of ?u "stored n"] getJob_write_same [OF assms id] write_job_others [OF assms id] fields
    by (auto split: sum.splits)
qed

text \<open>What comes after \<open>begin_job\<close>, on a job that is stored.\<close>

lemma work_and_handle_runs:
  assumes "clock_ok env" and n: "getJob (db u) i = Some n" and "jobId k = i"
  obtains t where "tryA (work_job env cfg k p) (handle_error env cfg i (Some p)) u = Some (Inr (), t)"
    and "finished i n u t"
proof -
  obtain r v where work: "work_job env cfg k p u = Some (r, v)"
    using total_ends [OF work_job_total [OF assms(1)]] by (rule endsE)
  have own: "own_job i u v" by (rule keepsD [OF work_job_own [OF assms(3)] work])
  obtain m where m: "getJob (db v) i = Some m" "attempts m = attempts n" "jobError m = jobError n"
    using own_job_core [OF own n] by blast
  show thesis
  proof (cases r)
    case (Inl e)
    obtain t where "handle_error env cfg i (Some p) e v = Some (Inr (), t)" "finished i m v t"
      by (rule handle_error_runs [OF assms(1) m(1)])
    then show thesis using that work Inl finished_trans [OF own n m(1)] by (simp add: tryA_def)
  next
    case (Inr x)
    have "\<exists>q. getJob (db v) i = Some q \<and> jobStatus q = Confirmed"
      by (rule leavesD [OF work_job_leaves [OF assms(3)] work [unfolded Inr]])
    then have "finished i n u v" using own m by (auto simp: finished_def own_job_def)
    then show thesis using that work Inr by (simp add: tryA_def)
  qed
qed

section \<open>Settlements come from the extension\<close>

text \<open>
  An anchor the extension answered with: decoded from the data of an answer with status 1, as
  the anchor of a response or as the recovered checkpoint.
\<close>

definition signed_anchor :: "env \<Rightarrow> anchor \<Rightarrow> bool" where
  "signed_anchor env a = (\<exists>body response. answered env body \<and> ar_status body = 1
     \<and> decode env (ar_data body) = Inr response
     \<and> (findAnchor (Some response) = Some a \<or> settlement_of response = Inr a))"

definition signed_write :: "env \<Rightarrow> call \<Rightarrow> bool" where
  "signed_write env c = (\<exists>a amount. signed_anchor env a \<and> c = settlement_write a amount
     \<and> bigint_of_amount (s_amount (a_settlement a)) = Inr amount)"

definition pays_signed :: "env \<Rightarrow> world \<Rightarrow> world \<Rightarrow> bool" where
  "pays_signed env w t = (\<exists>new. chain_writes t = new @ chain_writes w \<and> list_all (signed_write env) new)"

interpretation signed_frame: frame "pays_signed env" for env
proof
  show "pays_signed env s s" for s by (auto simp: pays_signed_def intro: exI [of _ "[]"])
  show "pays_signed env s u" if st: "pays_signed env s t" and tu: "pays_signed env t u" for s t u
  proof -
    obtain a where a: "chain_writes t = a @ chain_writes s" "list_all (signed_write env) a"
      using st by (auto simp: pays_signed_def)
    obtain b where b: "chain_writes u = b @ chain_writes t" "list_all (signed_write env) b"
      using tu by (auto simp: pays_signed_def)
    from a b have "chain_writes u = (b @ a) @ chain_writes s \<and> list_all (signed_write env) (b @ a)"
      by simp
    then show ?thesis unfolding pays_signed_def by blast
  qed
qed

lemma no_write_signed: "keeps no_write m \<Longrightarrow> keeps (pays_signed env) m"
  by (auto simp: keeps_def pays_signed_def no_write_def)

lemma execute_signed: "signed_anchor env a \<Longrightarrow> keeps (pays_signed env) (execute env a)"
proof (rule keepsI)
  fix w r t assume a: "signed_anchor env a" and run: "execute env a w = Some (r, t)"
  from execute_runs [OF run] consider "chain_writes t = chain_writes w"
    | amount where "chain_writes t = [settlement_write a amount] @ chain_writes w"
        "bigint_of_amount (s_amount (a_settlement a)) = Inr amount" by auto
  then show "pays_signed env w t"
  proof cases
    case 1
    then show ?thesis by (simp add: pays_signed_def)
  next
    case 2
    have "list_all (signed_write env) [settlement_write a amount]"
      using a 2(2) by (auto simp: signed_write_def)
    then show ?thesis using 2(1) unfolding pays_signed_def by blast
  qed
qed

lemma parts_signed [intro!, simp]:
  "keeps (pays_signed env) (confirmAnchor env cfg a)" "keeps (pays_signed env) (submitJson env cfg c m)"
  "keeps (pays_signed env) (submitCiphertext env cfg c x)" "keeps (pays_signed env) (poll env cfg i tag ms)"
  "keeps (pays_signed env) (anchorState env)" "keeps (pays_signed env) (depositForRequest env q b)"
  "keeps (pays_signed env) (decode_optional env r)" "keeps (pays_signed env) (update env j fs)"
  by (rule no_write_signed; simp)+

lemma settleAnchor_signed: "signed_anchor env a \<Longrightarrow> keeps (pays_signed env) (settleAnchor env cfg a h)"
  unfolding settleAnchor_def
  by (auto intro!: signed_frame.keeps_intros execute_signed split: option.split)

lemma decode_optional_leaves:
  "leaves (\<lambda>v _. case v of None \<Rightarrow> True | Some x \<Rightarrow> decode env (ar_data r) = Inr x) (decode_optional env r)"
  unfolding decode_optional_def
  by (auto simp: leaves_def bindA_def liftA_def ret_def split: option.splits sum.splits)

lemma findAnchor_signed:
  assumes "answered env body" "ar_status body = 1"
    and "case v of None \<Rightarrow> True | Some x \<Rightarrow> decode env (ar_data body) = Inr x" "findAnchor v = Some a"
  shows "signed_anchor env a"
proof (cases v)
  case None
  then show ?thesis using assms(4) by (simp add: findAnchor_def)
next
  case (Some x)
  then show ?thesis using assms unfolding signed_anchor_def by auto
qed

text \<open>The two steps at which an anchor comes in, as rules for the code that follows them.\<close>

lemma poll_then_signed:
  assumes "\<And>body. answered env body \<Longrightarrow> ar_status body = 1 \<Longrightarrow> keeps (pays_signed env) (f body)"
    and "\<And>body. keeps (pays_signed env) (g body)"
  shows "keeps (pays_signed env)
    (bindA (poll env cfg i tag ms) (\<lambda>body. if ar_status body \<noteq> 1 then g body else f body))"
  by (rule signed_frame.keeps_bindA_result [OF _ poll_leaves]) (auto intro: assms)

lemma decode_then_signed:
  assumes "answered env body" "ar_status body = 1"
    and "\<And>v. (\<And>a. findAnchor v = Some a \<Longrightarrow> signed_anchor env a) \<Longrightarrow> keeps (pays_signed env) (f v)"
  shows "keeps (pays_signed env) (bindA (decode_optional env body) f)"
  by (rule signed_frame.keeps_bindA_result [OF _ decode_optional_leaves])
    (auto intro: assms(3) findAnchor_signed [OF assms(1,2)])

lemma ensure_submitted_signed [intro!, simp]: "keeps (pays_signed env) (ensure_submitted env cfg j p)"
  unfolding ensure_submitted_def by (auto intro!: signed_frame.keeps_intros split: payload.split)

lemma work_job_signed: "keeps (pays_signed env) (work_job env cfg j p)"
  unfolding work_job_def
  by (rule signed_frame.keeps_bindA, simp, rule signed_frame.keeps_bindA, simp, rule poll_then_signed,
      rule decode_then_signed, assumption, assumption)
    (auto intro!: signed_frame.keeps_intros settleAnchor_signed split: option.split)

lemma recoverDeposit_signed: "keeps (pays_signed env) (recoverDeposit env cfg q b)"
  unfolding recoverDeposit_def
  by (rule signed_frame.keeps_bindA, rule signed_frame.keeps_liftA, rule signed_frame.keeps_bindA, simp,
      rule signed_frame.keeps_bindA, simp, rule poll_then_signed,
      rule decode_then_signed, assumption, assumption)
    (auto intro!: signed_frame.keeps_intros settleAnchor_signed split: option.split)

lemma signed_lift:
  assumes "answered env body" "ar_status body = 1" "decode env (ar_data body) = Inr response"
    and f: "\<And>a. signed_anchor env a \<Longrightarrow> keeps (pays_signed env) (f a)"
  shows "keeps (pays_signed env) (bindA (liftA (settlement_of response)) f)"
proof (rule signed_frame.keeps_bindA_result [OF signed_frame.keeps_liftA leaves_liftA])
  fix a assume "settlement_of response = Inr a"
  then show "keeps (pays_signed env) (f a)"
    using assms(1-3) by (intro f) (auto simp: signed_anchor_def)
qed

lemma settle_recovered_signed:
  assumes "answered env body" "ar_status body = 1" "decode env (ar_data body) = Inr response"
  shows "keeps (pays_signed env) (settle_recovered env cfg st response)"
  unfolding settle_recovered_def
  by (rule signed_lift [OF assms]) (auto intro!: signed_frame.keeps_intros execute_signed simp: Let_def)

lemma recoverPendingAnchor_signed: "keeps (pays_signed env) (recoverPendingAnchor env cfg)"
  unfolding recoverPendingAnchor_def
  by (rule signed_frame.keeps_bindA, simp, rule poll_then_signed,
      rule signed_frame.keeps_bindA_result [OF _ leaves_liftA], rule signed_frame.keeps_liftA,
      rule signed_frame.keeps_bindA, simp, rule settle_recovered_signed)
    (auto intro!: signed_frame.keeps_throw)

lemma recover_job_signed: "keeps (pays_signed env) (recover_job env cfg i p)"
  unfolding recover_job_def fail_job_def Let_def recoverPendingAnchorAllowingAlreadyCleared_def
  by (auto intro!: signed_frame.keeps_intros recoverPendingAnchor_signed recoverDeposit_signed
      split: payload.split)

lemma process_signed: "keeps (pays_signed env) (process env cfg j)"
  unfolding process_def handle_error_def begin_job_def fail_job_def
  by (auto intro!: signed_frame.keeps_intros work_job_signed recover_job_signed
      split: sum.split option.split)

section \<open>Without a success, nothing is confirmed\<close>

definition no_success :: "env \<Rightarrow> bool" where
  "no_success env = (\<forall>body. answered env body \<longrightarrow> ar_status body \<noteq> 1)"

lemma poll_then_fails:
  assumes "no_success env" and "\<And>body. leaves Q (g body)"
  shows "leaves Q (bindA (poll env cfg i tag ms) (\<lambda>body. if ar_status body \<noteq> 1 then g body else f body))"
  by (rule leaves_bindA_result [OF poll_leaves]) (use assms in \<open>auto simp: no_success_def\<close>)

lemma no_success_leaves:
  assumes "no_success env"
  shows "leaves Q (work_job env cfg j p)" and "leaves P (recoverDeposit env cfg q b)"
  unfolding work_job_def recoverDeposit_def
  by (auto intro!: leaves_bindA poll_then_fails [OF assms] leaves_throw)

lemma fail_job_leaves: "leaves (\<lambda>_ t. \<exists>j. getJob (db t) i = Some j \<and> jobStatus j = Failed) (fail_job env i m)"
  unfolding fail_job_def by (rule leaves_then_ret [OF update_leaves]) simp

lemma recover_job_fails:
  "no_success env \<Longrightarrow>
   leaves (\<lambda>_ t. \<exists>j. getJob (db t) i = Some j \<and> jobStatus j = Failed) (recover_job env cfg i p)"
  unfolding recover_job_def Let_def
  by (auto intro!: leaves_thenA fail_job_leaves
      leaves_bindA_result [OF no_success_leaves(2) [where P = "\<lambda>_ _. False"]] split: payload.split)

lemma process_fails:
  assumes "no_success env"
  shows "leaves (\<lambda>_ t. \<exists>q. getJob (db t) (jobId j) = Some q \<and> jobStatus q = Failed) (process env cfg j)"
  unfolding process_def handle_error_def
  by (auto intro!: leaves_bindA leaves_tryA fail_job_leaves recover_job_fails [OF assms]
      no_success_leaves [OF assms] split: sum.split option.split)

section \<open>Recovery and the state of the vault\<close>

text \<open>
  The vault answered with the checkpoint before, or after, the settlement of an anchor of the
  extension.
\<close>

definition vault_answered :: "env \<Rightarrow> anchor_state \<Rightarrow> bool" where
  "vault_answered env st = (\<exists>h. e_sequence env (CSequence # h) = Inr (as_sequence st)
     \<and> e_root env (CRoot # CSequence # h) = Inr (as_root st))"

definition vault_before :: "env \<Rightarrow> anchor \<Rightarrow> bool" where
  "vault_before env a = (\<exists>st. vault_answered env st
     \<and> chain_at st (s_previousSequence (a_settlement a)) (s_previousRoot (a_settlement a)))"

definition vault_after :: "env \<Rightarrow> anchor \<Rightarrow> bool" where
  "vault_after env a = (\<exists>st. vault_answered env st
     \<and> chain_at st (s_nextSequence (a_settlement a)) (s_nextRoot (a_settlement a)))"

definition recovers :: "env \<Rightarrow> world \<Rightarrow> world \<Rightarrow> bool" where
  "recovers env w t = (chain_writes t = chain_writes w \<or> (\<exists>a. signed_anchor env a \<and> vault_before env a))"

interpretation recovers_frame: frame "recovers env" for env
  by unfold_locales (auto simp: recovers_def)

lemma no_write_recovers: "keeps no_write m \<Longrightarrow> keeps (recovers env) m"
  by (auto simp: keeps_def recovers_def no_write_def)

lemma anchorState_leaves: "leaves (\<lambda>st _. vault_answered env st) (anchorState env)"
  by (auto simp: leaves_def anchorState_def vault_answered_def bindA_def bothA_def askE_def ask_def
      liftA_def ret_def Let_def split: sum.splits)

lemma recovers_parts [intro!, simp]:
  "keeps (recovers env) (submitJson env cfg c m)" "keeps (recovers env) (poll env cfg i tag ms)"
  "keeps (recovers env) (anchorState env)" "keeps (recovers env) (confirmAnchor env cfg a)"
  by (rule no_write_recovers; simp)+

text \<open>What follows the recovered response.\<close>

lemma recover_tail:
  assumes "answered env body" "ar_status body = 1" "decode env (ar_data body) = Inr response"
    and st: "vault_answered env st"
  shows "keeps (recovers env) (settle_recovered env cfg st response)"
    and "leaves (\<lambda>_ _. \<exists>a. signed_anchor env a \<and> (vault_before env a \<or> vault_after env a))
      (settle_recovered env cfg st response)"
proof -
  have signed: "signed_anchor env a" if "settlement_of response = Inr a" for a
    using assms(1-3) that by (auto simp: signed_anchor_def)
  have before: "keeps (recovers env) m"
    if "settlement_of response = Inr a"
      "chain_at st (s_previousSequence (a_settlement a)) (s_previousRoot (a_settlement a))" for a and m :: "(world, 'x) act"
    using signed [OF that(1)] that(2) st by (auto simp: keeps_def recovers_def vault_before_def)
  show "keeps (recovers env) (settle_recovered env cfg st response)"
    unfolding settle_recovered_def
    by (rule recovers_frame.keeps_bindA_result [OF recovers_frame.keeps_liftA leaves_liftA])
      (auto intro!: recovers_frame.keeps_throw recovers_frame.keeps_thenA recovers_frame.keeps_ret
        intro: before simp: Let_def)
  show "leaves (\<lambda>_ _. \<exists>a. signed_anchor env a \<and> (vault_before env a \<or> vault_after env a))
      (settle_recovered env cfg st response)"
    unfolding settle_recovered_def
  proof (rule leaves_bindA_result [OF leaves_liftA])
    fix a assume a: "settlement_of response = Inr a"
    let ?goal = "\<exists>a. signed_anchor env a \<and> (vault_before env a \<or> vault_after env a)"
    let ?s = "a_settlement a"
    have "?goal" if "chain_at st (s_previousSequence ?s) (s_previousRoot ?s) \<or> chain_at st (s_nextSequence ?s) (s_nextRoot ?s)"
      using that signed [OF a] st by (auto simp: vault_before_def vault_after_def)
    then show "leaves (\<lambda>_ _. ?goal) (let s = a_settlement a;
          chainAtPrevious = chain_at st (s_previousSequence s) (s_previousRoot s);
          chainAtNext = chain_at st (s_nextSequence s) (s_nextRoot s)
      in if \<not> chainAtPrevious \<and> \<not> chainAtNext
         then throw (JsError ''vault anchor diverges from the recoverable FCC checkpoint'')
         else thenA (if chainAtPrevious then bindA (execute env a) (\<lambda>_. ret ()) else ret ())
                (confirmAnchor env cfg a))"
      by (auto simp: leaves_def throw_def Let_def)
  qed
qed

lemma recoverPendingAnchor_recovers:
  "keeps (recovers env) (recoverPendingAnchor env cfg)"
  "leaves (\<lambda>_ _. \<exists>a. signed_anchor env a \<and> (vault_before env a \<or> vault_after env a)) (recoverPendingAnchor env cfg)"
proof -
  show "keeps (recovers env) (recoverPendingAnchor env cfg)"
    unfolding recoverPendingAnchor_def
    by (rule recovers_frame.keeps_bindA, simp, rule recovers_frame.keeps_bindA_result [OF _ poll_leaves], simp,
        split if_split, intro conjI impI, rule recovers_frame.keeps_throw,
        rule recovers_frame.keeps_bindA_result [OF recovers_frame.keeps_liftA leaves_liftA],
        rule recovers_frame.keeps_bindA_result [OF _ anchorState_leaves], simp,
        rule recover_tail(1)) auto
  show "leaves (\<lambda>_ _. \<exists>a. signed_anchor env a \<and> (vault_before env a \<or> vault_after env a)) (recoverPendingAnchor env cfg)"
    unfolding recoverPendingAnchor_def
    by (rule leaves_bindA, rule leaves_bindA_result [OF poll_leaves],
        split if_split, intro conjI impI, rule leaves_throw,
        rule leaves_bindA_result [OF leaves_liftA], rule leaves_bindA_result [OF anchorState_leaves],
        rule recover_tail(2)) auto
qed

section \<open>Properties\<close>

text \<open>
  C2. Processing a stored job always comes to an end without throwing, whatever the extension and
  the chain answer: the job is then confirmed without an error, or failed; it counts one more
  attempt; its identity, every other job, the challenges, the cursors and the table invariant are
  as before.
\<close>
theorem process_settles:
  assumes "clock_ok env" and "getJob (db w) (jobId j) = Some j"
  shows "\<exists>t q. process env cfg j w = Some (Inr (), t) \<and> others_same (jobId j) w t
     \<and> getJob (db t) (jobId j) = Some q \<and> attempts q = attempts j + 1
     \<and> (jobStatus q = Failed \<or> jobStatus q = Confirmed \<and> jobError q = None)"
proof -
  let ?i = "jobId j"
  obtain u n where u: "getJob (db u) ?i = Some n" "attempts n = attempts j + 1" "jobError n = None"
    "others_same ?i w u"
    and start: "(\<exists>e. begin_job env j w = Some (Inl e, u)) \<or>
      (\<exists>k p. begin_job env j w = Some (Inr (k, p), u) \<and> jobId k = ?i)"
    using begin_job_runs [OF assms(2), of env] by metis
  have "\<exists>t. process env cfg j w = Some (Inr (), t) \<and> finished ?i n u t"
    using start
  proof (elim disjE exE conjE)
    fix e assume "begin_job env j w = Some (Inl e, u)"
    moreover obtain t where "handle_error env cfg ?i None e u = Some (Inr (), t)" "finished ?i n u t"
      by (rule handle_error_runs [OF assms(1) u(1)])
    ultimately show ?thesis by (simp add: process_def bindA_def outcomeA_def)
  next
    fix k p assume "begin_job env j w = Some (Inr (k, p), u)" and k: "jobId k = ?i"
    moreover obtain t where "tryA (work_job env cfg k p) (handle_error env cfg ?i (Some p)) u = Some (Inr (), t)"
      "finished ?i n u t" by (rule work_and_handle_runs [OF assms(1) u(1) k])
    ultimately show ?thesis by (simp add: process_def bindA_def outcomeA_def)
  qed
  then show ?thesis
    using u others_frame.trans [of ?i w u] by (auto simp: finished_def)
qed

lemma sample_world_job: "getJob (db sample_world) (jobId sample_job) = Some sample_job"
  using sample_store_facts(2) by (simp add: sample_world_def sample_job_def)

theorem process_settles_witness:
  "\<exists>t q. process sample_env sample_config sample_job sample_world = Some (Inr (), t)
     \<and> getJob (db t) ''a'' = Some q \<and> attempts q = 1"
  using process_settles [OF sample_clock_ok sample_world_job, of sample_config]
  by (auto simp: sample_job_def newJob_def)

text \<open>
  C1. The relayer pays out only what the extension signed: every settlement transaction that
  processing a job sends carries a settlement, with its signature and its amount, that was decoded
  from a successful answer of the extension; and no other transaction is sent.
\<close>
theorem process_pays_signed:
  assumes "process env cfg j w = Some (r, t)"
  shows "\<exists>new. chain_writes t = new @ chain_writes w \<and> list_all (signed_write env) new"
  using keepsD [OF process_signed assms] by (simp add: pays_signed_def)

theorem process_pays_signed_witness:
  "\<exists>r t new. process sample_env sample_config sample_job sample_world = Some (r, t)
     \<and> chain_writes t = new @ chain_writes sample_world \<and> list_all (signed_write sample_env) new"
proof -
  obtain r t where run: "process sample_env sample_config sample_job sample_world = Some (r, t)"
    using total_ends [OF process_total [OF sample_clock_ok]] by (rule endsE)
  from process_pays_signed [OF run] run show ?thesis by blast
qed

text \<open>
  C3. A job is never confirmed without the extension's consent: as long as no answer of the
  extension carries the status 1, every job that is processed ends as failed and no transaction
  is sent.
\<close>
theorem process_without_success:
  assumes "no_success env" and "process env cfg j w = Some (Inr (), t)"
  shows "chain_writes t = chain_writes w
     \<and> (\<exists>q. getJob (db t) (jobId j) = Some q \<and> jobStatus q = Failed)"
proof
  obtain new where new: "chain_writes t = new @ chain_writes w" "list_all (signed_write env) new"
    using keepsD [OF process_signed assms(2)] by (auto simp: pays_signed_def)
  have "\<not> signed_write env c" for c
    using assms(1) by (auto simp: signed_write_def signed_anchor_def no_success_def)
  then show "chain_writes t = chain_writes w" using new by (cases new) auto
  show "\<exists>q. getJob (db t) (jobId j) = Some q \<and> jobStatus q = Failed"
    by (rule leavesD [OF process_fails [OF assms(1)] assms(2)])
qed

definition refusing_env :: env where
  "refusing_env = sample_env\<lparr>e_result := \<lambda>_. Inr \<lparr>reply_status = 200, reply_text = [],
     reply_json = Inr \<lparr>ar_status = 0, ar_log = ''refused'', ar_data = None\<rparr>\<rparr>\<rparr>"

theorem process_without_success_witness:
  "\<exists>t q. process refusing_env sample_config sample_job sample_world = Some (Inr (), t)
     \<and> getJob (db t) ''a'' = Some q \<and> jobStatus q = Failed"
proof -
  have quiet: "no_success refusing_env"
    by (auto simp: no_success_def answered_def refusing_env_def)
  have "clock_ok refusing_env" by (simp add: clock_ok_def refusing_env_def sample_env_def)
  from process_total [OF this] obtain r t where
    run: "process refusing_env sample_config sample_job sample_world = Some (r, t)"
    by (meson total_ends endsE)
  have "r = Inr ()"
    using process_settles [OF \<open>clock_ok refusing_env\<close> sample_world_job, of sample_config] run by auto
  with run process_without_success [OF quiet run [unfolded this]] show ?thesis
    by (auto simp: sample_job_def)
qed

text \<open>
  C4. Recovering a pending anchor never pays against a vault that moved on: a transaction is sent
  only for a checkpoint the extension answered with whose previous sequence and root are the
  vault's, and recovery reports success only when the vault is at the checkpoint's previous or
  next state; the database is not touched.
\<close>
theorem recoverPendingAnchor_consistent:
  assumes "recoverPendingAnchor env cfg w = Some (r, t)"
  shows "same_db w t
    \<and> (chain_writes t = chain_writes w \<or> (\<exists>a. signed_anchor env a \<and> vault_before env a))
    \<and> (r = Inr () \<longrightarrow> (\<exists>a. signed_anchor env a \<and> (vault_before env a \<or> vault_after env a)))"
proof (intro conjI impI)
  show "same_db w t" by (rule keepsD [OF recoverPendingAnchor_keeps(1) assms])
  show "chain_writes t = chain_writes w \<or> (\<exists>a. signed_anchor env a \<and> vault_before env a)"
    using keepsD [OF recoverPendingAnchor_recovers(1) assms] by (simp add: recovers_def)
  show "\<exists>a. signed_anchor env a \<and> (vault_before env a \<or> vault_after env a)" if "r = Inr ()"
    by (rule leavesD [OF recoverPendingAnchor_recovers(2) assms [unfolded that]])
qed

theorem recoverPendingAnchor_consistent_witness:
  "\<exists>r t. recoverPendingAnchor sample_env sample_config sample_world = Some (r, t)
     \<and> same_db sample_world t"
proof -
  obtain r t where run: "recoverPendingAnchor sample_env sample_config sample_world = Some (r, t)"
    using total_ends [OF orchestrator_total(3) [OF sample_clock_ok]] by (rule endsE)
  from recoverPendingAnchor_consistent [OF run] run show ?thesis by blast
qed

text \<open>
  C6. A settlement counts as done only when the chain and the extension agree: settling an anchor
  returns a hash only for a transaction with a successful receipt or one the vault's event names,
  and only after the extension answered a confirmation with success; a hash that was already
  recorded is not paid for again.
\<close>
theorem settleAnchor_done:
  assumes "settleAnchor env cfg a existing w = Some (Inr hash, t)"
  shows "(\<exists>body. answered env body \<and> ar_status body = 1) \<and> same_db w t
    \<and> (case existing of
         Some h \<Rightarrow> hash = h \<and> chain_writes t = chain_writes w
       | None \<Rightarrow> seen_settled env (s_settlementId (a_settlement a)) hash
           \<or> (\<exists>h amount. e_write env (settlement_write a amount # h) = Inr hash
               \<and> e_receipt env (CReceipt hash # settlement_write a amount # h) = Inr ''success''))"
proof -
  let ?pay = "case existing of Some h \<Rightarrow> ret h | None \<Rightarrow> execute env a"
  have "same_db w t" by (rule keepsD [OF settleAnchor_keeps(1) assms])
  obtain x u where pay: "?pay w = Some (Inr x, u)" and rest: "thenA (confirmAnchor env cfg a) (ret x) u = Some (Inr hash, t)"
    using assms by (auto simp: settleAnchor_def bindA_def split: option.splits sum.splits)
  have conf: "confirmAnchor env cfg a u = Some (Inr (), t)" "x = hash"
    using rest by (auto simp: thenA_def bindA_def ret_def split: option.splits sum.splits)
  have "leaves (\<lambda>_ _. \<exists>body. answered env body \<and> ar_status body = 1) (confirmAnchor env cfg a)"
    unfolding confirmAnchor_def
    by (rule leaves_bindA, rule leaves_bindA_result [OF poll_leaves])
      (auto simp: leaves_def throw_def)
  from leavesD [OF this conf(1)] have "\<exists>body. answered env body \<and> ar_status body = 1" .
  moreover have "chain_writes t = chain_writes u"
    using keepsD [OF confirmAnchor_keeps(3) conf(1)] by (simp add: no_write_def)
  ultimately show ?thesis
    using pay conf(2) \<open>same_db w t\<close>
    by (cases existing) (auto simp: ret_def dest!: execute_runs)
qed

theorem settleAnchor_done_witness:
  "\<exists>t. settleAnchor sample_env sample_config sample_anchor (Some ''0xc0'') sample_world = Some (Inr ''0xc0'', t)
     \<and> chain_writes t = chain_writes sample_world"
proof -
  have polls: "\<exists>t. poll sample_env sample_config ''0xa1'' TagSubmit default_timeout w =
      Some (Inr \<lparr>ar_status = 1, ar_log = ''ok'', ar_data = None\<rparr>, t)" for w
    unfolding poll_def
    by (simp add: bindA_def nowA_def ask_def Let_def, subst poll_loop.simps)
      (simp add: bindA_def nowA_def ask_def askE_def liftA_def ret_def Let_def sample_env_def
        reply_ok_def default_timeout_def)
  have submits: "\<exists>t. submitJson sample_env sample_config c m w = Some (Inr ''0xa1'', t)" for c m w
    by (simp add: submitJson_def submitRaw_def bindA_def ret_def liftA_def askE_def ask_def Let_def
        sample_env_def reply_ok_def)
  obtain u where u: "submitJson sample_env sample_config ''ANCHOR_CONFIRMED''
      (AnchorMessage (s_nextSequence (a_settlement sample_anchor)) (s_nextRoot (a_settlement sample_anchor)))
      sample_world = Some (Inr ''0xa1'', u)" using submits by blast
  obtain v where "poll sample_env sample_config ''0xa1'' TagSubmit default_timeout u =
      Some (Inr \<lparr>ar_status = 1, ar_log = ''ok'', ar_data = None\<rparr>, v)" using polls by blast
  with u have "\<exists>t. settleAnchor sample_env sample_config sample_anchor (Some ''0xc0'') sample_world =
      Some (Inr ''0xc0'', t)"
    by (simp add: settleAnchor_def confirmAnchor_def bindA_def thenA_def ret_def)
  then obtain t where run: "settleAnchor sample_env sample_config sample_anchor (Some ''0xc0'') sample_world =
      Some (Inr ''0xc0'', t)" ..
  from settleAnchor_done [OF run] run show ?thesis by auto
qed

end
