(* ===== verification/Drain.thy ===== *)
theory Drain
  imports Orchestrator
begin

text \<open>
  The work loop of the orchestrator: how jobs come in (\<open>enqueueDirect\<close>, \<open>enqueueChain\<close>,
  \<open>retry\<close>), how \<open>wake\<close> starts the loop or asks it for another round, and \<open>drain\<close> itself; first
  run on its own, then as a state machine in which requests arrive at any moment.
\<close>

section \<open>The loop\<close>

partial_function (option) work_off ::
    "env \<Rightarrow> config \<Rightarrow> (row list \<Rightarrow> nat) \<Rightarrow> world \<Rightarrow> ((js_error + unit) \<times> world) option" where
  "work_off env cfg tie w =
     (case nextRunnableJob tie (db w) of
        None \<Rightarrow> ret () w
      | Some job \<Rightarrow> bindA (process env cfg job) (\<lambda>_ w1. work_off env cfg tie w1) w)"

partial_function (option) drain_rounds ::
    "env \<Rightarrow> config \<Rightarrow> (row list \<Rightarrow> nat) \<Rightarrow> world \<Rightarrow> ((js_error + unit) \<times> world) option" where
  "drain_rounds env cfg tie w =
     bindA (modifyA (\<lambda>v. v\<lparr>wakeRequested := False\<rparr>)) (\<lambda>_ w1.
       bindA (work_off env cfg tie) (\<lambda>_ w2.
         if wakeRequested w2 then drain_rounds env cfg tie w2 else ret () w2) w1) w"

definition drain :: "env \<Rightarrow> config \<Rightarrow> (row list \<Rightarrow> nat) \<Rightarrow> (world, unit) act" where
  "drain env cfg tie = bindA getA (\<lambda>w.
     if running w then ret ()
     else thenA (modifyA (\<lambda>v. v\<lparr>running := True\<rparr>))
            (finallyA (drain_rounds env cfg tie) (\<lambda>v. v\<lparr>running := False\<rparr>)))"

text \<open>
  \<open>wake\<close> up to the point where the loop it started first looks for a job: \<open>drain\<close> runs without
  a pause until then.
\<close>

definition wake :: "(world, unit) act" where
  "wake = modifyA (\<lambda>w. if running w then w\<lparr>wakeRequested := True\<rparr>
                        else w\<lparr>wakeRequested := False, running := True\<rparr>)"

definition enqueueDirect :: "env \<Rightarrow> address \<Rightarrow> string \<Rightarrow> hex \<Rightarrow> (world, job) act" where
  "enqueueDirect env account command ciphertext =
     bindA (dbCreateJob env command account (DirectPayload command ciphertext) None) (\<lambda>job.
       thenA wake (ret job))"

definition enqueueChain :: "env \<Rightarrow> address \<Rightarrow> string \<Rightarrow> hex \<Rightarrow> int \<Rightarrow> string \<Rightarrow> (world, job) act" where
  "enqueueChain env account command requestId block key =
     bindA (dbCreateJob env command account (ChainPayload command requestId (show_int block)) (Some key))
       (\<lambda>job. thenA wake (ret job))"

definition retry :: "env \<Rightarrow> string \<Rightarrow> (world, job) act" where
  "retry env i = bindA (dbResetForRetry env i) (\<lambda>job. thenA (emitJob job) (thenA wake (ret job)))"

section \<open>Draining comes to an end\<close>

definition pending :: "store \<Rightarrow> string set" where
  "pending st = {k. \<exists>j. getJob st k = Some j \<and> runnable (jobStatus j)}"

lemma finite_pending [simp]: "finite (pending st)"
proof (rule finite_subset)
  show "pending st \<subseteq> rId ` set (jobs st)"
    by (auto simp: pending_def) (metis getJob_None_iff option.distinct(1))
qed simp

lemma find_SomeD: "List.find P xs = Some x \<Longrightarrow> x \<in> set xs \<and> P x"
  by (induction xs) (auto split: if_splits)

lemma nextRunnableJob_None:
  "nextRunnableJob tie st = None \<Longrightarrow> getJob st k = Some j \<Longrightarrow> \<not> runnable (jobStatus j)"
proof -
  assume none: "nextRunnableJob tie st = None" and j: "getJob st k = Some j"
  from j obtain r where "r \<in> set (jobs st)" "j = fromRow r"
    by (auto simp: getJob_def dest: find_SomeD)
  then show ?thesis
    using none by (cases rule: nextRunnableJob_cases [of tie st]) (auto simp: fromRow_def)
qed

text \<open>What a run of the loop did to a job it found, and to the whole table.\<close>

definition worked_job :: "store \<Rightarrow> string \<Rightarrow> job \<Rightarrow> bool" where
  "worked_job st k j =
     (if runnable (jobStatus j)
      then \<exists>q. getJob st k = Some q \<and> identity_of q = identity_of j \<and> attempts q = attempts j + 1
        \<and> (jobStatus q = Failed \<or> jobStatus q = Confirmed \<and> jobError q = None)
      else getJob st k = Some j)"

definition worked :: "world \<Rightarrow> world \<Rightarrow> bool" where
  "worked w t = (store_ok (db t) \<and> running t = running w \<and> wakeRequested t = wakeRequested w
     \<and> (\<forall>k j. getJob (db w) k = Some j \<longrightarrow>
          worked_job (db t) k j)
     \<and> (\<forall>k. getJob (db w) k = None \<longrightarrow> getJob (db t) k = None))"

lemma work_off_runs:
  assumes "clock_ok env" and "store_ok (db w)"
  shows "\<exists>t. work_off env cfg tie w = Some (Inr (), t) \<and> worked w t \<and> pending (db t) = {}"
  using assms(2)
proof (induction "card (pending (db w))" arbitrary: w rule: less_induct)
  case less
  show ?case
  proof (cases "nextRunnableJob tie (db w)")
    case None
    then have "\<not> runnable (jobStatus j)" if "getJob (db w) k = Some j" for k j
      using nextRunnableJob_None that by blast
    then show ?thesis
      using None less.prems
      by (subst work_off.simps) (auto simp: ret_def worked_def worked_job_def pending_def)
  next
    case (Some j)
    let ?i = "jobId j"
    have j: "getJob (db w) ?i = Some j" "runnable (jobStatus j)"
      using nextRunnableJob_stored [OF less.prems Some] by auto
    obtain u q where u: "process env cfg j w = Some (Inr (), u)" "others_same ?i w u"
      "getJob (db u) ?i = Some q" "attempts q = attempts j + 1"
      "jobStatus q = Failed \<or> jobStatus q = Confirmed \<and> jobError q = None"
      using process_settles [OF assms(1) j(1), of cfg] by blast
    have q: "\<not> runnable (jobStatus q)" "identity_of q = identity_of j"
      using u j by (auto simp: runnable_def others_same_def)
    have others: "getJob (db u) k = getJob (db w) k" if "k \<noteq> ?i" for k
      using u(2) that by (simp add: others_same_def)
    have "pending (db u) = pending (db w) - {?i}"
      using others q(1) u(3) by (auto simp: pending_def)
        (metis option.inject)+
    moreover have "?i \<in> pending (db w)" using j by (auto simp: pending_def)
    ultimately have "card (pending (db u)) < card (pending (db w))"
      by (simp only: card_Diff1_less finite_pending)
    moreover have "store_ok (db u)" using u(2) less.prems by (simp add: others_same_def)
    ultimately obtain t where t: "work_off env cfg tie u = Some (Inr (), t)" "worked u t" "pending (db t) = {}"
      using less.hyps by blast
    have "worked w t"
      unfolding worked_def
    proof (intro conjI allI impI)
      show "store_ok (db t)" "running t = running w" "wakeRequested t = wakeRequested w"
        using t(2) u(2) by (auto simp: worked_def others_same_def)
      fix k show "getJob (db t) k = None" if "getJob (db w) k = None"
        using that t(2) others j(1) by (cases "k = ?i") (auto simp: worked_def)
      fix p assume p: "getJob (db w) k = Some p"
      show "worked_job (db t) k p"
      proof (cases "k = ?i")
        case True
        then have "getJob (db t) k = Some q" using t(2) u(3) q(1) by (auto simp: worked_def worked_job_def)
        then show ?thesis using True p j u q(2) by (auto simp: worked_job_def)
      next
        case False
        then have "getJob (db u) k = Some p" using p others by simp
        then show ?thesis using t(2) by (auto simp: worked_def)
      qed
    qed
    moreover have "work_off env cfg tie w = Some (Inr (), t)"
      using Some u(1) t(1) by (subst work_off.simps) (simp add: bindA_def)
    ultimately show ?thesis using t(3) by blast
  qed
qed

lemma drain_runs:
  assumes "clock_ok env" and "store_ok (db w)" and "\<not> running w"
  obtains t where "drain env cfg tie w = Some (Inr (), t\<lparr>running := False\<rparr>)"
    and "worked (w\<lparr>running := True, wakeRequested := False\<rparr>) t" and "pending (db t) = {}"
proof -
  let ?w = "w\<lparr>running := True, wakeRequested := False\<rparr>"
  obtain t where t: "work_off env cfg tie ?w = Some (Inr (), t)" "worked ?w t" "pending (db t) = {}"
    using work_off_runs [OF assms(1), of ?w cfg tie] assms(2) by auto
  have "\<not> wakeRequested t" using t(2) by (simp add: worked_def)
  then have "drain_rounds env cfg tie (w\<lparr>running := True\<rparr>) = Some (Inr (), t)"
    using t(1) by (subst drain_rounds.simps) (simp add: bindA_def modifyA_def ret_def)
  then have "drain env cfg tie w = Some (Inr (), t\<lparr>running := False\<rparr>)"
    using assms(3) by (simp add: drain_def bindA_def getA_def thenA_def modifyA_def finallyA_def)
  then show thesis using that t by blast
qed

section \<open>Requests while the loop works\<close>

text \<open>
  The event loop interleaves the work loop with requests at every pause. Where the work loop is:
  not running, about to ask for the next job, or working on a job.
\<close>

datatype phase = Idle | Looking | Working string

definition woken :: "phase \<Rightarrow> world \<Rightarrow> phase" where
  "woken p t = (if p = Idle \<and> running t then Looking else p)"

text \<open>
  \<open>step_work\<close> is a piece of the work on job \<open>i\<close>: by the frame of \<open>process\<close> it changes no other
  job. The last piece leaves the job confirmed or failed (\<open>process_settles\<close>).
\<close>

inductive loop_step :: "env \<Rightarrow> (row list \<Rightarrow> nat) \<Rightarrow> phase \<times> world \<Rightarrow> phase \<times> world \<Rightarrow> bool"
  for env :: env and tie :: "row list \<Rightarrow> nat" where
  step_direct: "enqueueDirect env account command ciphertext w = Some (r, t)
     \<Longrightarrow> loop_step env tie (p, w) (woken p t, t)"
| step_chain: "enqueueChain env account command requestId block key w = Some (r, t)
     \<Longrightarrow> loop_step env tie (p, w) (woken p t, t)"
| step_retry: "retry env i w = Some (r, t) \<Longrightarrow> loop_step env tie (p, w) (woken p t, t)"
| step_wake: "wake w = Some (r, t) \<Longrightarrow> loop_step env tie (p, w) (woken p t, t)"
| step_take: "nextRunnableJob tie (db w) = Some j \<Longrightarrow> loop_step env tie (Looking, w) (Working (jobId j), w)"
| step_again: "nextRunnableJob tie (db w) = None \<Longrightarrow> wakeRequested w
     \<Longrightarrow> loop_step env tie (Looking, w) (Looking, w\<lparr>wakeRequested := False\<rparr>)"
| step_stop: "nextRunnableJob tie (db w) = None \<Longrightarrow> \<not> wakeRequested w
     \<Longrightarrow> loop_step env tie (Looking, w) (Idle, w\<lparr>running := False\<rparr>)"
| step_work: "others_same i w t \<Longrightarrow> loop_step env tie (Working i, w) (Working i, t)"
| step_finish: "others_same i w t \<Longrightarrow> getJob (db t) i = Some q \<Longrightarrow> \<not> runnable (jobStatus q)
     \<Longrightarrow> loop_step env tie (Working i, w) (Looking, t)"
| step_other: "jobs (db t) = jobs (db w) \<Longrightarrow> running t = running w \<Longrightarrow> wakeRequested t = wakeRequested w
     \<Longrightarrow> loop_step env tie (p, w) (p, t)"

inductive loop_reachable :: "env \<Rightarrow> (row list \<Rightarrow> nat) \<Rightarrow> phase \<times> world \<Rightarrow> bool"
  for env :: env and tie :: "row list \<Rightarrow> nat" where
  loop_start: "store_ok (db w) \<Longrightarrow> \<not> running w \<Longrightarrow> wake w = Some (r, t)
     \<Longrightarrow> loop_reachable env tie (woken Idle t, t)"
| loop_next: "loop_reachable env tie x \<Longrightarrow> loop_step env tie x y \<Longrightarrow> loop_reachable env tie y"

inductive_cases loop_stepE: "loop_step env tie (p, w) (q, t)"

definition loop_inv :: "phase \<times> world \<Rightarrow> bool" where
  "loop_inv x = (case x of (p, w) \<Rightarrow> store_ok (db w) \<and> (running w \<longleftrightarrow> p \<noteq> Idle)
     \<and> (\<not> running w \<longrightarrow> \<not> wakeRequested w \<and> pending (db w) = {}))"

text \<open>A request that takes effect leaves the loop running.\<close>

definition rings :: "(world, 'a) act \<Rightarrow> bool" where
  "rings m = (\<forall>w r t. m w = Some (r, t) \<longrightarrow> store_ok (db w) \<longrightarrow> store_ok (db t)
     \<and> (running t \<or> db t = db w \<and> wakeRequested t = wakeRequested w) \<and> (running w \<longrightarrow> running t))"

lemma wake_run: "wake w = Some (Inr (), if running w then w\<lparr>wakeRequested := True\<rparr>
    else w\<lparr>wakeRequested := False, running := True\<rparr>)"
  by (simp add: wake_def modifyA_def)

lemma rings_wake: "rings wake"
  by (auto simp: rings_def wake_run)

lemma dbCreateJob_cases:
  assumes "dbCreateJob env type account load key w = Some (r, t)" and "store_ok (db w)"
  shows "store_ok (db t) \<and> running t = running w \<and> wakeRequested t = wakeRequested w
    \<and> (\<forall>e. r = Inl e \<longrightarrow> db t = db w)"
proof -
  let ?h = "CUuid # CNow # hist w"
  let ?make = "createJob (e_uuid env ?h) (e_now env (CNow # hist w)) type account load key"
  have run: "?make (db w) = Some (r, db t)" "running t = running w" "wakeRequested t = wakeRequested w"
    using assms(1) by (auto simp: dbCreateJob_def nowA_def ask_def bindA_def liftDb_def Let_def
        split: option.splits sum.splits)
  moreover have "db t = db w" if "r = Inl e" for e
    using run(1) that
    by (cases rule: createJob_cases [of key "db w" "e_uuid env ?h" "e_now env (CNow # hist w)" type account load])
      auto
  ultimately show ?thesis using createJob_ok [OF assms(2)] by auto
qed

lemma dbResetForRetry_cases:
  assumes "dbResetForRetry env i w = Some (r, t)" and "store_ok (db w)"
  shows "store_ok (db t) \<and> running t = running w \<and> wakeRequested t = wakeRequested w
    \<and> (\<forall>e. r = Inl e \<longrightarrow> db t = db w)"
proof -
  have run: "resetForRetry (e_now env (CNow # hist w)) i (db w) = Some (r, db t)"
      "running t = running w" "wakeRequested t = wakeRequested w"
    using assms(1) by (auto simp: dbResetForRetry_def nowA_def ask_def bindA_def liftDb_def Let_def
        split: option.splits)
  moreover have "db t = db w" if "r = Inl e" for e
    using run(1) that
    by (auto simp: resetForRetry_eq updateJob_Some split: option.splits if_splits)
  ultimately show ?thesis using resetForRetry_ok [OF assms(2)] by auto
qed

lemma rings_enqueue: "rings (enqueueDirect env a c x)" "rings (enqueueChain env a c q b k)" "rings (retry env i)"
  unfolding rings_def enqueueDirect_def enqueueChain_def retry_def
  by (auto simp: bindA_def thenA_def wake_run ret_def emitJob_def modifyA_def
      split: option.splits sum.splits if_splits dest: dbCreateJob_cases dbResetForRetry_cases)

lemma loop_inv_ring:
  assumes "rings m" and "loop_inv (p, w)" and "m w = Some (r, t)"
  shows "loop_inv (woken p t, t)"
proof -
  have w: "store_ok (db w)" "running w \<longleftrightarrow> p \<noteq> Idle"
    "\<not> running w \<Longrightarrow> \<not> wakeRequested w \<and> pending (db w) = {}"
    using assms(2) by (simp_all add: loop_inv_def)
  have t: "store_ok (db t)" "running t \<or> db t = db w \<and> wakeRequested t = wakeRequested w"
    "running w \<longrightarrow> running t"
    using assms(1,3) w(1) unfolding rings_def by blast+
  show ?thesis
  proof (cases "running t")
    case True
    then show ?thesis using t(1) by (simp add: loop_inv_def woken_def)
  next
    case False
    then show ?thesis using t w by (simp add: loop_inv_def woken_def)
  qed
qed

lemma store_ok_jobs: "jobs s = jobs t \<Longrightarrow> store_ok s = store_ok t"
  by (simp add: store_ok_def)

lemma pending_jobs: "jobs s = jobs t \<Longrightarrow> pending s = pending t"
  by (simp add: pending_def getJob_def)

lemma loop_inv_step: "loop_step env tie x y \<Longrightarrow> loop_inv x \<Longrightarrow> loop_inv y"
proof (induction rule: loop_step.induct)
  case (step_stop w)
  then show ?case using nextRunnableJob_None by (auto simp: loop_inv_def pending_def)
next
  case (step_work i w t)
  then show ?case by (auto simp: loop_inv_def others_same_def)
next
  case (step_finish i w t q)
  then show ?case by (auto simp: loop_inv_def others_same_def)
next
  case (step_other t w p)
  then show ?case using store_ok_jobs [of "db t" "db w"] pending_jobs [of "db t" "db w"]
    by (simp add: loop_inv_def)
next
  case (step_direct account command ciphertext w r t p)
  then show ?case by (intro loop_inv_ring [OF rings_enqueue(1)])
next
  case (step_chain account command requestId block key w r t p)
  then show ?case by (intro loop_inv_ring [OF rings_enqueue(2)])
next
  case (step_retry i w r t p)
  then show ?case by (intro loop_inv_ring [OF rings_enqueue(3)])
next
  case (step_wake w r t p)
  then show ?case by (intro loop_inv_ring [OF rings_wake])
qed (simp_all add: loop_inv_def)

lemma loop_reachable_inv: "loop_reachable env tie x \<Longrightarrow> loop_inv x"
proof (induction rule: loop_reachable.induct)
  case (loop_start w r t)
  then show ?case by (auto simp: loop_inv_def woken_def wake_run)
next
  case (loop_next x y)
  then show ?case by (blast intro: loop_inv_step)
qed

section \<open>Properties\<close>

text \<open>
  C16. \<open>drain\<close> comes to an end: started when it is not running, it works every runnable job exactly
  once, to a confirmed or a failed state, leaves no runnable job, changes no job that was not
  runnable, and clears both of its flags.
\<close>
theorem drain_works_off:
  assumes "clock_ok env" and "store_ok (db w)" and "\<not> running w"
  shows "\<exists>t. drain env cfg tie w = Some (Inr (), t) \<and> \<not> running t \<and> \<not> wakeRequested t
     \<and> (\<forall>k j. getJob (db w) k = Some j \<longrightarrow>
          worked_job (db t) k j)
     \<and> (\<forall>k j. getJob (db t) k = Some j \<longrightarrow> \<not> runnable (jobStatus j))"
proof -
  obtain t where t: "drain env cfg tie w = Some (Inr (), t\<lparr>running := False\<rparr>)"
    "worked (w\<lparr>running := True, wakeRequested := False\<rparr>) t" "pending (db t) = {}"
    by (rule drain_runs [OF assms])
  have "getJob (db w) k = Some j \<Longrightarrow>
          worked_job (db t) k j" for k j
    using t(2) unfolding worked_def by simp
  moreover have "\<not> wakeRequested t" using t(2) by (simp add: worked_def)
  moreover have "getJob (db t) k = Some j \<Longrightarrow> \<not> runnable (jobStatus j)" for k j
    using t(3) by (auto simp: pending_def)
  ultimately show ?thesis using t(1) by (intro exI [of _ "t\<lparr>running := False\<rparr>"]) simp
qed

theorem drain_works_off_witness:
  "\<exists>t q. drain sample_env sample_config (\<lambda>_. 0) sample_world = Some (Inr (), t)
     \<and> getJob (db t) ''a'' = Some q \<and> attempts q = 1"
proof -
  have ok: "store_ok (db sample_world)" "\<not> running sample_world"
    using sample_store_facts(1) by (simp_all add: sample_world_def)
  have job: "getJob (db sample_world) ''a'' = Some sample_job" "runnable (jobStatus sample_job)"
    "attempts sample_job = 0"
    using sample_world_job by (simp_all add: sample_job_def runnable_def newJob_def)
  obtain t where t: "drain sample_env sample_config (\<lambda>_. 0) sample_world = Some (Inr (), t)"
    and all: "\<forall>k j. getJob (db sample_world) k = Some j \<longrightarrow>
          worked_job (db t) k j"
    using drain_works_off [OF sample_clock_ok ok, of sample_config "\<lambda>_. 0"] by blast
  have "\<exists>q. getJob (db t) ''a'' = Some q \<and> attempts q = 1"
    using all [rule_format, OF job(1)] unfolding worked_job_def job(3) by (simp add: job(2)) blast
  with t show ?thesis by blast
qed



end
