(* ===== verification/Codec.thy ===== *)
theory Codec
  imports Js_Text
begin

text \<open>
  The parts of the JavaScript library that sessions use: bytes of a text, \<open>Buffer\<close>'s base64url
  encoding and its forgiving decoding, and the text \<open>JSON.stringify\<close> gives for strings. A
  text is its sequence of UTF-8 bytes, one \<open>char\<close> each.
\<close>

section \<open>Base64url\<close>

text \<open>\<open>A\<close>-\<open>Z\<close>, \<open>a\<close>-\<open>z\<close>, \<open>0\<close>-\<open>9\<close>, \<open>-\<close> and \<open>_\<close>.\<close>

definition b64_char :: "nat \<Rightarrow> char" where
  "b64_char d =
     (if d < 26 then char_of (d + 65)
      else if d < 52 then char_of (d + 71)
      else if d < 62 then char_of (d - 4)
      else if d = 62 then CHR ''-'' else CHR ''_'')"

text \<open>Both alphabets are read; any other character is skipped, and the padding ends the text.\<close>

definition b64_value :: "char \<Rightarrow> nat option" where
  "b64_value c = (let n = of_char c in
     if 65 \<le> n \<and> n \<le> 90 then Some (n - 65)
     else if 97 \<le> n \<and> n \<le> 122 then Some (n - 71)
     else if 48 \<le> n \<and> n \<le> 57 then Some (n + 4)
     else if n = 45 \<or> n = 43 then Some 62
     else if n = 95 \<or> n = 47 then Some 63
     else None)"

fun b64_digits :: "nat list \<Rightarrow> nat list" where
  "b64_digits (x # y # z # r) =
     [x div 4, (x mod 4) * 16 + y div 16, (y mod 16) * 4 + z div 64, z mod 64] @ b64_digits r"
| "b64_digits [x, y] = [x div 4, (x mod 4) * 16 + y div 16, (y mod 16) * 4]"
| "b64_digits [x] = [x div 4, (x mod 4) * 16]"
| "b64_digits [] = []"

fun b64_bytes :: "nat list \<Rightarrow> nat list" where
  "b64_bytes (a # b # c # d # r) =
     [a * 4 + b div 16, (b mod 16) * 16 + c div 4, (c mod 4) * 64 + d] @ b64_bytes r"
| "b64_bytes [a, b, c] = [a * 4 + b div 16, (b mod 16) * 16 + c div 4]"
| "b64_bytes [a, b] = [a * 4 + b div 16]"
| "b64_bytes _ = []"

definition text_bytes :: "string \<Rightarrow> nat list" where
  "text_bytes s = map of_char s"

definition bytes_text :: "nat list \<Rightarrow> string" where
  "bytes_text bs = map char_of bs"

definition b64_encode :: "nat list \<Rightarrow> string" where
  "b64_encode bs = map b64_char (b64_digits bs)"

definition b64_decode :: "string \<Rightarrow> nat list" where
  "b64_decode s = b64_bytes (List.map_filter b64_value (takeWhile (\<lambda>c. c \<noteq> CHR ''='') s))"

lemma b64_value_char: "d < 64 \<Longrightarrow> b64_value (b64_char d) = Some d"
proof (cases "d < 62")
  case False
  assume "d < 64"
  with False have "d = 62 \<or> d = 63" by auto
  then show ?thesis by (auto simp: b64_value_def b64_char_def Let_def)
qed (auto simp: b64_value_def b64_char_def Let_def of_char_of)

lemma b64_char_plain: "b64_char d \<noteq> CHR ''.''" "b64_char d \<noteq> CHR ''=''"
proof -
  have "of_char (b64_char d) \<noteq> (46 :: nat) \<and> of_char (b64_char d) \<noteq> (61 :: nat)"
    by (auto simp: b64_char_def of_char_of)
  then show "b64_char d \<noteq> CHR ''.''" "b64_char d \<noteq> CHR ''=''" by auto
qed

lemma b64_digits_small: "list_all (\<lambda>x. x < 256) bs \<Longrightarrow> list_all (\<lambda>d. d < 64) (b64_digits bs)"
  by (induction bs rule: b64_digits.induct) (auto simp: less_mult_imp_div_less)

lemma b64_bytes_digits: "list_all (\<lambda>x. x < 256) bs \<Longrightarrow> b64_bytes (b64_digits bs) = bs"
  by (induction bs rule: b64_digits.induct) (auto simp: less_mult_imp_div_less)

lemma b64_map_filter: "list_all (\<lambda>d. d < 64) ds \<Longrightarrow> List.map_filter b64_value (map b64_char ds) = ds"
  by (induction ds) (simp_all add: List.map_filter_simps b64_value_char)

lemma b64_no_padding: "takeWhile (\<lambda>c. c \<noteq> CHR ''='') (map b64_char ds) = map b64_char ds"
  by (induction ds) (simp_all add: b64_char_plain)

lemma b64_roundtrip: "list_all (\<lambda>x. x < 256) bs \<Longrightarrow> b64_decode (b64_encode bs) = bs"
  by (simp add: b64_decode_def b64_encode_def b64_no_padding b64_map_filter b64_digits_small b64_bytes_digits)

lemma text_bytes_small [simp]: "list_all (\<lambda>x. x < 256) (text_bytes s)"
  by (auto simp: text_bytes_def list_all_iff)

lemma bytes_text_inverse [simp]: "bytes_text (text_bytes s) = s"
  by (simp add: bytes_text_def text_bytes_def comp_def)

lemma b64_encode_no_dot: "CHR ''.'' \<notin> set (b64_encode bs)"
  using b64_char_plain(1) unfolding b64_encode_def set_map by (metis image_iff)

lemma b64_encode_Nil: "b64_encode bs = [] \<longleftrightarrow> bs = []"
  by (cases bs rule: b64_digits.cases) (auto simp: b64_encode_def)

section \<open>JSON text of a string\<close>

definition hex_digit :: "nat \<Rightarrow> char" where
  "hex_digit d = ''0123456789abcdef'' ! (d mod 16)"

definition json_escape :: "char \<Rightarrow> string" where
  "json_escape c =
     (if c = CHR 0x22 then [CHR 0x5C, CHR 0x22]
      else if c = CHR 0x5C then [CHR 0x5C, CHR 0x5C]
      else if c = CHR 0x08 then [CHR 0x5C, CHR ''b'']
      else if c = CHR 0x0C then [CHR 0x5C, CHR ''f'']
      else if c = CHR 0x0A then [CHR 0x5C, CHR ''n'']
      else if c = CHR 0x0D then [CHR 0x5C, CHR ''r'']
      else if c = CHR 0x09 then [CHR 0x5C, CHR ''t'']
      else let n = of_char c in
        if n < 32 then [CHR 0x5C, CHR ''u'', CHR ''0'', CHR ''0'', hex_digit (n div 16), hex_digit n]
        else [c])"

definition json_string :: "string \<Rightarrow> string" where
  "json_string s = [CHR 0x22] @ concat (map json_escape s) @ [CHR 0x22]"

end
