(* ===== verification/Auth.thy ===== *)
theory Auth
  imports World Codec
begin

text \<open>
  Sign-in, \<^verbatim>\<open>relayer/src/auth.ts\<close>: the challenge a wallet signs, the session created
  from its signature, and the bearer token, a payload with its message authentication code. The
  code's MAC, the parsing of JSON and the check of the wallet's signature are parameters.
\<close>

section \<open>Challenges\<close>

record typed_data =
  td_name :: string
  td_version :: string
  td_chainId :: int
  td_verifyingContract :: address
  td_primaryType :: string
  td_wallet :: address
  td_nonce :: string
  td_issuedAt :: int
  td_expiresAt :: int

record challenge =
  ch_nonce :: string
  ch_issuedAt :: int
  ch_expiresAt :: int
  ch_typedData :: typed_data

definition session_typed_data :: "address \<Rightarrow> address \<Rightarrow> string \<Rightarrow> int \<Rightarrow> int \<Rightarrow> typed_data" where
  "session_typed_data vault wallet nonce issuedAt expiresAt =
     \<lparr>td_name = ''Quietline Session'', td_version = ''1'', td_chainId = 114,
      td_verifyingContract = vault, td_primaryType = ''QuietlineSession'', td_wallet = wallet,
      td_nonce = nonce, td_issuedAt = issuedAt, td_expiresAt = expiresAt\<rparr>"

text \<open>\<open>Math.floor(Date.now() / 1000)\<close>\<close>

definition secondsA :: "env \<Rightarrow> (world, int) act" where
  "secondsA env = bindA (nowA env) (\<lambda>ms. ret (ms div 1000))"

definition challengeA :: "env \<Rightarrow> config \<Rightarrow> address \<Rightarrow> (world, challenge) act" where
  "challengeA env cfg wallet =
     bindA (secondsA env) (\<lambda>now.
     bindA (ask (e_random env) (CRandom 24)) (\<lambda>nonce.
       let expiresAt = now + 300 in
       thenA (modifyA (\<lambda>w. w\<lparr>db := putChallenge wallet nonce expiresAt (db w)\<rparr>))
         (ret \<lparr>ch_nonce = nonce, ch_issuedAt = now, ch_expiresAt = expiresAt,
            ch_typedData = session_typed_data (QUIET_VAULT cfg) wallet nonce now expiresAt\<rparr>)))"

section \<open>Tokens\<close>

definition stringify_session :: "session \<Rightarrow> string" where
  "stringify_session s = [CHR ''{''] @ json_string ''sub'' @ '':'' @ json_string (ses_sub s) @ '',''
     @ json_string ''exp'' @ '':'' @ show_int (ses_exp s) @ [CHR ''}'']"

definition mac :: "env \<Rightarrow> config \<Rightarrow> string \<Rightarrow> string" where
  "mac env cfg body = b64_encode (p_mac env (SESSION_SECRET cfg) body)"

definition sign :: "env \<Rightarrow> config \<Rightarrow> session \<Rightarrow> string" where
  "sign env cfg s = (let body = b64_encode (text_bytes (stringify_session s)) in
     body @ ''.'' @ mac env cfg body)"

text \<open>
  \<open>const [body, signature] = token.split(".")\<close>: what follows a second dot is ignored.
\<close>

definition token_parts :: "string \<Rightarrow> (string \<times> string) option" where
  "token_parts token = (case split_on CHR ''.'' token of
      body # signature # _ \<Rightarrow> if body = [] \<or> signature = [] then None else Some (body, signature)
    | _ \<Rightarrow> None)"

definition verify_at :: "env \<Rightarrow> config \<Rightarrow> string \<Rightarrow> int \<Rightarrow> js_error + session" where
  "verify_at env cfg token now =
     (case token_parts token of
        None \<Rightarrow> Inl (JsError ''invalid session token'')
      | Some (body, signature) \<Rightarrow>
          if b64_decode signature \<noteq> b64_decode (mac env cfg body)
          then Inl (JsError ''invalid session token'')
          else (case p_session env (bytes_text (b64_decode body)) of
              Inl e \<Rightarrow> Inl e
            | Inr payload \<Rightarrow>
                if ses_exp payload < now then Inl (JsError ''session expired'') else Inr payload))"

text \<open>
  The clock is read once the payload was parsed; as nothing else happens before, it is read
  first here.
\<close>

definition verify :: "env \<Rightarrow> config \<Rightarrow> string \<Rightarrow> (world, session) act" where
  "verify env cfg token = bindA (secondsA env) (\<lambda>now. liftA (verify_at env cfg token now))"

section \<open>Sessions\<close>

definition createSession :: "env \<Rightarrow> config \<Rightarrow> address \<Rightarrow> string \<Rightarrow> int \<Rightarrow> int \<Rightarrow> hex \<Rightarrow> (world, string) act" where
  "createSession env cfg wallet nonce issuedAt expiresAt signature =
     bindA (secondsA env) (\<lambda>now.
       if issuedAt > now + 30 \<or> expiresAt \<le> now \<or> expiresAt - issuedAt \<noteq> 300
       then throw (JsError ''challenge timestamps are invalid'')
       else
         bindA (liftDb (\<lambda>st. case consumeChallenge wallet nonce now st of (ok, t) \<Rightarrow> Some (Inr ok, t)))
           (\<lambda>consumed.
           if \<not> consumed then throw (JsError ''challenge is invalid or expired'')
           else
             bindA (askE (e_verify env) (CVerifySession wallet nonce issuedAt expiresAt signature)) (\<lambda>valid.
               if \<not> valid then throw (JsError ''session signature is invalid'')
               else ret (sign env cfg \<lparr>ses_sub = lower wallet, ses_exp = now + 1800\<rparr>))))"

section \<open>Laws\<close>

text \<open>
  What the tokens rely on: a digest is a nonempty list of bytes, and \<open>JSON.parse\<close> reads back what
  \<open>JSON.stringify\<close> wrote, for the texts that a wallet's address is made of.
\<close>

definition address_char :: "char \<Rightarrow> bool" where
  "address_char c = (char_digit c \<noteq> None \<or> c = CHR ''x'')"

definition address_text :: "string \<Rightarrow> bool" where
  "address_text s = list_all address_char s"

definition digest_ok :: "env \<Rightarrow> bool" where
  "digest_ok env = (\<forall>k s. p_mac env k s \<noteq> [] \<and> list_all (\<lambda>b. b < 256) (p_mac env k s))"

definition json_ok :: "env \<Rightarrow> bool" where
  "json_ok env = (\<forall>s. address_text (ses_sub s) \<longrightarrow> p_session env (stringify_session s) = Inr s)"

lemma sign_parts:
  assumes "digest_ok env"
  shows "token_parts (sign env cfg s) =
    Some (b64_encode (text_bytes (stringify_session s)), mac env cfg (b64_encode (text_bytes (stringify_session s))))"
proof -
  let ?body = "b64_encode (text_bytes (stringify_session s))"
  have "?body \<noteq> []" by (simp add: b64_encode_Nil text_bytes_def stringify_session_def)
  moreover have "mac env cfg ?body \<noteq> []"
    using assms by (simp add: mac_def b64_encode_Nil digest_ok_def)
  moreover have "split_on CHR ''.'' (mac env cfg ?body) = [mac env cfg ?body]"
    by (simp add: split_on_absent mac_def b64_encode_no_dot)
  ultimately show ?thesis
    unfolding sign_def token_parts_def Let_def
    by (simp add: split_on_append [OF b64_encode_no_dot])
qed

lemma secondsA_run: "secondsA env w = Some (Inr (e_now env (CNow # hist w) div 1000), w\<lparr>hist := CNow # hist w\<rparr>)"
  by (simp add: secondsA_def nowA_def ask_def bindA_def ret_def Let_def)

lemma verify_run: "verify env cfg token w =
    Some (verify_at env cfg token (e_now env (CNow # hist w) div 1000), w\<lparr>hist := CNow # hist w\<rparr>)"
  by (simp add: verify_def bindA_def secondsA_run liftA_def)

lemma verify_keeps [intro!, simp]: "keeps same_db (verify env cfg token)" "keeps no_write (verify env cfg token)"
  by (auto simp: keeps_def verify_run same_db_def no_write_def chain_writes_def is_write_def)

lemma verify_total [intro!, simp]: "total (verify env cfg token)"
  by (simp add: total_def ends_def verify_run)

lemma createSession_total [intro!, simp]: "total (createSession env cfg a n i x g)"
proof -
  have "total (liftDb (\<lambda>st. case consumeChallenge a n now st of (ok, t) \<Rightarrow> Some (Inr ok, t)))" for now
    by (auto simp: total_def ends_def liftDb_def split: prod.splits)
  then show ?thesis
    unfolding createSession_def secondsA_def by (auto intro!: total_intros)
qed

lemma createSession_runs:
  assumes "createSession env cfg a n issued expires g w = Some (Inr token, t)"
  defines "now \<equiv> e_now env (CNow # hist w) div 1000"
  shows "expires - issued = 300 \<and> issued \<le> now + 30 \<and> now < expires"
    and "consumeChallenge a n now (db w) = (True, db t)"
    and "e_verify env (CVerifySession a n issued expires g # CNow # hist w) = Inr True"
    and "token = sign env cfg \<lparr>ses_sub = lower a, ses_exp = now + 1800\<rparr>"
  using assms
  by (auto simp: createSession_def secondsA_run bindA_def liftDb_def askE_def ask_def liftA_def throw_def
      ret_def Let_def split: if_splits option.splits sum.splits prod.splits)

section \<open>Properties\<close>

text \<open>
  A token the relayer signed verifies to the session it was signed for until that session
  expires, and is refused from then on.
\<close>
lemma token_roundtrip:
  assumes "digest_ok env" and "json_ok env" and "address_text (ses_sub s)"
  shows "verify_at env cfg (sign env cfg s) now =
    (if ses_exp s < now then Inl (JsError ''session expired'') else Inr s)"
proof -
  have "b64_decode (b64_encode (text_bytes (stringify_session s))) = text_bytes (stringify_session s)"
    by (rule b64_roundtrip) simp
  then show ?thesis
    using assms(2,3) by (simp add: verify_at_def sign_parts [OF assms(1)] json_ok_def)
qed

text \<open>A reader for the witness: it reads what \<open>stringify_session\<close> writes for an address.\<close>

definition read_session :: "string \<Rightarrow> js_error + session" where
  "read_session t =
     (let sub = takeWhile (\<lambda>c. c \<noteq> CHR 0x22) (drop 8 t);
          number = takeWhile (\<lambda>c. c \<noteq> CHR ''}'') (drop (16 + length sub) t)
      in case string_to_bigint number of
           None \<Rightarrow> Inl (JsError ''Unexpected token'')
         | Some n \<Rightarrow> Inr \<lparr>ses_sub = sub, ses_exp = n\<rparr>)"

lemma address_char_escape: "address_char c \<Longrightarrow> json_escape c = [c]"
proof -
  assume "address_char c"
  then have "c \<noteq> CHR 0x5C" "48 \<le> (of_char c :: nat)"
    by (auto simp: address_char_def char_digit_def Let_def split: if_splits)
  then have "c \<noteq> k" if "(of_char k :: nat) < 48" for k using that by auto
  from this [of "CHR 0x22"] this [of "CHR 0x08"] this [of "CHR 0x0C"] this [of "CHR 0x0A"]
    this [of "CHR 0x0D"] this [of "CHR 0x09"]
  show ?thesis using \<open>c \<noteq> CHR 0x5C\<close> \<open>48 \<le> of_char c\<close>
    by (simp add: json_escape_def Let_def)
qed

lemma json_string_address: "address_text s \<Longrightarrow> json_string s = [CHR 0x22] @ s @ [CHR 0x22]"
proof -
  assume "address_text s"
  then have "concat (map json_escape s) = s"
    by (induction s) (simp_all add: address_text_def address_char_escape)
  then show ?thesis by (simp add: json_string_def)
qed

lemma address_char_quote: "address_char c \<Longrightarrow> c \<noteq> CHR 0x22"
  by (auto simp: address_char_def char_digit_def)

lemma takeWhile_until: "list_all (\<lambda>c. c \<noteq> d) s \<Longrightarrow> takeWhile (\<lambda>c. c \<noteq> d) (s @ d # r) = s"
  by (induction s) auto

lemma show_int_no_brace: "list_all (\<lambda>c. c \<noteq> CHR ''}'') (show_int n)"
proof -
  have "c \<noteq> CHR ''}''" if c: "c \<in> set (show_nat m)" for c m
  proof -
    obtain d where d: "d < 10" "c = digit_char d" using show_nat_digits [OF c] by blast
    then have "(of_char c :: nat) = 48 + d" by simp
    with d(1) show ?thesis by auto
  qed
  then show ?thesis by (auto simp: show_int_def list_all_iff)
qed

lemma read_session_stringify:
  assumes "address_text (ses_sub s)"
  shows "read_session (stringify_session s) = Inr s"
proof -
  have names: "json_string ''sub'' = [CHR 0x22] @ ''sub'' @ [CHR 0x22]"
    "json_string ''exp'' = [CHR 0x22] @ ''exp'' @ [CHR 0x22]" by code_simp+
  have written: "stringify_session s = [CHR ''{'', CHR 0x22, CHR ''s'', CHR ''u'', CHR ''b'', CHR 0x22, CHR '':'', CHR 0x22]
      @ ses_sub s @ CHR 0x22 # [CHR '','', CHR 0x22, CHR ''e'', CHR ''x'', CHR ''p'', CHR 0x22, CHR '':'']
      @ show_int (ses_exp s) @ CHR ''}'' # []"
    by (simp add: stringify_session_def names json_string_address [OF assms])
  have "list_all (\<lambda>c. c \<noteq> CHR 0x22) (ses_sub s)"
    using assms by (auto simp: address_text_def list_all_iff address_char_quote)
  from takeWhile_until [OF this]
  have sub: "takeWhile (\<lambda>c. c \<noteq> CHR 0x22) (drop 8 (stringify_session s)) = ses_sub s"
    by (simp add: written)
  have skip: "drop n (xs @ ys) = ys" if "length xs = n" for n and xs ys :: string
    using that by simp
  have "stringify_session s = ([CHR ''{'', CHR 0x22, CHR ''s'', CHR ''u'', CHR ''b'', CHR 0x22, CHR '':'', CHR 0x22]
      @ ses_sub s @ CHR 0x22 # [CHR '','', CHR 0x22, CHR ''e'', CHR ''x'', CHR ''p'', CHR 0x22, CHR '':''])
      @ (show_int (ses_exp s) @ CHR ''}'' # [])"
    by (simp add: written)
  then have "drop (16 + length (ses_sub s)) (stringify_session s) = show_int (ses_exp s) @ CHR ''}'' # []"
    by (simp only:) (rule skip, simp)
  then have "takeWhile (\<lambda>c. c \<noteq> CHR ''}'') (drop (16 + length (ses_sub s)) (stringify_session s)) = show_int (ses_exp s)"
    by (simp only: takeWhile_until [OF show_int_no_brace])
  then show ?thesis
    unfolding read_session_def Let_def sub by (simp add: bigint_show_int)
qed

definition auth_env :: env where
  "auth_env = sample_env\<lparr>p_session := read_session\<rparr>"

lemma auth_env_ok: "digest_ok auth_env" "json_ok auth_env"
  by (simp_all add: digest_ok_def json_ok_def auth_env_def sample_env_def read_session_stringify)

lemma token_roundtrip_witness:
  "verify_at auth_env sample_config (sign auth_env sample_config \<lparr>ses_sub = ''0xab'', ses_exp = 1900\<rparr>) 1900
     = Inr \<lparr>ses_sub = ''0xab'', ses_exp = 1900\<rparr>"
proof -
  have "address_text ''0xab''" by code_simp
  then show ?thesis
    using token_roundtrip [OF auth_env_ok, of "\<lparr>ses_sub = ''0xab'', ses_exp = 1900\<rparr>" sample_config 1900]
    by simp
qed

text \<open>
  C31. No session without the relayer's code: a token is accepted only if its second part decodes to
  the message authentication code, under the relayer's secret, of its first part, the session is
  what that first part says, and it has not expired.
\<close>
theorem verify_authentic:
  assumes "verify_at env cfg token now = Inr s"
  shows "\<exists>body signature. token_parts token = Some (body, signature)
     \<and> b64_decode signature = b64_decode (b64_encode (p_mac env (SESSION_SECRET cfg) body))
     \<and> p_session env (bytes_text (b64_decode body)) = Inr s \<and> now \<le> ses_exp s"
  using assms
  by (auto simp: verify_at_def mac_def split: option.splits if_splits sum.splits)

theorem verify_authentic_witness:
  "\<exists>body signature. token_parts (sign auth_env sample_config \<lparr>ses_sub = ''0xab'', ses_exp = 1900\<rparr>)
     = Some (body, signature)"
proof -
  have "address_text ''0xab''" by code_simp
  then have "verify_at auth_env sample_config (sign auth_env sample_config \<lparr>ses_sub = ''0xab'', ses_exp = 1900\<rparr>) 1900
      = Inr \<lparr>ses_sub = ''0xab'', ses_exp = 1900\<rparr>"
    unfolding verify_at_def sign_parts [OF auth_env_ok(1)]
    using auth_env_ok(2) by (simp add: b64_roundtrip json_ok_def)
  from verify_authentic [OF this] show ?thesis by blast
qed

text \<open>
  C17. A session is created only for a wallet that answered its own challenge: the time stamps are
  five minutes apart and current, the challenge with this nonce was stored for this address and had
  not expired, the wallet's signature over exactly this challenge was verified, and the token is for
  this address and half an hour. The challenge is used up: no second session can be created with it.
\<close>
theorem createSession_once:
  assumes "createSession env cfg a n issued expires g w = Some (Inr token, t)"
  shows "(let now = e_now env (CNow # hist w) div 1000 in
      expires - issued = 300 \<and> issued \<le> now + 30 \<and> now < expires
      \<and> (\<exists>e. challenges (db w) (lower a) = Some (n, e) \<and> now \<le> e)
      \<and> token = sign env cfg \<lparr>ses_sub = lower a, ses_exp = now + 1800\<rparr>)
    \<and> e_verify env (CVerifySession a n issued expires g # CNow # hist w) = Inr True
    \<and> (\<forall>n' issued' expires' g'. \<exists>e u. createSession env cfg a n' issued' expires' g' t = Some (Inl e, u))"
proof -
  note facts = createSession_runs [OF assms]
  have gone: "challenges (db t) (lower a) = None"
    "\<exists>e. challenges (db w) (lower a) = Some (n, e) \<and> e_now env (CNow # hist w) div 1000 \<le> e"
    using facts(2) [symmetric] by (auto simp: consumeChallenge_def split: option.splits if_splits)
  have "\<exists>e u. createSession env cfg a n' issued' expires' g' t = Some (Inl e, u)" for n' issued' expires' g'
  proof -
    obtain r u where run: "createSession env cfg a n' issued' expires' g' t = Some (r, u)"
      using total_ends [OF createSession_total] by (rule endsE)
    have "r \<noteq> Inr x" for x
      using createSession_runs(2) [of env cfg a n' issued' expires' g' t x u] run gone(1)
      by (auto simp: consumeChallenge_def)
    then show ?thesis using run by (cases r) auto
  qed
  then show ?thesis using facts gone(2) by (simp add: Let_def)
qed

theorem createSession_once_witness:
  "\<exists>token t. createSession auth_env sample_config ''0x1'' ''n'' 0 300 ''0xff''
       (sample_world\<lparr>db := putChallenge ''0x1'' ''n'' 300 empty_store\<rparr>) = Some (Inr token, t)
     \<and> (\<exists>e u. createSession auth_env sample_config ''0x1'' ''n'' 0 300 ''0xff'' t = Some (Inl e, u))"
proof -
  obtain token t where run: "createSession auth_env sample_config ''0x1'' ''n'' 0 300 ''0xff''
       (sample_world\<lparr>db := putChallenge ''0x1'' ''n'' 300 empty_store\<rparr>) = Some (Inr token, t)"
    by (simp add: createSession_def secondsA_run bindA_def liftDb_def askE_def ask_def liftA_def ret_def
        Let_def consumeChallenge_def putChallenge_def sample_world_def auth_env_def sample_env_def)
  from createSession_once [OF run] run show ?thesis by blast
qed

end
