(* ===== verification/Protocol.thy ===== *)
theory Protocol
  imports Js_Text Complex_Main
begin

text \<open>
  The shared protocol package, \<^verbatim>\<open>packages/protocol/src/index.ts\<close>: JSON values, the
  network, the assets, the policy and the zod schemas as executable checks.
\<close>

section \<open>JSON values\<close>

text \<open>The members of an object have distinct names; a number is the rational it denotes.\<close>

datatype json =
    JNull
  | JBool bool
  | JNumber rat
  | JText string
  | JArray "json list"
  | JObject "(string \<times> json) list"

definition member_of :: "json \<Rightarrow> string \<Rightarrow> json option" where
  "member_of v k = (case v of JObject ms \<Rightarrow> map_of ms k | _ \<Rightarrow> None)"

definition is_object :: "json \<Rightarrow> bool" where
  "is_object v = (case v of JObject _ \<Rightarrow> True | _ \<Rightarrow> False)"

text \<open>\<open>z.string().refine(p)\<close> and \<open>z.number().int().refine(p)\<close>.\<close>

definition text_that :: "(string \<Rightarrow> bool) \<Rightarrow> json option \<Rightarrow> bool" where
  "text_that p v = (case v of Some (JText s) \<Rightarrow> p s | _ \<Rightarrow> False)"

definition integer_that :: "(int \<Rightarrow> bool) \<Rightarrow> json option \<Rightarrow> bool" where
  "integer_that p v = (case v of Some (JNumber r) \<Rightarrow> r = of_int \<lfloor>r\<rfloor> \<and> p \<lfloor>r\<rfloor> | _ \<Rightarrow> False)"

definition text_or_empty :: "json option \<Rightarrow> string" where
  "text_or_empty v = (case v of Some (JText s) \<Rightarrow> s | _ \<Rightarrow> [])"

definition integer_or_zero :: "json option \<Rightarrow> int" where
  "integer_or_zero v = (case v of Some (JNumber r) \<Rightarrow> \<lfloor>r\<rfloor> | _ \<Rightarrow> 0)"

section \<open>Network, assets, policy\<close>

record network =
  net_id :: int
  net_name :: string
  net_rpcUrl :: string
  net_explorerUrl :: string
  net_faucetUrl :: string

definition COSTON2 :: network where
  "COSTON2 = \<lparr>net_id = 114, net_name = ''Coston2'',
     net_rpcUrl = ''https://coston2-api.flare.network/ext/C/rpc'',
     net_explorerUrl = ''https://coston2-explorer.flare.network'',
     net_faucetUrl = ''https://faucet.flare.network/coston2''\<rparr>"

datatype AssetId = FXRP | USDT0

record asset =
  as_symbol :: string
  as_address :: string
  as_decimals :: nat

text \<open>The symbol of USDT0 holds the three UTF-8 bytes of U+20AE.\<close>

primrec ASSETS :: "AssetId \<Rightarrow> asset" where
  "ASSETS FXRP = \<lparr>as_symbol = ''FXRP'', as_address = ''0x0b6A3645c240605887a5532109323A3E12273dc7'',
     as_decimals = 6\<rparr>"
| "ASSETS USDT0 = \<lparr>as_symbol = ''USD'' @ [CHR 0xE2, CHR 0x82, CHR 0xAE] @ ''0'',
     as_address = ''0xC1A5B41512496B80903D1f32d6dEa3a73212E71F'', as_decimals = 6\<rparr>"

definition assetSymbol :: "AssetId \<Rightarrow> string" where
  "assetSymbol a = as_symbol (ASSETS a)"

record policy =
  pol_version :: int
  initialLtvBps :: int
  warningLtvBps :: int
  liquidationLtvBps :: int
  liquidationDiscountBps :: int
  protocolSpreadBps :: int
  lateSpreadBps :: int
  termsDays :: "int list"
  quoteValiditySeconds :: int
  settlementValiditySeconds :: int

definition POLICY :: policy where
  "POLICY = \<lparr>pol_version = 2, initialLtvBps = 5000, warningLtvBps = 5500, liquidationLtvBps = 6500,
     liquidationDiscountBps = 500, protocolSpreadBps = 50, lateSpreadBps = 300,
     termsDays = [7, 14, 30], quoteValiditySeconds = 300, settlementValiditySeconds = 600\<rparr>"

section \<open>Schemas\<close>

definition actions :: "string list" where
  "actions = [''OPEN_ACCOUNT'', ''DEPOSIT'', ''SET_MANDATE'', ''CANCEL_MANDATE'', ''QUOTE_REQUEST'',
     ''BORROW_ACCEPT'', ''APPLY_REPAYMENT'', ''WITHDRAW_REQUEST'', ''RISK_TICK'', ''ACCOUNT_QUERY'',
     ''STRESS_QUERY'']"

definition actionSchema :: "json \<Rightarrow> bool" where
  "actionSchema v = text_that (\<lambda>s. s \<in> set actions) (Some v)"

definition is_digits :: "string \<Rightarrow> bool" where
  "is_digits s = (s \<noteq> [] \<and> list_all (\<lambda>c. 48 \<le> (of_char c :: nat) \<and> (of_char c :: nat) \<le> 57) s)"

definition settlementSchema :: "json \<Rightarrow> bool" where
  "settlementSchema v = (is_object v
     \<and> integer_that (\<lambda>n. n = 2) (member_of v ''protocolVersion'')
     \<and> text_that (\<lambda>s. s \<in> {''BORROW_PAYOUT'', ''USER_WITHDRAWAL'', ''CHECKPOINT''}) (member_of v ''settlementType'')
     \<and> text_that (is_hex_of 40) (member_of v ''account'')
     \<and> text_that (is_hex_of 40) (member_of v ''token'')
     \<and> text_that is_digits (member_of v ''amount'')
     \<and> text_that (is_hex_of 40) (member_of v ''destination'')
     \<and> text_that (is_hex_of 64) (member_of v ''requestId'')
     \<and> text_that (is_hex_of 64) (member_of v ''settlementId'')
     \<and> integer_that (\<lambda>n. 0 \<le> n) (member_of v ''previousSequence'')
     \<and> integer_that (\<lambda>n. 0 < n) (member_of v ''nextSequence'')
     \<and> text_that (is_hex_of 64) (member_of v ''previousRoot'')
     \<and> text_that (is_hex_of 64) (member_of v ''nextRoot'')
     \<and> integer_that (\<lambda>n. 0 < n) (member_of v ''deadline''))"

definition deploymentManifestSchema :: "json \<Rightarrow> bool" where
  "deploymentManifestSchema v = (is_object v
     \<and> text_that (\<lambda>s. s = ''coston2'') (member_of v ''network'')
     \<and> integer_that (\<lambda>n. n = 114) (member_of v ''chainId'')
     \<and> (member_of v ''protocolVersion'' = None \<or> integer_that (\<lambda>n. n = 2) (member_of v ''protocolVersion''))
     \<and> text_that (is_hex_of 40) (member_of v ''quietPolicy'')
     \<and> text_that (is_hex_of 40) (member_of v ''quietVault'')
     \<and> integer_that (\<lambda>n. 65536 \<le> n) (member_of v ''extensionId'')
     \<and> text_that (is_hex_of 40) (member_of v ''teeSigner'')
     \<and> text_that (is_hex_of 64) (member_of v ''codeHash'')
     \<and> (case member_of v ''assets'' of
          None \<Rightarrow> False
        | Some a \<Rightarrow> is_object a
            \<and> text_that (\<lambda>s. s = as_address (ASSETS FXRP)) (member_of a ''fxrp'')
            \<and> text_that (\<lambda>s. s = as_address (ASSETS USDT0)) (member_of a ''usdt0'')))"

lemma text_that_D: "text_that p v \<Longrightarrow> p (text_or_empty v)"
  by (auto simp: text_that_def text_or_empty_def split: option.splits json.splits)

lemma integer_that_D: "integer_that p v \<Longrightarrow> p (integer_or_zero v)"
  by (auto simp: integer_that_def integer_or_zero_def split: option.splits json.splits)

lemma is_digits_digit: "is_digits (show_nat n)"
proof -
  have "48 \<le> (of_char c :: nat) \<and> (of_char c :: nat) \<le> 57" if c: "c \<in> set (show_nat n)" for c
  proof -
    obtain d where "d < 10" "c = digit_char d" using show_nat_digits [OF c] by blast
    then show ?thesis by simp
  qed
  then show ?thesis by (auto simp: is_digits_def list_all_iff)
qed

lemma is_digits_bigint:
  assumes "is_digits s"
  shows "\<exists>n. string_to_bigint s = Some (int n)"
proof -
  have digit: "char_digit c = Some (of_char c - 48) \<and> of_char c - 48 < (10 :: nat)" if "c \<in> set s" for c
    using assms that by (auto simp: is_digits_def list_all_iff char_digit_def)
  have "\<exists>n. parse_base 10 acc t = Some n" if "set t \<subseteq> set s" for acc t
    using that by (induction t arbitrary: acc) (use digit in auto)
  then obtain n where n: "digits_to_nat 10 s = Some n"
    using assms by (auto simp: digits_to_nat_def is_digits_def)
  have plain: "\<not> is_space c" if "c \<in> set s" for c
    using assms that by (auto simp: is_digits_def list_all_iff is_space_def)
  have no_mark: "\<not> prefix [CHR ''0'', k] s" if "(of_char k :: nat) < 48 \<or> 57 < (of_char k :: nat)" for k
    using assms that by (auto simp: is_digits_def list_all_iff prefix_def)
  have no_sign: "\<not> prefix [k] s" if "(of_char k :: nat) < 48 \<or> 57 < (of_char k :: nat)" for k
    using assms that by (auto simp: is_digits_def list_all_iff prefix_def)
  have trimmed: "trim_end (trim_start s) = s" by (rule trim_plain) (rule plain)
  have "string_to_bigint s = map_option int (digits_to_nat 10 s)"
    unfolding string_to_bigint_def Let_def trimmed
    using assms by (simp add: no_mark no_sign is_digits_def)
  then show ?thesis using n by simp
qed

section \<open>Properties\<close>

text \<open>
  A settlement that the protocol's schema accepts is one the relayer can execute: its addresses
  and hashes have their lengths, its amount reads as a nonnegative integer, its sequence numbers and
  its deadline are in range.
\<close>
lemma settlementSchema_sound:
  assumes "settlementSchema v"
  shows "(\<exists>n. string_to_bigint (text_or_empty (member_of v ''amount'')) = Some (int n))
    \<and> list_all (\<lambda>k. is_hex_of 40 (text_or_empty (member_of v k))) [''account'', ''token'', ''destination'']
    \<and> list_all (\<lambda>k. is_hex_of 64 (text_or_empty (member_of v k)))
        [''requestId'', ''settlementId'', ''previousRoot'', ''nextRoot'']
    \<and> 0 \<le> integer_or_zero (member_of v ''previousSequence'') \<and> 0 < integer_or_zero (member_of v ''nextSequence'')
    \<and> 0 < integer_or_zero (member_of v ''deadline'')"
proof -
  have "is_digits (text_or_empty (member_of v ''amount''))"
    using assms unfolding settlementSchema_def by (blast intro: text_that_D)
  note amount = is_digits_bigint [OF this]
  have "list_all (\<lambda>k. is_hex_of 40 (text_or_empty (member_of v k))) [''account'', ''token'', ''destination'']"
    "list_all (\<lambda>k. is_hex_of 64 (text_or_empty (member_of v k)))
        [''requestId'', ''settlementId'', ''previousRoot'', ''nextRoot'']"
    using assms by (simp_all add: settlementSchema_def text_that_D)
  moreover have "0 \<le> integer_or_zero (member_of v ''previousSequence'')"
    "0 < integer_or_zero (member_of v ''nextSequence'')" "0 < integer_or_zero (member_of v ''deadline'')"
    using assms unfolding settlementSchema_def by (blast dest: integer_that_D)+
  ultimately show ?thesis using amount by blast
qed

definition sample_settlement_json :: json where
  "sample_settlement_json =
    (let hex = (\<lambda>n. JText (''0x'' @ replicate n (CHR ''a''))) in
     JObject [(''protocolVersion'', JNumber 2), (''settlementType'', JText ''CHECKPOINT''),
       (''account'', hex 40), (''token'', hex 40), (''amount'', JText ''1500''), (''destination'', hex 40),
       (''requestId'', hex 64), (''settlementId'', hex 64), (''previousSequence'', JNumber 0),
       (''nextSequence'', JNumber 1), (''previousRoot'', hex 64), (''nextRoot'', hex 64),
       (''deadline'', JNumber 7)])"

lemma settlementSchema_sound_witness:
  "settlementSchema sample_settlement_json
   \<and> (\<exists>n. string_to_bigint (text_or_empty (member_of sample_settlement_json ''amount'')) = Some (int n))"
proof -
  have hex: "is_hex_of n (''0x'' @ replicate n (CHR ''a''))" for n
    by (simp add: is_hex_of_def list_all_iff char_digit_def)
  have digits: "is_digits ''1500''" by (simp add: is_digits_def)
  have ok: "settlementSchema sample_settlement_json"
    using hex [of 40] hex [of 64] digits
    by (simp add: settlementSchema_def sample_settlement_json_def Let_def member_of_def is_object_def
        text_that_def integer_that_def)
  from settlementSchema_sound [OF ok] ok show ?thesis by blast
qed

end
