(* ===== verification/Server.thy ===== *)
theory Server
  imports Drain Auth Protocol
begin

text \<open>
  The HTTP interface, \<^verbatim>\<open>relayer/src/server.ts\<close>: the readiness check that guards
  confidential mutations, authentication, every route as an action from a request to an answer,
  and the mapping of errors to answers. Fastify's routing and serialisation are not modelled; a
  length of a text is its number of characters.
\<close>

section \<open>Requests and answers\<close>

datatype 'a answer = Answer int 'a | Refusal int string "string option"

datatype header = NoHeader | OneHeader string | ManyHeaders "string list"

definition error_status :: "js_error \<Rightarrow> int" where
  "error_status e = (case e of
      ZodError _ \<Rightarrow> 400
    | ReadinessError _ \<Rightarrow> 503
    | _ \<Rightarrow> if text_includes (error_message e) ''session'' then 401 else 500)"

definition error_answer :: "js_error \<Rightarrow> 'a answer" where
  "error_answer e = (let code = error_status e in
     Refusal code (if code = 500 then ''request_failed'' else ''invalid_request'')
       (Some (if code = 500 then ''Quietline could not complete the request.'' else error_message e)))"

definition handle_errors :: "(world, 'a answer) act \<Rightarrow> (world, 'a answer) act" where
  "handle_errors m = tryA m (\<lambda>e. ret (error_answer e))"

definition authenticated ::
    "env \<Rightarrow> config \<Rightarrow> string option \<Rightarrow> (session \<Rightarrow> (world, 'a answer) act) \<Rightarrow> (world, 'a answer) act" where
  "authenticated env cfg authorization handler = (case authorization of
      None \<Rightarrow> ret (Refusal 401 ''session_required'' None)
    | Some h \<Rightarrow>
        if \<not> prefix ''Bearer '' h then ret (Refusal 401 ''session_required'' None)
        else bindA (outcomeA (verify env cfg (drop 7 h))) (\<lambda>r. case r of
            Inl e \<Rightarrow> ret (Refusal 401 ''invalid_session'' (Some (error_message e)))
          | Inr session \<Rightarrow> handler session))"

definition operationsAuthenticated :: "string \<Rightarrow> header \<Rightarrow> (world, 'a answer) act \<Rightarrow> (world, 'a answer) act" where
  "operationsAuthenticated expected supplied handler =
     (let value = (case supplied of
          NoHeader \<Rightarrow> None
        | OneHeader v \<Rightarrow> Some v
        | ManyHeaders vs \<Rightarrow> (case vs of [] \<Rightarrow> None | v # _ \<Rightarrow> Some v))
      in case present value of
           None \<Rightarrow> ret (Refusal 401 ''operations_auth_required'' None)
         | Some v \<Rightarrow>
             if length v \<noteq> length expected \<or> v \<noteq> expected
             then ret (Refusal 401 ''operations_auth_required'' None) else handler)"

section \<open>Readiness\<close>

definition show_count :: "machine list \<Rightarrow> string" where
  "show_count ms = show_nat (length ms)"

definition check_ready :: "address \<Rightarrow> address \<Rightarrow> machine list \<Rightarrow> js_error + unit" where
  "check_ready machine_signer active_signer machines =
     (if lower machine_signer \<noteq> lower active_signer
      then Inl (ReadinessError ''FCC signer mismatch. Confidential mutations are paused until the active machine is registered.'')
      else
        let active = filter (\<lambda>m. m_status m = 2) machines in
        if length active \<noteq> 1 \<or> map_option (\<lambda>m. lower (m_teeId m)) (if active = [] then None else Some (hd active))
             \<noteq> Some (lower active_signer)
        then Inl (ReadinessError (''FCC registry must contain exactly one production machine for this extension; found ''
               @ show_count active @ ''.''))
        else Inr ())"

definition assertFccReady :: "env \<Rightarrow> config \<Rightarrow> (world, unit) act" where
  "assertFccReady env cfg =
     bindA (bothA (machineSigner env cfg) (bothA (activeTeeSigner env) (fccMachineState env cfg)))
       (\<lambda>(machine_signer, active_signer, machines).
          liftA (check_ready machine_signer active_signer machines))"

section \<open>What a client sees of a job\<close>

record job_view =
  jv_id :: string
  jv_externalKey :: "string option"
  jv_type :: string
  jv_status :: job_status
  jv_account :: address
  jv_actionId :: "hex option"
  jv_txHash :: "hex option"
  jv_error :: "string option"
  jv_attempts :: int
  jv_createdAt :: int
  jv_updatedAt :: int
  jv_response :: "fcc_response option"

definition publicJob :: "job \<Rightarrow> bool \<Rightarrow> job_view" where
  "publicJob j includeResponse = \<lparr>jv_id = jobId j, jv_externalKey = externalKey j, jv_type = jobType j,
     jv_status = jobStatus j, jv_account = jobAccount j, jv_actionId = actionId j, jv_txHash = txHash j,
     jv_error = jobError j, jv_attempts = attempts j, jv_createdAt = createdAt j,
     jv_updatedAt = updatedAt j, jv_response = (if includeResponse then jobResponse j else None)\<rparr>"

section \<open>Direct commands\<close>

datatype allowed = OneCommand string | SomeCommands "string list"

definition directCommands :: "(string \<times> allowed) list" where
  "directCommands =
    [(''open-account'', OneCommand ''OPEN_ACCOUNT''), (''account'', OneCommand ''ACCOUNT_QUERY''),
     (''activity'', OneCommand ''ACCOUNT_QUERY''),
     (''mandate'', SomeCommands [''SET_MANDATE'', ''CANCEL_MANDATE'', ''WITHDRAW_FROM_MANDATE'']),
     (''quote'', OneCommand ''QUOTE_REQUEST''), (''repayment'', OneCommand ''APPLY_REPAYMENT''),
     (''stress'', OneCommand ''STRESS_QUERY''), (''export'', OneCommand ''ACCOUNT_QUERY'')]"

fun join_with :: "string \<Rightarrow> string list \<Rightarrow> string" where
  "join_with d [] = []"
| "join_with d [s] = s"
| "join_with d (s # ss) = s @ d @ join_with d ss"

definition resolveCommand :: "allowed \<Rightarrow> string option \<Rightarrow> js_error + string" where
  "resolveCommand allowed requested = (case allowed of
      OneCommand c \<Rightarrow>
        (case present requested of
           Some r \<Rightarrow> if r \<noteq> c then Inl (JsError ''direct command is not allowed'') else Inr c
         | None \<Rightarrow> Inr c)
    | SomeCommands cs \<Rightarrow>
        (case present requested of
           Some r \<Rightarrow> if r \<in> set cs then Inr r
                     else Inl (JsError (''direct command must be one of: '' @ join_with '', '' cs))
         | None \<Rightarrow> Inl (JsError (''direct command must be one of: '' @ join_with '', '' cs))))"

text \<open>\<open>/^0x(?:[0-9a-fA-F]{2})+$/\<close>\<close>

definition is_hex_bytes :: "string \<Rightarrow> bool" where
  "is_hex_bytes s = (prefix ''0x'' s \<and> 2 < length s \<and> even (length s)
     \<and> list_all (\<lambda>c. char_digit c \<noteq> None) (drop 2 s))"

record direct_body =
  db_account :: address
  db_ciphertext :: hex
  db_command :: "string option"

text \<open>A schema refuses with the members that do not satisfy it.\<close>

definition failing :: "(string \<times> bool) list \<Rightarrow> string list" where
  "failing checks = map fst (filter (\<lambda>(_, ok). \<not> ok) checks)"

definition schema :: "env \<Rightarrow> json \<Rightarrow> (string \<times> bool) list \<Rightarrow> 'a \<Rightarrow> js_error + 'a" where
  "schema env v checks result =
     (if \<not> is_object v then Inl (ZodError (p_zod env [[]]))
      else if failing checks \<noteq> [] then Inl (ZodError (p_zod env (failing checks)))
      else Inr result)"

definition directSchema :: "env \<Rightarrow> json \<Rightarrow> js_error + direct_body" where
  "directSchema env v = schema env v
     [(''account'', text_that (p_is_address env) (member_of v ''account'')),
      (''ciphertext'', text_that is_hex_bytes (member_of v ''ciphertext'')),
      (''command'', member_of v ''command'' = None \<or> text_that (\<lambda>_. True) (member_of v ''command''))]
     \<lparr>db_account = text_or_empty (member_of v ''account''),
      db_ciphertext = text_or_empty (member_of v ''ciphertext''),
      db_command = map_option (\<lambda>_. text_or_empty (member_of v ''command'')) (member_of v ''command'')\<rparr>"

definition directHandler :: "env \<Rightarrow> config \<Rightarrow> allowed \<Rightarrow> json \<Rightarrow> session \<Rightarrow> (world, job_view answer) act" where
  "directHandler env cfg allowed body session =
     thenA (assertFccReady env cfg)
       (bindA (liftA (directSchema env body)) (\<lambda>b.
          if lower (db_account b) \<noteq> ses_sub session
          then ret (Refusal 403 ''account_mismatch''
                 (Some ''The encrypted request account must match the active session.''))
          else
            bindA (liftA (resolveCommand allowed (db_command b))) (\<lambda>command.
            bindA (enqueueDirect env (db_account b) command (db_ciphertext b)) (\<lambda>job.
              ret (Answer 202 (publicJob job True))))))"

definition postDirect :: "env \<Rightarrow> config \<Rightarrow> allowed \<Rightarrow> string option \<Rightarrow> json \<Rightarrow> (world, job_view answer) act" where
  "postDirect env cfg allowed authorization body =
     handle_errors (authenticated env cfg authorization (directHandler env cfg allowed body))"

section \<open>Jobs\<close>

definition own_job_or :: "string \<Rightarrow> session \<Rightarrow> (job \<Rightarrow> (world, 'a answer) act) \<Rightarrow> (world, 'a answer) act" where
  "own_job_or i session k = bindA getA (\<lambda>w. case getJob (db w) i of
      None \<Rightarrow> ret (Refusal 404 ''job_not_found'' None)
    | Some job \<Rightarrow>
        if jobAccount job \<noteq> ses_sub session then ret (Refusal 403 ''job_account_mismatch'' None)
        else k job)"

definition getJobRoute :: "env \<Rightarrow> config \<Rightarrow> string option \<Rightarrow> string \<Rightarrow> (world, job_view answer) act" where
  "getJobRoute env cfg authorization i =
     handle_errors (authenticated env cfg authorization (\<lambda>session.
       own_job_or i session (\<lambda>job. ret (Answer 200 (publicJob job True)))))"

definition getJobsRoute :: "env \<Rightarrow> config \<Rightarrow> string option \<Rightarrow> (world, job_view list answer) act" where
  "getJobsRoute env cfg authorization =
     handle_errors (authenticated env cfg authorization (\<lambda>session.
       bindA getA (\<lambda>w. ret (Answer 200
         (map (\<lambda>job. publicJob job False) (listJobs (db w) (ses_sub session) 50))))))"

definition retryRoute :: "env \<Rightarrow> config \<Rightarrow> string option \<Rightarrow> string \<Rightarrow> (world, job_view answer) act" where
  "retryRoute env cfg authorization i =
     handle_errors (authenticated env cfg authorization (\<lambda>session.
       own_job_or i session (\<lambda>_.
         bindA (retry env i) (\<lambda>job. ret (Answer 202 (publicJob job False))))))"

definition operationsJobRoute :: "env \<Rightarrow> config \<Rightarrow> header \<Rightarrow> json \<Rightarrow> (world, job_view answer) act" where
  "operationsJobRoute env cfg supplied query =
     handle_errors (operationsAuthenticated (OPERATIONS_API_KEY cfg) supplied
       (bindA (liftA (schema env query
                 [(''externalKey'', text_that (\<lambda>s. 1 \<le> length s \<and> length s \<le> 256) (member_of query ''externalKey''))]
                 (text_or_empty (member_of query ''externalKey'')))) (\<lambda>key.
        bindA getA (\<lambda>w. case getJobByExternalKey (db w) key of
            None \<Rightarrow> ret (Refusal 404 ''job_not_found'' None)
          | Some job \<Rightarrow> ret (Answer 200 (publicJob job False))))))"

section \<open>Sign-in\<close>

definition postChallenge :: "env \<Rightarrow> config \<Rightarrow> json \<Rightarrow> (world, challenge answer) act" where
  "postChallenge env cfg body =
     handle_errors
       (bindA (liftA (schema env body [(''address'', text_that (p_is_address env) (member_of body ''address''))]
                 (text_or_empty (member_of body ''address'')))) (\<lambda>wallet.
        bindA (challengeA env cfg wallet) (\<lambda>c. ret (Answer 200 c))))"

record verified =
  v_token :: string
  v_expiresIn :: int

definition postVerify :: "env \<Rightarrow> config \<Rightarrow> json \<Rightarrow> (world, verified answer) act" where
  "postVerify env cfg body =
     handle_errors
       (bindA (liftA (schema env body
            [(''address'', text_that (p_is_address env) (member_of body ''address'')),
             (''nonce'', text_that (\<lambda>s. length s = 48) (member_of body ''nonce'')),
             (''issuedAt'', integer_that (\<lambda>n. 0 < n) (member_of body ''issuedAt'')),
             (''expiresAt'', integer_that (\<lambda>n. 0 < n) (member_of body ''expiresAt'')),
             (''signature'', text_that (is_hex_of 130) (member_of body ''signature''))] ())) (\<lambda>_.
        bindA (createSession env cfg (text_or_empty (member_of body ''address''))
                 (text_or_empty (member_of body ''nonce'')) (integer_or_zero (member_of body ''issuedAt''))
                 (integer_or_zero (member_of body ''expiresAt'')) (text_or_empty (member_of body ''signature'')))
          (\<lambda>token. ret (Answer 200 \<lparr>v_token = token, v_expiresIn = 1800\<rparr>))))"

section \<open>Public views\<close>

datatype fcc_health = FccOk | FccUnavailable | FccSignerMismatch

record health =
  h_ok :: bool
  h_fcc :: fcc_health
  h_activeCount :: nat
  h_activeSigners :: "address list"
  h_detail :: "string option"
  h_network :: string
  h_timestamp :: int

definition fcc_health_of :: "js_error + unit \<Rightarrow> fcc_health \<times> string option" where
  "fcc_health_of r = (case r of
      Inr _ \<Rightarrow> (FccOk, None)
    | Inl e \<Rightarrow> (case e of ReadinessError m \<Rightarrow> FccSignerMismatch | _ \<Rightarrow> FccUnavailable, Some (error_message e)))"

definition getHealth :: "env \<Rightarrow> config \<Rightarrow> (world, health answer) act" where
  "getHealth env cfg = handle_errors
     (bindA (outcomeA (assertFccReady env cfg)) (\<lambda>r.
      bindA (outcomeA (fccMachineState env cfg)) (\<lambda>m.
      bindA (nowA env) (\<lambda>now.
        let (fcc, detail) = fcc_health_of r;
            machines = (case m of Inl _ \<Rightarrow> [] | Inr ms \<Rightarrow> ms)
        in ret (Answer 200 \<lparr>h_ok = (fcc = FccOk), h_fcc = fcc, h_activeCount = length machines,
             h_activeSigners = map m_teeId machines, h_detail = present detail,
             h_network = net_name COSTON2, h_timestamp = now\<rparr>)))))"

record public_config =
  pc_network :: network
  pc_vault :: address
  pc_assets :: "AssetId \<Rightarrow> asset"
  pc_termsDays :: "int list"
  pc_quoteValiditySeconds :: int

definition getConfig :: "config \<Rightarrow> public_config answer" where
  "getConfig cfg = Answer 200 \<lparr>pc_network = COSTON2, pc_vault = QUIET_VAULT cfg, pc_assets = ASSETS,
     pc_termsDays = termsDays POLICY, pc_quoteValiditySeconds = quoteValiditySeconds POLICY\<rparr>"

definition getMarket :: "env \<Rightarrow> (world, (market_view \<times> int list) answer) act" where
  "getMarket env = handle_errors (bindA (market env) (\<lambda>m. ret (Answer 200 (m, termsDays POLICY))))"

definition getAttestation :: "env \<Rightarrow> config \<Rightarrow> (world, fcc_info answer) act" where
  "getAttestation env cfg = handle_errors (bindA (info env cfg) (\<lambda>i. ret (Answer 200 i)))"

section \<open>Events\<close>

datatype frame_text = ReadyEvent string | JobEvent job_view

text \<open>What an event stream writes for the updates emitted while it is open, oldest first.\<close>

definition event_frames :: "session \<Rightarrow> job list \<Rightarrow> frame_text list" where
  "event_frames session updates = ReadyEvent (ses_sub session) #
     map (\<lambda>j. JobEvent (publicJob j False)) (filter (\<lambda>j. jobAccount j = ses_sub session) updates)"

definition openEvents :: "env \<Rightarrow> config \<Rightarrow> json \<Rightarrow> (world, session answer) act" where
  "openEvents env cfg query = handle_errors
     (bindA (liftA (schema env query
               [(''session'', text_that (\<lambda>s. 1 \<le> length s) (member_of query ''session''))]
               (text_or_empty (member_of query ''session'')))) (\<lambda>token.
      bindA (verify env cfg token) (\<lambda>session. ret (Answer 200 session))))"

section \<open>Origins and headers\<close>

definition strip_prefix :: "string \<Rightarrow> string \<Rightarrow> string option" where
  "strip_prefix p s = (if prefix p s then Some (drop (length p) s) else None)"

definition first_of :: "string list \<Rightarrow> string \<Rightarrow> string option" where
  "first_of ps s = (case filter (\<lambda>p. prefix p s) ps of [] \<Rightarrow> None | p # _ \<Rightarrow> strip_prefix p s)"

text \<open>\<open>/^https?:\/\/(?:localhost|127\.0\.0\.1)(?::\d+)?$/u\<close>\<close>

definition is_local_origin :: "string \<Rightarrow> bool" where
  "is_local_origin s = (case Option.bind (first_of [''http://'', ''https://''] s)
         (first_of [''localhost'', ''127.0.0.1'']) of
      None \<Rightarrow> False
    | Some [] \<Rightarrow> True
    | Some (c # port) \<Rightarrow> c = CHR '':'' \<and> is_digits port)"

definition isAllowedOrigin :: "string option \<Rightarrow> string \<Rightarrow> bool" where
  "isAllowedOrigin frontend_origin origin = (case present frontend_origin of
      Some f \<Rightarrow> origin = f
    | None \<Rightarrow> is_local_origin origin)"

definition request_headers :: "string option \<Rightarrow> string option \<Rightarrow> (string \<times> string) list" where
  "request_headers frontend_origin origin =
     [(''x-content-type-options'', ''nosniff''), (''x-frame-options'', ''DENY''),
      (''referrer-policy'', ''no-referrer''), (''cache-control'', ''no-store'')]
     @ (case present origin of
          None \<Rightarrow> []
        | Some o' \<Rightarrow> if isAllowedOrigin frontend_origin o'
            then [(''access-control-allow-origin'', o'), (''vary'', ''Origin''),
                  (''access-control-allow-headers'', ''authorization, content-type, ngrok-skip-browser-warning''),
                  (''access-control-allow-methods'', ''GET, POST, OPTIONS'')]
            else [])"

section \<open>Lemmas\<close>

text \<open>An action under the error handler always answers, if it ends.\<close>

lemma handle_errors_run:
  "handle_errors m w = (case m w of None \<Rightarrow> None
     | Some (Inl e, t) \<Rightarrow> Some (Inr (error_answer e), t) | Some (Inr a, t) \<Rightarrow> Some (Inr a, t))"
  by (simp add: handle_errors_def tryA_def ret_def split: option.split prod.split sum.split)

lemma handle_errors_leaves:
  "leaves P m \<Longrightarrow> (\<And>e t. P (error_answer e) t) \<Longrightarrow> leaves P (handle_errors m)"
  by (auto simp: leaves_def handle_errors_run split: option.splits prod.splits sum.splits)

lemma handle_errors_keeps: "frame R \<Longrightarrow> keeps R m \<Longrightarrow> keeps R (handle_errors m)"
  unfolding handle_errors_def by (intro frame.keeps_tryA frame.keeps_ret)

lemma handle_errors_total: "total m \<Longrightarrow> total (handle_errors m)"
  unfolding handle_errors_def by (auto intro: total_intros)

text \<open>
  A token that was accepted: the session that an authenticated handler runs for.
\<close>

definition accepts :: "env \<Rightarrow> config \<Rightarrow> string option \<Rightarrow> session \<Rightarrow> bool" where
  "accepts env cfg authorization s = (\<exists>token now. authorization = Some (''Bearer '' @ token)
     \<and> verify_at env cfg token now = Inr s)"

lemma authenticated_cases:
  assumes "authenticated env cfg authorization handler w = Some (r, t)"
  obtains (refused) code e m where "r = Inr (Refusal code e m)" "same_db w t"
  | (handled) s u where "accepts env cfg authorization s" "same_db w u" "handler s u = Some (r, t)"
proof (cases authorization)
  case None
  then show thesis using assms refused same_db_frame.refl by (auto simp: authenticated_def ret_def)
next
  case (Some h)
  show thesis
  proof (cases "prefix ''Bearer '' h")
    case False
    then show thesis using Some assms refused same_db_frame.refl by (auto simp: authenticated_def ret_def)
  next
    case True
    then have h: "h = ''Bearer '' @ drop 7 h" by (auto simp: prefix_def)
    let ?now = "e_now env (CNow # hist w) div 1000"
    let ?u = "w\<lparr>hist := CNow # hist w\<rparr>"
    have same: "same_db w ?u" by (simp add: same_db_def)
    show thesis
    proof (cases "verify_at env cfg (drop 7 h) ?now")
      case (Inl e)
      then show thesis using Some True assms refused same
        by (auto simp: authenticated_def bindA_def outcomeA_def verify_run ret_def)
    next
      case (Inr s)
      then have "handler s ?u = Some (r, t)" using Some True assms
        by (auto simp: authenticated_def bindA_def outcomeA_def verify_run)
      moreover have "accepts env cfg authorization s" using Some h Inr unfolding accepts_def by blast
      ultimately show thesis using handled same by blast
    qed
  qed
qed

lemma authenticated_total: "(\<And>s. total (handler s)) \<Longrightarrow> total (authenticated env cfg a handler)"
  unfolding authenticated_def by (auto intro!: total_intros split: option.split sum.split)

lemma assertFccReady_keeps [intro!, simp]: "keeps same_db (assertFccReady env cfg)"
  unfolding assertFccReady_def by (auto intro!: same_db_frame.keeps_intros split: prod.splits)

lemma machineSigner_total [intro!, simp]: "total (machineSigner env cfg)"
  unfolding machineSigner_def info_def Let_def by (auto intro!: total_intros split: option.split)

lemma assertFccReady_total [intro!, simp]: "total (assertFccReady env cfg)"
  unfolding assertFccReady_def by (auto intro!: total_intros split: prod.split)

text \<open>What readiness means: the vault's signer is the machine's, and the only one in production.\<close>

lemma check_ready_iff:
  "check_ready signer active machines = Inr () \<longleftrightarrow>
     lower signer = lower active
     \<and> (\<exists>m. filter (\<lambda>m. m_status m = 2) machines = [m] \<and> lower (m_teeId m) = lower active)"
  by (cases "filter (\<lambda>m. m_status m = 2) machines") (auto simp: check_ready_def Let_def)

definition ready :: "env \<Rightarrow> config \<Rightarrow> bool" where
  "ready env cfg = (\<exists>w signer t active u machines v. machineSigner env cfg w = Some (Inr signer, t)
     \<and> activeTeeSigner env t = Some (Inr active, u) \<and> fccMachineState env cfg u = Some (Inr machines, v)
     \<and> lower signer = lower active
     \<and> (\<exists>m. filter (\<lambda>m. m_status m = 2) machines = [m] \<and> lower (m_teeId m) = lower active))"

lemma assertFccReady_leaves: "leaves (\<lambda>_ _. ready env cfg) (assertFccReady env cfg)"
proof -
  have "ready env cfg" if run: "assertFccReady env cfg w = Some (Inr (), t)" for w t
  proof -
    obtain signer t1 active t2 machines where
      "machineSigner env cfg w = Some (Inr signer, t1)" "activeTeeSigner env t1 = Some (Inr active, t2)"
      "fccMachineState env cfg t2 = Some (Inr machines, t)" "check_ready signer active machines = Inr ()"
      using run by (auto simp: assertFccReady_def bindA_def bothA_def liftA_def
          split: option.splits sum.splits prod.splits)
    then show ?thesis unfolding ready_def check_ready_iff by blast
  qed
  then show ?thesis by (auto simp: leaves_def)
qed

text \<open>The commands a route admits.\<close>

definition admits :: "allowed \<Rightarrow> string \<Rightarrow> bool" where
  "admits a c = (case a of OneCommand d \<Rightarrow> c = d | SomeCommands cs \<Rightarrow> c \<in> set cs)"

lemma resolveCommand_admits: "resolveCommand a r = Inr c \<Longrightarrow> admits a c"
  by (auto simp: resolveCommand_def admits_def split: allowed.splits option.splits if_splits)

text \<open>
  A queued job was added for the client, with this type and account, and the work loop was woken.
\<close>

definition added_job :: "world \<Rightarrow> world \<Rightarrow> job_view \<Rightarrow> bool" where
  "added_job w t v = (\<exists>row. jobs (db t) = jobs (db w) @ [row] \<and> rId row = jv_id v \<and> rStatus row = Queued
     \<and> rType row = jv_type v \<and> rAccount row = jv_account v \<and> jv_status v = Queued \<and> running t)"

lemma enqueueDirect_cases:
  assumes "enqueueDirect env a c x w = Some (r, t)"
  obtains (failed) e where "r = Inl e" "db t = db w" "running t = running w"
  | (added) j where "r = Inr j" "jobAccount j = lower a" "jobType j = c" "added_job w t (publicJob j True)"
proof -
  let ?u = "e_uuid env (CUuid # CNow # hist w)"
  let ?n = "e_now env (CNow # hist w)"
  let ?p = "DirectPayload c x"
  have run: "createJob ?u ?n c a ?p None (db w) = Some (r, db t)"
    "running t = (case r of Inl _ \<Rightarrow> running w | Inr _ \<Rightarrow> True)"
    using assms by (auto simp: enqueueDirect_def dbCreateJob_def nowA_def ask_def bindA_def liftDb_def thenA_def
        wake_run ret_def Let_def split: option.splits sum.splits if_splits)
  show thesis
  proof (cases rule: createJob_cases [of None "db w" ?u ?n c a ?p])
    case (found j)
    then show thesis by (simp add: found_job_def)
  next
    case fresh
    have row: "rType (row_of (newJob ?u ?n c a ?p None)) = c" by (simp add: row_of_def)
    have eff: "r = Inr (newJob ?u ?n c a ?p None)"
      "db t = (db w)\<lparr>jobs := jobs (db w) @ [row_of (newJob ?u ?n c a ?p None)]\<rparr>"
      using run(1) fresh(3) by auto
    show thesis
      by (rule added [of "newJob ?u ?n c a ?p None"])
        (use run(2) eff row in \<open>auto simp: added_job_def publicJob_def\<close>)
  next
    case clash
    then show thesis using run failed by auto
  qed
qed

lemma enqueueDirect_total [intro!, simp]: "total (enqueueDirect env a c x)"
proof -
  have "ends (liftDb (createJob u n c a p k)) w" for u n p k w
    by (cases rule: createJob_cases [of k "db w" u n c a p]) (auto simp: ends_def liftDb_def)
  then have "total (liftDb (createJob u n c a p k))" for u n p k by (simp add: total_def)
  then show ?thesis
    unfolding enqueueDirect_def dbCreateJob_def wake_def by (auto intro!: total_intros)
qed

lemma directHandler_cases:
  assumes "directHandler env cfg allowed body s w = Some (r, t)"
  obtains (nothing) "db t = db w" "\<And>c v. r \<noteq> Inr (Answer c v)"
  | (accepted) v where "r = Inr (Answer 202 v)" "ready env cfg" "jv_account v = ses_sub s"
      "admits allowed (jv_type v)" "added_job w t v"
proof -
  obtain q u where first: "assertFccReady env cfg w = Some (q, u)"
    using total_ends [OF assertFccReady_total] by (rule endsE)
  have u: "db u = db w" using keepsD [OF assertFccReady_keeps first] by (simp add: same_db_def)
  show thesis
  proof (cases q)
    case (Inl e)
    then have "r = Inl e" "t = u" using assms first by (auto simp: directHandler_def thenA_def bindA_def)
    with u have "db t = db w" "\<And>c v. r \<noteq> Inr (Answer c v)" by auto
    then show thesis by (rule nothing)
  next
    case (Inr x)
    then have ok: "ready env cfg" using leavesD [OF assertFccReady_leaves] first by simp
    show thesis
    proof (cases "\<exists>b c. directSchema env body = Inr b \<and> lower (db_account b) = ses_sub s
        \<and> resolveCommand allowed (db_command b) = Inr c")
      case False
      then have "t = u" "\<And>c v. r \<noteq> Inr (Answer c v)" using assms first Inr
        by (auto simp: directHandler_def thenA_def bindA_def liftA_def ret_def split: sum.splits if_splits)
      with u have "db t = db w" "\<And>c v. r \<noteq> Inr (Answer c v)" by auto
    then show thesis by (rule nothing)
    next
      case True
      then obtain b c where b: "directSchema env body = Inr b" "lower (db_account b) = ses_sub s"
        "resolveCommand allowed (db_command b) = Inr c" by blast
      obtain r1 v where add: "enqueueDirect env (db_account b) c (db_ciphertext b) u = Some (r1, v)"
        using total_ends [OF enqueueDirect_total] by (rule endsE)
      have res: "t = v" "r = (case r1 of Inl e \<Rightarrow> Inl e | Inr j \<Rightarrow> Inr (Answer 202 (publicJob j True)))"
        using assms first Inr b add
        by (auto simp: directHandler_def thenA_def bindA_def liftA_def ret_def split: sum.splits)
      from add show thesis
      proof (cases rule: enqueueDirect_cases)
        case (failed e)
        then have "db t = db w" "\<And>c v. r \<noteq> Inr (Answer c v)" using res u by auto
        then show thesis by (rule nothing)
      next
        case (added j)
        then show thesis
          using res u accepted [of "publicJob j True"] ok b resolveCommand_admits [OF b(3)]
          by (auto simp: added_job_def publicJob_def)
      qed
    qed
  qed
qed

lemma handle_errors_cases:
  assumes "handle_errors m w = Some (r, t)"
  obtains q where "m w = Some (q, t)" "r = Inr (case q of Inl e \<Rightarrow> error_answer e | Inr a \<Rightarrow> a)"
  using assms by (auto simp: handle_errors_run split: option.splits sum.splits)

lemma error_answer_case: "(case error_answer e of Answer c v \<Rightarrow> f c v | Refusal c n m \<Rightarrow> b) = b"
  by (simp add: error_answer_def Let_def)

lemma own_job_or_run: "own_job_or i s k w = (case getJob (db w) i of
      None \<Rightarrow> Some (Inr (Refusal 404 ''job_not_found'' None), w)
    | Some job \<Rightarrow> if jobAccount job \<noteq> ses_sub s then Some (Inr (Refusal 403 ''job_account_mismatch'' None), w)
        else k job w)"
  by (simp add: own_job_or_def bindA_def getA_def ret_def split: option.split)

lemma same_db_db: "same_db w t \<Longrightarrow> db t = db w"
  by (simp add: same_db_def)

lemma own_job_or_total: "(\<And>j. total (k j)) \<Longrightarrow> total (own_job_or i s k)"
  unfolding own_job_or_def by (auto intro!: total_intros split: option.split)

lemma retry_total [intro!, simp]: "total (retry env i)"
proof -
  have "ends (liftDb (resetForRetry n i)) w" for n w
    by (cases "getJob (db w) i")
      (auto simp: ends_def liftDb_def resetForRetry_eq updateJob_Some split: option.splits)
  then have "total (liftDb (resetForRetry n i))" for n by (simp add: total_def)
  then show ?thesis
    unfolding retry_def dbResetForRetry_def wake_def by (auto intro!: total_intros)
qed

lemma retry_cases:
  assumes "retry env i w = Some (r, t)" and "getJob (db w) i = Some j"
  obtains (failed) e where "r = Inl e" "db t = db w"
  | (reset) q where "r = Inr q" "jobStatus j = Failed" "runnable (jobStatus q)" "identity_of q = identity_of j"
      "getJob (db t) i = Some (stored q)" "\<forall>k. k \<noteq> i \<longrightarrow> getJob (db t) k = getJob (db w) k" "running t"
proof (cases "jobStatus j = Failed")
  case False
  then have "db t = db w" "\<exists>e. r = Inl e"
    using assms by (auto simp: retry_def dbResetForRetry_def nowA_def ask_def bindA_def liftDb_def
        resetForRetry_eq Let_def)
  then show thesis using failed by auto
next
  case True
  let ?now = "e_now env (CNow # hist w)"
  define q where "q = patched ?now [SetStatus (if present (actionId j) \<noteq> None then Submitted else Queued), SetError None] j"
  have id: "identity_of q = identity_of j" by (simp add: q_def)
  have i: "jobId q = i" using getJob_id [OF assms(2)] identity_id [OF id] by simp
  have eff: "r = Inr q" "db t = write_job q (db w)" "running t"
    using assms True updateJob_Some [OF assms(2), of ?now "[SetStatus (if present (actionId j) \<noteq> None then Submitted else Queued), SetError None]"]
    by (auto simp: retry_def dbResetForRetry_def nowA_def ask_def bindA_def liftDb_def thenA_def emitJob_def
        modifyA_def wake_run ret_def resetForRetry_eq Let_def q_def split: if_splits)
  have run: "runnable (jobStatus q)" by (simp add: q_def patched_def runnable_def)
  show thesis
    using reset [OF eff(1) True run id] eff(2,3) getJob_write_same [OF assms(2) id] getJob_write_other i by simp
qed

section \<open>Properties\<close>

text \<open>
  C14. The gate of confidential mutations: a direct request is accepted, with status 202, only for a
  bearer token that verifies, while the vault's signer is the machine's and the only registered
  production machine, for the session's own account and for a command of the route; then exactly one
  queued job was added and the work loop runs. Any other request is refused and changes nothing in
  the database.
\<close>
theorem postDirect_gate:
  assumes "postDirect env cfg allowed authorization body w = Some (r, t)"
  shows "\<exists>a. r = Inr a \<and> (case a of
      Refusal _ _ _ \<Rightarrow> db t = db w
    | Answer c v \<Rightarrow> c = 202 \<and> ready env cfg
        \<and> (\<exists>s. accepts env cfg authorization s \<and> jv_account v = ses_sub s)
        \<and> admits allowed (jv_type v) \<and> added_job w t v)"
proof -
  obtain q where q: "authenticated env cfg authorization (directHandler env cfg allowed body) w = Some (q, t)"
    "r = Inr (case q of Inl e \<Rightarrow> error_answer e | Inr a \<Rightarrow> a)"
    using assms unfolding postDirect_def by (rule handle_errors_cases)
  show ?thesis
    using q(1)
  proof (cases rule: authenticated_cases)
    case (refused code e m)
    then show ?thesis using q(2) same_db_db by simp
  next
    case (handled s u)
    have u: "db u = db w" by (rule same_db_db [OF handled(2)])
    from handled(3) show ?thesis
    proof (cases rule: directHandler_cases)
      case nothing
      then show ?thesis
        using q(2) u by (cases q) (auto simp: error_answer_case split: answer.split)
    next
      case (accepted v)
      then show ?thesis using q(2) u handled(1) by (auto simp: added_job_def)
    qed
  qed
qed

theorem postDirect_gate_witness:
  "\<exists>a t. postDirect auth_env sample_config (OneCommand ''ACCOUNT_QUERY'') None JNull sample_world = Some (Inr a, t)
     \<and> db t = db sample_world"
proof -
  have run: "postDirect auth_env sample_config (OneCommand ''ACCOUNT_QUERY'') None JNull sample_world =
      Some (Inr (Refusal 401 ''session_required'' None), sample_world)"
    by (simp add: postDirect_def handle_errors_run authenticated_def ret_def)
  from postDirect_gate [OF run] run show ?thesis by simp
qed

text \<open>
  Jobs are private: the job route answers with a job only to a session of the job's own account,
  and never changes the database.
\<close>
lemma getJobRoute_private:
  assumes "getJobRoute env cfg authorization i w = Some (r, t)"
  shows "\<exists>a. r = Inr a \<and> db t = db w \<and> (case a of
      Refusal _ _ _ \<Rightarrow> True
    | Answer c v \<Rightarrow> \<exists>s j. accepts env cfg authorization s \<and> getJob (db w) i = Some j
        \<and> jobAccount j = ses_sub s \<and> v = publicJob j True)"
proof -
  obtain q where q: "authenticated env cfg authorization (\<lambda>s. own_job_or i s (\<lambda>job. ret (Answer 200 (publicJob job True)))) w = Some (q, t)"
    "r = Inr (case q of Inl e \<Rightarrow> error_answer e | Inr a \<Rightarrow> a)"
    using assms unfolding getJobRoute_def by (rule handle_errors_cases)
  show ?thesis
    using q(1)
  proof (cases rule: authenticated_cases)
    case (refused code e m)
    then show ?thesis using q(2) same_db_db by simp
  next
    case (handled s u)
    have u: "db u = db w" by (rule same_db_db [OF handled(2)])
    show ?thesis
      using handled(1,3) q(2) u
      by (auto simp: own_job_or_run ret_def split: option.splits if_splits)
  qed
qed

lemma getJobRoute_private_witness:
  "\<exists>a t. getJobRoute auth_env sample_config (Some ''Basic'') ''a'' sample_world = Some (Inr a, t)
     \<and> db t = db sample_world"
proof -
  have run: "getJobRoute auth_env sample_config (Some ''Basic'') ''a'' sample_world =
      Some (Inr (Refusal 401 ''session_required'' None), sample_world)"
    by (simp add: getJobRoute_def handle_errors_run authenticated_def ret_def)
  from getJobRoute_private [OF run] run show ?thesis by simp
qed

text \<open>
  Only the owner can retry a job, and only a failed one: an accepted retry puts the session's own
  failed job back into the queue, with its identity, changes no other job and leaves the work loop
  running; a refused one changes nothing in the database.
\<close>
lemma retryRoute_gate:
  assumes "retryRoute env cfg authorization i w = Some (r, t)"
  shows "\<exists>a. r = Inr a \<and> (case a of
      Refusal _ _ _ \<Rightarrow> db t = db w
    | Answer c v \<Rightarrow> \<exists>s j q. accepts env cfg authorization s \<and> getJob (db w) i = Some j
        \<and> jobAccount j = ses_sub s \<and> jobStatus j = Failed \<and> v = publicJob q False
        \<and> getJob (db t) i = Some (stored q) \<and> runnable (jobStatus q) \<and> identity_of q = identity_of j
        \<and> (\<forall>k. k \<noteq> i \<longrightarrow> getJob (db t) k = getJob (db w) k) \<and> running t)"
proof -
  obtain q where q: "authenticated env cfg authorization (\<lambda>s. own_job_or i s (\<lambda>_.
         bindA (retry env i) (\<lambda>job. ret (Answer 202 (publicJob job False))))) w = Some (q, t)"
    "r = Inr (case q of Inl e \<Rightarrow> error_answer e | Inr a \<Rightarrow> a)"
    using assms unfolding retryRoute_def by (rule handle_errors_cases)
  show ?thesis
    using q(1)
  proof (cases rule: authenticated_cases)
    case (refused code e m)
    then show ?thesis using q(2) same_db_db by simp
  next
    case (handled s u)
    have u: "db u = db w" by (rule same_db_db [OF handled(2)])
    show ?thesis
    proof (cases "\<exists>j. getJob (db u) i = Some j \<and> jobAccount j = ses_sub s")
      case False
      then show ?thesis using handled(3) q(2) u
        by (auto simp: own_job_or_run split: option.splits if_splits)
    next
      case True
      then obtain j where j: "getJob (db u) i = Some j" "jobAccount j = ses_sub s" by blast
      obtain x v where x: "retry env i u = Some (x, v)"
        using total_ends [OF retry_total] by (rule endsE)
      have eff: "t = v" "q = (case x of Inl e \<Rightarrow> Inl e | Inr job \<Rightarrow> Inr (Answer 202 (publicJob job False)))"
        using handled(3) j x by (auto simp: own_job_or_run bindA_def ret_def split: sum.splits)
      from x j(1) show ?thesis
      proof (cases rule: retry_cases)
        case (failed e)
        then show ?thesis using q(2) eff u by (simp add: error_answer_case)
      next
        case (reset p)
        then show ?thesis using q(2) eff u j handled(1) by auto
      qed
    qed
  qed
qed

lemma retryRoute_gate_witness:
  "\<exists>a t. retryRoute auth_env sample_config None ''a'' sample_world = Some (Inr a, t)
     \<and> db t = db sample_world"
proof -
  have run: "retryRoute auth_env sample_config None ''a'' sample_world =
      Some (Inr (Refusal 401 ''session_required'' None), sample_world)"
    by (simp add: retryRoute_def handle_errors_run authenticated_def ret_def)
  from retryRoute_gate [OF run] run show ?thesis by simp
qed

lemma first_of_iff:
  "first_of [p, q] s = Some r \<longleftrightarrow> s = p @ r \<or> \<not> prefix p s \<and> s = q @ r"
  by (auto simp: first_of_def strip_prefix_def prefix_def)

lemma split_twice:
  "(\<exists>r port. (\<exists>p \<in> A. s = p @ r) \<and> (\<exists>q \<in> B. r = q @ port) \<and> ok port) \<longleftrightarrow>
   (\<exists>p q port. p \<in> A \<and> q \<in> B \<and> ok port \<and> s = p @ q @ port)"
  by blast

text \<open>
  Without a configured origin, the browser is allowed exactly the local development origins:
  http or https, on localhost or 127.0.0.1, with or without a numeric port.
\<close>
lemma isAllowedOrigin_local:
  "isAllowedOrigin None s \<longleftrightarrow>
     (\<exists>scheme host port. scheme \<in> {''http://'', ''https://''} \<and> host \<in> {''localhost'', ''127.0.0.1''}
        \<and> (port = [] \<or> (\<exists>digits. port = CHR '':'' # digits \<and> is_digits digits)) \<and> s = scheme @ host @ port)"
proof -
  have scheme: "first_of [''http://'', ''https://''] s = Some r \<longleftrightarrow> (\<exists>p \<in> {''http://'', ''https://''}. s = p @ r)" for s r
    by (auto simp: first_of_iff)
  have host: "first_of [''localhost'', ''127.0.0.1''] s = Some r \<longleftrightarrow> (\<exists>p \<in> {''localhost'', ''127.0.0.1''}. s = p @ r)" for s r
    by (auto simp: first_of_iff)
  have "is_local_origin s \<longleftrightarrow> (\<exists>r port. first_of [''http://'', ''https://''] s = Some r
      \<and> first_of [''localhost'', ''127.0.0.1''] r = Some port
      \<and> (port = [] \<or> (\<exists>digits. port = CHR '':'' # digits \<and> is_digits digits)))"
    by (auto simp: is_local_origin_def Option.bind_eq_Some_conv split: option.splits list.splits)
  then show ?thesis
    unfolding scheme host split_twice by (simp add: isAllowedOrigin_def)
qed

text \<open>
  The answers to some mistakes of a client are those of an internal failure: their messages do not
  mention a session, so the status is 500 and the message is withheld.
\<close>

lemma client_mistakes_are_500:
  "error_status (JsError ''challenge is invalid or expired'') = 500"
  "error_status (JsError ''challenge timestamps are invalid'') = 500"
  "error_status (JsError ''direct command is not allowed'') = 500"
  "error_status (JsError ''only failed jobs can be retried'') = 500"
  "error_status (JsError ''session signature is invalid'') = 401"
  by code_simp+

end
