(* ===== verification/Indexer.thy ===== *)
theory Indexer
  imports Drain
begin

text \<open>
  The vault indexer, \<^verbatim>\<open>relayer/src/indexer.ts\<close>, and the risk keeper,
  \<^verbatim>\<open>relayer/src/keeper.ts\<close>: the polls that turn the vault's logs into jobs, range of
  blocks by range of blocks, and the periodic risk tick. Both guard themselves against overlapping
  runs with a flag and hand every error to a callback.
\<close>

section \<open>Polling the vault\<close>

definition cursor_name :: string where
  "cursor_name = ''quiet_vault''"

definition max_block_range :: int where
  "max_block_range = 30"

definition enqueue_events :: "env \<Rightarrow> chain_instruction list \<Rightarrow> (world, unit) act" where
  "enqueue_events env events = forA events (\<lambda>event.
     bindA (enqueueChain env (ci_account event) (ci_command event) (ci_requestId event)
              (ci_blockNumber event) (ci_externalKey event)) (\<lambda>_. ret ()))"

definition moveCursor :: "int \<Rightarrow> (world, unit) act" where
  "moveCursor cursor = modifyA (\<lambda>w. w\<lparr>db := setCursor cursor_name cursor (db w)\<rparr>)"

definition range_end :: "int \<Rightarrow> int \<Rightarrow> int" where
  "range_end cursor latest =
     (if cursor + max_block_range - 1 < latest then cursor + max_block_range - 1 else latest)"

text \<open>One round of the loop: the body up to \<open>setCursor\<close>.\<close>

definition index_range :: "env \<Rightarrow> int \<times> int \<Rightarrow> (world, unit) act" where
  "index_range env blocks =
     bindA (chain_events env (fst blocks) (snd blocks)) (\<lambda>events.
       thenA (enqueue_events env events) (moveCursor (snd blocks + 1)))"

function index_loop :: "env \<Rightarrow> int \<Rightarrow> int \<Rightarrow> (world, unit) act" where
  "index_loop env latest cursor =
     (if cursor \<le> latest
      then thenA (index_range env (cursor, range_end cursor latest))
             (index_loop env latest (range_end cursor latest + 1))
      else ret ())"
  by pat_completeness auto
termination
  by (relation "measure (\<lambda>(env, latest, cursor). nat (latest + 1 - cursor))")
    (auto simp: range_end_def max_block_range_def)

declare index_loop.simps [simp del]

definition readCursor :: "config \<Rightarrow> (world, int) act" where
  "readCursor cfg = bindA getA (\<lambda>w. liftA (getCursor (db w) cursor_name (START_BLOCK cfg)))"

definition onError :: "js_error \<Rightarrow> (world, unit) act" where
  "onError e = modifyA (\<lambda>w. w\<lparr>reported := e # reported w\<rparr>)"

definition indexer_poll :: "env \<Rightarrow> config \<Rightarrow> (world, unit) act" where
  "indexer_poll env cfg = bindA getA (\<lambda>w.
     if polling w then ret ()
     else thenA (modifyA (\<lambda>v. v\<lparr>polling := True\<rparr>))
       (finallyA
         (tryA
           (bindA (blockNumber env) (\<lambda>latest.
            bindA (readCursor cfg) (\<lambda>cursor.
              index_loop env latest cursor)))
           onError)
         (\<lambda>v. v\<lparr>polling := False\<rparr>)))"

section \<open>The risk keeper\<close>

definition keeper_tick :: "env \<Rightarrow> config \<Rightarrow> (world, unit) act" where
  "keeper_tick env cfg = bindA getA (\<lambda>w.
     if ticking w then ret ()
     else thenA (modifyA (\<lambda>v. v\<lparr>ticking := True\<rparr>))
       (finallyA
         (tryA (bindA (requestRiskTick env cfg) (\<lambda>_. ret ())) onError)
         (\<lambda>v. v\<lparr>ticking := False\<rparr>)))"

text \<open>
  \<open>start\<close> and \<open>stop\<close> of both: the timer is there or not; \<open>start\<close> polls at once and arms the
  timer, unless it is armed.
\<close>

definition timer_start :: "bool \<Rightarrow> bool \<times> bool" where
  "timer_start armed = (if armed then (armed, False) else (True, True))"

definition timer_stop :: "bool \<Rightarrow> bool" where
  "timer_stop armed = False"

section \<open>The ranges\<close>

text \<open>The ranges a poll reads, one after the other.\<close>

function block_ranges :: "int \<Rightarrow> int \<Rightarrow> (int \<times> int) list" where
  "block_ranges latest cursor =
     (if cursor \<le> latest
      then (cursor, range_end cursor latest) # block_ranges latest (range_end cursor latest + 1)
      else [])"
  by pat_completeness auto
termination
  by (relation "measure (\<lambda>(latest, cursor). nat (latest + 1 - cursor))")
    (auto simp: range_end_def max_block_range_def)

declare block_ranges.simps [simp del]

lemma range_end_bounds:
  "cursor \<le> latest \<Longrightarrow> cursor \<le> range_end cursor latest \<and> range_end cursor latest \<le> latest
     \<and> range_end cursor latest - cursor < 30"
  by (auto simp: range_end_def max_block_range_def)

lemma block_ranges_cover: "concat (map (\<lambda>(a, b). [a..b]) (block_ranges latest cursor)) = [cursor..latest]"
proof (induction latest cursor rule: block_ranges.induct)
  case (1 latest cursor)
  show ?case
  proof (cases "cursor \<le> latest")
    case True
    have "[cursor..range_end cursor latest] @ [range_end cursor latest + 1..latest] = [cursor..latest]"
      using range_end_bounds [OF True] upto_split2 [of cursor "range_end cursor latest" latest] by simp
    then show ?thesis using 1 True by (subst block_ranges.simps) simp
  qed (subst block_ranges.simps, simp)
qed

lemma block_ranges_short: "list_all (\<lambda>(a, b). a \<le> b \<and> b - a < 30) (block_ranges latest cursor)"
proof (induction latest cursor rule: block_ranges.induct)
  case (1 latest cursor)
  then show ?case using range_end_bounds by (subst block_ranges.simps) auto
qed

lemma index_loop_ranges: "index_loop env latest cursor = forA (block_ranges latest cursor) (index_range env)"
proof (induction latest cursor rule: block_ranges.induct)
  case (1 latest cursor)
  then show ?case by (subst index_loop.simps, subst block_ranges.simps) simp
qed

section \<open>Intake\<close>

text \<open>
  \<open>took_in w t\<close>: the jobs that were there are still there, as they were, the invariant of the
  table was kept, and the other parts of the process were left alone, but for waking the work loop.
\<close>

definition took_in :: "world \<Rightarrow> world \<Rightarrow> bool" where
  "took_in w t = (store_ok (db w) \<longrightarrow> store_ok (db t)
     \<and> (\<exists>new. jobs (db t) = jobs (db w) @ new)
     \<and> challenges (db t) = challenges (db w) \<and> emitted t = emitted w \<and> polling t = polling w)"

interpretation took_frame: frame took_in
proof
  show "took_in w w" for w by (simp add: took_in_def)
  show "took_in u w" if "took_in u v" "took_in v w" for u v w
    using that unfolding took_in_def by (metis append.assoc)
qed

lemma find_prefix: "List.find P xs = Some x \<Longrightarrow> List.find P (xs @ ys) = Some x"
  by (induction xs) auto

lemma took_in_keeps:
  assumes "took_in w t" and "store_ok (db w)"
  shows "getJob (db w) k = Some j \<Longrightarrow> getJob (db t) k = Some j"
    and "getJobByExternalKey (db w) x = Some j \<Longrightarrow> getJobByExternalKey (db t) x = Some j"
  using assms by (auto simp: took_in_def getJob_def getJobByExternalKey_def find_prefix)

lemma createJob_appends:
  assumes "createJob uuid now type account load key st = Some (r, u)"
  shows "\<exists>new. jobs u = jobs st @ new" and "challenges u = challenges st" and "cursors u = cursors st"
  by (cases rule: createJob_cases [of key st uuid now type account load]; use assms in auto)+

lemma enqueueChain_runs:
  assumes "enqueueChain env account command q b key w = Some (r, t)"
  shows "createJob (e_uuid env (CUuid # CNow # hist w)) (e_now env (CNow # hist w)) command account
      (ChainPayload command q (show_int b)) (Some key) (db w) = Some (r, db t)"
    and "emitted t = emitted w" and "polling t = polling w"
  using assms
  by (auto simp: enqueueChain_def dbCreateJob_def nowA_def ask_def bindA_def liftDb_def thenA_def
      wake_run ret_def Let_def split: option.splits sum.splits if_splits)

lemma enqueueChain_took: "keeps took_in (enqueueChain env account command q b key)"
proof (rule keepsI)
  fix w r t assume run: "enqueueChain env account command q b key w = Some (r, t)"
  note eff = enqueueChain_runs [OF run]
  show "took_in w t"
    using createJob_appends [OF eff(1)] createJob_ok [OF _ eff(1)] eff(2,3) by (auto simp: took_in_def)
qed

lemma enqueueChain_total [intro!, simp]: "total (enqueueChain env account command q b key)"
proof -
  have "ends (liftDb (createJob u n command account p k)) w" for u n p k w
    by (cases rule: createJob_cases [of k "db w" u n command account p])
      (auto simp: ends_def liftDb_def)
  then have "total (liftDb (createJob u n command account p k))" for u n p k
    by (simp add: total_def)
  then show ?thesis
    unfolding enqueueChain_def dbCreateJob_def wake_def by (auto intro!: total_intros)
qed

lemma enqueueChain_present:
  assumes "enqueueChain env account command q b key w = Some (Inr j, t)" and "key \<noteq> []"
  shows "getJobByExternalKey (db t) key = Some j"
proof -
  have key: "present (Some key) = Some key" using assms(2) by simp
  note run = enqueueChain_runs(1) [OF assms(1)]
  show ?thesis
    by (cases rule: createJob_cases [of "Some key" "db w" "e_uuid env (CUuid # CNow # hist w)"
          "e_now env (CNow # hist w)" command account "ChainPayload command q (show_int b)"])
      (use run key in \<open>auto simp: found_job_def found_append simp del: present_Some_iff\<close>)
qed

lemma enqueue_events_took: "keeps took_in (enqueue_events env evs)"
  unfolding enqueue_events_def by (auto intro!: took_frame.keeps_intros enqueueChain_took)

lemma enqueue_events_total [intro!, simp]: "total (enqueue_events env evs)"
  unfolding enqueue_events_def by (auto intro!: total_intros)

lemma enqueue_events_Cons:
  "enqueue_events env (e # es) = thenA
     (bindA (enqueueChain env (ci_account e) (ci_command e) (ci_requestId e) (ci_blockNumber e)
        (ci_externalKey e)) (\<lambda>_. ret ())) (enqueue_events env es)"
  by (simp add: enqueue_events_def)

lemma enqueue_events_present:
  assumes "enqueue_events env evs w = Some (Inr (), t)" and "store_ok (db w)"
    and "list_all (\<lambda>e. ci_externalKey e \<noteq> []) evs"
  shows "list_all (\<lambda>e. getJobByExternalKey (db t) (ci_externalKey e) \<noteq> None) evs"
  using assms
proof (induction evs arbitrary: w)
  case (Cons e es)
  obtain j u where first: "enqueueChain env (ci_account e) (ci_command e) (ci_requestId e) (ci_blockNumber e)
      (ci_externalKey e) w = Some (Inr j, u)" and rest: "enqueue_events env es u = Some (Inr (), t)"
    using Cons.prems(1) by (auto simp: enqueue_events_Cons thenA_def bindA_def ret_def
        split: option.splits sum.splits)
  have "store_ok (db u)"
    using keepsD [OF enqueueChain_took first] Cons.prems(2) by (simp add: took_in_def)
  moreover have "getJobByExternalKey (db u) (ci_externalKey e) = Some j"
    using enqueueChain_present [OF first] Cons.prems(3) by simp
  ultimately have "getJobByExternalKey (db t) (ci_externalKey e) = Some j"
    using took_in_keeps(2) [OF keepsD [OF enqueue_events_took rest]] by blast
  then show ?case using Cons.IH [OF rest \<open>store_ok (db u)\<close>] Cons.prems(3) by simp
qed simp

text \<open>Taking in what is already there changes no job.\<close>

lemma enqueue_events_again:
  assumes "list_all (\<lambda>e. ci_externalKey e \<noteq> [] \<and> getJobByExternalKey (db w) (ci_externalKey e) \<noteq> None) evs"
  shows "\<exists>t. enqueue_events env evs w = Some (Inr (), t) \<and> db t = db w"
  using assms
proof (induction evs arbitrary: w)
  case Nil
  then show ?case by (simp add: enqueue_events_def ret_def)
next
  case (Cons e es)
  obtain j where j: "getJobByExternalKey (db w) (ci_externalKey e) = Some j" "ci_externalKey e \<noteq> []"
    using Cons.prems by auto
  have key: "present (Some (ci_externalKey e)) = Some (ci_externalKey e)" using j(2) by simp
  have found: "found_job (Some (ci_externalKey e)) (db w) = Some j"
    by (simp add: found_job_def key j(1) del: present_Some_iff)
  obtain r u where u: "enqueueChain env (ci_account e) (ci_command e) (ci_requestId e) (ci_blockNumber e)
      (ci_externalKey e) w = Some (r, u)"
    using total_ends [OF enqueueChain_total] by (rule endsE)
  have same: "r = Inr j" "db u = db w"
    using enqueueChain_runs(1) [OF u] createJob_found [OF found] by auto
  obtain t where "enqueue_events env es u = Some (Inr (), t)" "db t = db u"
    using Cons.IH [of u] Cons.prems same(2) by auto
  then show ?case using u same by (simp add: enqueue_events_Cons thenA_def bindA_def ret_def)
qed

section \<open>Properties\<close>

text \<open>
  C27. The indexer leaves no gap: the loop from a cursor is the processing, in order, of block
  ranges that follow one another, of at most thirty blocks each, and that together are exactly the
  blocks from the cursor to the latest block.
\<close>
theorem indexer_no_gap:
  "index_loop env latest cursor = forA (block_ranges latest cursor) (index_range env)
   \<and> concat (map (\<lambda>(a, b). [a..b]) (block_ranges latest cursor)) = [cursor..latest]
   \<and> list_all (\<lambda>(a, b). a \<le> b \<and> b - a < 30) (block_ranges latest cursor)"
  by (simp add: index_loop_ranges block_ranges_cover block_ranges_short)

lemma moveCursor_run: "moveCursor c w = Some (Inr (), w\<lparr>db := setCursor cursor_name c (db w)\<rparr>)"
  by (simp add: moveCursor_def modifyA_def)

lemma moveCursor_took: "keeps took_in (moveCursor c)"
  by (auto simp: keeps_def moveCursor_run took_in_def setCursor_def store_ok_def)

lemma same_db_took: "keeps same_db m \<Longrightarrow> keeps took_in m"
  by (auto simp: keeps_def same_db_def took_in_def)

lemma chain_events_took: "keeps took_in (chain_events env a b)"
  by (rule same_db_took) simp

lemma index_range_took: "keeps took_in (index_range env blocks)"
  unfolding index_range_def
  by (intro took_frame.keeps_intros chain_events_took enqueue_events_took moveCursor_took)

lemma index_range_total [intro!, simp]: "total (index_range env blocks)"
  unfolding index_range_def moveCursor_def by (auto intro!: total_intros)

lemma index_loop_took: "keeps took_in (index_loop env latest cursor)"
  unfolding index_loop_ranges by (intro took_frame.keeps_forA index_range_took)

lemma index_loop_total [intro!, simp]: "total (index_loop env latest cursor)"
  unfolding index_loop_ranges by (intro total_forA index_range_total)

lemma instructions_keys: "list_all (\<lambda>e. ci_externalKey e \<noteq> []) (instructions_of env deposits requests)"
  by (auto simp: instructions_of_def list_all_iff deposit_instruction_def request_instruction_def)

lemma getCursor_setCursor: "getCursor (setCursor n c st) n d = Inr c"
  by (simp add: getCursor_def setCursor_def bigint_show_int)

definition same_cursors :: "world \<Rightarrow> world \<Rightarrow> bool" where
  "same_cursors w t = (cursors (db t) = cursors (db w))"

interpretation cursors_frame: frame same_cursors
  by unfold_locales (auto simp: same_cursors_def)

lemma enqueueChain_cursors: "keeps same_cursors (enqueueChain env account command q b key)"
  by (auto simp: keeps_def same_cursors_def dest!: enqueueChain_runs(1) createJob_appends(3))

lemma enqueue_events_cursors: "keeps same_cursors (enqueue_events env evs)"
  unfolding enqueue_events_def by (intro cursors_frame.keeps_intros enqueueChain_cursors)

text \<open>
  C26. The cursor moves past a range of blocks only when every deposit and every request that the
  node reported for it has a job: when the range is taken in, each instruction's external key is in
  the table and the stored cursor is the next block; when anything fails, the cursor stays. Either
  way the existing jobs are untouched and the table invariant holds.
\<close>
theorem index_range_intake:
  assumes "store_ok (db w)" and "index_range env (a, b) w = Some (r, t)"
  shows "took_in w t \<and> (case r of
      Inl e \<Rightarrow> cursors (db t) = cursors (db w)
    | Inr _ \<Rightarrow> getCursor (db t) cursor_name d = Inr (b + 1) \<and>
        (\<exists>deposits requests. e_deposit_logs env (CDepositLogs a b # hist w) = Inr deposits
           \<and> e_request_logs env (CRequestLogs a b # CDepositLogs a b # hist w) = Inr requests
           \<and> list_all (\<lambda>e. getJobByExternalKey (db t) (ci_externalKey e) \<noteq> None)
                (instructions_of env deposits requests)))"
proof
  show "took_in w t" by (rule keepsD [OF index_range_took assms(2)])
  obtain q u where read: "chain_events env a b w = Some (q, u)"
    using total_ends [OF chain_total(5)] by (rule endsE)
  have u: "db u = db w" using keepsD [OF chain_logs_keep(1) read] by (simp add: same_db_def)
  show "case r of
      Inl e \<Rightarrow> cursors (db t) = cursors (db w)
    | Inr _ \<Rightarrow> getCursor (db t) cursor_name d = Inr (b + 1) \<and>
        (\<exists>deposits requests. e_deposit_logs env (CDepositLogs a b # hist w) = Inr deposits
           \<and> e_request_logs env (CRequestLogs a b # CDepositLogs a b # hist w) = Inr requests
           \<and> list_all (\<lambda>e. getJobByExternalKey (db t) (ci_externalKey e) \<noteq> None)
                (instructions_of env deposits requests))"
  proof (cases q)
    case (Inl e)
    then show ?thesis using assms(2) read u by (auto simp: index_range_def bindA_def)
  next
    case (Inr evs)
    then obtain deposits requests where logs:
      "e_deposit_logs env (CDepositLogs a b # hist w) = Inr deposits"
      "e_request_logs env (CRequestLogs a b # CDepositLogs a b # hist w) = Inr requests"
      "evs = instructions_of env deposits requests"
      using read by (auto simp: chain_events_def bindA_def bothA_def askE_def ask_def liftA_def ret_def
          Let_def split: sum.splits)
    obtain q2 v where took: "enqueue_events env evs u = Some (q2, v)"
      using total_ends [OF enqueue_events_total] by (rule endsE)
    have cur: "cursors (db v) = cursors (db u)"
      using keepsD [OF enqueue_events_cursors took] by (simp add: same_cursors_def)
    show ?thesis
    proof (cases q2)
      case (Inl e)
      then show ?thesis using assms(2) read \<open>q = Inr evs\<close> took cur u
        by (auto simp: index_range_def bindA_def thenA_def)
    next
      case (Inr x)
      have t: "r = Inr ()" "db t = setCursor cursor_name (b + 1) (db v)"
        using assms(2) read \<open>q = Inr evs\<close> took Inr
        by (auto simp: index_range_def bindA_def thenA_def moveCursor_run)
      have "list_all (\<lambda>e. getJobByExternalKey (db v) (ci_externalKey e) \<noteq> None) evs"
        using enqueue_events_present [of env evs u v] took Inr assms(1) u logs(3) instructions_keys by simp
      then show ?thesis using t logs by (simp add: getCursor_setCursor getJobByExternalKey_def)
    qed
  qed
qed

theorem index_range_intake_witness:
  "\<exists>t. index_range sample_env (0, 29) sample_world = Some (Inr (), t)
     \<and> getCursor (db t) cursor_name 5 = Inr 30"
proof -
  have ok: "store_ok (db sample_world)" using sample_store_facts(1) by (simp add: sample_world_def)
  obtain r t where run: "index_range sample_env (0, 29) sample_world = Some (r, t)"
    using total_ends [OF index_range_total] by (rule endsE)
  have r: "r = Inr ()"
    using run by (auto simp: index_range_def chain_events_def instructions_of_def enqueue_events_def
        bindA_def bothA_def askE_def ask_def liftA_def ret_def thenA_def moveCursor_def modifyA_def
        Let_def sample_env_def)
  from index_range_intake [OF ok run, of 5] run show ?thesis unfolding r by simp
qed

text \<open>
  Reading a range of blocks again is harmless: once the instructions of a range have been taken
  in, taking them in a second time succeeds and changes nothing in the database.
\<close>
lemma intake_replay:
  assumes "store_ok (db w)" and "list_all (\<lambda>e. ci_externalKey e \<noteq> []) evs"
    and "enqueue_events env evs w = Some (Inr (), t)"
  shows "\<exists>u. enqueue_events env evs t = Some (Inr (), u) \<and> db u = db t"
proof (rule enqueue_events_again)
  show "list_all (\<lambda>e. ci_externalKey e \<noteq> [] \<and> getJobByExternalKey (db t) (ci_externalKey e) \<noteq> None) evs"
    using enqueue_events_present [OF assms(3,1,2)] assms(2) by (simp add: list_all_iff)
qed

definition sample_event :: chain_instruction where
  "sample_event = \<lparr>ci_externalKey = ''chain:0xa'', ci_account = ''0x1'', ci_requestId = ''0xa'',
     ci_command = ''DEPOSIT'', ci_blockNumber = 7\<rparr>"

lemma lower_0x1 [simp]: "lower ''0x1'' = ''0x1''"
  by code_simp

lemma intake_replay_witness:
  "\<exists>t u. enqueue_events sample_env [sample_event] (sample_world\<lparr>db := empty_store\<rparr>) = Some (Inr (), t)
     \<and> enqueue_events sample_env [sample_event] t = Some (Inr (), u) \<and> db u = db t"
proof -
  let ?w = "sample_world\<lparr>db := empty_store\<rparr>"
  have ok: "store_ok (db ?w)" by (simp add: store_ok_def empty_store_def List.map_filter_simps)
  have keys: "list_all (\<lambda>e. ci_externalKey e \<noteq> []) [sample_event]" by (simp add: sample_event_def)
  obtain r t where run: "enqueue_events sample_env [sample_event] ?w = Some (r, t)"
    using total_ends [OF enqueue_events_total] by (rule endsE)
  obtain r1 t1 where first: "enqueueChain sample_env ''0x1'' ''DEPOSIT'' ''0xa'' 7 ''chain:0xa'' ?w = Some (r1, t1)"
    using total_ends [OF enqueueChain_total] by (rule endsE)
  have "r1 = Inr j" if "createJob u n c a p (Some ''chain:0xa'') empty_store = Some (r1, st)" "j = newJob u n c a p (Some ''chain:0xa'')" for u n c a p st j
    using that createJob_new [of "Some ''chain:0xa''" empty_store u n c a p]
    by (simp add: found_job_def getJobByExternalKey_def empty_store_def)
  then obtain j where "r1 = Inr j" using enqueueChain_runs(1) [OF first] by fastforce
  then have "r = Inr ()"
    using run first by (simp add: enqueue_events_def sample_event_def thenA_def bindA_def ret_def)
  with intake_replay [OF ok keys] run show ?thesis by blast
qed

text \<open>
  A poll of the indexer always ends and never throws: if one is under way it does nothing,
  otherwise it ends with its flag cleared and at most one error reported; jobs are only added and the
  table invariant holds.
\<close>
lemma indexer_poll_ends:
  assumes "store_ok (db w)"
  shows "\<exists>t. indexer_poll env cfg w = Some (Inr (), t) \<and> store_ok (db t)
     \<and> (\<exists>new. jobs (db t) = jobs (db w) @ new)
     \<and> (if polling w then t = w else \<not> polling t)"
proof (cases "polling w")
  case True
  then show ?thesis using assms by (simp add: indexer_poll_def bindA_def getA_def ret_def)
next
  case False
  let ?m = "tryA (bindA (blockNumber env) (\<lambda>latest. bindA (readCursor cfg) (\<lambda>cursor.
      index_loop env latest cursor))) onError"
  let ?w = "w\<lparr>polling := True\<rparr>"
  have "keeps took_in (readCursor cfg)" "keeps took_in (onError e)" for e
    by (simp_all add: keeps_def readCursor_def onError_def modifyA_def took_in_def bindA_def getA_def liftA_def)
  then have took: "keeps took_in ?m"
    by (intro took_frame.keeps_intros index_loop_took same_db_took [OF chain_reads_keep(1)])
  have "total ?m" unfolding readCursor_def onError_def by (auto intro!: total_intros)
  then obtain r t where t: "?m ?w = Some (r, t)" by (rule endsE [OF total_ends])
  have "r = Inr ()"
    using t by (auto simp: tryA_def onError_def modifyA_def split: option.splits sum.splits)
  then have "indexer_poll env cfg w = Some (Inr (), t\<lparr>polling := False\<rparr>)"
    using False t by (simp add: indexer_poll_def bindA_def getA_def thenA_def modifyA_def finallyA_def)
  then show ?thesis using keepsD [OF took t] False assms by (auto simp: took_in_def)
qed

lemma indexer_poll_ends_witness:
  "\<exists>t. indexer_poll sample_env sample_config sample_world = Some (Inr (), t) \<and> \<not> polling t"
proof -
  have ok: "store_ok (db sample_world)" using sample_store_facts(1) by (simp add: sample_world_def)
  from indexer_poll_ends [OF ok, of sample_env sample_config] show ?thesis
    by (auto simp: sample_world_def)
qed

text \<open>
  A keeper's tick always ends and never throws: if one is under way it does nothing; otherwise
  it sends exactly one risk-tick transaction with the configured fee, reports an error exactly when
  the transaction could not be sent or did not succeed, clears its flag and leaves the database alone.
\<close>
lemma keeper_tick_once:
  "\<exists>t. keeper_tick env cfg w = Some (Inr (), t) \<and> db t = db w
     \<and> (if ticking w then t = w
        else \<not> ticking t \<and> chain_writes t = CWriteRiskTick (FCC_INSTRUCTION_FEE_WEI cfg) # chain_writes w
          \<and> (let call = CWriteRiskTick (FCC_INSTRUCTION_FEE_WEI cfg) # hist w in
             (reported t = reported w) = (\<exists>hash. e_write env call = Inr hash
                \<and> e_receipt env (CReceipt hash # call) = Inr ''success'')))"
  by (auto simp: keeper_tick_def requestRiskTick_def onError_def bindA_def getA_def thenA_def modifyA_def
      finallyA_def tryA_def askE_def ask_def liftA_def ret_def throw_def chain_writes_def is_write_def
      Let_def split: sum.split)

end
