(* ===== verification/Js_Number.thy ===== *)
theory Js_Number
  imports Js_Text Complex_Main "HOL-Library.Log_Nat"
begin

text \<open>
  JavaScript numbers. A number is the rational a finite double denotes; \<open>fl\<close> is the rounding of
  IEEE 754, to nearest with ties to even, that every arithmetic operation applies to its exact
  result. Infinities and NaN are not numbers here: the amounts of the sources stay far from the range
  of a double, and their divisions are guarded; \<open>Page_View\<close> adds them for what a user types.
\<close>

type_synonym number = rat

section \<open>Rounding\<close>

text \<open>The binary exponent: \<open>2 ^ expo x \<le> x < 2 ^ (expo x + 1)\<close> for a positive \<open>x\<close>.\<close>

definition expo :: "rat \<Rightarrow> int" where
  "expo x = (case quotient_of x of (n, d) \<Rightarrow>
     let e = int (floorlog 2 (nat n)) - int (floorlog 2 (nat d)) in
     if 2 powi e \<le> x then e else e - 1)"

text \<open>To the nearest integer, ties to even.\<close>

definition round_even :: "rat \<Rightarrow> int" where
  "round_even x = (let n = \<lfloor>x\<rfloor>; r = x - of_int n in
     if r < 1 / 2 then n else if 1 / 2 < r then n + 1 else if even n then n else n + 1)"

definition ulp :: "rat \<Rightarrow> rat" where
  "ulp x = 2 powi max (expo x - 52) (-1074)"

definition fl_pos :: "rat \<Rightarrow> rat" where
  "fl_pos x = of_int (round_even (x / ulp x)) * ulp x"

definition fl :: "rat \<Rightarrow> number" where
  "fl x = (if x = 0 then 0 else if x < 0 then - fl_pos (- x) else fl_pos x)"

section \<open>Arithmetic\<close>

definition js_add :: "number \<Rightarrow> number \<Rightarrow> number" where "js_add a b = fl (a + b)"
definition js_sub :: "number \<Rightarrow> number \<Rightarrow> number" where "js_sub a b = fl (a - b)"
definition js_mul :: "number \<Rightarrow> number \<Rightarrow> number" where "js_mul a b = fl (a * b)"
definition js_div :: "number \<Rightarrow> number \<Rightarrow> number" where "js_div a b = fl (a / b)"

text \<open>\<open>Math.round\<close>: to the nearest integer, ties upwards.\<close>

definition js_round :: "number \<Rightarrow> number" where
  "js_round x = of_int \<lfloor>x + 1 / 2\<rfloor>"

definition js_floor :: "number \<Rightarrow> number" where
  "js_floor x = of_int \<lfloor>x\<rfloor>"

definition is_integer :: "number \<Rightarrow> bool" where
  "is_integer x = (x = of_int \<lfloor>x\<rfloor>)"

definition max_safe_integer :: number where
  "max_safe_integer = 9007199254740991"

definition is_safe_integer :: "number \<Rightarrow> bool" where
  "is_safe_integer x = (is_integer x \<and> \<bar>x\<bar> \<le> max_safe_integer)"

text \<open>\<open>x.toFixed(digits)\<close> for \<open>\<bar>x\<bar> < 10 ^ 21\<close>: the decimal nearest to the number, ties upwards.\<close>

definition pad_left :: "nat \<Rightarrow> string \<Rightarrow> string" where
  "pad_left n s = replicate (n - length s) (CHR ''0'') @ s"

definition to_fixed :: "nat \<Rightarrow> number \<Rightarrow> string" where
  "to_fixed digits x =
     (let n = nat \<lfloor>\<bar>x\<bar> * 10 ^ digits + 1 / 2\<rfloor>;
          m = pad_left (digits + 1) (show_nat n)
      in (if x < 0 then ''-'' else []) @
         (if digits = 0 then m
          else take (length m - digits) m @ ''.'' @ drop (length m - digits) m))"

section \<open>Numerals\<close>

text \<open>
  \<open>String(x)\<close>: the shortest decimal that rounds to \<open>x\<close>, the closest one where two are as short.
  \<open>dec_point x = n\<close> when \<open>10 ^ (n - 1) \<le> x < 10 ^ n\<close>; 17 digits always suffice, and no positive
  double has more than 400 zeros after its point.
\<close>

fun leading_zeros :: "nat \<Rightarrow> rat \<Rightarrow> nat" where
  "leading_zeros 0 x = 0"
| "leading_zeros (Suc k) x = (if 1 \<le> x then 0 else Suc (leading_zeros k (10 * x)))"

definition dec_point :: "rat \<Rightarrow> int" where
  "dec_point x = (if 1 \<le> x then int (length (show_nat (nat \<lfloor>x\<rfloor>)))
     else 1 - int (leading_zeros 400 x))"

definition digits_for :: "rat \<Rightarrow> int \<Rightarrow> nat \<Rightarrow> int option" where
  "digits_for x n k =
     (let q = x / 10 powi (n - int k); low = \<lfloor>q\<rfloor>;
          near = (if q - of_int low \<le> of_int low + 1 - q then [low, low + 1] else [low + 1, low])
      in find (\<lambda>c. 10 ^ (k - 1) \<le> c \<and> c \<le> 10 ^ k \<and> fl (of_int c * 10 powi (n - int k)) = x) near)"

text \<open>A power of ten just above \<open>x\<close> has the digit 1 and the point one place further.\<close>

definition shortest_digits :: "rat \<Rightarrow> int \<Rightarrow> string \<times> int" where
  "shortest_digits x n = (case List.map_filter (digits_for x n) [1 ..< 18] of
       [] \<Rightarrow> ([], n)
     | c # _ \<Rightarrow> if c = 10 then (''1'', n + 1) else (show_nat (nat c), n))"

definition place_digits :: "string \<Rightarrow> int \<Rightarrow> string" where
  "place_digits ds n =
     (let k = int (length ds) in
      if k \<le> n \<and> n \<le> 21 then ds @ replicate (nat (n - k)) (CHR ''0'')
      else if 0 < n \<and> n \<le> 21 then take (nat n) ds @ ''.'' @ drop (nat n) ds
      else if -6 < n \<and> n \<le> 0 then ''0.'' @ replicate (nat (- n)) (CHR ''0'') @ ds
      else take 1 ds @ (if k = 1 then [] else ''.'' @ drop 1 ds) @ ''e''
        @ (if n - 1 < 0 then ''-'' else ''+'') @ show_nat (nat \<bar>n - 1\<bar>))"

definition number_text :: "number \<Rightarrow> string" where
  "number_text x = (if x = 0 then ''0''
     else (if x < 0 then ''-'' else [])
       @ (case shortest_digits \<bar>x\<bar> (dec_point \<bar>x\<bar>) of (ds, n) \<Rightarrow> place_digits ds n))"

text \<open>
  \<open>Number(s)\<close>, with \<open>None\<close> for \<open>NaN\<close> and for the infinities: white space around a numeral is
  dropped, the empty text is 0, \<open>0x\<close>, \<open>0o\<close> and \<open>0b\<close> announce a base, and a decimal may have a
  sign, a fraction and an exponent.
\<close>

type_synonym numeric = "number option"

definition signed :: "string \<Rightarrow> int option" where
  "signed s =
     (if prefix ''-'' s then map_option (\<lambda>n. - int n) (digits_to_nat 10 (drop 1 s))
      else map_option int (digits_to_nat 10 (if prefix ''+'' s then drop 1 s else s)))"

definition decimal :: "string \<Rightarrow> rat option" where
  "decimal s =
     (let mantissa = takeWhile (\<lambda>c. c \<noteq> CHR ''e'' \<and> c \<noteq> CHR ''E'') s;
          power = drop (length mantissa) s;
          whole = takeWhile (\<lambda>c. c \<noteq> CHR ''.'') mantissa;
          part = drop (Suc (length whole)) mantissa
      in case (digits_to_nat 10 (whole @ part), if power = [] then Some 0 else signed (drop 1 power)) of
           (Some n, Some k) \<Rightarrow> Some (of_nat n * 10 powi (k - int (length part)))
         | _ \<Rightarrow> None)"

definition finite_number :: "numeric \<Rightarrow> numeric" where
  "finite_number x = (case x of Some v \<Rightarrow> if \<bar>v\<bar> < 2 ^ 1024 then Some v else None | None \<Rightarrow> None)"

definition number_of_text :: "string \<Rightarrow> numeric" where
  "number_of_text s =
     (let t = trim_end (trim_start s) in
      if t = [] then Some 0
      else finite_number
        (if prefix ''0x'' t \<or> prefix ''0X'' t then map_option (fl \<circ> of_nat) (digits_to_nat 16 (drop 2 t))
         else if prefix ''0o'' t \<or> prefix ''0O'' t then map_option (fl \<circ> of_nat) (digits_to_nat 8 (drop 2 t))
         else if prefix ''0b'' t \<or> prefix ''0B'' t then map_option (fl \<circ> of_nat) (digits_to_nat 2 (drop 2 t))
         else if prefix ''-'' t then map_option (\<lambda>x. - fl x) (decimal (drop 1 t))
         else map_option fl (decimal (if prefix ''+'' t then drop 1 t else t))))"

section \<open>Lemmas\<close>

lemma round_even_error: "\<bar>of_int (round_even x) - x\<bar> \<le> 1 / 2"
proof -
  define n where "n = \<lfloor>x\<rfloor>"
  have "of_int n \<le> x \<and> x < of_int n + 1" unfolding n_def using floor_correct [of x] by simp
  then show ?thesis
    unfolding round_even_def Let_def n_def [symmetric] by (auto simp: abs_if)
qed

lemma round_even_of_int [simp]: "round_even (of_int n) = n"
  by (simp add: round_even_def)

lemma nat_power_bounds:
  assumes "0 < n"
  shows "2 ^ k \<le> nat n \<Longrightarrow> (2 :: rat) ^ k \<le> of_int n"
    and "nat n < 2 ^ k \<Longrightarrow> of_int n < (2 :: rat) ^ k"
proof -
  have n: "of_int n = (of_nat (nat n) :: rat)" using assms by simp
  have k: "(2 :: rat) ^ k = of_nat (2 ^ k)" by simp
  show "2 ^ k \<le> nat n \<Longrightarrow> (2 :: rat) ^ k \<le> of_int n"
    unfolding n k by (rule of_nat_mono)
  show "nat n < 2 ^ k \<Longrightarrow> of_int n < (2 :: rat) ^ k"
    unfolding n k by (simp only: of_nat_less_iff)
qed

lemma expo_bounds:
  assumes "0 < x"
  shows "2 powi expo x \<le> x" and "x < 2 powi (expo x + 1)"
proof -
  obtain n d where q: "quotient_of x = (n, d)" by (cases "quotient_of x")
  have d: "0 < d" using quotient_of_denom_pos [OF q] .
  have x: "x = of_int n / of_int d" using quotient_of_div [OF q] .
  have n: "0 < n" using assms d unfolding x by (simp add: zero_less_divide_iff)
  define a where "a = floorlog 2 (nat n)"
  define c where "c = floorlog 2 (nat d)"
  have na: "2 ^ (a - 1) \<le> nat n" "nat n < 2 ^ a"
    using floorlog_bounds [of "nat n" 2] n by (simp_all add: a_def)
  have dc: "2 ^ (c - 1) \<le> nat d" "nat d < 2 ^ c"
    using floorlog_bounds [of "nat d" 2] d by (simp_all add: c_def)
  have ac: "0 < a" "0 < c" using n d by (simp_all add: a_def c_def floorlog_def)
  have a1: "int a - 1 = int (a - 1)" and c1: "int c - 1 = int (c - 1)" using ac by simp_all
  have n1: "(2 :: rat) powi (int a - 1) \<le> of_int n" "of_int n < (2 :: rat) powi int a"
    unfolding a1 power_int_of_nat using nat_power_bounds [OF n] na by blast+
  have d1: "(2 :: rat) powi (int c - 1) \<le> of_int d" "of_int d < (2 :: rat) powi int c"
    unfolding c1 power_int_of_nat using nat_power_bounds [OF d] dc by blast+
  let ?e = "int a - int c"
  have low: "2 powi (?e - 1) \<le> x"
  proof -
    have "(2 :: rat) powi (?e - 1) * of_int d \<le> 2 powi (?e - 1) * 2 powi int c"
      using d1(2) by (intro mult_left_mono) simp_all
    also have "\<dots> = 2 powi ((?e - 1) + int c)" by (rule power_int_add [symmetric]) simp
    also have "\<dots> = 2 powi (int a - 1)" by simp
    also have "\<dots> \<le> of_int n" by (rule n1(1))
    finally show ?thesis using d by (simp add: x le_divide_eq)
  qed
  have high: "x < 2 powi (?e + 1)"
  proof -
    have "(of_int n :: rat) < 2 powi int a" by (rule n1(2))
    also have "\<dots> = 2 powi ((?e + 1) + (int c - 1))" by simp
    also have "\<dots> = 2 powi (?e + 1) * 2 powi (int c - 1)" by (rule power_int_add) simp
    also have "\<dots> \<le> 2 powi (?e + 1) * of_int d" using d1(1) by (intro mult_left_mono) simp_all
    finally show ?thesis using d by (simp add: x divide_less_eq)
  qed
  have e: "expo x = (if 2 powi ?e \<le> x then ?e else ?e - 1)"
    by (simp add: expo_def q a_def c_def Let_def)
  show "2 powi expo x \<le> x" using low e by simp
  show "x < 2 powi (expo x + 1)" using high e by (auto split: if_splits)
qed

lemma ulp_pos [simp]: "0 < ulp x"
  by (simp add: ulp_def)

text \<open>The relative error of rounding a number that is not subnormal.\<close>

lemma fl_pos_error:
  assumes "2 powi (-1022) \<le> x"
  shows "\<bar>fl_pos x - x\<bar> \<le> x / 2 ^ 53"
proof -
  have x: "0 < x"
    using assms by (rule less_le_trans [rotated]) simp
  have "- 1022 < expo x + 1"
  proof (rule ccontr)
    assume "\<not> - 1022 < expo x + 1"
    then have "(2 :: rat) powi (expo x + 1) \<le> 2 powi (-1022)" by (intro power_int_increasing) simp_all
    then show False using expo_bounds(2) [OF x] assms by simp
  qed
  then have u: "ulp x = 2 powi (expo x - 52)" by (simp add: ulp_def)
  have half: "ulp x / 2 \<le> x / 2 ^ 53"
  proof -
    have "ulp x = 2 powi expo x / 2 ^ 52" by (simp add: u power_int_diff)
    then show ?thesis using expo_bounds(1) [OF x] by (simp add: field_simps)
  qed
  have "fl_pos x - x = (of_int (round_even (x / ulp x)) - x / ulp x) * ulp x"
    using ulp_pos [of x] by (simp add: fl_pos_def left_diff_distrib less_imp_neq [symmetric])
  then have "\<bar>fl_pos x - x\<bar> = \<bar>of_int (round_even (x / ulp x)) - x / ulp x\<bar> * ulp x"
    by (simp add: abs_mult abs_of_pos)
  also have "\<dots> \<le> 1 / 2 * ulp x" by (intro mult_right_mono round_even_error) (simp add: less_imp_le)
  finally show ?thesis using half by simp
qed

text \<open>An integer below \<open>2 ^ 53\<close> is a double.\<close>

lemma fl_pos_integer:
  assumes "0 < n" and "n < 2 ^ 53"
  shows "fl_pos (of_int n) = of_int n"
proof -
  have pos: "(0 :: rat) < of_int n" using assms(1) by simp
  have "expo (of_int n) \<le> 52"
  proof (rule ccontr)
    assume "\<not> expo (of_int n) \<le> 52"
    then have "(2 :: rat) powi 53 \<le> 2 powi expo (of_int n)" by (intro power_int_increasing) simp_all
    then have "(2 :: rat) ^ 53 \<le> of_int n" using expo_bounds(1) [OF pos] by simp
    then have "2 ^ 53 \<le> n" by (metis of_int_le_iff of_int_numeral of_int_power)
    then show False using assms(2) by simp
  qed
  then obtain k where k: "ulp (of_int n) = 2 powi (- int k)"
  proof -
    have "max (expo (of_int n) - 52) (-1074) = - int (nat (- max (expo (of_int n) - 52) (-1074)))"
      using \<open>expo (of_int n) \<le> 52\<close> by simp
    then show ?thesis using that unfolding ulp_def by metis
  qed
  have "of_int n / ulp (of_int n) = (of_int (n * 2 ^ k) :: rat)"
    by (simp add: k power_int_minus divide_inverse)
  then have "fl_pos (of_int n) = of_int (n * 2 ^ k) * ulp (of_int n)"
    by (simp only: fl_pos_def round_even_of_int)
  also have "\<dots> = of_int n" by (simp add: k power_int_minus)
  finally show ?thesis .
qed

lemma fl_integer:
  assumes "\<bar>n\<bar> < 2 ^ 53"
  shows "fl (of_int n) = of_int n"
proof (cases "n < 0")
  case True
  then have "fl_pos (of_int (- n)) = of_int (- n)" using assms by (intro fl_pos_integer) auto
  then show ?thesis using True by (simp add: fl_def)
next
  case False
  then show ?thesis using assms fl_pos_integer [of n] by (auto simp: fl_def)
qed

lemma fl_error: "2 powi (-1022) \<le> x \<Longrightarrow> \<bar>fl x - x\<bar> \<le> x / 2 ^ 53"
proof -
  assume a: "2 powi (-1022) \<le> x"
  have "(0 :: rat) < 2 powi (-1022)" by simp
  then have "0 < x" using a by linarith
  then show ?thesis using fl_pos_error [OF a] by (simp add: fl_def)
qed

lemma js_round_near: "\<bar>x - of_int n\<bar> < 1 / 2 \<Longrightarrow> js_round x = of_int n"
proof -
  assume "\<bar>x - of_int n\<bar> < 1 / 2"
  then have "\<lfloor>x + 1 / 2\<rfloor> = n" by (intro floor_eq_iff [THEN iffD2]) (auto simp: abs_if split: if_splits)
  then show ?thesis by (simp add: js_round_def)
qed

text \<open>
  Scaling down by a million and back: for an amount of base units below \<open>2 ^ 50\<close>, the two roundings
  together stay below half a unit.
\<close>

lemma scale_roundtrip:
  assumes "0 < n" and "n < 2 ^ 50"
  shows "js_round (js_mul (js_div (of_int n) 1000000) 1000000) = of_int n"
proof -
  define v :: rat where "v = of_int n / 1000000"
  have n: "(1 :: rat) \<le> of_int n" "(of_int n :: rat) < 2 ^ 50"
    using assms by simp_all
  have tiny: "(2 :: rat) powi (-1022) \<le> 1 / 2 ^ 30"
  proof -
    have "(2 :: rat) powi (-1022) \<le> 2 powi (-30)" by (intro power_int_increasing) simp_all
    then show ?thesis by (simp add: power_int_minus field_simps)
  qed
  have v: "1 / 2 ^ 30 \<le> v" using n(1) by (simp add: v_def)
  then have e1: "\<bar>fl v - v\<bar> \<le> v / 2 ^ 53" using tiny by (intro fl_error) linarith
  have v0: "0 < v" using v by (rule less_le_trans [rotated]) simp
  have w: "v / 2 \<le> fl v" "fl v \<le> 2 * v" using e1 v0 by (auto simp: abs_if field_simps split: if_splits)
  define x where "x = fl v * 1000000"
  have "1 / 2 ^ 30 \<le> x" using w(1) v by (simp add: x_def)
  then have e2: "\<bar>fl x - x\<bar> \<le> x / 2 ^ 53" using tiny by (intro fl_error) linarith
  have "\<bar>x - of_int n\<bar> \<le> of_int n / 2 ^ 53"
  proof -
    have "x - of_int n = (fl v - v) * 1000000" by (simp add: x_def v_def)
    then have "\<bar>x - of_int n\<bar> = \<bar>fl v - v\<bar> * 1000000" by (simp only: abs_mult abs_numeral)
    also have "\<dots> \<le> v / 2 ^ 53 * 1000000" using e1 by simp
    finally show ?thesis by (simp add: v_def)
  qed
  moreover have "x \<le> 2 * of_int n" using w(2) by (simp add: x_def v_def)
  ultimately have "\<bar>fl x - of_int n\<bar> \<le> 3 * of_int n / 2 ^ 53"
    using e2 by (auto simp: abs_if field_simps split: if_splits)
  also have "\<dots> < 1 / 2" using n(2) by simp
  finally show ?thesis
    unfolding js_mul_def js_div_def v_def [symmetric] x_def [symmetric] by (rule js_round_near)
qed

text \<open>Signs, and the smallest numbers.\<close>

lemma round_even_nonneg: "0 \<le> x \<Longrightarrow> 0 \<le> round_even x"
  by (auto simp: round_even_def Let_def)

lemma fl_pos_nonneg: "0 \<le> x \<Longrightarrow> 0 \<le> fl_pos x"
  unfolding fl_pos_def by (intro mult_nonneg_nonneg) (simp_all add: round_even_nonneg less_imp_le)

lemma fl_nonpos: "x \<le> 0 \<Longrightarrow> fl x \<le> 0"
  using fl_pos_nonneg [of "- x"] by (auto simp: fl_def)

lemma fl_tiny:
  assumes "0 < x" and "x < 2 powi (-1022)"
  shows "fl x < 1 / 4"
proof -
  have "expo x < - 1022"
  proof (rule ccontr)
    assume "\<not> expo x < - 1022"
    then have "(2 :: rat) powi (-1022) \<le> 2 powi expo x" by (intro power_int_increasing) simp_all
    then show False using expo_bounds(1) [OF assms(1)] assms(2) by simp
  qed
  then have u: "ulp x = 2 powi (-1074)" by (simp add: ulp_def)
  have small: "(2 :: rat) powi (-1074) \<le> 2 powi (-4)" "(2 :: rat) powi (-1022) \<le> 2 powi (-4)"
    by (intro power_int_increasing; simp)+
  have quarter: "(0 :: rat) < 2 powi (-4)" by simp
  have "fl_pos x - x = (of_int (round_even (x / ulp x)) - x / ulp x) * ulp x"
    using ulp_pos [of x] by (simp add: fl_pos_def left_diff_distrib less_imp_neq [symmetric])
  also have "\<dots> \<le> 1 / 2 * ulp x"
    by (intro mult_right_mono order_trans [OF abs_ge_self round_even_error] less_imp_le ulp_pos)
  finally have "fl_pos x \<le> x + ulp x / 2" by simp
  then have "fl_pos x < 2 powi (-4) + 2 powi (-4)" using small assms(2) u quarter by linarith
  then show ?thesis using assms(1) by (simp add: fl_def power_int_minus)
qed

lemma js_round_bounds: "\<bar>js_round x - x\<bar> \<le> 1 / 2"
proof -
  have "of_int \<lfloor>x + 1 / 2\<rfloor> \<le> x + 1 / 2" "x + 1 / 2 < of_int \<lfloor>x + 1 / 2\<rfloor> + 1"
    using floor_correct [of "x + 1 / 2"] by simp_all
  then show ?thesis unfolding js_round_def abs_le_iff by linarith
qed

text \<open>A double stays as it is.\<close>

lemma fl_pos_dyadic:
  assumes "0 < k" and "k \<le> 2 ^ 53" and "-1074 \<le> e"
  shows "fl_pos (of_int k * 2 powi e) = of_int k * 2 powi e"
proof -
  define x :: rat where "x = of_int k * 2 powi e"
  have x: "0 < x" using assms(1) by (simp add: x_def)
  define f where "f = max (expo x - 52) (-1074)"
  have ulp: "ulp x = 2 powi f" by (simp add: ulp_def f_def)
  have "\<exists>m. x = of_int m * 2 powi f"
  proof (cases "f \<le> e")
    case True
    have "(2 :: rat) powi e = 2 powi (e - f) * 2 powi f" using power_int_add [of "2 :: rat" "e - f" f] by simp
    also have "(2 :: rat) powi (e - f) = of_int (2 ^ nat (e - f))"
      using True power_int_of_nat [of "2 :: rat" "nat (e - f)"] by simp
    finally have "x = of_int (k * 2 ^ nat (e - f)) * 2 powi f" by (simp add: x_def)
    then show ?thesis by blast
  next
    case False
    then have "e + 53 \<le> expo x" using assms(3) by (simp add: f_def)
    then have "(2 :: rat) powi (53 + e) \<le> 2 powi expo x" by (intro power_int_increasing) simp_all
    then have big: "2 powi 53 * 2 powi e \<le> x" using expo_bounds(1) [OF x] power_int_add [of "2 :: rat" 53 e] by simp
    moreover have "x \<le> 2 ^ 53 * 2 powi e"
    proof -
      have "(of_int k :: rat) \<le> of_int (2 ^ 53)" using assms(2) by (simp only: of_int_le_iff)
      then have "(of_int k :: rat) \<le> 2 ^ 53" by simp
      then show ?thesis unfolding x_def by (rule mult_right_mono) simp
    qed
    ultimately have xe: "x = 2 powi (53 + e)" by (simp add: power_int_add)
    have "expo x = 53 + e"
    proof -
      have "(2 :: rat) powi (53 + e) < 2 powi (expo x + 1)" "(2 :: rat) powi expo x \<le> 2 powi (53 + e)"
        using expo_bounds [OF x] xe by simp_all
      moreover have "i \<le> j" if "(2 :: rat) powi i < 2 powi (j + 1)" for i j
        using power_int_increasing [of "j + 1" i "2 :: rat"] that by (cases "j + 1 \<le> i") simp_all
      moreover have "i \<le> j" if "(2 :: rat) powi i \<le> 2 powi j" for i j
        using power_int_strict_increasing [of j i "2 :: rat"] that by (cases "j < i") simp_all
      ultimately show ?thesis by (meson order_antisym)
    qed
    then have "f = e + 1" using assms(3) by (simp add: f_def)
    then have "x = of_int (2 ^ 52) * 2 powi f" by (simp add: xe power_int_add)
    then show ?thesis by blast
  qed
  then obtain m where m: "x = of_int m * 2 powi f" by blast
  have "x / ulp x = of_int m * 2 powi f / 2 powi f" unfolding ulp by (simp only: m)
  then have "x / ulp x = of_int m" by simp
  then have "fl_pos x = of_int m * ulp x" by (simp only: fl_pos_def round_even_of_int)
  then have "fl_pos x = x" using m ulp by metis
  then show ?thesis unfolding x_def .
qed

lemma fl_pos_idem: "0 < x \<Longrightarrow> fl_pos (fl_pos x) = fl_pos x"
proof -
  assume x: "0 < x"
  define e where "e = max (expo x - 52) (-1074)"
  define k where "k = round_even (x / ulp x)"
  have ulp: "ulp x = 2 powi e" by (simp add: ulp_def e_def)
  have e: "- 1074 \<le> e" by (simp add: e_def)
  have "x / ulp x < 2 ^ 53"
  proof -
    have "(2 :: rat) powi (expo x + 1) \<le> 2 powi (53 + e)" by (intro power_int_increasing) (simp_all add: e_def)
    then have "x < 2 ^ 53 * 2 powi e" using expo_bounds(2) [OF x] by (simp add: power_int_add)
    then show ?thesis by (simp add: ulp divide_less_eq)
  qed
  moreover have "of_int k - x / ulp x \<le> 1 / 2"
    using round_even_error [of "x / ulp x"] unfolding k_def abs_le_iff by blast
  ultimately have "of_int k < (of_int (2 ^ 53 + 1) :: rat)" by simp
  then have top: "k \<le> 2 ^ 53" by (simp only: of_int_less_iff)
  have low: "0 \<le> k" using x by (simp add: k_def round_even_nonneg less_imp_le)
  have fl: "fl_pos x = of_int k * 2 powi e" by (simp add: fl_pos_def k_def ulp)
  show ?thesis
  proof (cases "k = 0")
    case True
    moreover have "fl_pos 0 = 0" using round_even_of_int [of 0] by (simp add: fl_pos_def)
    ultimately show ?thesis by (simp add: fl)
  next
    case False
    then show ?thesis using fl_pos_dyadic [OF _ top e] low by (simp add: fl)
  qed
qed

lemma fl_idem: "fl (fl x) = fl x"
  using fl_pos_idem [of x] fl_pos_idem [of "- x"] fl_pos_nonneg [of x] fl_pos_nonneg [of "- x"]
  by (auto simp: fl_def)

end
