(* ===== verification/Startup.thy ===== *)
theory Startup
  imports Server Indexer Js_Number
begin

text \<open>
  The relayer's configuration, \<^verbatim>\<open>relayer/src/config.ts\<close>, and its start and shutdown,
  \<^verbatim>\<open>relayer/src/main.ts\<close>. The environment is a map from names to texts; whether a text is a
  URL is a parameter, as is the text zod gives for the settings that fail.
\<close>

section \<open>Configuration\<close>

text \<open>The settings of \<open>config\<close>, which the components use, and those that only start-up reads.\<close>

record relayer_config = config +
  PORT :: int
  HOST :: string
  DATABASE_PATH :: string
  COSTON2_RPC_URL :: string
  RELAYER_PRIVATE_KEY :: string
  POLL_INTERVAL_MS :: int
  RISK_TICK_INTERVAL_MS :: int

type_synonym environment = "string \<Rightarrow> string option"

text \<open>\<open>z.string()\<close> with its refinement and default; a default is not checked again.\<close>

definition text_setting :: "environment \<Rightarrow> string \<Rightarrow> string option \<Rightarrow> (string \<Rightarrow> bool) \<Rightarrow> string option" where
  "text_setting vars name preset ok = (case vars name of
      None \<Rightarrow> preset
    | Some s \<Rightarrow> if ok s then Some s else None)"

text \<open>\<open>z.coerce.number().int()\<close> and \<open>z.coerce.bigint()\<close>.\<close>

definition int_setting :: "environment \<Rightarrow> string \<Rightarrow> int option \<Rightarrow> (int \<Rightarrow> bool) \<Rightarrow> int option" where
  "int_setting vars name preset ok = (case vars name of
      None \<Rightarrow> preset
    | Some s \<Rightarrow> (case number_of_text s of
        Some x \<Rightarrow> if is_integer x \<and> ok \<lfloor>x\<rfloor> then Some \<lfloor>x\<rfloor> else None
      | None \<Rightarrow> None))"

definition bigint_setting :: "environment \<Rightarrow> string \<Rightarrow> int option \<Rightarrow> int option" where
  "bigint_setting vars name preset = (case vars name of None \<Rightarrow> preset | Some s \<Rightarrow> string_to_bigint s)"

definition loadConfig :: "(string \<Rightarrow> bool) \<Rightarrow> (string list \<Rightarrow> string) \<Rightarrow> environment \<Rightarrow> js_error + relayer_config" where
  "loadConfig is_url zod vars =
     (let port = int_setting vars ''PORT'' (Some 8787) (\<lambda>n. 0 < n);
          host = text_setting vars ''HOST'' (Some ''127.0.0.1'') (\<lambda>_. True);
          path = text_setting vars ''DATABASE_PATH'' (Some ''data/relayer.db'') (\<lambda>_. True);
          secret = text_setting vars ''SESSION_SECRET'' None (\<lambda>s. 32 \<le> length s);
          operations = text_setting vars ''OPERATIONS_API_KEY'' None (\<lambda>s. 32 \<le> length s);
          proxy = text_setting vars ''FCC_PROXY_URL'' None is_url;
          direct = text_setting vars ''DIRECT_API_KEY'' None (\<lambda>s. 32 \<le> length s);
          rpc = text_setting vars ''COSTON2_RPC_URL'' (Some ''https://coston2-api.flare.network/ext/C/rpc'') is_url;
          vault = text_setting vars ''QUIET_VAULT'' None (is_hex_of 40);
          manager = text_setting vars ''TEE_MANAGER'' None (is_hex_of 40);
          extension = int_setting vars ''EXTENSION_ID'' None (\<lambda>n. 65536 \<le> n);
          key = text_setting vars ''RELAYER_PRIVATE_KEY'' None (is_hex_of 64);
          start = bigint_setting vars ''START_BLOCK'' None;
          poll = int_setting vars ''POLL_INTERVAL_MS'' (Some 2000) (\<lambda>n. 250 \<le> n);
          risk = int_setting vars ''RISK_TICK_INTERVAL_MS'' (Some 3600000) (\<lambda>n. 30000 \<le> n);
          fee = bigint_setting vars ''FCC_INSTRUCTION_FEE_WEI'' (Some 1000000000000);
          bad = failing [(''PORT'', port \<noteq> None), (''HOST'', host \<noteq> None), (''DATABASE_PATH'', path \<noteq> None),
            (''SESSION_SECRET'', secret \<noteq> None), (''OPERATIONS_API_KEY'', operations \<noteq> None),
            (''FCC_PROXY_URL'', proxy \<noteq> None), (''DIRECT_API_KEY'', direct \<noteq> None),
            (''COSTON2_RPC_URL'', rpc \<noteq> None), (''QUIET_VAULT'', vault \<noteq> None),
            (''TEE_MANAGER'', manager \<noteq> None), (''EXTENSION_ID'', extension \<noteq> None),
            (''RELAYER_PRIVATE_KEY'', key \<noteq> None), (''START_BLOCK'', start \<noteq> None),
            (''POLL_INTERVAL_MS'', poll \<noteq> None), (''RISK_TICK_INTERVAL_MS'', risk \<noteq> None),
            (''FCC_INSTRUCTION_FEE_WEI'', fee \<noteq> None)]
      in if bad \<noteq> [] then Inl (ZodError (zod bad))
         else Inr \<lparr>FCC_PROXY_URL = the proxy, DIRECT_API_KEY = the direct, QUIET_VAULT = the vault,
           TEE_MANAGER = the manager, EXTENSION_ID = the extension, START_BLOCK = the start,
           FCC_INSTRUCTION_FEE_WEI = the fee, OPERATIONS_API_KEY = the operations, SESSION_SECRET = the secret,
           PORT = the port, HOST = the host, DATABASE_PATH = the path, COSTON2_RPC_URL = the rpc,
           RELAYER_PRIVATE_KEY = the key, POLL_INTERVAL_MS = the poll, RISK_TICK_INTERVAL_MS = the risk\<rparr>)"

section \<open>Start and shutdown\<close>

text \<open>
  What the process did, newest first. \<open>opened\<close>, \<open>listened\<close> and \<open>outcome\<close> are the outcomes of
  opening the database, of \<open>app.listen\<close> and of \<open>app.close\<close>; a throw at the top level ends the
  process.
\<close>

datatype lifecycle_event =
    OpenStore string
  | BuildServer
  | Listen string int
  | Wake
  | StartIndexer
  | StartKeeper
  | LogShutdown string
  | StopKeeper
  | StopIndexer
  | CloseServer
  | CloseStore
  | ExitWith js_error

record lifecycle =
  closing :: bool
  indexer_armed :: bool
  keeper_armed :: bool
  happened :: "lifecycle_event list"

definition note_event :: "lifecycle_event \<Rightarrow> lifecycle \<Rightarrow> lifecycle" where
  "note_event e s = s\<lparr>happened := e # happened s\<rparr>"

definition serve :: "relayer_config \<Rightarrow> js_error + unit \<Rightarrow> lifecycle \<Rightarrow> lifecycle" where
  "serve cfg listened built = (case listened of
      Inl e \<Rightarrow> note_event (ExitWith e) built
    | Inr _ \<Rightarrow>
        let woken = note_event Wake (note_event (Listen (HOST cfg) (PORT cfg)) built);
            indexing = note_event StartIndexer (woken\<lparr>indexer_armed := fst (timer_start (indexer_armed woken))\<rparr>)
        in note_event StartKeeper
             (indexing\<lparr>keeper_armed := fst (timer_start (keeper_armed indexing))\<rparr>))"

definition boot :: "js_error + relayer_config \<Rightarrow> js_error + unit \<Rightarrow> js_error + unit \<Rightarrow> lifecycle" where
  "boot loaded opened listened =
     (let fresh = \<lparr>closing = False, indexer_armed = False, keeper_armed = False, happened = []\<rparr> in
      case loaded of
        Inl e \<Rightarrow> note_event (ExitWith e) fresh
      | Inr cfg \<Rightarrow> (case opened of
          Inl e \<Rightarrow> note_event (ExitWith e) fresh
        | Inr _ \<Rightarrow> serve cfg listened (note_event BuildServer (note_event (OpenStore (DATABASE_PATH cfg)) fresh))))"

definition shutdown :: "js_error + unit \<Rightarrow> string \<Rightarrow> lifecycle \<Rightarrow> lifecycle" where
  "shutdown outcome signal s =
     (if closing s then s
      else
        let stopped = note_event StopIndexer (note_event StopKeeper (note_event (LogShutdown signal)
              (s\<lparr>closing := True, keeper_armed := timer_stop (keeper_armed s),
                 indexer_armed := timer_stop (indexer_armed s)\<rparr>)));
            finished = note_event CloseServer stopped
        in case outcome of Inl e \<Rightarrow> note_event (ExitWith e) finished | Inr _ \<Rightarrow> note_event CloseStore finished)"

section \<open>Properties\<close>

lemma failing_none: "failing checks = [] \<longleftrightarrow> list_all snd checks"
  by (auto simp: failing_def filter_empty_conv list_all_iff)

lemma text_setting_ok:
  "text_setting vars name preset ok \<noteq> None \<Longrightarrow> preset = None \<or> ok (the preset) \<Longrightarrow>
     ok (the (text_setting vars name preset ok))"
  by (auto simp: text_setting_def split: option.splits if_splits)

lemma int_setting_ok:
  "int_setting vars name preset ok \<noteq> None \<Longrightarrow> preset = None \<or> ok (the preset) \<Longrightarrow>
     ok (the (int_setting vars name preset ok))"
  by (auto simp: int_setting_def split: option.splits if_splits)

lemma accepted:
  "(if failing checks \<noteq> [] then Inl e else Inr cfg') = Inr cfg \<Longrightarrow> list_all snd checks \<and> cfg = cfg'"
  by (auto simp: failing_none split: if_splits)

text \<open>
  C40. A configuration that loads is one the components can run on: a positive port, keys and secrets
  of at least 32 characters, addresses and the private key of their lengths, an extension outside the
  reserved range, a poll at most every quarter of a second and a risk tick at most every half minute.
\<close>
theorem loadConfig_bounds:
  "case loadConfig is_url zod vars of
     Inl e \<Rightarrow> \<exists>bad. bad \<noteq> [] \<and> e = ZodError (zod bad)
   | Inr cfg \<Rightarrow> 0 < PORT cfg \<and> 32 \<le> length (SESSION_SECRET cfg) \<and> 32 \<le> length (OPERATIONS_API_KEY cfg)
       \<and> 32 \<le> length (DIRECT_API_KEY cfg) \<and> is_url (FCC_PROXY_URL cfg)
       \<and> is_hex_of 40 (QUIET_VAULT cfg) \<and> is_hex_of 40 (TEE_MANAGER cfg) \<and> is_hex_of 64 (RELAYER_PRIVATE_KEY cfg)
       \<and> 65536 \<le> EXTENSION_ID cfg \<and> 250 \<le> POLL_INTERVAL_MS cfg \<and> 30000 \<le> RISK_TICK_INTERVAL_MS cfg"
proof (cases "loadConfig is_url zod vars")
  case (Inl e)
  then show ?thesis unfolding loadConfig_def Let_def by (auto split: if_splits)
next
  case (Inr cfg)
  note load = this [unfolded loadConfig_def Let_def]
  from accepted [OF load] have parsed: "int_setting vars ''PORT'' (Some 8787) (\<lambda>n. 0 < n) \<noteq> None"
    "text_setting vars ''SESSION_SECRET'' None (\<lambda>s. 32 \<le> length s) \<noteq> None"
    "text_setting vars ''OPERATIONS_API_KEY'' None (\<lambda>s. 32 \<le> length s) \<noteq> None"
    "text_setting vars ''DIRECT_API_KEY'' None (\<lambda>s. 32 \<le> length s) \<noteq> None"
    "text_setting vars ''FCC_PROXY_URL'' None is_url \<noteq> None"
    "text_setting vars ''QUIET_VAULT'' None (is_hex_of 40) \<noteq> None"
    "text_setting vars ''TEE_MANAGER'' None (is_hex_of 40) \<noteq> None"
    "text_setting vars ''RELAYER_PRIVATE_KEY'' None (is_hex_of 64) \<noteq> None"
    "int_setting vars ''EXTENSION_ID'' None (\<lambda>n. 65536 \<le> n) \<noteq> None"
    "int_setting vars ''POLL_INTERVAL_MS'' (Some 2000) (\<lambda>n. 250 \<le> n) \<noteq> None"
    "int_setting vars ''RISK_TICK_INTERVAL_MS'' (Some 3600000) (\<lambda>n. 30000 \<le> n) \<noteq> None"
    by simp_all
  show ?thesis
    unfolding Inr sum.case accepted [OF load, THEN conjunct2]
    using parsed(2-8) [THEN text_setting_ok] parsed(1,9-11) [THEN int_setting_ok] by simp
qed

text \<open>Work starts only behind an open port, and the store closes once, after everything that uses it.\<close>

lemma boot_order:
  "boot loaded opened listened = s \<Longrightarrow> indexer_armed s \<or> keeper_armed s \<or> Wake \<in> set (happened s) \<Longrightarrow>
     \<exists>cfg. loaded = Inr cfg \<and> happened s = [StartKeeper, StartIndexer, Wake, Listen (HOST cfg) (PORT cfg),
       BuildServer, OpenStore (DATABASE_PATH cfg)]"
  by (auto simp: boot_def serve_def note_event_def Let_def timer_start_def split: sum.splits)

lemma shutdown_once:
  "shutdown c2 signal2 (shutdown c1 signal1 s) = shutdown c1 signal1 s"
  by (auto simp: shutdown_def note_event_def Let_def split: sum.splits)

end
