(* ===== verification/Private_Types.thy ===== *)
theory Private_Types
  imports Wire Protocol Codec Js_Number "HOL-Library.Word"
begin

text \<open>
  The data the browser works on: the private account as the confidential extension shows it to
  its owner (\<^verbatim>\<open>frontend/src/lib/privateTypes.ts\<close>), and the text \<open>JSON.stringify\<close> gives. Where
  TypeScript casts a decoded value to one of these types, the model reads it as a value of that
  type; a member that may be absent is an option. A text is its UTF-8 bytes, one \<open>char\<close> each.
\<close>

section \<open>The private account\<close>

record private_balance =
  pb_available :: number
  pb_reserved :: number

record private_account =
  pa_owner :: address
  pa_nonce :: number
  pa_balances :: "AssetId \<Rightarrow> private_balance"
  pa_loanId :: "string option"

record private_tranche =
  pt_mandateId :: string
  pt_lender :: address
  pt_principal :: number
  pt_aprBps :: number

record private_mandate =
  pm_id :: string
  pm_lender :: address
  pm_available :: number
  pm_minAprBps :: number
  pm_termMask :: number
  pm_perBorrowerCap :: number
  pm_active :: bool
  pm_createdAt :: number
  pm_allocatedPrincipal :: number
  pm_interestEarned :: number

datatype loan_status =
  LoanHealthy | LoanRestricted | LoanWarning | LoanLiquidatable | LoanClosed | LoanLiquidated

record private_loan =
  pl_id :: string
  pl_borrower :: address
  pl_principal :: number
  pl_interestPaid :: number
  pl_collateralFxrp :: number
  pl_borrowerAprBps :: number
  pl_termDays :: number
  pl_startedAt :: number
  pl_maturesAt :: number
  pl_lastAccruedAt :: number
  pl_accruedInterestRay :: number
  pl_tranches :: "private_tranche list"
  pl_status :: loan_status
  pl_lastHealthFactorBps :: number
  pl_liquidationPriceE6 :: number

record private_activity =
  pv_id :: string
  pv_account :: address
  pv_kind :: string
  pv_amount :: "number option"
  pv_asset :: "AssetId option"
  pv_createdAt :: number

record private_price =
  pp_xrpUsdE6 :: number
  pp_updatedAt :: number

record private_account_view =
  av_account :: private_account
  av_loan :: "private_loan option"
  av_mandates :: "private_mandate list"
  av_activities :: "private_activity list"
  av_price :: private_price

text \<open>\<open>q_object\<close> is the decoded object itself, which accepting a quote sends back.\<close>

record private_quote =
  q_requestId :: string
  q_borrower :: address
  q_amount :: number
  q_requestedAmount :: "number option"
  q_termDays :: number
  q_collateralFxrp :: number
  q_requestedCollateralFxrp :: "number option"
  q_partial :: "bool option"
  q_lenderAprBps :: number
  q_borrowerAprBps :: number
  q_maxAprBps :: number
  q_tranches :: "private_tranche list"
  q_expiresAt :: number
  q_priceE6 :: number
  q_object :: json

datatype stress_status = StressHealthy | StressRestricted | StressWarning | StressLiquidatable

record private_stress_view =
  sv_xrpUsdE6 :: number
  sv_debt :: number
  sv_collateralValue :: number
  sv_ltvBps :: number
  sv_healthFactorBps :: number
  sv_status :: stress_status

type_synonym bytes = "8 word list"

record prepared_private_action =
  pr_ciphertext :: hex
  pr_responsePrivateKey :: bytes

section \<open>Text of a JSON value\<close>

fun separated :: "string list \<Rightarrow> string list" where
  "separated (s # t # ss) = (s @ '','') # separated (t # ss)"
| "separated ss = ss"

fun stringify :: "json \<Rightarrow> string" where
  "stringify JNull = ''null''"
| "stringify (JBool b) = (if b then ''true'' else ''false'')"
| "stringify (JNumber x) = number_text x"
| "stringify (JText s) = json_string s"
| "stringify (JArray vs) = ''['' @ concat (separated (map stringify vs)) @ '']''"
| "stringify (JObject ms) =
     ''{'' @ concat (separated (map (\<lambda>(k, v). json_string k @ '':'' @ stringify v) ms)) @ ''}''"

end
