(* ===== verification/Session_Store.thy ===== *)
theory Session_Store
  imports Private_Types
begin

text \<open>
  The browser's state, \<^verbatim>\<open>frontend/src/store/useQuietline.ts\<close>: one definition per action of the
  store, each from the state to the next; what of it is persisted for the tab; and what happens
  when the persisted part comes back. The clock, the generator of identifiers and the locale's
  formats of dates are arguments.
\<close>

section \<open>State\<close>

text \<open>A job as the relayer shows it to the browser (\<^verbatim>\<open>frontend/src/lib/api.ts\<close>).\<close>

record job_response =
  jr_ciphertext :: "hex option"
  jr_anchor :: "json option"

record relayer_job =
  rj_id :: string
  rj_externalKey :: "string option"
  rj_type :: string
  rj_status :: job_status
  rj_account :: address
  rj_actionId :: "hex option"
  rj_txHash :: "hex option"
  rj_error :: "string option"
  rj_response :: "job_response option"
  rj_attempts :: number
  rj_createdAt :: number
  rj_updatedAt :: number

datatype activity_scope = Public | Private

datatype activity_status = Complete | Pending | Warning

record activity_item =
  ai_id :: string
  ai_scope :: activity_scope
  ai_label :: string
  ai_detail :: string
  ai_status :: activity_status
  ai_timestamp :: string
  ai_txHash :: "hex option"

record position =
  po_id :: string
  po_principal :: number
  po_accruedInterest :: number
  po_collateral :: number
  po_apr :: number
  po_termDays :: number
  po_maturesAt :: number
  po_maturity :: string
  po_ltv :: number
  po_healthFactor :: number
  po_liquidationPrice :: number
  po_warningPrice :: number
  po_tranches :: "private_tranche list"
  po_status :: loan_status

datatype mode = Disconnected | Live

datatype market_status = MarketLoading | MarketReady | MarketUnavailable

datatype service_state = ServiceOk | ServiceUnavailable | ServiceSignerMismatch

record service_health =
  sh_ok :: bool
  sh_api :: service_state
  sh_database :: service_state
  sh_fcc :: service_state
  sh_timestamp :: string

datatype notification = NHealth | NMaturity24h | NMaturity1h | NDeposit | NPayout

text \<open>\<open>vaultUsdt0Balance\<close> is absent, or the outcome of \<open>Number(...)\<close>, which may be \<open>NaN\<close>.\<close>

record quietline =
  hasHydrated :: bool
  mode_of :: mode
  address_of :: "address option"
  sessionToken :: "string option"
  sessionExpiresAt :: "number option"
  accountNonce :: number
  privateUpdatedAt :: "number option"
  privateFxrp :: number
  privateUsdt0 :: number
  lenderAllocated :: number
  lenderEarned :: number
  mandates :: "private_mandate list"
  marketPriceE6 :: "number option"
  marketUpdatedAt :: "number option"
  vaultUsdt0Balance :: "numeric option"
  marketStatus :: market_status
  serviceHealth :: "service_health option"
  position_of :: "position option"
  activities :: "activity_item list"
  pendingSettlementRefresh :: bool
  notifications :: "notification \<Rightarrow> bool"

definition initialPrivateState :: quietline where
  "initialPrivateState = \<lparr>hasHydrated = False, mode_of = Disconnected, address_of = None,
     sessionToken = None, sessionExpiresAt = None, accountNonce = 0, privateUpdatedAt = None,
     privateFxrp = 0, privateUsdt0 = 0, lenderAllocated = 0, lenderEarned = 0, mandates = [],
     marketPriceE6 = None, marketUpdatedAt = None, vaultUsdt0Balance = None,
     marketStatus = MarketLoading, serviceHealth = None, position_of = None, activities = [],
     pendingSettlementRefresh = False, notifications = (\<lambda>_. True)\<rparr>"

section \<open>Labels and the position\<close>

definition spaced :: "string \<Rightarrow> string" where
  "spaced s = lower (map (\<lambda>c. if c = CHR ''_'' then CHR '' '' else c) s)"

definition privateActivityLabel :: "string \<Rightarrow> string" where
  "privateActivityLabel kind =
     (if kind = ''deposit'' then ''Deposit credited privately''
      else if kind = ''withdrawal'' then ''Private withdrawal authorized''
      else spaced kind)"

definition publicJobLabel :: "string \<Rightarrow> string" where
  "publicJobLabel type =
     (if type = ''DEPOSIT'' then ''Vault deposit processed''
      else if type = ''BORROW_ACCEPT'' then ''Borrow request settled''
      else if type = ''WITHDRAW_REQUEST'' then ''Withdrawal settled''
      else if type = ''RISK_TICK'' then ''Public risk tick anchored''
      else spaced type)"

text \<open>The locale's formats of a time in milliseconds: \<open>toLocaleString\<close>, \<open>toLocaleDateString\<close>.\<close>

record formats =
  fmt_time :: "number \<Rightarrow> string"
  fmt_date :: "number \<Rightarrow> string"

definition scale :: number where
  "scale = 1000000"

definition positionFromView :: "formats \<Rightarrow> private_loan \<Rightarrow> number \<Rightarrow> position" where
  "positionFromView fmt loan priceE6 =
     (let principal = js_div (pl_principal loan) scale;
          accruedInterest = js_div (js_div (pl_accruedInterestRay loan) scale) scale;
          collateral = js_div (pl_collateralFxrp loan) scale;
          price = js_div priceE6 scale;
          debt = js_add principal accruedInterest;
          collateralValue = js_mul collateral price;
          ltv = (if collateralValue > 0 then js_mul (js_div debt collateralValue) 100 else 100);
          warningPrice = (if collateral > 0 then js_div debt (js_mul collateral (fl (55 / 100))) else 0)
      in \<lparr>po_id = pl_id loan, po_principal = principal, po_accruedInterest = accruedInterest,
          po_collateral = collateral, po_apr = js_div (pl_borrowerAprBps loan) 100,
          po_termDays = pl_termDays loan, po_maturesAt = pl_maturesAt loan,
          po_maturity = fmt_date fmt (js_mul (pl_maturesAt loan) 1000), po_ltv = ltv,
          po_healthFactor = js_div (pl_lastHealthFactorBps loan) 10000,
          po_liquidationPrice = js_div (pl_liquidationPriceE6 loan) scale,
          po_warningPrice = warningPrice, po_tranches = pl_tranches loan, po_status = pl_status loan\<rparr>)"

section \<open>Actions of the store\<close>

definition connectLive :: "address \<Rightarrow> string \<Rightarrow> number \<Rightarrow> quietline \<Rightarrow> quietline" where
  "connectLive address token expires st = st\<lparr>mode_of := Live, address_of := Some address,
     sessionToken := Some token, sessionExpiresAt := Some expires, accountNonce := 0,
     privateUpdatedAt := None, privateFxrp := 0, privateUsdt0 := 0, lenderAllocated := 0,
     lenderEarned := 0, mandates := [], position_of := None, activities := []\<rparr>"

definition private_item :: "formats \<Rightarrow> private_activity \<Rightarrow> activity_item" where
  "private_item fmt item = \<lparr>ai_id = pv_id item, ai_scope = Private,
     ai_label = privateActivityLabel (pv_kind item),
     ai_detail = (case (pv_asset item, pv_amount item) of
         (Some asset, Some amount) \<Rightarrow> to_fixed 4 (js_div amount scale) @ '' '' @ assetSymbol asset
       | _ \<Rightarrow> ''Confidential ledger state updated''),
     ai_status = Complete, ai_timestamp = fmt_time fmt (js_mul (pv_createdAt item) 1000),
     ai_txHash = None\<rparr>"

definition is_public :: "activity_item \<Rightarrow> bool" where
  "is_public item = (ai_scope item = Public)"

definition earned :: "private_mandate list \<Rightarrow> number" where
  "earned ms = foldl (\<lambda>sum m. js_add sum (js_div (pm_interestEarned m) scale)) 0 ms"

definition hydratePrivateAccount ::
    "formats \<Rightarrow> number \<Rightarrow> private_account_view \<Rightarrow> quietline \<Rightarrow> quietline" where
  "hydratePrivateAccount fmt now view st =
     (let account = av_account view in
      st\<lparr>accountNonce := pa_nonce account, privateUpdatedAt := Some now,
        privateFxrp := js_div (pb_available (pa_balances account FXRP)) scale,
        privateUsdt0 := js_div (pb_available (pa_balances account USDT0)) scale,
        lenderAllocated := js_div (pb_reserved (pa_balances account USDT0)) scale,
        lenderEarned := earned (av_mandates view), mandates := av_mandates view,
        position_of := map_option (\<lambda>loan. positionFromView fmt loan (pp_xrpUsdE6 (av_price view))) (av_loan view),
        activities := map (private_item fmt) (rev (av_activities view)) @ filter is_public (activities st),
        pendingSettlementRefresh := False\<rparr>)"

definition incrementAccountNonce :: "quietline \<Rightarrow> quietline" where
  "incrementAccountNonce st = st\<lparr>accountNonce := js_add (accountNonce st) 1\<rparr>"

definition addPublicActivity ::
    "string \<Rightarrow> string \<Rightarrow> string \<Rightarrow> activity_status \<Rightarrow> hex option \<Rightarrow> quietline \<Rightarrow> quietline" where
  "addPublicActivity uuid label detail status tx st =
     st\<lparr>activities := \<lparr>ai_id = uuid, ai_scope = Public, ai_label = label, ai_detail = detail,
        ai_status = status, ai_timestamp = ''Just now'', ai_txHash = tx\<rparr> # activities st\<rparr>"

text \<open>The text of a status as the relayer writes it.\<close>

primrec status_text :: "job_status \<Rightarrow> string" where
  "status_text Queued = ''queued''"
| "status_text Submitted = ''submitted''"
| "status_text Processing = ''processing''"
| "status_text Settling = ''settling''"
| "status_text Confirming = ''confirming''"
| "status_text Confirmed = ''confirmed''"
| "status_text Failed = ''failed''"

definition relayer_row :: "formats \<Rightarrow> relayer_job \<Rightarrow> activity_item" where
  "relayer_row fmt job = \<lparr>ai_id = ''relayer:'' @ rj_id job, ai_scope = Public,
     ai_label = publicJobLabel (rj_type job),
     ai_detail = (if rj_status job = Failed
       then (case rj_error job of Some e \<Rightarrow> e | None \<Rightarrow> ''The relayer could not complete this instruction'')
       else ''FCC instruction '' @ status_text (rj_status job)),
     ai_status = (if rj_status job = Confirmed then Complete
       else if rj_status job = Failed then Warning else Pending),
     ai_timestamp = fmt_time fmt (rj_updatedAt job), ai_txHash = present (rj_txHash job)\<rparr>"

definition is_chain_job :: "relayer_job \<Rightarrow> bool" where
  "is_chain_job job = (case rj_externalKey job of Some k \<Rightarrow> prefix ''chain:'' k | None \<Rightarrow> False)"

definition hydrateRelayerJobs :: "formats \<Rightarrow> relayer_job list \<Rightarrow> quietline \<Rightarrow> quietline" where
  "hydrateRelayerJobs fmt jobs st =
     (let relayerRows = map (relayer_row fmt) (filter is_chain_job jobs);
          relayerIds = set (map ai_id relayerRows);
          existing = filter (\<lambda>item. ai_id item \<notin> relayerIds) (activities st)
      in st\<lparr>activities := relayerRows @ existing\<rparr>)"

definition markSettlementRefreshPending :: "quietline \<Rightarrow> quietline" where
  "markSettlementRefreshPending st = st\<lparr>pendingSettlementRefresh := True\<rparr>"

record market_view =
  mv_xrpUsdE6 :: number
  mv_updatedAt :: number
  mv_vaultUsdt0Balance :: string

definition hydrateMarket :: "market_view \<Rightarrow> quietline \<Rightarrow> quietline" where
  "hydrateMarket market st = st\<lparr>marketPriceE6 := Some (mv_xrpUsdE6 market),
     marketUpdatedAt := Some (mv_updatedAt market),
     vaultUsdt0Balance := Some (map_option (\<lambda>x. js_div x 1000000) (number_of_text (mv_vaultUsdt0Balance market))),
     marketStatus := MarketReady\<rparr>"

definition markMarketUnavailable :: "quietline \<Rightarrow> quietline" where
  "markMarketUnavailable st = st\<lparr>marketPriceE6 := None, marketUpdatedAt := None,
     vaultUsdt0Balance := None, marketStatus := MarketUnavailable\<rparr>"

definition hydrateHealth :: "service_health \<Rightarrow> quietline \<Rightarrow> quietline" where
  "hydrateHealth health st = st\<lparr>serviceHealth := Some health\<rparr>"

definition lock :: "quietline \<Rightarrow> quietline" where
  "lock st = st\<lparr>mode_of := Disconnected, sessionToken := None, sessionExpiresAt := None,
     accountNonce := 0, privateUpdatedAt := None, privateFxrp := 0, privateUsdt0 := 0,
     lenderAllocated := 0, lenderEarned := 0, mandates := [], position_of := None,
     activities := filter is_public (activities st)\<rparr>"

definition disconnect :: "quietline \<Rightarrow> quietline" where
  "disconnect st = st\<lparr>mode_of := Disconnected, address_of := None, sessionToken := None,
     sessionExpiresAt := None, privateUpdatedAt := None, privateFxrp := 0, privateUsdt0 := 0,
     lenderAllocated := 0, lenderEarned := 0, mandates := [], position_of := None,
     activities := [], pendingSettlementRefresh := False\<rparr>"

definition toggleNotification :: "notification \<Rightarrow> quietline \<Rightarrow> quietline" where
  "toggleNotification key st =
     st\<lparr>notifications := (notifications st)(key := \<not> notifications st key)\<rparr>"

definition setHasHydrated :: "bool \<Rightarrow> quietline \<Rightarrow> quietline" where
  "setHasHydrated value st = st\<lparr>hasHydrated := value\<rparr>"

section \<open>What the tab keeps\<close>

record persisted =
  ps_mode :: mode
  ps_address :: "address option"
  ps_sessionToken :: "string option"
  ps_sessionExpiresAt :: "number option"
  ps_accountNonce :: number
  ps_privateUpdatedAt :: "number option"
  ps_privateFxrp :: number
  ps_privateUsdt0 :: number
  ps_lenderAllocated :: number
  ps_lenderEarned :: number
  ps_mandates :: "private_mandate list"
  ps_position :: "position option"
  ps_activities :: "activity_item list"
  ps_pendingSettlementRefresh :: bool
  ps_notifications :: "notification \<Rightarrow> bool"

definition partialize :: "quietline \<Rightarrow> persisted" where
  "partialize st = \<lparr>ps_mode = mode_of st, ps_address = address_of st,
     ps_sessionToken = sessionToken st, ps_sessionExpiresAt = sessionExpiresAt st,
     ps_accountNonce = accountNonce st, ps_privateUpdatedAt = privateUpdatedAt st,
     ps_privateFxrp = privateFxrp st, ps_privateUsdt0 = privateUsdt0 st,
     ps_lenderAllocated = lenderAllocated st, ps_lenderEarned = lenderEarned st,
     ps_mandates = mandates st, ps_position = position_of st, ps_activities = activities st,
     ps_pendingSettlementRefresh = pendingSettlementRefresh st, ps_notifications = notifications st\<rparr>"

text \<open>\<open>state\<close> is what the storage middleware restored, absent when it restored nothing.\<close>

definition onRehydrateStorage :: "number \<Rightarrow> quietline option \<Rightarrow> quietline option" where
  "onRehydrateStorage now state = map_option (\<lambda>st.
     let hydrated = setHasHydrated True st in
     (case sessionExpiresAt hydrated of
        Some expires \<Rightarrow> if expires \<le> now then lock hydrated else hydrated
      | None \<Rightarrow> hydrated)) state"

end
