(* ===== verification/Session_Spec.thy ===== *)
theory Session_Spec
  imports Session_Store
begin

text \<open>
  What the browser's state promises: an abstract session that is closed, or open for a wallet with
  a token, an expiry and the holdings last shown; the store refines it. And the feed of activities,
  into which the relayer's jobs are merged.
\<close>

section \<open>The abstract session\<close>

record holdings =
  ho_fxrp :: number
  ho_usdt0 :: number
  ho_allocated :: number
  ho_earned :: number
  ho_mandates :: "private_mandate list"
  ho_position :: "position option"
  ho_updated :: "number option"

definition no_holdings :: holdings where
  "no_holdings = \<lparr>ho_fxrp = 0, ho_usdt0 = 0, ho_allocated = 0, ho_earned = 0, ho_mandates = [],
     ho_position = None, ho_updated = None\<rparr>"

definition holdings_shown :: "formats \<Rightarrow> number \<Rightarrow> private_account_view \<Rightarrow> holdings" where
  "holdings_shown fmt now view = \<lparr>
     ho_fxrp = js_div (pb_available (pa_balances (av_account view) FXRP)) scale,
     ho_usdt0 = js_div (pb_available (pa_balances (av_account view) USDT0)) scale,
     ho_allocated = js_div (pb_reserved (pa_balances (av_account view) USDT0)) scale,
     ho_earned = earned (av_mandates view), ho_mandates = av_mandates view,
     ho_position = map_option (\<lambda>loan. positionFromView fmt loan (pp_xrpUsdE6 (av_price view))) (av_loan view),
     ho_updated = Some now\<rparr>"

datatype session_state = Closed | Open address string number holdings

datatype store_action =
    ConnectLive address string number
  | HydratePrivateAccount number private_account_view
  | IncrementAccountNonce
  | AddPublicActivity string string string activity_status "hex option"
  | HydrateRelayerJobs "relayer_job list"
  | MarkSettlementRefreshPending
  | HydrateMarket market_view
  | MarkMarketUnavailable
  | HydrateHealth service_health
  | Lock
  | Disconnect
  | ToggleNotification notification
  | Rehydrate number

definition perform :: "formats \<Rightarrow> store_action \<Rightarrow> quietline \<Rightarrow> quietline" where
  "perform fmt a st = (case a of
      ConnectLive address token expires \<Rightarrow> connectLive address token expires st
    | HydratePrivateAccount now view \<Rightarrow> hydratePrivateAccount fmt now view st
    | IncrementAccountNonce \<Rightarrow> incrementAccountNonce st
    | AddPublicActivity uuid label detail status tx \<Rightarrow> addPublicActivity uuid label detail status tx st
    | HydrateRelayerJobs jobs \<Rightarrow> hydrateRelayerJobs fmt jobs st
    | MarkSettlementRefreshPending \<Rightarrow> markSettlementRefreshPending st
    | HydrateMarket market \<Rightarrow> hydrateMarket market st
    | MarkMarketUnavailable \<Rightarrow> markMarketUnavailable st
    | HydrateHealth health \<Rightarrow> hydrateHealth health st
    | Lock \<Rightarrow> lock st
    | Disconnect \<Rightarrow> disconnect st
    | ToggleNotification key \<Rightarrow> toggleNotification key st
    | Rehydrate now \<Rightarrow> (case onRehydrateStorage now (Some st) of Some st' \<Rightarrow> st' | None \<Rightarrow> st))"

definition session_step :: "formats \<Rightarrow> store_action \<Rightarrow> session_state \<Rightarrow> session_state" where
  "session_step fmt a s = (case a of
      ConnectLive address token expires \<Rightarrow> Open address token expires no_holdings
    | HydratePrivateAccount now view \<Rightarrow> (case s of
        Closed \<Rightarrow> Closed
      | Open address token expires _ \<Rightarrow> Open address token expires (holdings_shown fmt now view))
    | Lock \<Rightarrow> Closed
    | Disconnect \<Rightarrow> Closed
    | Rehydrate now \<Rightarrow> (case s of
        Closed \<Rightarrow> Closed
      | Open _ _ expires _ \<Rightarrow> if expires \<le> now then Closed else s)
    | _ \<Rightarrow> s)"

text \<open>The session a state stands for.\<close>

definition holdings_in :: "quietline \<Rightarrow> holdings" where
  "holdings_in st = \<lparr>ho_fxrp = privateFxrp st, ho_usdt0 = privateUsdt0 st,
     ho_allocated = lenderAllocated st, ho_earned = lenderEarned st, ho_mandates = mandates st,
     ho_position = position_of st, ho_updated = privateUpdatedAt st\<rparr>"

definition session_in :: "quietline \<Rightarrow> session_state" where
  "session_in st = (case (mode_of st, address_of st, sessionToken st, sessionExpiresAt st) of
      (Live, Some address, Some token, Some expires) \<Rightarrow> Open address token expires (holdings_in st)
    | _ \<Rightarrow> Closed)"

text \<open>Nothing confidential is left where no session is open.\<close>

definition sealed :: "quietline \<Rightarrow> bool" where
  "sealed st = (case mode_of st of
      Live \<Rightarrow> address_of st \<noteq> None \<and> sessionToken st \<noteq> None \<and> sessionExpiresAt st \<noteq> None
    | Disconnected \<Rightarrow> sessionToken st = None \<and> sessionExpiresAt st = None
        \<and> holdings_in st = no_holdings \<and> list_all is_public (activities st))"

text \<open>
  The runs of the store beside the abstract session. A view of the account arrives only while a
  session is open; \<open>late_view_unseals\<close> shows what happens otherwise.
\<close>

inductive runs :: "formats \<Rightarrow> quietline \<Rightarrow> session_state \<Rightarrow> bool" for fmt where
  start: "runs fmt initialPrivateState Closed"
| step: "runs fmt st s \<Longrightarrow> (\<And>now view. a = HydratePrivateAccount now view \<Longrightarrow> mode_of st = Live) \<Longrightarrow>
    runs fmt (perform fmt a st) (session_step fmt a s)"

lemmas store_defs = connectLive_def hydratePrivateAccount_def incrementAccountNonce_def
  addPublicActivity_def hydrateRelayerJobs_def markSettlementRefreshPending_def hydrateMarket_def
  markMarketUnavailable_def hydrateHealth_def lock_def disconnect_def toggleNotification_def
  setHasHydrated_def onRehydrateStorage_def

lemma all_public_filter: "list_all is_public (filter is_public xs)"
  by (simp add: list_all_iff)

lemma all_public_rows: "list_all is_public (map (relayer_row fmt) jobs)"
  by (simp add: list_all_iff is_public_def relayer_row_def)

lemma perform_refines:
  assumes "sealed st" and "\<And>now view. a = HydratePrivateAccount now view \<Longrightarrow> mode_of st = Live"
  shows "session_in (perform fmt a st) = session_step fmt a (session_in st) \<and> sealed (perform fmt a st)"
proof -
  have closed: "session_in st = Closed" if "mode_of st = Disconnected"
    using that by (simp add: session_in_def)
  have opened: "\<exists>address token expires. address_of st = Some address \<and> sessionToken st = Some token
      \<and> sessionExpiresAt st = Some expires" if "mode_of st = Live"
    using that assms(1) by (auto simp: sealed_def)
  show ?thesis
  proof (cases "mode_of st")
    case Live
    then obtain address token expires where o: "address_of st = Some address"
      "sessionToken st = Some token" "sessionExpiresAt st = Some expires"
      using opened by blast
    then show ?thesis using Live
      by (cases a) (auto simp: perform_def session_step_def session_in_def sealed_def holdings_in_def
          holdings_shown_def no_holdings_def store_defs all_public_filter Let_def)
  next
    case Disconnected
    then have "sessionToken st = None" "sessionExpiresAt st = None" "holdings_in st = no_holdings"
      "list_all is_public (activities st)"
      using assms(1) by (simp_all add: sealed_def)
    then show ?thesis using Disconnected assms(2)
      by (cases a) (auto simp: perform_def session_step_def session_in_def sealed_def holdings_in_def
          no_holdings_def store_defs all_public_rows Let_def is_public_def list_all_iff relayer_row_def)
  qed
qed

section \<open>Properties\<close>


text \<open>
  Merging the relayer's jobs into the feed is idempotent, leaves every other entry in place and
  in order, and shows a row for each job that came from the chain, marked as done, in progress or
  failed as the job is.
\<close>
lemma hydrateRelayerJobs_merges:
  "hydrateRelayerJobs fmt jobs (hydrateRelayerJobs fmt jobs st) = hydrateRelayerJobs fmt jobs st
   \<and> filter (\<lambda>i. ai_id i \<notin> (\<lambda>j. ''relayer:'' @ rj_id j) ` set (filter is_chain_job jobs))
       (activities (hydrateRelayerJobs fmt jobs st))
     = filter (\<lambda>i. ai_id i \<notin> (\<lambda>j. ''relayer:'' @ rj_id j) ` set (filter is_chain_job jobs)) (activities st)
   \<and> relayer_row fmt ` set (filter is_chain_job jobs) \<subseteq> set (activities (hydrateRelayerJobs fmt jobs st))"
  (is "?idem \<and> ?others \<and> ?rows")
proof (intro conjI)
  define rows where "rows = map (relayer_row fmt) (filter is_chain_job jobs)"
  have ids: "ai_id ` set rows = (\<lambda>j. ''relayer:'' @ rj_id j) ` set (filter is_chain_job jobs)"
    by (auto simp: rows_def relayer_row_def image_iff)
  have run: "activities (hydrateRelayerJobs fmt jobs st)
      = rows @ filter (\<lambda>i. ai_id i \<notin> ai_id ` set rows) (activities st)" for st
    by (simp add: hydrateRelayerJobs_def Let_def rows_def)
  have none: "filter (\<lambda>i. ai_id i \<notin> ai_id ` set rows) rows = []"
    by (auto simp: filter_empty_conv)
  have "activities (hydrateRelayerJobs fmt jobs (hydrateRelayerJobs fmt jobs st))
      = activities (hydrateRelayerJobs fmt jobs st)"
    using none by (simp add: run)
  then show ?idem by (simp add: hydrateRelayerJobs_def Let_def)
  show ?others unfolding ids [symmetric] run using none by simp
  show ?rows unfolding run by (auto simp: rows_def)
qed

section \<open>A view that arrives late\<close>

definition sample_formats :: formats where
  "sample_formats = \<lparr>fmt_time = (\<lambda>_. ''now''), fmt_date = (\<lambda>_. ''today'')\<rparr>"

definition sample_view :: private_account_view where
  "sample_view = \<lparr>av_account = \<lparr>pa_owner = ''0xa'', pa_nonce = 1,
       pa_balances = (\<lambda>_. \<lparr>pb_available = 2000000, pb_reserved = 0\<rparr>), pa_loanId = None\<rparr>,
     av_loan = None, av_mandates = [], av_activities = [],
     av_price = \<lparr>pp_xrpUsdE6 = 600000, pp_updatedAt = 0\<rparr>\<rparr>"


text \<open>
  Nothing in the store ties a view to the session it was asked for: one that arrives after the
  session was locked puts the balances back into the state, and so into the tab's storage.
\<close>

lemma late_view_unseals:
  "\<not> sealed (hydratePrivateAccount sample_formats 5 sample_view
       (lock (connectLive ''0xa'' ''t'' 9 initialPrivateState)))"
  by (simp add: sealed_def hydratePrivateAccount_def lock_def connectLive_def Let_def
      holdings_in_def no_holdings_def)

end
