(* ===== verification/Browser.thy ===== *)
theory Browser
  imports Session_Store
begin

text \<open>
  The browser's surroundings: the relayer it reaches over HTTP, the wallet and the chain it
  reaches through wagmi and viem, the clock, the random generators, and the libraries of
  cryptography. As for the relayer, \<open>browser\<close> holds one function per kind of call, which answers
  from the whole history of calls, the current one at its head; library functions without state
  are plain functions, and what is used of them is a named law.
\<close>

section \<open>Calls and answers\<close>

record fetch_request =
  fq_url :: string
  fq_method :: "string option"
  fq_headers :: "(string \<times> string) list"
  fq_body :: "string option"

text \<open>
  A response: its status, its content type, its JSON body or what reading it throws, and the
  \<open>message\<close> member of that body, absent when the body has none or is not JSON.
\<close>

record 'b fetched =
  ft_status :: int
  ft_contentType :: "string option"
  ft_json :: "js_error + 'b"
  ft_message :: "string option"

text \<open>The typed data of an action (\<^verbatim>\<open>frontend/src/lib/crypto.ts\<close>).\<close>

record typed_domain =
  td_name :: string
  td_version :: string
  td_chainId :: number
  td_verifyingContract :: address

record action_message =
  tm_sender :: address
  tm_nonce :: int
  tm_deadline :: int
  tm_actionHash :: hex
  tm_payloadHash :: hex
  tm_responseKeyHash :: hex

record typed_action =
  ta_domain :: typed_domain
  ta_types :: "(string \<times> string) list"
  ta_primaryType :: string
  ta_message :: action_message

text \<open>The contract functions the browser calls (\<^verbatim>\<open>frontend/src/web3/abis.ts\<close>).\<close>

datatype contract_call =
    Approve address int
  | DepositCall address int
  | RequestBorrow hex
  | RequestWithdrawal address int address

record contract_write =
  cw_account :: address
  cw_address :: address
  cw_call :: contract_call
  cw_value :: "int option"

record event_log =
  el_address :: address
  el_data :: hex
  el_topics :: "hex list"

text \<open>\<open>de_requestId\<close> is absent when the arguments are an array or have no such member.\<close>

record decoded_event =
  de_name :: string
  de_requestId :: "hex option"

record receipt =
  rc_status :: string
  rc_transactionHash :: hex
  rc_logs :: "event_log list"

record live_config =
  lc_vault :: address
  lc_network :: network
  lc_assets :: "AssetId \<Rightarrow> asset"
  lc_termsDays :: "number list"
  lc_quoteValiditySeconds :: number

record health_view =
  hv_ok :: bool
  hv_api :: service_state
  hv_database :: service_state
  hv_fcc :: service_state
  hv_detail :: "string option"
  hv_activeCount :: number
  hv_activeSigners :: "address list"
  hv_network :: string
  hv_timestamp :: string

record challenge_view =
  cv_nonce :: string
  cv_issuedAt :: number
  cv_expiresAt :: number
  cv_typedData :: json

record token_view =
  tv_token :: string
  tv_expiresIn :: number

text \<open>What wagmi's \<open>connectAsync\<close> returns: the first of its accounts, of which there is at least one.\<close>

record connection =
  cn_account :: address
  cn_chainId :: "int option"

datatype page_call =
    PNow
  | PUuid
  | PPrivateKey
  | PRandomBytes nat
  | PWait nat
  | PFetch fetch_request
  | PSign typed_action
  | PSignChallenge json
  | PWrite contract_write
  | PReceipt hex
  | PBalance address address
  | PInvalidate
  | PProvider
  | PConnect
  | PSwitchChain int
  | PDisconnect

section \<open>The surroundings\<close>

text \<open>
  The pure functions: secp256k1's \<open>getPublicKey(k, false)\<close> and \<open>getSharedSecret(k, P, false)\<close>,
  the SHA-256 digest, HMAC-SHA-256 and AES-CTR of Web Crypto, and viem's \<open>keccak256\<close>,
  \<open>bytesToHex\<close>, \<open>hexToBytes\<close>, \<open>concat\<close>, \<open>parseUnits\<close>, \<open>isAddressEqual\<close>, \<open>decodeEventLog\<close> with
  the vault's ABI, and the address of \<open>privateKeyToAccount\<close>. The last four are \<open>JSON.parse\<close> with the cast to the type a caller expects.
\<close>

record libraries =
  l_publicKey :: "bytes \<Rightarrow> bytes"
  l_sharedSecret :: "bytes \<Rightarrow> bytes \<Rightarrow> js_error + bytes"
  l_sha256 :: "bytes \<Rightarrow> bytes"
  l_hmac :: "bytes \<Rightarrow> bytes \<Rightarrow> bytes"
  l_encrypt :: "bytes \<Rightarrow> bytes \<Rightarrow> bytes \<Rightarrow> bytes"
  l_decrypt :: "bytes \<Rightarrow> bytes \<Rightarrow> bytes \<Rightarrow> bytes"
  l_keccak :: "bytes \<Rightarrow> hex"
  l_toHex :: "bytes \<Rightarrow> hex"
  l_ofHex :: "hex \<Rightarrow> js_error + bytes"
  l_concat :: "hex list \<Rightarrow> hex"
  l_parseUnits :: "string \<Rightarrow> nat \<Rightarrow> js_error + int"
  l_addressEqual :: "address \<Rightarrow> address \<Rightarrow> js_error + bool"
  l_decodeLog :: "event_log \<Rightarrow> js_error + decoded_event"
  l_keyAddress :: "string \<Rightarrow> js_error + address"
  l_parseView :: "string \<Rightarrow> js_error + private_account_view"
  l_parseQuote :: "string \<Rightarrow> js_error + private_quote"
  l_parseStress :: "string \<Rightarrow> js_error + private_stress_view"
  l_parseVoid :: "string \<Rightarrow> js_error + unit"

text \<open>The settings a build is made with: \<open>import.meta.env\<close>.\<close>

record settings =
  VITE_RELAYER_URL :: "string option"
  DEV :: bool
  VITE_FCC_INSTRUCTION_FEE_WEI :: "string option"

record browser =
  b_settings :: settings
  b_formats :: formats
  b_lib :: libraries
  b_now :: "page_call list \<Rightarrow> int"
  b_uuid :: "page_call list \<Rightarrow> string"
  b_privateKey :: "page_call list \<Rightarrow> bytes"
  b_random :: "page_call list \<Rightarrow> bytes"
  b_config :: "page_call list \<Rightarrow> js_error + live_config fetched"
  b_attestation :: "page_call list \<Rightarrow> js_error + fcc_info fetched"
  b_market :: "page_call list \<Rightarrow> js_error + market_view fetched"
  b_health :: "page_call list \<Rightarrow> js_error + health_view fetched"
  b_challenge :: "page_call list \<Rightarrow> js_error + challenge_view fetched"
  b_token :: "page_call list \<Rightarrow> js_error + token_view fetched"
  b_job :: "page_call list \<Rightarrow> js_error + relayer_job fetched"
  b_jobs :: "page_call list \<Rightarrow> js_error + relayer_job list fetched"
  b_sign :: "page_call list \<Rightarrow> js_error + hex"
  b_write :: "page_call list \<Rightarrow> js_error + hex"
  b_receipt :: "page_call list \<Rightarrow> js_error + receipt"
  b_balance :: "page_call list \<Rightarrow> js_error + int"
  b_invalidate :: "page_call list \<Rightarrow> js_error + unit"
  b_provider :: "page_call list \<Rightarrow> js_error + bool"
  b_connect :: "page_call list \<Rightarrow> js_error + connection"
  b_switch :: "page_call list \<Rightarrow> js_error + unit"
  b_disconnect :: "page_call list \<Rightarrow> js_error + unit"

section \<open>The state of the page\<close>

text \<open>
  The store, the two values the hook keeps between calls, the stages it announced (newest first)
  and the history of calls (newest first).
\<close>

record page =
  app :: quietline
  configRef :: "live_config option"
  teeKeyRef :: "hex option"
  stages :: "string list"
  asked :: "page_call list"

definition askP :: "(page_call list \<Rightarrow> 'a) \<Rightarrow> page_call \<Rightarrow> (page, 'a) act" where
  "askP f c = (\<lambda>p. let h = c # asked p in Some (Inr (f h), p\<lparr>asked := h\<rparr>))"

definition askPE :: "(page_call list \<Rightarrow> js_error + 'a) \<Rightarrow> page_call \<Rightarrow> (page, 'a) act" where
  "askPE f c = bindA (askP f c) liftA"

definition setApp :: "(quietline \<Rightarrow> quietline) \<Rightarrow> (page, unit) act" where
  "setApp f = modifyA (\<lambda>p. p\<lparr>app := f (app p)\<rparr>)"

definition getApp :: "(page, quietline) act" where
  "getApp = bindA getA (\<lambda>p. ret (app p))"

definition announce :: "string \<Rightarrow> (page, unit) act" where
  "announce stage = modifyA (\<lambda>p. p\<lparr>stages := stage # stages p\<rparr>)"

section \<open>Laws of the clock\<close>

definition page_clock_ok :: "browser \<Rightarrow> bool" where
  "page_clock_ok b = (\<forall>h c. b_now b h \<le> b_now b (c # h)
     \<and> (\<forall>d. 1 \<le> d \<longrightarrow> b_now b h + 1 \<le> b_now b (PWait d # h)))"

lemma page_clock_mono: "page_clock_ok b \<Longrightarrow> b_now b h \<le> b_now b (c # h)"
  by (simp add: page_clock_ok_def)

lemma page_clock_wait: "page_clock_ok b \<Longrightarrow> 1 \<le> d \<Longrightarrow> b_now b h + 1 \<le> b_now b (PWait d # h)"
  by (simp add: page_clock_ok_def)

section \<open>Frames\<close>

definition is_tx :: "page_call \<Rightarrow> bool" where
  "is_tx c = (case c of PWrite _ \<Rightarrow> True | _ \<Rightarrow> False)"

text \<open>The transactions the page sent, newest first.\<close>

definition sent :: "page \<Rightarrow> page_call list" where
  "sent p = filter is_tx (asked p)"

definition same_app :: "page \<Rightarrow> page \<Rightarrow> bool" where
  "same_app p q = (app q = app p)"

definition asks_more :: "page \<Rightarrow> page \<Rightarrow> bool" where
  "asks_more p q = suffix (asked p) (asked q)"

definition nothing_sent :: "page \<Rightarrow> page \<Rightarrow> bool" where
  "nothing_sent p q = (sent q = sent p)"

interpretation same_app_frame: frame same_app
  by unfold_locales (auto simp: same_app_def)

interpretation asks_more_frame: frame asks_more
  by unfold_locales (auto simp: asks_more_def intro: suffix_order.trans)

interpretation nothing_sent_frame: frame nothing_sent
  by unfold_locales (auto simp: nothing_sent_def)

lemma wp_askP [wp_simps]:
  "wp (askP f c) Q E p = Q (f (c # asked p)) (p\<lparr>asked := c # asked p\<rparr>)"
  by (simp add: wp_def askP_def Let_def)

lemma wp_askPE [wp_simps]:
  "wp (askPE f c) Q E p =
     (case f (c # asked p) of
        Inl e \<Rightarrow> E e (p\<lparr>asked := c # asked p\<rparr>)
      | Inr x \<Rightarrow> Q x (p\<lparr>asked := c # asked p\<rparr>))"
  by (simp add: askPE_def wp_simps)

lemma wp_setApp [wp_simps]: "wp (setApp f) Q E p = Q () (p\<lparr>app := f (app p)\<rparr>)"
  by (simp add: setApp_def wp_simps)

lemma wp_getApp [wp_simps]: "wp getApp Q E p = Q (app p) p"
  by (simp add: getApp_def wp_simps)

lemma wp_announce [wp_simps]: "wp (announce s) Q E p = Q () (p\<lparr>stages := s # stages p\<rparr>)"
  by (simp add: announce_def wp_simps)

lemma total_page [intro!, simp]:
  "total (askP f c)" "total (askPE g c)" "total (setApp k)" "total getApp" "total (announce s)"
  by (simp_all add: total_def ends_def askP_def askPE_def setApp_def getApp_def announce_def act_defs
      Let_def split: sum.splits)

lemma page_keeps [intro!, simp]:
  "keeps same_app (askP f c)" "keeps asks_more (askP f c)" "\<not> is_tx c \<Longrightarrow> keeps nothing_sent (askP f c)"
  "keeps same_app (askPE g c)" "keeps asks_more (askPE g c)" "\<not> is_tx c \<Longrightarrow> keeps nothing_sent (askPE g c)"
  "keeps asks_more (setApp k)" "keeps nothing_sent (setApp k)"
  "keeps same_app getApp" "keeps asks_more getApp" "keeps nothing_sent getApp"
  "keeps same_app (announce s)" "keeps asks_more (announce s)" "keeps nothing_sent (announce s)"
  by (auto simp: keeps_def askP_def askPE_def setApp_def getApp_def announce_def act_defs Let_def
      same_app_def asks_more_def nothing_sent_def sent_def intro: suffix_ConsI split: sum.splits)

text \<open>
  A frame that also survives every call that is not a transaction. What only talks to the relayer
  keeps it; the lemmas of the client are proved once here.
\<close>

locale quiet = frame R for R :: "page \<Rightarrow> page \<Rightarrow> bool" +
  assumes asking: "\<not> is_tx c \<Longrightarrow> R p (p\<lparr>asked := c # asked p\<rparr>)"
begin

lemma keeps_askP: "\<not> is_tx c \<Longrightarrow> keeps R (askP f c)"
  by (auto simp: keeps_def askP_def Let_def asking)

lemma keeps_askPE: "\<not> is_tx c \<Longrightarrow> keeps R (askPE g c)"
  unfolding askPE_def by (intro keeps_bindA keeps_askP keeps_liftA)

lemma keeps_getApp: "keeps R getApp"
  unfolding getApp_def by (intro keeps_bindA keeps_getA keeps_ret)

lemmas quiet_intros = keeps_intros keeps_askP keeps_askPE keeps_getApp

end

interpretation quiet_app: quiet same_app
  by unfold_locales (simp add: same_app_def)

interpretation quiet_asks: quiet asks_more
  by unfold_locales (auto simp: asks_more_def intro: suffix_ConsI)

interpretation quiet_sent: quiet nothing_sent
  by unfold_locales (simp add: nothing_sent_def sent_def)

end
