(* ===== verification/Client_Api.thy ===== *)
theory Client_Api
  imports Browser
begin

text \<open>
  The browser's client of the relayer, \<^verbatim>\<open>frontend/src/lib/api.ts\<close>: the request and its three
  ways to fail, one definition per route, and the two loops that wait for a job. Times are whole
  milliseconds.
\<close>

section \<open>Requests\<close>

definition configuredBaseUrl :: "browser \<Rightarrow> string option" where
  "configuredBaseUrl b =
     map_option (\<lambda>u. trim_end (trim_start u)) (VITE_RELAYER_URL (b_settings b))"

definition strip_slashes :: "string \<Rightarrow> string" where
  "strip_slashes s = rev (dropWhile (\<lambda>c. c = CHR ''/'') (rev s))"

definition baseUrl :: "browser \<Rightarrow> string" where
  "baseUrl b = (case present (configuredBaseUrl b) of
      Some u \<Rightarrow> strip_slashes u
    | None \<Rightarrow> ''/api'')"

definition getGatewayHeaders :: "string \<Rightarrow> (string \<times> string) list" where
  "getGatewayHeaders url = (if suffix ''.ngrok-free.dev/api'' url
     then [(''ngrok-skip-browser-warning'', ''quietline'')] else [])"

definition relayerClientConfigured :: "browser \<Rightarrow> bool" where
  "relayerClientConfigured b = (present (configuredBaseUrl b) \<noteq> None \<or> DEV (b_settings b))"

definition the_request :: "browser \<Rightarrow> string \<Rightarrow> string option \<Rightarrow> string option \<Rightarrow> string option \<Rightarrow> fetch_request" where
  "the_request b path meth body token = \<lparr>fq_url = baseUrl b @ path, fq_method = meth,
     fq_headers = [(''content-type'', ''application/json'')] @ getGatewayHeaders (baseUrl b)
       @ (case present token of Some t \<Rightarrow> [(''authorization'', ''Bearer '' @ t)] | None \<Rightarrow> []),
     fq_body = body\<rparr>"

definition read_response :: "'b fetched \<Rightarrow> js_error + 'b" where
  "read_response response =
     (let contentType = (case ft_contentType response of Some t \<Rightarrow> lower t | None \<Rightarrow> []) in
      if \<not> text_includes contentType ''application/json'' then
        Inl (ConfigurationError (if ft_status response = 404 \<or> ft_status response = 405
          then ''This deployment does not have a live Quietline relayer API.''
          else ''Quietline received an invalid response from the configured relayer.''))
      else if \<not> (200 \<le> ft_status response \<and> ft_status response \<le> 299) then
        Inl (JsError (case ft_message response of
            Some m \<Rightarrow> m
          | None \<Rightarrow> ''Quietline API returned '' @ show_int (ft_status response)))
      else ft_json response)"

definition request ::
    "browser \<Rightarrow> (page_call list \<Rightarrow> js_error + 'b fetched) \<Rightarrow> string \<Rightarrow> string option \<Rightarrow> string option
      \<Rightarrow> string option \<Rightarrow> (page, 'b) act" where
  "request b answer path meth body token =
     (if \<not> relayerClientConfigured b then
        throw (ConfigurationError ''The live Quietline relayer is not configured for this deployment.'')
      else
        bindA (askPE answer (PFetch (the_request b path meth body token))) (\<lambda>response.
          liftA (read_response response)))"

section \<open>Routes\<close>

definition getConfig :: "browser \<Rightarrow> (page, live_config) act" where
  "getConfig b = request b (b_config b) ''/config'' None None None"

definition getAttestation :: "browser \<Rightarrow> (page, fcc_info) act" where
  "getAttestation b = request b (b_attestation b) ''/attestation'' None None None"

definition getMarket :: "browser \<Rightarrow> (page, market_view) act" where
  "getMarket b = request b (b_market b) ''/market'' None None None"

definition getHealth :: "browser \<Rightarrow> (page, health_view) act" where
  "getHealth b = request b (b_health b) ''/health'' None None None"

definition getChallenge :: "browser \<Rightarrow> address \<Rightarrow> (page, challenge_view) act" where
  "getChallenge b address = request b (b_challenge b) ''/auth/challenge'' (Some ''POST'')
     (Some (stringify (JObject [(''address'', JText address)]))) None"

definition verifyChallenge ::
    "browser \<Rightarrow> address \<Rightarrow> string \<Rightarrow> number \<Rightarrow> number \<Rightarrow> hex \<Rightarrow> (page, token_view) act" where
  "verifyChallenge b address nonce issuedAt expiresAt signature =
     request b (b_token b) ''/auth/verify'' (Some ''POST'')
       (Some (stringify (JObject [(''address'', JText address), (''nonce'', JText nonce),
          (''issuedAt'', JNumber issuedAt), (''expiresAt'', JNumber expiresAt),
          (''signature'', JText signature)]))) None"

text \<open>\<open>command\<close> is absent where the object passed has no such member.\<close>

definition submitDirect ::
    "browser \<Rightarrow> string \<Rightarrow> address \<Rightarrow> hex \<Rightarrow> string option \<Rightarrow> string \<Rightarrow> (page, relayer_job) act" where
  "submitDirect b route account ciphertext command token =
     request b (b_job b) (''/direct/'' @ route) (Some ''POST'')
       (Some (stringify (JObject ([(''account'', JText account), (''ciphertext'', JText ciphertext)]
          @ (case command of Some c \<Rightarrow> [(''command'', JText c)] | None \<Rightarrow> []))))) (Some token)"

definition clientGetJob :: "browser \<Rightarrow> string \<Rightarrow> string \<Rightarrow> (page, relayer_job) act" where
  "clientGetJob b i token = request b (b_job b) (''/jobs/'' @ i) None None (Some token)"

definition clientListJobs :: "browser \<Rightarrow> string \<Rightarrow> (page, relayer_job list) act" where
  "clientListJobs b token = request b (b_jobs b) ''/jobs'' None None (Some token)"

section \<open>Waiting\<close>

definition nowP :: "browser \<Rightarrow> (page, int) act" where
  "nowP b = askP (b_now b) PNow"

definition waitP :: "nat \<Rightarrow> (page, unit) act" where
  "waitP ms = askP (\<lambda>_. ()) (PWait ms)"

partial_function (option) wait_loop ::
    "browser \<Rightarrow> string \<Rightarrow> string \<Rightarrow> int \<Rightarrow> int \<Rightarrow> page \<Rightarrow> ((js_error + relayer_job) \<times> page) option" where
  "wait_loop b i token timeoutMs started p = bindA (nowP b) (\<lambda>now p1.
     if now - started < timeoutMs then
       bindA (clientGetJob b i token) (\<lambda>job p2.
         if rj_status job = Confirmed then ret job p2
         else if rj_status job = Failed then
           throw (JsError (case rj_error job of Some e \<Rightarrow> e | None \<Rightarrow> ''Confidential action failed'')) p2
         else bindA (waitP 750) (\<lambda>_ p3. wait_loop b i token timeoutMs started p3) p2) p1
     else throw (JsError ''Quietline timed out waiting for confidential compute'') p1) p"

definition waitForJob :: "browser \<Rightarrow> string \<Rightarrow> string \<Rightarrow> int \<Rightarrow> (page, relayer_job) act" where
  "waitForJob b i token timeoutMs =
     bindA (nowP b) (\<lambda>started. wait_loop b i token timeoutMs started)"

definition chain_key :: "hex \<Rightarrow> string" where
  "chain_key requestId = ''chain:'' @ requestId"

partial_function (option) chain_wait_loop ::
    "browser \<Rightarrow> hex \<Rightarrow> string \<Rightarrow> int \<Rightarrow> int \<Rightarrow> page \<Rightarrow> ((js_error + relayer_job) \<times> page) option" where
  "chain_wait_loop b requestId token timeoutMs started p = bindA (nowP b) (\<lambda>now p1.
     if now - started < timeoutMs then
       bindA (clientListJobs b token) (\<lambda>jobs p2.
         case find (\<lambda>candidate. rj_externalKey candidate = Some (chain_key requestId)) jobs of
           Some job \<Rightarrow> bindA (nowP b) (\<lambda>later.
             waitForJob b (rj_id job) token (timeoutMs - (later - started))) p2
         | None \<Rightarrow> bindA (waitP 1000) (\<lambda>_ p3. chain_wait_loop b requestId token timeoutMs started p3) p2) p1
     else throw (JsError (''Quietline timed out waiting for chain request '' @ requestId)) p1) p"

definition waitForChainJob :: "browser \<Rightarrow> hex \<Rightarrow> string \<Rightarrow> int \<Rightarrow> (page, relayer_job) act" where
  "waitForChainJob b requestId token timeoutMs =
     bindA (nowP b) (\<lambda>started. chain_wait_loop b requestId token timeoutMs started)"

text \<open>The default of both.\<close>

definition defaultTimeout :: int where
  "defaultTimeout = 360000"

section \<open>What the client leaves alone\<close>

context quiet
begin

lemma keeps_request: "keeps R (request b answer path meth body token)"
  unfolding request_def by (auto intro!: quiet_intros simp: is_tx_def)

lemma keeps_routes:
  "keeps R (getConfig b)" "keeps R (getAttestation b)" "keeps R (getMarket b)" "keeps R (getHealth b)"
  "keeps R (getChallenge b a)" "keeps R (verifyChallenge b a n i e s)"
  "keeps R (submitDirect b r a c m t)" "keeps R (clientGetJob b j t)" "keeps R (clientListJobs b t)"
  unfolding getConfig_def getAttestation_def getMarket_def getHealth_def getChallenge_def
    verifyChallenge_def submitDirect_def clientGetJob_def clientListJobs_def
  by (rule keeps_request)+

lemma keeps_nowP: "keeps R (nowP b)"
  unfolding nowP_def by (rule keeps_askP) (simp add: is_tx_def)

lemma keeps_waitP: "keeps R (waitP n)"
  unfolding waitP_def by (rule keeps_askP) (simp add: is_tx_def)

text \<open>However the loop ends it kept \<open>R\<close>, and it returns only a confirmed job.\<close>

lemma wait_loop_rule:
  assumes run: "wait_loop b i token timeoutMs started p = Some q"
  shows "R p (snd q) \<and> (\<forall>job. fst q = Inr job \<longrightarrow> rj_status job = Confirmed)"
proof (rule wait_loop.raw_induct [where P = "\<lambda>b i token timeoutMs started p q.
    R p (snd q) \<and> (\<forall>job. fst q = Inr job \<longrightarrow> rj_status job = Confirmed)", OF _ run], goal_cases)
  case IH: (1 loop b i token timeoutMs started p q)
  define again where "again = loop b i token timeoutMs started"
  have keep: "keeps R again" and conf: "leaves (\<lambda>job _. rj_status job = Confirmed) again"
    using IH(1) by (fastforce simp: again_def keeps_def leaves_def)+
  let ?m = "bindA (nowP b) (\<lambda>now. if now - started < timeoutMs then
       bindA (clientGetJob b i token) (\<lambda>job. if rj_status job = Confirmed then ret job
         else if rj_status job = Failed then
           throw (JsError (case rj_error job of Some e \<Rightarrow> e | None \<Rightarrow> ''Confidential action failed''))
         else bindA (waitP 750) (\<lambda>_. again))
     else throw (JsError ''Quietline timed out waiting for confidential compute''))"
  have "keeps R ?m"
    by (auto intro!: keeps_intros keeps_nowP keeps_routes keeps_waitP keep)
  moreover have "leaves (\<lambda>job _. rj_status job = Confirmed) ?m"
    by (auto intro!: leaves_bindA leaves_throw leaves_retI conf)
  moreover have "?m p = Some q"
    using IH(2) unfolding again_def [symmetric] by (simp only: body_simps)
  ultimately show ?case by (cases q) (auto dest: keepsD leavesD)
qed

lemma keeps_waitForJob: "keeps R (waitForJob b i token timeoutMs)"
  unfolding waitForJob_def
  by (intro keeps_bindA keeps_nowP keepsI) (auto dest: wait_loop_rule)

lemma leaves_waitForJob: "leaves (\<lambda>job _. rj_status job = Confirmed) (waitForJob b i token timeoutMs)"
  unfolding waitForJob_def
  by (intro leaves_bindA) (auto simp: leaves_def dest: wait_loop_rule)

lemma chain_wait_loop_rule:
  assumes run: "chain_wait_loop b requestId token timeoutMs started p = Some q"
  shows "R p (snd q) \<and> (\<forall>job. fst q = Inr job \<longrightarrow> rj_status job = Confirmed)"
proof (rule chain_wait_loop.raw_induct [where P = "\<lambda>b requestId token timeoutMs started p q.
    R p (snd q) \<and> (\<forall>job. fst q = Inr job \<longrightarrow> rj_status job = Confirmed)", OF _ run], goal_cases)
  case IH: (1 loop b requestId token timeoutMs started p q)
  define again where "again = loop b requestId token timeoutMs started"
  have keep: "keeps R again" and conf: "leaves (\<lambda>job _. rj_status job = Confirmed) again"
    using IH(1) by (fastforce simp: again_def keeps_def leaves_def)+
  let ?m = "bindA (nowP b) (\<lambda>now. if now - started < timeoutMs then
       bindA (clientListJobs b token) (\<lambda>jobs.
         case find (\<lambda>candidate. rj_externalKey candidate = Some (chain_key requestId)) jobs of
           Some job \<Rightarrow> bindA (nowP b) (\<lambda>later.
             waitForJob b (rj_id job) token (timeoutMs - (later - started)))
         | None \<Rightarrow> bindA (waitP 1000) (\<lambda>_. again))
     else throw (JsError (''Quietline timed out waiting for chain request '' @ requestId)))"
  have "keeps R ?m"
    by (auto intro!: keeps_intros keeps_nowP keeps_routes keeps_waitP keep keeps_waitForJob
        split: option.split)
  moreover have "leaves (\<lambda>job _. rj_status job = Confirmed) ?m"
    by (auto intro!: leaves_bindA leaves_throw conf leaves_waitForJob split: option.split)
  moreover have "?m p = Some q"
    using IH(2) unfolding again_def [symmetric] by (simp only: body_simps)
  ultimately show ?case by (cases q) (auto dest: keepsD leavesD)
qed

lemma keeps_waitForChainJob: "keeps R (waitForChainJob b requestId token timeoutMs)"
  unfolding waitForChainJob_def
  by (intro keeps_bindA keeps_nowP keepsI) (auto dest: chain_wait_loop_rule)

lemma leaves_waitForChainJob:
  "leaves (\<lambda>job _. rj_status job = Confirmed) (waitForChainJob b requestId token timeoutMs)"
  unfolding waitForChainJob_def
  by (intro leaves_bindA) (auto simp: leaves_def dest: chain_wait_loop_rule)

end

section \<open>Waiting ends\<close>

lemma total_request [intro!, simp]: "total (request b answer path meth body token)"
  unfolding request_def by (auto intro!: total_intros)

lemma total_routes [intro!, simp]:
  "total (getConfig b)" "total (getAttestation b)" "total (getMarket b)" "total (getHealth b)"
  "total (getChallenge b a)" "total (verifyChallenge b a n i e s)"
  "total (submitDirect b r a c m t)" "total (clientGetJob b j t)" "total (clientListJobs b t)"
  "total (nowP b)" "total (waitP k)"
  by (simp_all add: getConfig_def getAttestation_def getMarket_def getHealth_def getChallenge_def
      verifyChallenge_def submitDirect_def clientGetJob_def clientListJobs_def nowP_def waitP_def)

text \<open>The clock does not go back along a history, and waiting moves it on.\<close>

lemma clock_along:
  assumes "page_clock_ok b" and "suffix h k"
  shows "b_now b h \<le> b_now b k"
proof -
  obtain xs where k: "k = xs @ h" using assms(2) by (auto simp: suffix_def)
  show ?thesis unfolding k
    by (induction xs) (use page_clock_mono [OF assms(1)] in \<open>auto intro: order_trans\<close>)
qed

text \<open>A loop that polls until a deadline and sleeps between its polls.\<close>

lemma polling_ends:
  assumes ok: "page_clock_ok b" and d: "1 \<le> d"
    and loop: "\<And>p. loop p = bindA (nowP b) (\<lambda>now. if now - started < timeoutMs
       then bindA m (\<lambda>x. if stop x then k x else bindA (waitP d) (\<lambda>_. loop)) else throw e) p"
    and m: "total m" "keeps asks_more m" and k: "\<And>x. stop x \<Longrightarrow> total (k x)"
  shows "ends loop p"
proof (induction "nat (started + timeoutMs - b_now b (asked p))" arbitrary: p rule: less_induct)
  case less
  let ?h1 = "PNow # asked p"
  have again: "ends loop (q\<lparr>asked := PWait d # asked q\<rparr>)"
    if "b_now b ?h1 - started < timeoutMs" and "suffix ?h1 (asked q)" for q
  proof (rule less.hyps)
    have "b_now b (asked p) + 1 \<le> b_now b (PWait d # asked q)"
      using page_clock_wait [OF ok d, of "asked q"] clock_along [OF ok that(2)]
        page_clock_mono [OF ok, of "asked p" PNow] by simp
    then show "nat (started + timeoutMs - b_now b (asked (q\<lparr>asked := PWait d # asked q\<rparr>)))
        < nat (started + timeoutMs - b_now b (asked p))"
      using that(1) page_clock_mono [OF ok, of "asked p" PNow] by simp
  qed
  have "ends (bindA (nowP b) (\<lambda>now. if now - started < timeoutMs
       then bindA m (\<lambda>x. if stop x then k x else bindA (waitP d) (\<lambda>_. loop)) else throw e)) p"
    unfolding ends_bindA nowP_def wp_askP
    by (auto simp: total_ends [OF total_page(1)] total_ends [OF m(1)] total_ends [OF k] wp_simps waitP_def asks_more_def
        intro!: wp_frame [OF m(2)] again)
  then show ?case unfolding ends_def by (subst loop)
qed

lemma wait_loop_ends:
  assumes "page_clock_ok b"
  shows "ends (wait_loop b i token timeoutMs started) p"
proof (rule polling_ends [OF assms, where d = 750 and m = "clientGetJob b i token"
      and stop = "\<lambda>job. rj_status job = Confirmed \<or> rj_status job = Failed"
      and k = "\<lambda>job. if rj_status job = Confirmed then ret job
         else throw (JsError (case rj_error job of Some e \<Rightarrow> e | None \<Rightarrow> ''Confidential action failed''))"])
  show "wait_loop b i token timeoutMs started p = bindA (nowP b) (\<lambda>now. if now - started < timeoutMs
     then bindA (clientGetJob b i token) (\<lambda>job. if rj_status job = Confirmed \<or> rj_status job = Failed
       then if rj_status job = Confirmed then ret job
         else throw (JsError (case rj_error job of Some e \<Rightarrow> e | None \<Rightarrow> ''Confidential action failed''))
       else bindA (waitP 750) (\<lambda>_. wait_loop b i token timeoutMs started))
     else throw (JsError ''Quietline timed out waiting for confidential compute'')) p" for p
    by (subst wait_loop.simps) (auto simp: bindA_def split: option.split prod.split sum.split)
qed (auto intro!: total_basic quiet_asks.keeps_routes)

lemma waitForJob_ends: "page_clock_ok b \<Longrightarrow> ends (waitForJob b i token timeoutMs) p"
  unfolding waitForJob_def ends_bindA by (auto simp: total_ends intro!: wp_total wait_loop_ends)

lemma chain_wait_loop_ends:
  assumes "page_clock_ok b"
  shows "ends (chain_wait_loop b requestId token timeoutMs started) p"
proof -
  let ?find = "find (\<lambda>candidate. rj_externalKey candidate = Some (chain_key requestId))"
  let ?k = "\<lambda>jobs. bindA (nowP b) (\<lambda>later.
    waitForJob b (rj_id (the (?find jobs))) token (timeoutMs - (later - started)))"
  have k: "total (?k jobs)" for jobs
    using waitForJob_ends [OF assms] by (intro total_bindA total_routes) (simp add: total_def)
  show ?thesis
  proof (rule polling_ends [OF assms, where d = 1000 and m = "clientListJobs b token"
        and stop = "\<lambda>jobs. ?find jobs \<noteq> None" and k = ?k])
    show "chain_wait_loop b requestId token timeoutMs started p = bindA (nowP b) (\<lambda>now.
       if now - started < timeoutMs
       then bindA (clientListJobs b token) (\<lambda>jobs. if ?find jobs \<noteq> None then ?k jobs
         else bindA (waitP 1000) (\<lambda>_. chain_wait_loop b requestId token timeoutMs started))
       else throw (JsError (''Quietline timed out waiting for chain request '' @ requestId))) p" for p
      by (subst chain_wait_loop.simps) (auto simp: bindA_def split: option.split prod.split sum.split)
  qed (auto intro!: k quiet_asks.keeps_routes)
qed

lemma waitForChainJob_ends: "page_clock_ok b \<Longrightarrow> ends (waitForChainJob b requestId token timeoutMs) p"
  unfolding waitForChainJob_def ends_bindA
  by (auto simp: total_ends intro!: wp_total chain_wait_loop_ends)

section \<open>Surroundings for the witnesses\<close>

text \<open>
  A browser whose clock counts the calls and waits; the relayer answers every request with JSON,
  every job is confirmed with a ciphertext, every transaction succeeds.
\<close>

definition answer_with :: "'b \<Rightarrow> js_error + 'b fetched" where
  "answer_with x = Inr \<lparr>ft_status = 200, ft_contentType = Some ''application/json'', ft_json = Inr x,
     ft_message = None\<rparr>"

definition sample_libraries :: libraries where
  "sample_libraries = \<lparr>l_publicKey = (\<lambda>k. 4 # replicate 64 0),
     l_sharedSecret = (\<lambda>k q. Inr (replicate 65 1)), l_sha256 = (\<lambda>m. replicate 32 2),
     l_hmac = (\<lambda>k m. replicate 32 (of_nat (length m))), l_encrypt = (\<lambda>k c m. map (\<lambda>x. x + 1) m),
     l_decrypt = (\<lambda>k c m. map (\<lambda>x. x - 1) m), l_keccak = (\<lambda>m. ''0x''), 
     l_toHex = map (\<lambda>w. char_of (unat w)), l_ofHex = (\<lambda>s. Inr (map (\<lambda>c. of_nat (of_char c)) s)),
     l_concat = concat, l_parseUnits = (\<lambda>s d. Inr 5000000), l_addressEqual = (\<lambda>x y. Inr (x = y)),
     l_decodeLog = (\<lambda>l. Inr \<lparr>de_name = el_data l, de_requestId = Some ''0x07''\<rparr>),
     l_keyAddress = (\<lambda>_. Inr ''0xa''), l_parseView = (\<lambda>_. Inl (JsError ''Unexpected token'')),
     l_parseQuote = (\<lambda>_. Inl (JsError ''Unexpected token'')),
     l_parseStress = (\<lambda>_. Inl (JsError ''Unexpected token'')), l_parseVoid = (\<lambda>_. Inr ())\<rparr>"

definition sample_job :: relayer_job where
  "sample_job = \<lparr>rj_id = ''j'', rj_externalKey = Some ''chain:0x07'', rj_type = ''DEPOSIT'',
     rj_status = Confirmed, rj_account = ''0xa'', rj_actionId = None, rj_txHash = Some ''0xc0'',
     rj_error = None, rj_response = Some \<lparr>jr_ciphertext = Some ''c'', jr_anchor = None\<rparr>,
     rj_attempts = 1, rj_createdAt = 0, rj_updatedAt = 0\<rparr>"

definition page_time :: "page_call list \<Rightarrow> int" where
  "page_time h = int (length h) + sum_list (map (\<lambda>c. case c of PWait d \<Rightarrow> int d | _ \<Rightarrow> 0) h)"

definition sample_browser :: browser where
  "sample_browser = \<lparr>b_settings = \<lparr>VITE_RELAYER_URL = None, DEV = True, VITE_FCC_INSTRUCTION_FEE_WEI = Some ''7''\<rparr>,
     b_formats = \<lparr>fmt_time = (\<lambda>_. ''now''), fmt_date = (\<lambda>_. ''today'')\<rparr>, b_lib = sample_libraries,
     b_now = page_time, b_uuid = (\<lambda>_. ''uuid''), b_privateKey = (\<lambda>_. [7]), b_random = (\<lambda>_. replicate 16 3),
     b_config = (\<lambda>_. answer_with \<lparr>lc_vault = ''0xf'', lc_network = COSTON2, lc_assets = ASSETS,
        lc_termsDays = [7, 14, 30], lc_quoteValiditySeconds = 300\<rparr>),
     b_attestation = (\<lambda>_. answer_with \<lparr>info_machine_key = Some \<lparr>pk_x = Some ''1'', pk_y = Some ''2''\<rparr>,
        info_tee_key = None\<rparr>),
     b_market = (\<lambda>_. answer_with \<lparr>mv_xrpUsdE6 = 600000, mv_updatedAt = 0, mv_vaultUsdt0Balance = ''0''\<rparr>),
     b_health = (\<lambda>_. answer_with \<lparr>hv_ok = True, hv_api = ServiceOk, hv_database = ServiceOk,
        hv_fcc = ServiceOk, hv_detail = None, hv_activeCount = 1, hv_activeSigners = [],
        hv_network = ''coston2'', hv_timestamp = ''t''\<rparr>),
     b_challenge = (\<lambda>_. answer_with \<lparr>cv_nonce = ''n'', cv_issuedAt = 0, cv_expiresAt = 9, cv_typedData = JNull\<rparr>),
     b_token = (\<lambda>_. answer_with \<lparr>tv_token = ''t'', tv_expiresIn = 9\<rparr>),
     b_job = (\<lambda>_. answer_with sample_job), b_jobs = (\<lambda>_. answer_with [sample_job]),
     b_sign = (\<lambda>_. Inr ''0x51''), b_write = (\<lambda>_. Inr ''0xd0''),
     b_receipt = (\<lambda>_. Inr \<lparr>rc_status = ''success'', rc_transactionHash = ''0xd0'',
        rc_logs = [\<lparr>el_address = ''0xf'', el_data = ''DepositSubmitted'', el_topics = []\<rparr>,
          \<lparr>el_address = ''0xf'', el_data = ''ConfidentialRequestSubmitted'', el_topics = []\<rparr>]\<rparr>),
     b_balance = (\<lambda>_. Inr 0), b_invalidate = (\<lambda>_. Inr ()), b_provider = (\<lambda>_. Inr True),
     b_connect = (\<lambda>_. Inr \<lparr>cn_account = ''0xa'', cn_chainId = Some 114\<rparr>),
     b_switch = (\<lambda>_. Inr ()), b_disconnect = (\<lambda>_. Inr ())\<rparr>"

definition sample_page :: page where
  "sample_page = \<lparr>app = connectLive ''0xa'' ''t'' 9 initialPrivateState, configRef = None,
     teeKeyRef = None, stages = [], asked = []\<rparr>"

lemma sample_page_clock_ok: "b_now b = page_time \<Longrightarrow> page_clock_ok b"
  by (auto simp: page_clock_ok_def page_time_def split: page_call.split)

section \<open>Properties\<close>

text \<open>
  Waiting for the job of a request on the chain always comes to an end under a clock that
  advances: it returns a job the relayer reported as confirmed, or throws. It changes nothing in
  the page and sends no transaction.
\<close>
lemma waitForChainJob_settles:
  assumes "page_clock_ok b"
  shows "\<exists>r q. waitForChainJob b requestId token timeoutMs p = Some (r, q)
    \<and> same_app p q \<and> nothing_sent p q \<and> asks_more p q
    \<and> (case r of Inl e \<Rightarrow> True | Inr job \<Rightarrow> rj_status job = Confirmed)"
proof -
  obtain r q where run: "waitForChainJob b requestId token timeoutMs p = Some (r, q)"
    using waitForChainJob_ends [OF assms] by (rule endsE)
  have "case r of Inl e \<Rightarrow> True | Inr job \<Rightarrow> rj_status job = Confirmed"
    using run leavesD [OF quiet_app.leaves_waitForChainJob] by (cases r) auto
  then show ?thesis
    using run keepsD [OF quiet_app.keeps_waitForChainJob run] keepsD [OF quiet_sent.keeps_waitForChainJob run]
      keepsD [OF quiet_asks.keeps_waitForChainJob run] by blast
qed

lemma waitForChainJob_settles_witness:
  "\<exists>r q. waitForChainJob (sample_browser\<lparr>b_jobs := \<lambda>_. answer_with []\<rparr>) ''0x07'' ''t'' 360000 sample_page
     = Some (r, q) \<and> nothing_sent sample_page q"
proof -
  have "page_clock_ok (sample_browser\<lparr>b_jobs := \<lambda>_. answer_with []\<rparr>)"
    by (rule sample_page_clock_ok) (simp add: sample_browser_def)
  from waitForChainJob_settles [OF this, of "''0x07''" "''t''" 360000 sample_page] show ?thesis by blast
qed

end
