(* ===== verification/Crypto.thy ===== *)
theory Crypto
  imports Client_Api
begin

text \<open>
  The browser's cryptography, \<^verbatim>\<open>frontend/src/lib/crypto.ts\<close>: the typed data of a private
  action, padding to a size bucket, and the ECIES scheme in both directions, over the primitives of
  \<open>libraries\<close>. \<open>crypto_ok\<close> states what is used of those.
\<close>

section \<open>Bytes\<close>

text \<open>A text is its UTF-8 bytes, so \<open>TextEncoder\<close> and \<open>TextDecoder\<close> only change the type.\<close>

definition encode_text :: "string \<Rightarrow> bytes" where
  "encode_text s = map (\<lambda>c. word_of_nat (of_char c)) s"

definition decode_text :: "bytes \<Rightarrow> string" where
  "decode_text bs = map (\<lambda>w. char_of (unat w)) bs"

text \<open>\<open>result.set(part, offset)\<close>, where the part fits.\<close>

definition set_at :: "nat \<Rightarrow> 'a list \<Rightarrow> 'a list \<Rightarrow> 'a list" where
  "set_at offset part result = take offset result @ part @ drop (offset + length part) result"

definition concatBytes :: "bytes list \<Rightarrow> bytes" where
  "concatBytes parts = fst (foldl (\<lambda>(result, offset) part. (set_at offset part result, offset + length part))
     (replicate (sum_list (map length parts)) 0, 0) parts)"

definition constantTimeEqual :: "bytes \<Rightarrow> bytes \<Rightarrow> bool" where
  "constantTimeEqual left right =
     (if length left \<noteq> length right then False
      else foldl (\<lambda>difference (x, y). or difference (xor x y)) 0 (zip left right) = 0)"

definition buckets :: "nat list" where
  "buckets = [512, 1024, 2048, 4096]"

definition padJson :: "string \<Rightarrow> js_error + bytes" where
  "padJson value =
     (let bytes = encode_text value in
      case find (\<lambda>size. length bytes \<le> size) buckets of
        None \<Rightarrow> Inl (JsError ''encrypted request exceeds the 4096-byte privacy bucket'')
      | Some bucket \<Rightarrow> Inr (set_at 0 bytes (replicate bucket 32)))"

section \<open>Key derivation\<close>

text \<open>\<open>setUint32(0, counter, false)\<close>.\<close>

definition uint32_bytes :: "nat \<Rightarrow> bytes" where
  "uint32_bytes n = map (\<lambda>k. word_of_nat (n div 256 ^ k)) [3, 2, 1, 0]"

partial_function (option) kdf_loop ::
    "(bytes \<Rightarrow> bytes) \<Rightarrow> bytes \<Rightarrow> nat \<Rightarrow> bytes \<Rightarrow> nat \<Rightarrow> nat \<Rightarrow> bytes option" where
  "kdf_loop sha256 z len result offset counter =
     (if offset < len then
        (let block = sha256 (concatBytes [uint32_bytes counter, z]);
             n = min (length block) (len - offset)
         in kdf_loop sha256 z len (set_at offset (take n block) result) (offset + n) (counter + 1))
      else Some result)"

definition concatKdf :: "(bytes \<Rightarrow> bytes) \<Rightarrow> bytes \<Rightarrow> nat \<Rightarrow> bytes option" where
  "concatKdf sha256 z len = kdf_loop sha256 z len (replicate len 0) 0 1"

section \<open>ECIES\<close>

text \<open>The key of the cipher and the key of the tag, from the shared secret.\<close>

definition derive_keys :: "libraries \<Rightarrow> bytes \<Rightarrow> (bytes \<times> bytes) option" where
  "derive_keys lib shared = map_option (\<lambda>keyMaterial.
     (take 16 keyMaterial, l_sha256 lib (drop 16 keyMaterial)))
     (concatKdf (l_sha256 lib) (take 32 (drop 1 shared)) 32)"

definition eciesEncrypt :: "browser \<Rightarrow> bytes \<Rightarrow> hex \<Rightarrow> (page, hex) act" where
  "eciesEncrypt b plaintext publicKey =
     (let lib = b_lib b in
      bindA (askP (b_privateKey b) PPrivateKey) (\<lambda>ephemeralPrivate.
      bindA (liftA (l_ofHex lib publicKey)) (\<lambda>point.
      bindA (liftA (l_sharedSecret lib ephemeralPrivate point)) (\<lambda>shared.
      bindA (liftO (derive_keys lib shared)) (\<lambda>(encryptionKey, macKey).
      bindA (askP (b_random b) (PRandomBytes 16)) (\<lambda>iv.
        let encryptedMessage = concatBytes [iv, l_encrypt lib encryptionKey iv plaintext] in
        ret (l_toHex lib (concatBytes [l_publicKey lib ephemeralPrivate, encryptedMessage,
               l_hmac lib macKey encryptedMessage]))))))))"

definition eciesDecrypt :: "libraries \<Rightarrow> hex \<Rightarrow> bytes \<Rightarrow> ('s, bytes) act" where
  "eciesDecrypt lib ciphertext privateKey =
     bindA (liftA (l_ofHex lib ciphertext)) (\<lambda>bytes.
       if length bytes < 113 \<or> bytes ! 0 \<noteq> 4 then throw (JsError ''invalid FCC ciphertext'')
       else
         let ephemeralPublic = take 65 bytes;
             encryptedMessage = take (length bytes - 32 - 65) (drop 65 bytes);
             receivedTag = drop (length bytes - 32) bytes
         in bindA (liftA (l_sharedSecret lib privateKey ephemeralPublic)) (\<lambda>shared.
            bindA (liftO (derive_keys lib shared)) (\<lambda>(encryptionKey, macKey).
              if \<not> constantTimeEqual receivedTag (l_hmac lib macKey encryptedMessage)
              then throw (JsError ''FCC response authentication failed'')
              else ret (l_decrypt lib encryptionKey (take 16 encryptedMessage) (drop 16 encryptedMessage)))))"

section \<open>Actions\<close>

record signed_action =
  sa_sender :: address
  sa_nonce :: number
  sa_deadline :: int
  sa_action :: string
  sa_payload :: json
  sa_responsePublicKey :: hex

record action_draft =
  ad_signedAction :: signed_action
  ad_responsePrivateKey :: bytes
  ad_typedData :: typed_action

definition actionTypes :: "(string \<times> string) list" where
  "actionTypes = [(''sender'', ''address''), (''nonce'', ''uint64''), (''deadline'', ''uint64''),
     (''actionHash'', ''bytes32''), (''payloadHash'', ''bytes32''), (''responseKeyHash'', ''bytes32'')]"

text \<open>\<open>BigInt(x)\<close> of a number.\<close>

definition bigint_of_number :: "number \<Rightarrow> js_error + int" where
  "bigint_of_number x = (if is_integer x then Inr \<lfloor>x\<rfloor>
     else Inl (JsError (''The number '' @ number_text x
       @ '' cannot be converted to a BigInt because it is not an integer'')))"

definition createActionDraft ::
    "browser \<Rightarrow> address \<Rightarrow> number \<Rightarrow> string \<Rightarrow> json \<Rightarrow> number \<Rightarrow> address \<Rightarrow> int option
      \<Rightarrow> (page, action_draft) act" where
  "createActionDraft b sender nonce action load chainId vault ttlSeconds =
     (let lib = b_lib b in
      bindA (askP (b_privateKey b) PPrivateKey) (\<lambda>responsePrivateKey.
      bindA (nowP b) (\<lambda>now.
        let responsePublicKey = l_toHex lib (l_publicKey lib responsePrivateKey);
            deadline = now div 1000 + (case ttlSeconds of None \<Rightarrow> 300 | Some ttl \<Rightarrow> ttl);
            payloadBytes = encode_text (stringify load)
        in bindA (liftA (bigint_of_number nonce)) (\<lambda>bigNonce.
           bindA (liftA (l_ofHex lib responsePublicKey)) (\<lambda>keyBytes.
             ret \<lparr>ad_signedAction = \<lparr>sa_sender = sender, sa_nonce = nonce, sa_deadline = deadline,
                    sa_action = action, sa_payload = load, sa_responsePublicKey = responsePublicKey\<rparr>,
                  ad_responsePrivateKey = responsePrivateKey,
                  ad_typedData = \<lparr>ta_domain = \<lparr>td_name = ''Quietline'', td_version = ''1'',
                      td_chainId = chainId, td_verifyingContract = vault\<rparr>,
                    ta_types = actionTypes, ta_primaryType = ''QuietlineAction'',
                    ta_message = \<lparr>tm_sender = sender, tm_nonce = bigNonce, tm_deadline = deadline,
                      tm_actionHash = l_keccak lib (encode_text action),
                      tm_payloadHash = l_keccak lib payloadBytes,
                      tm_responseKeyHash = l_keccak lib keyBytes\<rparr>\<rparr>\<rparr>)))))"

definition sealed_json :: "action_draft \<Rightarrow> hex \<Rightarrow> json" where
  "sealed_json draft signature = (let a = ad_signedAction draft in
     JObject [(''sender'', JText (sa_sender a)), (''nonce'', JNumber (sa_nonce a)),
       (''deadline'', JNumber (of_int (sa_deadline a))), (''action'', JText (sa_action a)),
       (''payload'', sa_payload a), (''responsePublicKey'', JText (sa_responsePublicKey a)),
       (''signature'', JText signature)])"

definition sealSignedAction :: "browser \<Rightarrow> action_draft \<Rightarrow> hex \<Rightarrow> hex \<Rightarrow> (page, hex) act" where
  "sealSignedAction b draft signature teePublicKey =
     bindA (liftA (padJson (stringify (sealed_json draft signature)))) (\<lambda>padded.
       eciesEncrypt b padded teePublicKey)"

text \<open>\<open>parse\<close> is \<open>JSON.parse\<close> and the cast to the type expected.\<close>

definition decryptPrivateResponse ::
    "libraries \<Rightarrow> (string \<Rightarrow> js_error + 'a) \<Rightarrow> hex \<Rightarrow> bytes \<Rightarrow> ('s, 'a) act" where
  "decryptPrivateResponse lib parse ciphertext responsePrivateKey =
     bindA (eciesDecrypt lib ciphertext responsePrivateKey) (\<lambda>plaintext.
       liftA (parse (trim_end (decode_text plaintext))))"

definition teePublicKeyFromInfo :: "libraries \<Rightarrow> fcc_info \<Rightarrow> js_error + hex" where
  "teePublicKeyFromInfo lib parsed =
     (let key = (case info_machine_key parsed of Some k \<Rightarrow> Some k | None \<Rightarrow> info_tee_key parsed) in
      case (Option.bind key (\<lambda>k. present (pk_x k)), Option.bind key (\<lambda>k. present (pk_y k))) of
        (Some x, Some y) \<Rightarrow> Inr (l_concat lib [''0x04'', x, y])
      | _ \<Rightarrow> Inl (JsError ''FCC attestation did not include a public key''))"

section \<open>Laws of the primitives\<close>

text \<open>
  \<open>keys\<close> are the valid private keys: uncompressed public keys have 65 bytes and start with 4, and
  both sides of an exchange reach the same secret. Digests and tags have 32 bytes; AES-CTR keeps the
  length and is undone under the same key and counter; viem's hexadecimal conversions are inverse.
\<close>

definition crypto_ok :: "browser \<Rightarrow> bytes set \<Rightarrow> bool" where
  "crypto_ok b keys = (let lib = b_lib b in
     (\<forall>h. b_privateKey b h \<in> keys) \<and> (\<forall>h. length (b_random b h) = 16)
     \<and> (\<forall>k. length (l_publicKey lib k) = 65 \<and> l_publicKey lib k ! 0 = 4)
     \<and> (\<forall>j \<in> keys. \<forall>k \<in> keys. l_sharedSecret lib j (l_publicKey lib k) = l_sharedSecret lib k (l_publicKey lib j)
         \<and> (\<exists>s. l_sharedSecret lib j (l_publicKey lib k) = Inr s))
     \<and> (\<forall>m. length (l_sha256 lib m) = 32) \<and> (\<forall>k m. length (l_hmac lib k m) = 32)
     \<and> (\<forall>k c m. length (l_encrypt lib k c m) = length m \<and> l_decrypt lib k c (l_encrypt lib k c m) = m)
     \<and> (\<forall>bs. l_ofHex lib (l_toHex lib bs) = Inr bs))"

section \<open>Lemmas\<close>

lemma text_of_encoded [simp]: "decode_text (encode_text s) = s"
  by (induction s) (simp_all add: decode_text_def encode_text_def unat_of_nat)

lemma length_encode [simp]: "length (encode_text s) = length s"
  by (simp add: encode_text_def)

lemma set_at_next:
  "length front = offset \<Longrightarrow> set_at offset part (front @ replicate (length part + n) 0) = (front @ part) @ replicate n 0"
  by (simp add: set_at_def)

lemma concatBytes_concat: "concatBytes parts = concat parts"
proof -
  have "length front = offset \<Longrightarrow>
      foldl (\<lambda>(result, offset) part. (set_at offset part result, offset + length part))
        (front @ replicate (sum_list (map length parts)) 0, offset) parts
      = (front @ concat parts, offset + sum_list (map length parts))" for front :: bytes and offset
  proof (induction parts arbitrary: front offset)
    case (Cons part parts)
    have "foldl (\<lambda>(result, offset) part. (set_at offset part result, offset + length part))
        (front @ replicate (sum_list (map length (part # parts))) 0, offset) (part # parts)
      = foldl (\<lambda>(result, offset) part. (set_at offset part result, offset + length part))
        ((front @ part) @ replicate (sum_list (map length parts)) 0, offset + length part) parts"
      using set_at_next [OF Cons.prems, of part "sum_list (map length parts)"] by simp
    also have "\<dots> = ((front @ part) @ concat parts, offset + length part + sum_list (map length parts))"
      by (rule Cons.IH) (simp add: Cons.prems)
    finally show ?case by simp
  qed simp
  from this [of "[]" 0] show ?thesis by (simp add: concatBytes_def)
qed

lemma xor_zero_iff: "xor x y = 0 \<longleftrightarrow> x = y" for x y :: "'a :: len word"
proof
  assume "xor x y = 0"
  then have "xor (xor x y) y = y" by simp
  then show "x = y" by (simp add: xor.assoc)
qed simp

lemma constantTimeEqual_iff: "constantTimeEqual left right \<longleftrightarrow> left = right"
proof -
  have fold: "foldl (\<lambda>difference (x, y). or difference (xor x y)) d xs = 0
      \<longleftrightarrow> d = 0 \<and> (\<forall>(x, y) \<in> set xs. x = y)" for d :: "8 word" and xs
    by (induction xs arbitrary: d) (auto simp: or_eq_0_iff xor_zero_iff)
  show ?thesis
  proof (cases "length left = length right")
    case True
    then have "(\<forall>(x, y) \<in> set (zip left right). x = y) \<longleftrightarrow> left = right"
      by (induction left right rule: list_induct2) auto
    then show ?thesis using True by (simp add: constantTimeEqual_def fold)
  qed (auto simp: constantTimeEqual_def)
qed

text \<open>The counter mode of the derivation, as a list of blocks.\<close>

definition kdf_blocks :: "(bytes \<Rightarrow> bytes) \<Rightarrow> bytes \<Rightarrow> nat \<Rightarrow> bytes" where
  "kdf_blocks sha256 z n = concat (map (\<lambda>i. sha256 (uint32_bytes (i + 1) @ z)) [0 ..< n])"

lemma length_kdf_blocks:
  "(\<And>m. length (sha256 m) = 32) \<Longrightarrow> length (kdf_blocks sha256 z n) = 32 * n"
  by (induction n) (simp_all add: kdf_blocks_def)

lemma kdf_loop_blocks:
  assumes sha: "\<And>m. length (sha256 m) = 32"
  shows "length result = len \<Longrightarrow> take (32 * j) result = take len (kdf_blocks sha256 z j) \<Longrightarrow>
    \<exists>k. len \<le> 32 * k \<and> kdf_loop sha256 z len result (min len (32 * j)) (j + 1)
      = Some (take len (kdf_blocks sha256 z k))"
proof (induction "len - 32 * j" arbitrary: j result rule: less_induct)
  case less
  show ?case
  proof (cases "32 * j < len")
    case False
    then have "kdf_loop sha256 z len result (min len (32 * j)) (j + 1) = Some result"
      by (subst kdf_loop.simps) simp
    then show ?thesis using False less.prems by (intro exI [of _ j]) simp
  next
    case True
    define block where "block = sha256 (uint32_bytes (j + 1) @ z)"
    define n where "n = min 32 (len - 32 * j)"
    have block: "length block = 32" by (simp add: block_def sha)
    have blocks: "kdf_blocks sha256 z (Suc j) = kdf_blocks sha256 z j @ block"
      by (simp add: kdf_blocks_def block_def)
    have len_j: "length (kdf_blocks sha256 z j) = 32 * j" by (rule length_kdf_blocks [OF sha])
    have off: "min len (32 * j) = 32 * j" "32 * j + n = min len (32 * Suc j)"
      using True by (simp_all add: n_def)
    let ?r = "set_at (32 * j) (take n block) result"
    have n: "n \<le> 32" "32 * j + n \<le> len" using True by (simp_all add: n_def)
    have len_r: "length ?r = len"
      using less.prems(1) n block by (simp add: set_at_def)
    have pre: "take (32 * j) result = kdf_blocks sha256 z j"
      using less.prems(2) len_j True by simp
    have "take (32 * Suc j) ?r = take len (kdf_blocks sha256 z (Suc j))"
    proof (cases "32 * Suc j \<le> len")
      case True
      then have "n = 32" by (simp add: n_def)
      then show ?thesis using True pre block len_j less.prems(1)
        by (simp add: set_at_def blocks)
    next
      case False
      then have "n = len - 32 * j" by (simp add: n_def)
      then show ?thesis using False True pre block len_j less.prems(1)
        by (simp add: set_at_def blocks)
    qed
    from less.hyps [OF _ len_r this] True
    have "\<exists>k. len \<le> 32 * k \<and> kdf_loop sha256 z len ?r (min len (32 * Suc j)) (Suc j + 1)
        = Some (take len (kdf_blocks sha256 z k))"
      by simp
    moreover have "kdf_loop sha256 z len result (min len (32 * j)) (j + 1)
        = kdf_loop sha256 z len ?r (min len (32 * Suc j)) (Suc j + 1)"
    proof -
      have "sha256 (concatBytes [uint32_bytes (j + 1), z]) = block"
        by (simp add: concatBytes_concat block_def)
      moreover have "min (length block) (len - 32 * j) = n" by (simp add: block n_def)
      ultimately show ?thesis
        using True unfolding off(1)
        by (subst kdf_loop.simps) (simp only: Let_def if_True add_Suc_right add_0_right One_nat_def off(2))
    qed
    ultimately show ?thesis by simp
  qed
qed

lemma kdf_blocks_prefix:
  assumes sha: "\<And>m. length (sha256 m) = 32" and "len \<le> 32 * n" and "n \<le> k"
  shows "take len (kdf_blocks sha256 z k) = take len (kdf_blocks sha256 z n)"
proof -
  have "kdf_blocks sha256 z k = kdf_blocks sha256 z n @ concat (map (\<lambda>i. sha256 (uint32_bytes (i + 1) @ z)) [n ..< k])"
    unfolding kdf_blocks_def concat_append [symmetric] map_append [symmetric]
    using upt_add_eq_append [of 0 n "k - n"] assms(3) by simp
  then show ?thesis using length_kdf_blocks [of sha256 z n, OF sha] assms(2) by simp
qed

lemma concatKdf_blocks:
  assumes sha: "\<And>m. length (sha256 m) = 32" and "len \<le> 32 * n"
  shows "concatKdf sha256 z len = Some (take len (kdf_blocks sha256 z n))"
proof -
  have "take (32 * 0) (replicate len 0) = take len (kdf_blocks sha256 z 0)"
    by (simp add: kdf_blocks_def)
  from kdf_loop_blocks [OF sha length_replicate this]
  obtain k where "len \<le> 32 * k"
    "kdf_loop sha256 z len (replicate len 0) (min len (32 * 0)) (0 + 1) = Some (take len (kdf_blocks sha256 z k))"
    by blast
  then have k: "len \<le> 32 * k" "concatKdf sha256 z len = Some (take len (kdf_blocks sha256 z k))"
    by (simp_all add: concatKdf_def)
  have "take len (kdf_blocks sha256 z k) = take len (kdf_blocks sha256 z n)"
    using kdf_blocks_prefix [OF sha, where len = len and n = k and k = n and z = z]
      kdf_blocks_prefix [OF sha, where len = len and n = n and k = k and z = z] k(1) assms(2)
    by (cases "k \<le> n") auto
  then show ?thesis using k(2) by simp
qed

lemma derive_keys_total:
  assumes "\<And>m. length (l_sha256 lib m) = 32"
  shows "\<exists>e m. derive_keys lib shared = Some (e, m)"
  using concatKdf_blocks [OF assms, where len = 32 and n = 1] by (simp add: derive_keys_def)

lemma padJson_cases:
  "padJson value = (if length value \<le> 4096
     then Inr (encode_text value @ replicate ((if length value \<le> 512 then 512 else if length value \<le> 1024
       then 1024 else if length value \<le> 2048 then 2048 else 4096) - length value) 32)
     else Inl (JsError ''encrypted request exceeds the 4096-byte privacy bucket''))"
  by (simp add: padJson_def Let_def buckets_def set_at_def)

text \<open>The encryption of a text, and what the decryption makes of it.\<close>

lemma eciesEncrypt_run:
  assumes ok: "crypto_ok b keys" and k: "k \<in> keys"
  shows "\<exists>c bs. eciesEncrypt b plaintext (l_toHex (b_lib b) (l_publicKey (b_lib b) k)) p
      = Some (Inr c, p\<lparr>asked := PRandomBytes 16 # PPrivateKey # asked p\<rparr>)
    \<and> l_ofHex (b_lib b) c = Inr bs \<and> length bs = 113 + length plaintext
    \<and> eciesDecrypt (b_lib b) c k s = Some (Inr plaintext, s)"
proof -
  let ?lib = "b_lib b" and ?h = "PPrivateKey # asked p"
  define j where "j = b_privateKey b ?h"
  define iv where "iv = b_random b (PRandomBytes 16 # ?h)"
  have j: "j \<in> keys" and iv: "length iv = 16"
    and pub: "\<And>k. length (l_publicKey ?lib k) = 65" "\<And>k. l_publicKey ?lib k ! 0 = 4"
    and sha: "\<And>m. length (l_sha256 ?lib m) = 32" and mac: "\<And>k m. length (l_hmac ?lib k m) = 32"
    and aes: "\<And>k c m. length (l_encrypt ?lib k c m) = length m"
      "\<And>k c m. l_decrypt ?lib k c (l_encrypt ?lib k c m) = m"
    and hex: "\<And>bs. l_ofHex ?lib (l_toHex ?lib bs) = Inr bs"
    using ok by (simp_all add: crypto_ok_def Let_def j_def iv_def)
  obtain shared where sh: "l_sharedSecret ?lib j (l_publicKey ?lib k) = Inr shared"
    "l_sharedSecret ?lib k (l_publicKey ?lib j) = Inr shared"
    using ok j k unfolding crypto_ok_def Let_def by metis
  obtain ek mk where keys: "derive_keys ?lib shared = Some (ek, mk)"
    using derive_keys_total [OF sha] by blast
  define m where "m = iv @ l_encrypt ?lib ek iv plaintext"
  define bs where "bs = l_publicKey ?lib j @ m @ l_hmac ?lib mk m"
  have m: "length m = 16 + length plaintext" by (simp add: m_def iv aes)
  have enc: "eciesEncrypt b plaintext (l_toHex ?lib (l_publicKey ?lib k)) p
      = Some (Inr (l_toHex ?lib bs), p\<lparr>asked := PRandomBytes 16 # PPrivateKey # asked p\<rparr>)"
    using sh keys hex
    by (simp add: eciesEncrypt_def Let_def bindA_def askP_def liftA_def liftO_def ret_def concatBytes_concat
        j_def [symmetric] iv_def [symmetric] bs_def m_def)
  have bs: "length bs = 113 + length plaintext" "bs ! 0 = 4" "take 65 bs = l_publicKey ?lib j"
    "take (length bs - 32 - 65) (drop 65 bs) = m" "drop (length bs - 32) bs = l_hmac ?lib mk m"
    using pub m mac by (simp_all add: bs_def nth_append)
  have "eciesDecrypt ?lib (l_toHex ?lib bs) k s = Some (Inr plaintext, s)"
    using bs sh keys hex iv aes
    by (simp add: eciesDecrypt_def Let_def bindA_def liftA_def liftO_def ret_def constantTimeEqual_iff m_def)
  then show ?thesis using enc bs(1) hex by blast
qed

lemma ecies_roundtrip_plain:
  assumes "crypto_ok b keys" and "k \<in> keys"
  shows "\<exists>c q bs. eciesEncrypt b plaintext (l_toHex (b_lib b) (l_publicKey (b_lib b) k)) p = Some (Inr c, q)
    \<and> l_ofHex (b_lib b) c = Inr bs \<and> length bs = 113 + length plaintext
    \<and> eciesDecrypt (b_lib b) c k q = Some (Inr plaintext, q)"
  using eciesEncrypt_run [OF assms, of plaintext p "p\<lparr>asked := PRandomBytes 16 # PPrivateKey # asked p\<rparr>"]
  by blast

lemma sample_crypto_ok: "crypto_ok sample_browser UNIV"
proof -
  have "unat w mod 256 = unat w" for w :: "8 word"
    using unsigned_less [of w, where 'a = nat] by simp
  then show ?thesis
    by (simp add: crypto_ok_def sample_browser_def sample_libraries_def Let_def comp_def)
qed

section \<open>Properties\<close>

text \<open>
  C25. What the browser encrypts for a public key, the holder of the private key decrypts to the same
  bytes, whatever the plaintext; the ciphertext is 113 bytes longer than it.
\<close>
theorem ecies_roundtrip:
  assumes "crypto_ok b keys" and "k \<in> keys"
  shows "\<exists>c q bs. eciesEncrypt b plaintext (l_toHex (b_lib b) (l_publicKey (b_lib b) k)) p = Some (Inr c, q)
    \<and> l_ofHex (b_lib b) c = Inr bs \<and> length bs = 113 + length plaintext
    \<and> eciesDecrypt (b_lib b) c k q = Some (Inr plaintext, q)"
  by (rule ecies_roundtrip_plain [OF assms])

theorem ecies_roundtrip_witness:
  "\<exists>c q. eciesEncrypt sample_browser [1, 2, 3] (l_toHex sample_libraries (l_publicKey sample_libraries [9])) sample_page
     = Some (Inr c, q) \<and> eciesDecrypt sample_libraries c [9] q = Some (Inr [1, 2, 3], q)"
proof -
  have lib: "b_lib sample_browser = sample_libraries" by (simp add: sample_browser_def)
  show ?thesis
    using ecies_roundtrip [OF sample_crypto_ok, of "[9]" "[1, 2, 3]" sample_page, unfolded lib] by auto
qed

lemma ciphertext_parts:
  assumes "113 \<le> length bs" and "bs ! 0 = x"
  obtains point iv message tag where "bs = x # point @ iv @ message @ tag"
    and "length point = 64" and "length iv = 16" and "length tag = 32"
proof
  let ?r = "tl bs"
  have bs: "bs = x # ?r" using assms by (cases bs) auto
  have "?r = take 64 ?r @ take 16 (drop 64 ?r) @ take (length ?r - 112) (drop 80 ?r) @ drop (length ?r - 32) ?r"
  proof -
    have "drop (length ?r - 32) ?r = drop (length ?r - 112) (drop 80 ?r)" using assms(1) by simp
    moreover have "drop 80 ?r = drop 16 (drop 64 ?r)" by simp
    ultimately show ?thesis by (metis append_take_drop_id)
  qed
  then show "bs = x # take 64 ?r @ take 16 (drop 64 ?r) @ take (length ?r - 112) (drop 80 ?r) @ drop (length ?r - 32) ?r"
    using bs by simp
qed (use assms in simp_all)

lemma parts_tag:
  "length point = 64 \<Longrightarrow> length iv = 16 \<Longrightarrow> drop (81 + length message) (x # point @ iv @ message @ tag) = tag"
  using append_eq_conv_conj [of "x # point @ iv @ message" tag "(x # point @ iv @ message) @ tag"] by simp

text \<open>
  C32. The decryption accepts exactly the authentic ciphertexts: it returns \<open>m\<close> if and only if the bytes
  are an uncompressed public key, a counter block, a message and the 32 bytes of the tag of counter and
  message, under the keys derived from the exchange of that public key with the recipient's private
  key, and \<open>m\<close> is the message deciphered. It changes nothing.
\<close>
theorem eciesDecrypt_authentic:
  "(eciesDecrypt lib c k s = Some (Inr m, t)) \<longleftrightarrow>
     (t = s \<and> (\<exists>point iv message tag shared ek mk.
        l_ofHex lib c = Inr (4 # point @ iv @ message @ tag)
        \<and> length point = 64 \<and> length iv = 16 \<and> length tag = 32
        \<and> l_sharedSecret lib k (4 # point) = Inr shared \<and> derive_keys lib shared = Some (ek, mk)
        \<and> tag = l_hmac lib mk (iv @ message) \<and> m = l_decrypt lib ek iv message))"
  (is "?run \<longleftrightarrow> ?parts")
proof
  assume ?run
  then obtain bs where bs: "l_ofHex lib c = Inr bs" "113 \<le> length bs" "bs ! 0 = 4"
    and rest: "eciesDecrypt lib c k s = Some (Inr m, t)"
    by (auto simp: eciesDecrypt_def bindA_def liftA_def throw_def split: sum.splits if_splits)
  let ?message = "take (length bs - 97) (drop 65 bs)"
  obtain shared ek mk where keys: "l_sharedSecret lib k (take 65 bs) = Inr shared"
      "derive_keys lib shared = Some (ek, mk)"
    and tag: "drop (length bs - 32) bs = l_hmac lib mk ?message"
    and m: "m = l_decrypt lib ek (take 16 ?message) (drop 16 ?message)" "t = s"
    using rest bs
    by (auto simp: eciesDecrypt_def Let_def bindA_def liftA_def liftO_def ret_def throw_def constantTimeEqual_iff
        split: sum.splits option.splits if_splits)
  obtain point iv message tg where parts: "bs = 4 # point @ iv @ message @ tg"
    "length point = 64" "length iv = 16" "length tg = 32"
    by (rule ciphertext_parts [OF bs(2,3)])
  have first: "take 65 bs = 4 # point" and mid: "?message = iv @ message" using parts by simp_all
  have last: "drop (length bs - 32) bs = tg" using parts parts_tag [of point iv message 4 tg] by simp
  have "l_ofHex lib c = Inr (4 # point @ iv @ message @ tg)" using bs(1) parts(1) by simp
  moreover have "m = l_decrypt lib ek iv message" using m(1) parts(3) by (simp add: mid)
  ultimately show ?parts
    using keys [unfolded first] tag [unfolded mid last] parts(2-4) m(2) by blast
next
  assume ?parts
  then show ?run
    by (auto simp: eciesDecrypt_def Let_def bindA_def liftA_def liftO_def ret_def constantTimeEqual_iff parts_tag)
qed

text \<open>
  The key derivation is the single-step counter mode: the first \<open>len\<close> bytes of the digests of
  the counters 1, 2, ... each followed by the secret. In particular it always ends.
\<close>
lemma concatKdf_counter_mode:
  assumes "\<And>m. length (sha256 m) = 32"
  shows "concatKdf sha256 z len = Some (take len (concat (map (\<lambda>i. sha256 (uint32_bytes i @ z))
    [1 ..< len div 32 + 2])))"
proof -
  have "len \<le> 32 * (len div 32 + 1)" by simp
  from concatKdf_blocks [OF assms this]
  have run: "concatKdf sha256 z len = Some (take len (kdf_blocks sha256 z (len div 32 + 1)))" .
  have "kdf_blocks sha256 z (len div 32 + 1) = concat (map (\<lambda>i. sha256 (uint32_bytes i @ z)) [1 ..< len div 32 + 2])"
  proof -
    have "[1 ..< len div 32 + 2] = map Suc [0 ..< len div 32 + 1]" by (simp only: map_Suc_upt) simp
    then show ?thesis by (simp only: kdf_blocks_def map_map comp_def Suc_eq_plus1)
  qed
  then show ?thesis unfolding run by (simp only:)
qed

lemma concatKdf_counter_mode_witness:
  "concatKdf (\<lambda>m. replicate 32 (m ! 3)) [5] 40 = Some (replicate 32 1 @ replicate 8 2)"
proof -
  have "40 div 32 + 2 = Suc (Suc (1 :: nat))" by simp
  then have range: "[1 ..< 40 div 32 + 2] = [1, 2 :: nat]" by (simp only: upt_Suc) simp
  have last: "(uint32_bytes 1 @ [5]) ! 3 = 1" "(uint32_bytes 2 @ [5]) ! 3 = 2"
    by (simp_all add: uint32_bytes_def)
  show ?thesis
    using concatKdf_counter_mode [of "\<lambda>m. replicate 32 (m ! 3)" "[5]" 40]
    unfolding range list.map concat.simps last by simp
qed

text \<open>
  C33. A sealed action shows only the size of its bucket: its ciphertext has 113 bytes more than 512,
  1024, 2048 or 4096, decrypts for the extension to the signed action followed by spaces, and an
  action whose text is longer than 4096 bytes is refused before anything is encrypted.
\<close>
theorem sealSignedAction_buckets:
  assumes "crypto_ok b keys" and "k \<in> keys"
  shows "if length (stringify (sealed_json draft signature)) \<le> 4096
    then \<exists>c q bs spaces. sealSignedAction b draft signature (l_toHex (b_lib b) (l_publicKey (b_lib b) k)) p = Some (Inr c, q)
      \<and> l_ofHex (b_lib b) c = Inr bs \<and> length bs \<in> {625, 1137, 2161, 4209}
      \<and> eciesDecrypt (b_lib b) c k q
        = Some (Inr (encode_text (stringify (sealed_json draft signature)) @ replicate spaces 32), q)
    else sealSignedAction b draft signature (l_toHex (b_lib b) (l_publicKey (b_lib b) k)) p
      = Some (Inl (JsError ''encrypted request exceeds the 4096-byte privacy bucket''), p)"
proof -
  let ?s = "stringify (sealed_json draft signature)"
  show ?thesis
  proof (cases "length ?s \<le> 4096")
    case True
    define bucket where "bucket = (if length ?s \<le> 512 then 512 else if length ?s \<le> 1024
       then 1024 else if length ?s \<le> 2048 then 2048 else 4096 :: nat)"
    define padded where "padded = encode_text ?s @ replicate (bucket - length ?s) 32"
    have pad: "padJson ?s = Inr padded"
      using True by (simp add: padJson_cases padded_def bucket_def)
    have "length padded = bucket" using True by (simp add: padded_def bucket_def)
    then have len: "113 + length padded \<in> {625, 1137, 2161, 4209}" by (auto simp: bucket_def)
    have run: "sealSignedAction b draft signature key p = eciesEncrypt b padded key p" for key
      by (simp add: sealSignedAction_def pad bindA_def liftA_def)
    obtain c q bs where "eciesEncrypt b padded (l_toHex (b_lib b) (l_publicKey (b_lib b) k)) p = Some (Inr c, q)"
      "l_ofHex (b_lib b) c = Inr bs" "length bs = 113 + length padded"
      "eciesDecrypt (b_lib b) c k q = Some (Inr padded, q)"
      using ecies_roundtrip_plain [OF assms, of padded p] by blast
    then show ?thesis using True len unfolding run padded_def by auto
  next
    case False
    then show ?thesis
      by (simp add: sealSignedAction_def padJson_cases bindA_def liftA_def)
  qed
qed

theorem sealSignedAction_buckets_witness:
  "\<forall>draft signature. sealSignedAction sample_browser draft signature
     (l_toHex sample_libraries (l_publicKey sample_libraries [9])) sample_page \<noteq> None"
proof (intro allI)
  fix draft signature
  have lib: "b_lib sample_browser = sample_libraries" by (simp add: sample_browser_def)
  show "sealSignedAction sample_browser draft signature
      (l_toHex sample_libraries (l_publicKey sample_libraries [9])) sample_page \<noteq> None"
    using sealSignedAction_buckets [OF sample_crypto_ok, of "[9]" draft signature sample_page, unfolded lib]
    by (auto split: if_splits)
qed

end
