(* ===== verification/Settlement_View.thy ===== *)
theory Settlement_View
  imports Client_Api
begin

text \<open>
  The small modules the browser's mutations are built from: receipts and their events
  (\<^verbatim>\<open>frontend/src/lib/receipts.ts\<close>, \<^verbatim>\<open>transactions.ts\<close>), recognising a borrow that was already
  settled (\<^verbatim>\<open>borrowSettlement.ts\<close>), the refresh after a settlement (\<^verbatim>\<open>refreshSettlement.ts\<close>),
  the figures of the lender's page (\<^verbatim>\<open>earnMetrics.ts\<close>) and the exported statement
  (\<^verbatim>\<open>statement.ts\<close>).
\<close>

section \<open>Receipts\<close>

text \<open>An event that does not decode is skipped; a vault address that does not parse is an error.\<close>

fun request_id_in :: "libraries \<Rightarrow> event_log list \<Rightarrow> address \<Rightarrow> string \<Rightarrow> js_error + hex option" where
  "request_id_in lib [] vault eventName = Inr None"
| "request_id_in lib (l # logs) vault eventName =
     (case l_addressEqual lib (el_address l) vault of
        Inl e \<Rightarrow> Inl e
      | Inr same \<Rightarrow>
          if \<not> same then request_id_in lib logs vault eventName
          else (case l_decodeLog lib l of
              Inl e \<Rightarrow> request_id_in lib logs vault eventName
            | Inr decoded \<Rightarrow>
                (case de_requestId decoded of
                   Some i \<Rightarrow> if de_name decoded = eventName then Inr (Some i)
                             else request_id_in lib logs vault eventName
                 | None \<Rightarrow> request_id_in lib logs vault eventName)))"

definition requestIdFromReceipt :: "libraries \<Rightarrow> receipt \<Rightarrow> address \<Rightarrow> string \<Rightarrow> js_error + hex" where
  "requestIdFromReceipt lib r vault eventName =
     (case request_id_in lib (rc_logs r) vault eventName of
        Inl e \<Rightarrow> Inl e
      | Inr (Some i) \<Rightarrow> Inr i
      | Inr None \<Rightarrow> Inl (JsError (eventName @ '' event did not include a request id'')))"

definition assertSuccessfulReceipt :: "receipt \<Rightarrow> string \<Rightarrow> js_error + receipt" where
  "assertSuccessfulReceipt r label =
     (if rc_status r \<noteq> ''success'' then
        Inl (JsError (label @ '' reverted on Coston2 in transaction '' @ rc_transactionHash r
          @ ''. No private balance was credited and no FCC job was created.''))
      else Inr r)"

section \<open>A borrow already settled\<close>

definition QUOTE_VALIDITY_MS :: number where "QUOTE_VALIDITY_MS = 300000"

definition SETTLEMENT_GRACE_MS :: number where "SETTLEMENT_GRACE_MS = 60000"

definition findConfirmedBorrowForQuote :: "relayer_job list \<Rightarrow> private_quote \<Rightarrow> relayer_job option" where
  "findConfirmedBorrowForQuote jobs quote =
     (let issuedAt = js_sub (js_mul (q_expiresAt quote) 1000) QUOTE_VALIDITY_MS;
          latestRelevantTime = js_add (js_mul (q_expiresAt quote) 1000) SETTLEMENT_GRACE_MS
      in find (\<lambda>job. rj_type job = ''BORROW_ACCEPT'' \<and> rj_status job = Confirmed
           \<and> issuedAt \<le> rj_createdAt job \<and> rj_createdAt job \<le> latestRelevantTime) jobs)"

definition accountContainsQuoteLoan :: "private_account_view \<Rightarrow> private_quote \<Rightarrow> bool" where
  "accountContainsQuoteLoan view quote = (case av_loan view of
      None \<Rightarrow> False
    | Some loan \<Rightarrow>
        lower (pl_borrower loan) = lower (q_borrower quote)
        \<and> pl_principal loan = q_amount quote
        \<and> pl_collateralFxrp loan = q_collateralFxrp quote
        \<and> pl_borrowerAprBps loan = q_borrowerAprBps quote
        \<and> pl_termDays loan = q_termDays quote)"

definition isAlreadyProcessedError :: "js_error \<Rightarrow> bool" where
  "isAlreadyProcessedError error =
     text_includes (lower (error_message error)) ''operation already processed''"

section \<open>The refresh after a settlement\<close>

definition refreshSettlementView ::
    "('s, 'a) act \<Rightarrow> ('s, unit) act \<Rightarrow> ('s, 'a option) act" where
  "refreshSettlementView refresh markPending =
     tryA (bindA refresh (\<lambda>view. ret (Some view))) (\<lambda>_. thenA markPending (ret None))"

section \<open>The lender's figures\<close>

definition USDT0_SCALE :: number where "USDT0_SCALE = 1000000"

record earn_metrics =
  em_totalSupplied :: number
  em_availableToLend :: number
  em_committedToLoans :: number
  em_withdrawable :: number
  em_weightedAprPercent :: "number option"

definition earnMetrics :: "private_mandate list \<Rightarrow> number \<Rightarrow> earn_metrics" where
  "earnMetrics ms usdt0 =
     (let totalBase = foldl (\<lambda>sum m. js_add (js_add sum (pm_available m)) (pm_allocatedPrincipal m)) 0 ms;
          availableBase = foldl (\<lambda>sum m. js_add sum (pm_available m)) 0 ms;
          committedBase = foldl (\<lambda>sum m. js_add sum (pm_allocatedPrincipal m)) 0 ms;
          active = filter pm_active ms;
          weightedAmount = foldl (\<lambda>sum m. js_add (js_add sum (pm_available m)) (pm_allocatedPrincipal m)) 0 active;
          weightedAprBase = foldl (\<lambda>sum m. js_add sum
            (js_mul (pm_minAprBps m) (js_add (pm_available m) (pm_allocatedPrincipal m)))) 0 active
      in \<lparr>em_totalSupplied = js_div totalBase USDT0_SCALE,
          em_availableToLend = js_div availableBase USDT0_SCALE,
          em_committedToLoans = js_div committedBase USDT0_SCALE,
          em_withdrawable = js_add usdt0 (js_div availableBase USDT0_SCALE),
          em_weightedAprPercent =
            (if weightedAmount > 0 then Some (js_div (js_div weightedAprBase weightedAmount) 100) else None)\<rparr>)"

section \<open>The exported statement\<close>

text \<open>
  The object the statement file holds and the name it is saved under; \<open>generatedAt\<close> is
  \<open>new Date().toISOString()\<close>. Making the blob and clicking the link is the browser's.
\<close>

record statement =
  st_protocol :: string
  st_network :: string
  st_generatedAt :: string
  st_account :: address
  st_fxrp :: number
  st_usdt0 :: number
  st_allocated :: number
  st_earned :: number
  st_mandates :: "private_mandate list"
  st_position :: "position option"
  st_activity :: "activity_item list"
  st_privacyNotice :: string

definition downloadPrivateStatement :: "string \<Rightarrow> int \<Rightarrow> quietline \<Rightarrow> js_error + statement \<times> string" where
  "downloadPrivateStatement generatedAt now st = (case (mode_of st, present (address_of st)) of
      (Live, Some address) \<Rightarrow> Inr
        (\<lparr>st_protocol = ''Quietline'', st_network = ''Coston2'', st_generatedAt = generatedAt, st_account = address,
          st_fxrp = privateFxrp st, st_usdt0 = privateUsdt0 st, st_allocated = lenderAllocated st,
          st_earned = lenderEarned st, st_mandates = mandates st, st_position = position_of st,
          st_activity = filter (\<lambda>item. ai_scope item = Private) (activities st),
          st_privacyNotice = ''This file contains values decrypted from Flare Confidential Compute. Store it securely.''\<rparr>,
         ''quietline-'' @ take 8 address @ ''-'' @ show_int now @ ''.json'')
    | _ \<Rightarrow> Inl (JsError ''Connect a Coston2 wallet before exporting a statement''))"

section \<open>Lemmas\<close>

lemma request_id_in_found:
  "request_id_in lib logs vault eventName = Inr (Some i) \<Longrightarrow>
     \<exists>l \<in> set logs. l_addressEqual lib (el_address l) vault = Inr True
       \<and> l_decodeLog lib l = Inr \<lparr>de_name = eventName, de_requestId = Some i\<rparr>"
  by (induction lib logs vault eventName rule: request_id_in.induct)
    (auto split: sum.splits if_splits option.splits)

text \<open>Sums of integers stay exact while their exact value is below \<open>2 ^ 53\<close>.\<close>

lemma js_add_integers: "\<bar>i + j\<bar> < 2 ^ 53 \<Longrightarrow> js_add (of_int i) (of_int j) = of_int (i + j)"
  unfolding js_add_def using fl_integer [of "i + j"] by simp

lemma foldl_exact:
  assumes "\<And>s m. m \<in> set ms \<Longrightarrow> 0 \<le> s \<Longrightarrow> s + g m < 2 ^ 53 \<Longrightarrow> F (of_int s) m = (of_int (s + g m) :: number)"
    and "\<And>m. m \<in> set ms \<Longrightarrow> 0 \<le> g m"
  shows "0 \<le> s \<Longrightarrow> s + sum_list (map g ms) < 2 ^ 53 \<Longrightarrow>
    foldl F (of_int s) ms = of_int (s + sum_list (map g ms))"
  using assms
proof (induction ms arbitrary: s)
  case (Cons m ms)
  have "0 \<le> sum_list (map g ms)" using Cons.prems(4) by (intro sum_list_nonneg) auto
  then have "s + g m < 2 ^ 53" using Cons.prems(2) by simp
  then have "F (of_int s) m = of_int (s + g m)" using Cons.prems(1,3) by simp
  moreover have "foldl F (of_int (s + g m)) ms = of_int (s + g m + sum_list (map g ms))"
    by (rule Cons.IH) (use Cons.prems Cons.prems(4) [of m] in \<open>auto simp: algebra_simps\<close>)
  ultimately show ?case by (simp add: add.assoc)
qed simp

text \<open>The amounts of a mandate, in base units.\<close>

definition free_units :: "private_mandate \<Rightarrow> int" where "free_units m = \<lfloor>pm_available m\<rfloor>"
definition lent_units :: "private_mandate \<Rightarrow> int" where "lent_units m = \<lfloor>pm_allocatedPrincipal m\<rfloor>"
definition rate_bps :: "private_mandate \<Rightarrow> int" where "rate_bps m = \<lfloor>pm_minAprBps m\<rfloor>"

definition whole_units :: "private_mandate \<Rightarrow> bool" where
  "whole_units m = (is_integer (pm_available m) \<and> 0 \<le> pm_available m
     \<and> is_integer (pm_allocatedPrincipal m) \<and> 0 \<le> pm_allocatedPrincipal m
     \<and> is_integer (pm_minAprBps m) \<and> 0 \<le> pm_minAprBps m)"

lemma whole_units_D:
  assumes "whole_units m"
  shows "pm_available m = of_int (free_units m)" "pm_allocatedPrincipal m = of_int (lent_units m)"
    "pm_minAprBps m = of_int (rate_bps m)" "0 \<le> free_units m" "0 \<le> lent_units m" "0 \<le> rate_bps m"
  using assms by (simp_all add: whole_units_def is_integer_def free_units_def lent_units_def rate_bps_def)

lemma js_mul_integers: "\<bar>i * j\<bar> < 2 ^ 53 \<Longrightarrow> js_mul (of_int i) (of_int j) = of_int (i * j)"
  unfolding js_mul_def using fl_integer [of "i * j"] by simp

lemma sum_filter_le:
  "(\<And>m. m \<in> set ms \<Longrightarrow> 0 \<le> g m) \<Longrightarrow> sum_list (map g (filter P ms)) \<le> sum_list (map g ms)" for g :: "'a \<Rightarrow> int"
proof (induction ms)
  case (Cons m ms)
  then have "0 \<le> g m" and "sum_list (map g (filter P ms)) \<le> sum_list (map g ms)" by simp_all
  then show ?case by simp
qed simp

section \<open>Properties\<close>

text \<open>
  Where the mandates hold whole base units whose total, and total weighted by their rates, is
  below \<open>2 ^ 53\<close>, the lender's figures are the exact sums, each rounded once when it is scaled: what
  is supplied is what is free plus what is lent, and the weighted rate is over the active mandates.
\<close>
lemma earnMetrics_exact:
  assumes "list_all whole_units ms"
    and "sum_list (map (\<lambda>m. free_units m + lent_units m) ms) < 2 ^ 53"
    and "sum_list (map (\<lambda>m. rate_bps m * (free_units m + lent_units m)) (filter pm_active ms)) < 2 ^ 53"
  shows "earnMetrics ms usdt0 =
    (let free = sum_list (map free_units ms); lent = sum_list (map lent_units ms);
         weight = sum_list (map (\<lambda>m. free_units m + lent_units m) (filter pm_active ms));
         weighted = sum_list (map (\<lambda>m. rate_bps m * (free_units m + lent_units m)) (filter pm_active ms))
     in \<lparr>em_totalSupplied = js_div (of_int (free + lent)) 1000000,
         em_availableToLend = js_div (of_int free) 1000000,
         em_committedToLoans = js_div (of_int lent) 1000000,
         em_withdrawable = js_add usdt0 (js_div (of_int free) 1000000),
         em_weightedAprPercent =
           (if weight > 0 then Some (js_div (js_div (of_int weighted) (of_int weight)) 100) else None)\<rparr>)"
proof -
  have units: "whole_units m" if "m \<in> set ms" for m
    using assms(1) that by (simp add: list_all_iff)
  note D = whole_units_D [OF units]
  have both: "sum_list (map (\<lambda>m. free_units m + lent_units m) ms)
      = sum_list (map free_units ms) + sum_list (map lent_units ms)"
    by (rule sum_list_addf)
  have nonneg: "0 \<le> sum_list (map free_units ms)" "0 \<le> sum_list (map lent_units ms)"
    using D by (auto intro!: sum_list_nonneg)
  have step: "js_add (js_add (of_int s) (pm_available m)) (pm_allocatedPrincipal m)
      = of_int (s + (free_units m + lent_units m))"
    if "m \<in> set ms" "0 \<le> s" "s + (free_units m + lent_units m) < 2 ^ 53" for s m
    using that D [OF that(1)] js_add_integers [of s "free_units m"]
      js_add_integers [of "s + free_units m" "lent_units m"] by (simp add: add.assoc)
  have total: "foldl (\<lambda>sum m. js_add (js_add sum (pm_available m)) (pm_allocatedPrincipal m)) (of_int 0) ms
      = of_int (0 + sum_list (map (\<lambda>m. free_units m + lent_units m) ms))"
    by (rule foldl_exact) (use step D assms(2) in auto)
  have free: "foldl (\<lambda>sum m. js_add sum (pm_available m)) (of_int 0) ms
      = of_int (0 + sum_list (map free_units ms))"
    by (rule foldl_exact) (use D assms(2) both nonneg js_add_integers in auto)
  have lent: "foldl (\<lambda>sum m. js_add sum (pm_allocatedPrincipal m)) (of_int 0) ms
      = of_int (0 + sum_list (map lent_units ms))"
    by (rule foldl_exact) (use D assms(2) both nonneg js_add_integers in auto)
  have weight: "foldl (\<lambda>sum m. js_add (js_add sum (pm_available m)) (pm_allocatedPrincipal m)) (of_int 0)
        (filter pm_active ms)
      = of_int (0 + sum_list (map (\<lambda>m. free_units m + lent_units m) (filter pm_active ms)))"
  proof (rule foldl_exact)
    show "0 + sum_list (map (\<lambda>m. free_units m + lent_units m) (filter pm_active ms)) < 2 ^ 53"
      using sum_filter_le [of ms "\<lambda>m. free_units m + lent_units m" pm_active] D(4,5) assms(2) by fastforce
  qed (use step D in auto)
  have small: "free_units m + lent_units m < 2 ^ 53" if "m \<in> set ms" for m
    using member_le_sum_list [of "free_units m + lent_units m" "map (\<lambda>m. free_units m + lent_units m) ms"]
      that D assms(2) by (fastforce simp: image_iff)
  have "js_add (of_int s) (js_mul (pm_minAprBps m) (js_add (pm_available m) (pm_allocatedPrincipal m)))
      = of_int (s + rate_bps m * (free_units m + lent_units m))"
    if m: "m \<in> set ms" and s: "0 \<le> s" "s + rate_bps m * (free_units m + lent_units m) < 2 ^ 53" for s m
  proof -
    have "0 \<le> rate_bps m * (free_units m + lent_units m)" using D [OF m] by simp
    then show ?thesis
      using D [OF m] s small [OF m] js_add_integers [of "free_units m" "lent_units m"]
        js_mul_integers [of "rate_bps m" "free_units m + lent_units m"]
        js_add_integers [of s "rate_bps m * (free_units m + lent_units m)"] by simp
  qed
  then have weighted: "foldl (\<lambda>sum m. js_add sum
        (js_mul (pm_minAprBps m) (js_add (pm_available m) (pm_allocatedPrincipal m)))) (of_int 0) (filter pm_active ms)
      = of_int (0 + sum_list (map (\<lambda>m. rate_bps m * (free_units m + lent_units m)) (filter pm_active ms)))"
    by (intro foldl_exact) (use D assms(3) in auto)
  show ?thesis
    using total free lent weight weighted both
    by (simp add: earnMetrics_def Let_def USDT0_SCALE_def)
qed

definition sample_mandate :: private_mandate where
  "sample_mandate = \<lparr>pm_id = ''m'', pm_lender = ''0xa'', pm_available = 3000000, pm_minAprBps = 800,
     pm_termMask = 7, pm_perBorrowerCap = 5000000, pm_active = True, pm_createdAt = 0,
     pm_allocatedPrincipal = 1000000, pm_interestEarned = 0\<rparr>"

lemma earnMetrics_exact_witness:
  "em_totalSupplied (earnMetrics [sample_mandate] 0) = js_div (of_int 4000000) 1000000"
proof -
  have "is_integer 3000000" "is_integer 1000000" "is_integer 800" by (simp_all add: is_integer_def)
  then have "list_all whole_units [sample_mandate]"
    by (simp add: whole_units_def sample_mandate_def)
  from earnMetrics_exact [OF this, of 0] show ?thesis
    by (simp add: sample_mandate_def free_units_def lent_units_def rate_bps_def Let_def)
qed

end
