(* ===== verification/Private_Actions.thy ===== *)
theory Private_Actions
  imports Crypto Settlement_View
begin

text \<open>
  The browser's private actions, \<open>usePrivateActions\<close> of
  \<^verbatim>\<open>frontend/src/hooks/usePrivateActions.ts\<close>: preparing, sealing and submitting an action to the
  confidential extension, refreshing the account, and the mutations that go through the queue.
  \<open>hook\<close> is what the hook closes over when it renders; an argument that may be left out is an option.
\<close>

section \<open>Helpers\<close>

record hook =
  hk_address :: "address option"
  hk_token :: "string option"
  hk_account :: "address option"

datatype direct_action =
    OPEN_ACCOUNT | ACCOUNT_QUERY | SET_MANDATE | CANCEL_MANDATE | WITHDRAW_FROM_MANDATE
  | QUOTE_REQUEST | APPLY_REPAYMENT | STRESS_QUERY

primrec action_name :: "direct_action \<Rightarrow> string" where
  "action_name OPEN_ACCOUNT = ''OPEN_ACCOUNT''"
| "action_name ACCOUNT_QUERY = ''ACCOUNT_QUERY''"
| "action_name SET_MANDATE = ''SET_MANDATE''"
| "action_name CANCEL_MANDATE = ''CANCEL_MANDATE''"
| "action_name WITHDRAW_FROM_MANDATE = ''WITHDRAW_FROM_MANDATE''"
| "action_name QUOTE_REQUEST = ''QUOTE_REQUEST''"
| "action_name APPLY_REPAYMENT = ''APPLY_REPAYMENT''"
| "action_name STRESS_QUERY = ''STRESS_QUERY''"

primrec directRoutes :: "direct_action \<Rightarrow> string" where
  "directRoutes OPEN_ACCOUNT = ''open-account''"
| "directRoutes ACCOUNT_QUERY = ''account''"
| "directRoutes SET_MANDATE = ''mandate''"
| "directRoutes CANCEL_MANDATE = ''mandate''"
| "directRoutes WITHDRAW_FROM_MANDATE = ''mandate''"
| "directRoutes QUOTE_REQUEST = ''quote''"
| "directRoutes APPLY_REPAYMENT = ''repayment''"
| "directRoutes STRESS_QUERY = ''stress''"

definition termMask :: "number list \<Rightarrow> number" where
  "termMask terms = of_int (foldl (\<lambda>mask term.
     or mask (if term = 7 then 1 else if term = 14 then 2 else if term = 30 then 4 else 0)) (0 :: int) terms)"

definition toUnits :: "number \<Rightarrow> js_error + number" where
  "toUnits x = (let units = js_round (js_mul x 1000000) in
     if \<not> is_safe_integer units \<or> units \<le> 0
     then Inl (JsError ''Amount is outside the supported private-account range'')
     else Inr units)"

text \<open>
  The same for a number that may be \<open>NaN\<close> or infinite, which no check of the callers excludes, and
  \<open>Math.round(x * 100)\<close> in the JSON of a payload, where such a number is \<open>null\<close>.
\<close>

definition units_of :: "numeric \<Rightarrow> js_error + number" where
  "units_of x = (case x of Some v \<Rightarrow> toUnits v
     | None \<Rightarrow> Inl (JsError ''Amount is outside the supported private-account range''))"

definition hundredths :: "numeric \<Rightarrow> json" where
  "hundredths x = (case x of Some v \<Rightarrow> JNumber (js_round (js_mul v 100)) | None \<Rightarrow> JNull)"

definition messageFor :: "js_error \<Rightarrow> string" where
  "messageFor e = error_message e"

text \<open>
  \<open>pending\<close> are the mutations that have not settled when the next one is queued, oldest first:
  each is started when the one before it has settled, however that was.
\<close>

fun settle_all :: "('s, unit) act list \<Rightarrow> ('s, unit) act" where
  "settle_all [] = ret ()"
| "settle_all (t # ts) = bindA (outcomeA t) (\<lambda>_. settle_all ts)"

definition serializeMutation :: "('s, unit) act list \<Rightarrow> ('s, 'a) act \<Rightarrow> ('s, 'a) act" where
  "serializeMutation pending task = thenA (settle_all pending) task"

section \<open>Preparing an action\<close>

definition protocolContext :: "browser \<Rightarrow> (page, live_config \<times> hex) act" where
  "protocolContext b = bindA getA (\<lambda>p. bothA
     (case configRef p of
        Some config \<Rightarrow> ret config
      | None \<Rightarrow> bindA (getConfig b) (\<lambda>v. thenA (modifyA (\<lambda>p. p\<lparr>configRef := Some v\<rparr>)) (ret v)))
     (case teeKeyRef p of
        Some key \<Rightarrow> ret key
      | None \<Rightarrow> bindA (getAttestation b) (\<lambda>info.
          bindA (liftA (teePublicKeyFromInfo (b_lib b) info)) (\<lambda>v.
            thenA (modifyA (\<lambda>p. p\<lparr>teeKeyRef := Some v\<rparr>)) (ret v)))))"

definition assertLiveFcc :: "browser \<Rightarrow> string \<Rightarrow> (page, unit) act" where
  "assertLiveFcc b fallback = bindA (getHealth b) (\<lambda>health.
     if hv_fcc health \<noteq> ServiceOk
     then throw (JsError (case hv_detail health of Some d \<Rightarrow> d | None \<Rightarrow> fallback))
     else ret ())"

definition prepare ::
    "browser \<Rightarrow> string \<Rightarrow> json \<Rightarrow> number \<Rightarrow> address option \<Rightarrow> (page, prepared_private_action) act" where
  "prepare b action load actionNonce account = (case present account of
      None \<Rightarrow> throw (JsError ''Connect a wallet before using confidential compute'')
    | Some sender \<Rightarrow>
        bindA (protocolContext b) (\<lambda>(config, teeKey).
        bindA (createActionDraft b sender actionNonce action load (of_int (net_id (lc_network config)))
                 (lc_vault config) None) (\<lambda>draft.
        bindA (askPE (b_sign b) (PSign (ad_typedData draft))) (\<lambda>signature.
        bindA (sealSignedAction b draft signature teeKey) (\<lambda>ciphertext.
          ret \<lparr>pr_ciphertext = ciphertext, pr_responsePrivateKey = ad_responsePrivateKey draft\<rparr>)))))"

definition direct_command :: "direct_action \<Rightarrow> string option" where
  "direct_command action =
     (if action = SET_MANDATE \<or> action = CANCEL_MANDATE \<or> action = WITHDRAW_FROM_MANDATE
      then Some (action_name action) else None)"

definition direct ::
    "browser \<Rightarrow> hook \<Rightarrow> (string \<Rightarrow> js_error + 'a) \<Rightarrow> direct_action \<Rightarrow> json
      \<Rightarrow> number option \<Rightarrow> address option \<Rightarrow> string option \<Rightarrow> (page, 'a option) act" where
  "direct b hk parse action load nonce address token =
     (case (present (case address of Some a \<Rightarrow> Some a | None \<Rightarrow> hk_address hk),
            present (case token of Some t \<Rightarrow> Some t | None \<Rightarrow> hk_token hk)) of
        (Some activeAddress, Some activeToken) \<Rightarrow>
          bindA getApp (\<lambda>st.
          bindA (prepare b (action_name action) load
                   (case nonce of Some n \<Rightarrow> n | None \<Rightarrow> accountNonce st) (Some activeAddress)) (\<lambda>prepared.
          bindA (submitDirect b (directRoutes action) activeAddress (pr_ciphertext prepared)
                   (direct_command action) activeToken) (\<lambda>job.
          bindA (waitForJob b (rj_id job) activeToken defaultTimeout) (\<lambda>completed.
            case present (Option.bind (rj_response completed) jr_ciphertext) of
              None \<Rightarrow> ret None
            | Some ciphertext \<Rightarrow>
                bindA (decryptPrivateResponse (b_lib b) parse ciphertext (pr_responsePrivateKey prepared))
                  (\<lambda>x. ret (Some x))))))
      | _ \<Rightarrow> throw (JsError ''Open a live Quietline session first''))"

text \<open>A response without a ciphertext is \<open>undefined\<close>, which the store cannot hydrate from.\<close>

definition refreshAccount ::
    "browser \<Rightarrow> hook \<Rightarrow> number option \<Rightarrow> address option \<Rightarrow> string option \<Rightarrow> (page, private_account_view) act" where
  "refreshAccount b hk nonce address token =
     bindA (direct b hk (l_parseView (b_lib b)) ACCOUNT_QUERY (JObject []) nonce address token) (\<lambda>answer.
       case answer of
         None \<Rightarrow> throw (JsError ''Cannot read properties of undefined (reading 'account')'')
       | Some view \<Rightarrow> bindA (nowP b) (\<lambda>now.
           thenA (setApp (hydratePrivateAccount (b_formats b) (of_int now) view)) (ret view)))"

definition synchronizePublicState :: "browser \<Rightarrow> hook \<Rightarrow> string option \<Rightarrow> (page, unit) act" where
  "synchronizePublicState b hk token =
     bindA (outcomeA (getMarket b)) (\<lambda>market.
     bindA (outcomeA (case present (case token of Some t \<Rightarrow> Some t | None \<Rightarrow> hk_token hk) of
         Some t \<Rightarrow> clientListJobs b t | None \<Rightarrow> ret [])) (\<lambda>jobs.
     thenA (case market of Inr m \<Rightarrow> setApp (hydrateMarket m) | Inl _ \<Rightarrow> ret ())
       (thenA (case jobs of Inr js \<Rightarrow> setApp (hydrateRelayerJobs (b_formats b) js) | Inl _ \<Rightarrow> ret ())
          (askPE (b_invalidate b) PInvalidate))))"

definition uuidP :: "browser \<Rightarrow> (page, string) act" where
  "uuidP b = askP (b_uuid b) PUuid"

section \<open>Actions\<close>

definition openOrRefresh :: "browser \<Rightarrow> hook \<Rightarrow> address \<Rightarrow> string \<Rightarrow> (page, private_account_view) act" where
  "openOrRefresh b hk liveAddress liveToken =
     thenA (announce ''checking-account'')
       (tryA (refreshAccount b hk (Some 0) (Some liveAddress) (Some liveToken)) (\<lambda>error.
          if \<not> text_includes (messageFor error) ''private account does not exist'' then throw error
          else
            thenA (announce ''creating-account'') (bindA (uuidP b) (\<lambda>uuid.
            bindA (direct b hk (l_parseVoid (b_lib b)) OPEN_ACCOUNT (JObject [(''operationId'', JText uuid)])
                     (Some 0) (Some liveAddress) (Some liveToken)) (\<lambda>_.
            thenA (setApp incrementAccountNonce)
              (thenA (announce ''decrypting-account'')
                (refreshAccount b hk (Some 1) (Some liveAddress) (Some liveToken))))))))"

definition requestQuote ::
    "browser \<Rightarrow> hook \<Rightarrow> number \<Rightarrow> numeric \<Rightarrow> number \<Rightarrow> numeric \<Rightarrow> (page, private_quote option) act" where
  "requestQuote b hk x collateral termDays maxApr =
     bindA (uuidP b) (\<lambda>uuid.
     bindA (liftA (toUnits x)) (\<lambda>units.
     bindA (liftA (units_of collateral)) (\<lambda>collateralUnits.
     bindA (nowP b) (\<lambda>now.
       direct b hk (l_parseQuote (b_lib b)) QUOTE_REQUEST
         (JObject ([(''id'', JText uuid)]
           @ (case hk_address hk of Some a \<Rightarrow> [(''borrower'', JText a)] | None \<Rightarrow> [])
           @ [(''amount'', JNumber units), (''termDays'', JNumber termDays),
              (''maxAprBps'', hundredths maxApr),
              (''collateralFxrp'', JNumber collateralUnits),
              (''expiresAt'', JNumber (of_int (now div 1000 + 300)))])) None None None))))"

text \<open>
  What every direct mutation does once the extension has carried it out: the nonce moves on, the
  account is refreshed, or flagged when that fails, and the public state is synchronised.
\<close>

definition settled_view :: "browser \<Rightarrow> hook \<Rightarrow> (page, private_account_view option) act" where
  "settled_view b hk =
     thenA (setApp incrementAccountNonce)
       (bindA (refreshSettlementView
          (bindA getApp (\<lambda>st. refreshAccount b hk (Some (accountNonce st)) None None))
          (setApp markSettlementRefreshPending)) (\<lambda>view.
        thenA (synchronizePublicState b hk None) (ret view)))"

definition setMandate ::
    "browser \<Rightarrow> hook \<Rightarrow> (page, unit) act list \<Rightarrow> number \<Rightarrow> numeric \<Rightarrow> number list \<Rightarrow> number
      \<Rightarrow> (page, private_account_view option) act" where
  "setMandate b hk pending x minApr terms perBorrowerCap = serializeMutation pending
     (bindA (uuidP b) (\<lambda>uuid.
      bindA (liftA (toUnits x)) (\<lambda>units.
      bindA (liftA (toUnits perBorrowerCap)) (\<lambda>cap.
      bindA (direct b hk (l_parseVoid (b_lib b)) SET_MANDATE
               (JObject [(''mandateId'', JText uuid), (''amount'', JNumber units),
                  (''minAprBps'', hundredths minApr),
                  (''termMask'', JNumber (termMask terms)), (''perBorrowerCap'', JNumber cap)])
               None None None) (\<lambda>_. settled_view b hk)))))"

definition repay :: "browser \<Rightarrow> hook \<Rightarrow> (page, unit) act list \<Rightarrow> (page, private_account_view option) act" where
  "repay b hk pending = serializeMutation pending
     (bindA (uuidP b) (\<lambda>uuid.
      bindA (direct b hk (l_parseVoid (b_lib b)) APPLY_REPAYMENT
               (JObject [(''amount'', JNumber max_safe_integer), (''operationId'', JText uuid)])
               None None None) (\<lambda>_. settled_view b hk)))"

definition noMandateWithdrawal :: string where
  "noMandateWithdrawal = ''Confidential compute is not ready. No mandate withdrawal was submitted.''"

definition withdrawFromMandate ::
    "browser \<Rightarrow> hook \<Rightarrow> (page, unit) act list \<Rightarrow> string \<Rightarrow> number \<Rightarrow> address
      \<Rightarrow> (page, private_account_view option) act" where
  "withdrawFromMandate b hk pending mandateId x destination = serializeMutation pending
     (thenA (assertLiveFcc b noMandateWithdrawal)
       (bindA (liftA (toUnits x)) (\<lambda>units.
        bindA (direct b hk (l_parseVoid (b_lib b)) WITHDRAW_FROM_MANDATE
                 (JObject [(''mandateId'', JText mandateId), (''amount'', JNumber units),
                    (''destination'', JText destination)]) None None None) (\<lambda>_. settled_view b hk))))"

definition stress :: "browser \<Rightarrow> hook \<Rightarrow> number \<Rightarrow> (page, private_stress_view option) act" where
  "stress b hk xrpUsd = bindA (liftA (toUnits xrpUsd)) (\<lambda>units.
     direct b hk (l_parseStress (b_lib b)) STRESS_QUERY (JObject [(''xrpUsdE6'', JNumber units)])
       None None None)"

definition refreshAfterNonceAdvance :: "browser \<Rightarrow> hook \<Rightarrow> (page, private_account_view) act" where
  "refreshAfterNonceAdvance b hk = bindA getApp (\<lambda>st.
     thenA (setApp incrementAccountNonce)
       (refreshAccount b hk (Some (js_add (accountNonce st) 1)) None None))"

definition refreshProcessedBorrow :: "browser \<Rightarrow> hook \<Rightarrow> (page, private_account_view) act" where
  "refreshProcessedBorrow b hk = bindA getApp (\<lambda>st.
     tryA (refreshAccount b hk (Some (accountNonce st)) None None) (\<lambda>error.
       if \<not> text_includes (lower (messageFor error)) ''nonce'' then throw error
       else thenA (setApp incrementAccountNonce)
         (refreshAccount b hk (Some (js_add (accountNonce st) 1)) None None)))"

section \<open>Frames\<close>

text \<open>
  A frame that survives what the hook remembers between calls, and one that also survives every
  change of the store.
\<close>

locale quiet_page = quiet R for R :: "page \<Rightarrow> page \<Rightarrow> bool" +
  assumes remembering: "R p (p\<lparr>configRef := c\<rparr>)" "R p (p\<lparr>teeKeyRef := k\<rparr>)" "R p (p\<lparr>stages := s\<rparr>)"
begin

lemma keeps_announce: "keeps R (announce s)"
  unfolding announce_def by (intro keeps_modifyA remembering)

lemma keeps_protocolContext: "keeps R (protocolContext b)"
  unfolding protocolContext_def
  by (auto intro!: quiet_intros keeps_routes remembering split: option.split)

lemma keeps_assertLiveFcc: "keeps R (assertLiveFcc b m)"
  unfolding assertLiveFcc_def by (auto intro!: quiet_intros keeps_routes split: option.split)

lemma keeps_sealing:
  "keeps R (eciesEncrypt b m k)" "keeps R (sealSignedAction b d s k)" "keeps R (eciesDecrypt l c pk)"
  "keeps R (decryptPrivateResponse l f c pk)" "keeps R (createActionDraft b s n a j ch v t)" "keeps R (uuidP b)"
proof -
  show enc: "keeps R (eciesEncrypt b m k)" for m k
    unfolding eciesEncrypt_def Let_def by (auto intro!: quiet_intros simp: is_tx_def split: prod.split)
  show "keeps R (sealSignedAction b d s k)"
    unfolding sealSignedAction_def by (intro quiet_intros enc)
  show dec: "keeps R (eciesDecrypt l c pk)"
    unfolding eciesDecrypt_def Let_def by (auto intro!: quiet_intros split: prod.split)
  show "keeps R (decryptPrivateResponse l f c pk)"
    unfolding decryptPrivateResponse_def by (intro quiet_intros dec)
  show "keeps R (createActionDraft b s n a j ch v t)"
    unfolding createActionDraft_def Let_def by (auto intro!: quiet_intros keeps_nowP simp: is_tx_def)
  show "keeps R (uuidP b)"
    unfolding uuidP_def by (auto intro!: quiet_intros simp: is_tx_def)
qed

lemma keeps_prepare: "keeps R (prepare b a j n acc)"
  unfolding prepare_def
  by (auto intro!: quiet_intros keeps_protocolContext keeps_sealing simp: is_tx_def
      split: option.split prod.split)

lemma keeps_direct: "keeps R (direct b hk f a j n addr t)"
  unfolding direct_def
  by (auto intro!: quiet_intros keeps_prepare keeps_routes keeps_waitForJob keeps_sealing
      split: option.split prod.split)

end

locale quiet_store = quiet_page R for R :: "page \<Rightarrow> page \<Rightarrow> bool" +
  assumes setting: "R p (p\<lparr>app := a\<rparr>)"
begin

lemma keeps_setApp: "keeps R (setApp f)"
  unfolding setApp_def by (intro keeps_modifyA setting)

lemma keeps_refreshAccount: "keeps R (refreshAccount b hk n a t)"
  unfolding refreshAccount_def
  by (auto intro!: quiet_intros keeps_direct keeps_nowP keeps_setApp split: option.split)

lemma keeps_synchronizePublicState: "keeps R (synchronizePublicState b hk t)"
  unfolding synchronizePublicState_def
  by (auto intro!: quiet_intros keeps_routes keeps_setApp simp: is_tx_def split: option.split sum.split)

lemma keeps_refreshes:
  "keeps R (refreshAfterNonceAdvance b hk)" "keeps R (refreshProcessedBorrow b hk)"
  "keeps R (settled_view b hk)"
  unfolding refreshAfterNonceAdvance_def refreshProcessedBorrow_def settled_view_def refreshSettlementView_def
  by (auto intro!: quiet_intros keeps_refreshAccount keeps_setApp keeps_synchronizePublicState)

end

interpretation page_app: quiet_page same_app
  by unfold_locales (simp_all add: same_app_def)

interpretation page_asks: quiet_store asks_more
  by unfold_locales (simp_all add: asks_more_def)

interpretation page_sent: quiet_store nothing_sent
  by unfold_locales (simp_all add: nothing_sent_def sent_def)

section \<open>What comes to an end\<close>

text \<open>The clock advances, and digests have their length.\<close>

definition page_ok :: "browser \<Rightarrow> bool" where
  "page_ok b = (page_clock_ok b \<and> (\<forall>m. length (l_sha256 (b_lib b) m) = 32))"

lemma total_sealing [intro!]:
  assumes "page_ok b"
  shows "total (eciesEncrypt b m k)" "total (sealSignedAction b d s k)" "total (eciesDecrypt (b_lib b) c j)"
    "total (decryptPrivateResponse (b_lib b) f c j)"
proof -
  have keys: "\<exists>e k. derive_keys (b_lib b) sh = Some (e, k)" for sh
    using derive_keys_total [of "b_lib b"] assms by (simp add: page_ok_def)
  then have "total (liftO (derive_keys (b_lib b) sh))" for sh
    by (auto simp: total_def wp_simps)
  then show enc: "total (eciesEncrypt b m k)" for m k
    unfolding eciesEncrypt_def Let_def by (auto intro!: total_intros split: prod.split)
  have "total (liftO (derive_keys (b_lib b) sh))" for sh
    using keys by (auto simp: total_def wp_simps)
  then show dec: "total (eciesDecrypt (b_lib b) c j)"
    unfolding eciesDecrypt_def Let_def by (auto intro!: total_intros split: prod.split)
  show "total (sealSignedAction b d s k)"
    unfolding sealSignedAction_def by (intro total_intros enc)
  show "total (decryptPrivateResponse (b_lib b) f c j)"
    unfolding decryptPrivateResponse_def by (intro total_intros dec)
qed

lemma total_preparing [intro!, simp]:
  "total (protocolContext b)" "total (assertLiveFcc b m)" "total (createActionDraft b s n a j c v t)"
  "total (uuidP b)"
  unfolding protocolContext_def assertLiveFcc_def createActionDraft_def uuidP_def Let_def
  by (auto intro!: total_intros split: option.split)

lemma total_waiting:
  assumes "page_ok b"
  shows "total (waitForJob b i t ms)" "total (waitForChainJob b r t ms)"
  using assms waitForJob_ends waitForChainJob_ends by (simp_all add: total_def page_ok_def)

lemma total_actions:
  assumes "page_ok b"
  shows "total (prepare b a j n acc)" "total (direct b hk f d j m addr t)" "total (refreshAccount b hk m addr t)"
    "total (synchronizePublicState b hk t)"
proof -
  show prep: "total (prepare b a j n acc)" for a j n acc
    unfolding prepare_def by (auto intro!: total_intros assms split: option.split prod.split)
  show dir: "total (direct b hk f d j m addr t)" for f :: "string \<Rightarrow> js_error + 'z" and d j m addr t
    unfolding direct_def
    by (auto intro!: total_intros prep assms total_waiting split: option.split prod.split)
  show "total (refreshAccount b hk m addr t)"
    unfolding refreshAccount_def by (auto intro!: total_intros dir split: option.split)
  show "total (synchronizePublicState b hk t)"
    unfolding synchronizePublicState_def by (auto intro!: total_intros split: option.split sum.split)
qed

section \<open>What a refresh leaves\<close>

definition shows_view :: "browser \<Rightarrow> private_account_view \<Rightarrow> page \<Rightarrow> bool" where
  "shows_view b view q = (\<not> pendingSettlementRefresh (app q)
     \<and> accountNonce (app q) = pa_nonce (av_account view) \<and> mandates (app q) = av_mandates view
     \<and> privateFxrp (app q) = js_div (pb_available (pa_balances (av_account view) FXRP)) scale
     \<and> privateUsdt0 (app q) = js_div (pb_available (pa_balances (av_account view) USDT0)) scale
     \<and> position_of (app q) = map_option (\<lambda>loan.
         positionFromView (b_formats b) loan (pp_xrpUsdE6 (av_price view))) (av_loan view))"

lemma refreshAccount_leaves: "leaves (shows_view b) (refreshAccount b hk n a t)"
proof -
  have "leaves (\<lambda>_. shows_view b view) (setApp (hydratePrivateAccount (b_formats b) now view))" for now view
    by (simp add: leaves_def setApp_def modifyA_def shows_view_def hydratePrivateAccount_def Let_def)
  then show ?thesis
    unfolding refreshAccount_def
    by (auto intro!: leaves_bindA leaves_then_ret leaves_throw split: option.split)
qed

text \<open>The public state and the feed leave the account alone.\<close>

definition same_account :: "page \<Rightarrow> page \<Rightarrow> bool" where
  "same_account p q = (pendingSettlementRefresh (app q) = pendingSettlementRefresh (app p)
     \<and> accountNonce (app q) = accountNonce (app p) \<and> mandates (app q) = mandates (app p)
     \<and> privateFxrp (app q) = privateFxrp (app p) \<and> privateUsdt0 (app q) = privateUsdt0 (app p)
     \<and> position_of (app q) = position_of (app p))"

interpretation page_account: quiet_page same_account
  by unfold_locales (auto simp: same_account_def)

lemma shows_view_kept: "same_account p q \<Longrightarrow> shows_view b view p \<Longrightarrow> shows_view b view q"
  by (simp add: same_account_def shows_view_def)

lemma synchronize_keeps_account: "keeps same_account (synchronizePublicState b hk t)"
proof -
  have "keeps same_account (setApp (hydrateMarket m))" "keeps same_account (setApp (hydrateRelayerJobs f js))" for m f js
    by (simp_all add: keeps_def setApp_def modifyA_def same_account_def hydrateMarket_def hydrateRelayerJobs_def Let_def)
  then show ?thesis
    unfolding synchronizePublicState_def
    by (auto intro!: page_account.quiet_intros page_account.keeps_routes simp: is_tx_def split: option.split sum.split)
qed

text \<open>\<open>invalidateQueries\<close> never rejects: the cache keeps a failed refetch to itself.\<close>

definition cache_ok :: "browser \<Rightarrow> bool" where
  "cache_ok b = (\<forall>h. b_invalidate b h = Inr ())"

lemma synchronize_returns:
  assumes "cache_ok b"
  shows "\<exists>q. synchronizePublicState b hk t p = Some (Inr (), q) \<and> same_account p q \<and> nothing_sent p q"
proof -
  have inv: "wp (askPE (b_invalidate b) PInvalidate) (\<lambda>_ _. True) (\<lambda>_ _. False) s" for s
    using assms by (simp add: wp_askPE cache_ok_def)
  have last: "wp (thenA (case market of Inr m \<Rightarrow> setApp (hydrateMarket m) | Inl _ \<Rightarrow> ret ())
       (thenA (case jobs of Inr js \<Rightarrow> setApp (hydrateRelayerJobs (b_formats b) js) | Inl _ \<Rightarrow> ret ())
          (askPE (b_invalidate b) PInvalidate))) (\<lambda>_ _. True) (\<lambda>_ _. False) s" for market jobs s
    by (auto simp: wp_thenA wp_setApp wp_ret inv split: sum.split)
  have "wp (synchronizePublicState b hk t) (\<lambda>_ _. True) (\<lambda>_ _. False) p"
    unfolding synchronizePublicState_def wp_bindA wp_outcomeA by (intro wp_total last)
  moreover have "ends (synchronizePublicState b hk t) p"
    unfolding synchronizePublicState_def
    by (rule total_ends) (auto intro!: total_intros split: option.split sum.split)
  ultimately obtain q where q: "synchronizePublicState b hk t p = Some (Inr (), q)"
    by (auto simp: wp_def ends_def split: option.splits prod.splits sum.splits)
  then show ?thesis
    using keepsD [OF synchronize_keeps_account q] keepsD [OF page_sent.keeps_synchronizePublicState q] by blast
qed

text \<open>What a mutation answers once it was carried out: the view it shows, or none and the flag.\<close>

definition reported_view :: "browser \<Rightarrow> private_account_view option \<Rightarrow> page \<Rightarrow> bool" where
  "reported_view b v q = (case v of
      None \<Rightarrow> pendingSettlementRefresh (app q)
    | Some view \<Rightarrow> shows_view b view q)"

lemma reported_kept: "same_account p q \<Longrightarrow> reported_view b v p \<Longrightarrow> reported_view b v q"
  by (auto simp: reported_view_def same_account_def shows_view_def split: option.splits)

lemma refreshSettlementView_reports:
  assumes "total m" and "leaves (shows_view b) m" and "keeps nothing_sent m"
  shows "\<exists>v q. refreshSettlementView m (setApp markSettlementRefreshPending) p = Some (Inr v, q)
    \<and> reported_view b v q \<and> nothing_sent p q"
proof -
  obtain r q where run: "m p = Some (r, q)"
    using total_ends [OF assms(1)] by (rule endsE)
  have sent: "nothing_sent p q" by (rule keepsD [OF assms(3) run])
  show ?thesis
  proof (cases r)
    case (Inl e)
    then show ?thesis using run sent
      by (simp add: refreshSettlementView_def tryA_def bindA_def thenA_def ret_def setApp_def modifyA_def
          reported_view_def markSettlementRefreshPending_def nothing_sent_def sent_def)
  next
    case (Inr view)
    then have "shows_view b view q" using leavesD [OF assms(2)] run by blast
    then show ?thesis using run sent Inr
      by (simp add: refreshSettlementView_def tryA_def bindA_def ret_def reported_view_def)
  qed
qed

lemma settled_view_reports:
  assumes "page_ok b" and "cache_ok b"
  shows "\<exists>v q. settled_view b hk p = Some (Inr v, q) \<and> reported_view b v q \<and> nothing_sent p q"
proof -
  define p1 where "p1 = p\<lparr>app := incrementAccountNonce (app p)\<rparr>"
  let ?m = "bindA getApp (\<lambda>st. refreshAccount b hk (Some (accountNonce st)) None None)"
  have "total ?m" "leaves (shows_view b) ?m" "keeps nothing_sent ?m"
    by (auto intro!: total_intros total_actions assms leaves_bindA refreshAccount_leaves
        quiet_sent.quiet_intros page_sent.keeps_refreshAccount)
  from refreshSettlementView_reports [OF this, of p1] obtain v q1
    where v: "refreshSettlementView ?m (setApp markSettlementRefreshPending) p1 = Some (Inr v, q1)"
      "reported_view b v q1" "nothing_sent p1 q1" by blast
  obtain q where q: "synchronizePublicState b hk None q1 = Some (Inr (), q)" "same_account q1 q" "nothing_sent q1 q"
    using synchronize_returns [OF assms(2)] by blast
  have "settled_view b hk p = Some (Inr v, q)"
    using v(1) q(1) by (simp add: settled_view_def thenA_def bindA_def setApp_def modifyA_def ret_def p1_def)
  moreover have "nothing_sent p q"
    using v(3) q(3) by (simp add: p1_def nothing_sent_def sent_def)
  ultimately show ?thesis using reported_kept [OF q(2) v(2)] by blast
qed

text \<open>A throw of \<open>m\<close> that happened somewhere along the way.\<close>

definition thrown_by :: "('s, 'a) act \<Rightarrow> js_error \<Rightarrow> 's \<Rightarrow> bool" where
  "thrown_by m e q = (\<exists>p. m p = Some (Inl e, q))"

lemma mutation_wp:
  assumes "page_ok b" and "cache_ok b"
  shows "wp (bindA m (\<lambda>_. settled_view b hk)) (reported_view b) (thrown_by m) p"
proof (rule wpI)
  fix v q assume "bindA m (\<lambda>_. settled_view b hk) p = Some (Inr v, q)"
  then obtain x q1 where "settled_view b hk q1 = Some (Inr v, q)"
    by (auto simp: bindA_def split: option.splits prod.splits sum.splits)
  then show "reported_view b v q" using settled_view_reports [OF assms, of hk q1] by auto
next
  fix e q assume run: "bindA m (\<lambda>_. settled_view b hk) p = Some (Inl e, q)"
  show "thrown_by m e q"
  proof (cases "m p")
    case None
    then show ?thesis using run by (simp add: bindA_def)
  next
    case (Some a)
    obtain r q1 where a: "a = (r, q1)" by (cases a)
    show ?thesis
    proof (cases r)
      case (Inl e')
      then show ?thesis using run Some a by (auto simp: bindA_def thrown_by_def)
    next
      case (Inr x)
      then have "settled_view b hk q1 = Some (Inl e, q)" using run Some a by (simp add: bindA_def)
      then show ?thesis using settled_view_reports [OF assms, of hk q1] by auto
    qed
  qed
qed

section \<open>The queue\<close>

lemma settle_all_append: "settle_all (ts @ us) = thenA (settle_all ts) (settle_all us)"
  by (induction ts) (auto simp: thenA_def bindA_def ret_def outcomeA_def fun_eq_iff
      split: option.splits prod.splits sum.splits)

definition after_task :: "('s, unit) act \<Rightarrow> 's \<Rightarrow> 's" where
  "after_task t s = (case t s of Some (r, s') \<Rightarrow> s' | None \<Rightarrow> s)"

lemma settle_all_run:
  "(\<And>t. t \<in> set ts \<Longrightarrow> total t) \<Longrightarrow> settle_all ts s = Some (Inr (), fold after_task ts s)"
proof (induction ts arbitrary: s)
  case (Cons t ts)
  have "total t" by (rule Cons.prems) simp
  then obtain r s' where "t s = Some (r, s')" by (rule endsE [OF total_ends])
  then show ?case using Cons by (simp add: bindA_def outcomeA_def after_task_def)
qed (simp add: ret_def)

section \<open>Properties\<close>



definition outside_range :: js_error where
  "outside_range = JsError ''Amount is outside the supported private-account range''"

text \<open>
  C38. Amounts in base units are safe: \<open>toUnits\<close> answers with a positive integer of at most
  \<open>2 ^ 53 - 1\<close> that is within half a unit and the rounding of a double of the amount times a million,
  or refuses; and it gives every amount below \<open>2 ^ 50\<close> units back that the page shows divided by a
  million.
\<close>
theorem toUnits_bounds:
  "(case toUnits x of
      Inl e \<Rightarrow> e = outside_range
    | Inr u \<Rightarrow> u = of_int \<lfloor>u\<rfloor> \<and> 1 \<le> u \<and> u \<le> 9007199254740991
        \<and> \<bar>u - x * 1000000\<bar> \<le> 1 / 2 + x * 1000000 / 2 ^ 53)
   \<and> (if 0 < n \<and> n < 2 ^ 50 then toUnits (js_div (of_int n) 1000000) = Inr (of_int n) else True)"
proof (intro conjI)
  define u where "u = js_round (js_mul x 1000000)"
  show "case toUnits x of
      Inl e \<Rightarrow> e = outside_range
    | Inr u \<Rightarrow> u = of_int \<lfloor>u\<rfloor> \<and> 1 \<le> u \<and> u \<le> 9007199254740991
        \<and> \<bar>u - x * 1000000\<bar> \<le> 1 / 2 + x * 1000000 / 2 ^ 53"
  proof (cases "\<not> is_safe_integer u \<or> u \<le> 0")
    case True
    then show ?thesis by (simp add: toUnits_def Let_def u_def outside_range_def)
  next
    case False
    then have int: "u = of_int \<lfloor>u\<rfloor>" and top: "u \<le> 9007199254740991" and pos: "0 < u"
      by (auto simp: is_safe_integer_def is_integer_def max_safe_integer_def)
    have one: "1 \<le> u" using pos int by (metis of_int_1_le_iff of_int_0_less_iff int_one_le_iff_zero_less)
    have near: "\<bar>u - fl (x * 1000000)\<bar> \<le> 1 / 2"
      using js_round_bounds by (simp add: u_def js_mul_def)
    have half: "1 / 2 \<le> fl (x * 1000000)" using near one by (auto simp: abs_if split: if_splits)
    have "0 < x * 1000000" using fl_nonpos [of "x * 1000000"] half by (cases "x * 1000000 \<le> 0") auto
    moreover from this have "2 powi (-1022) \<le> x * 1000000"
      using fl_tiny [of "x * 1000000"] half by fastforce
    ultimately have "\<bar>fl (x * 1000000) - x * 1000000\<bar> \<le> x * 1000000 / 2 ^ 53" by (intro fl_error)
    then have "\<bar>u - x * 1000000\<bar> \<le> 1 / 2 + x * 1000000 / 2 ^ 53" using near by linarith
    then show ?thesis using False int one top by (simp add: toUnits_def Let_def u_def [symmetric])
  qed
  show "if 0 < n \<and> n < 2 ^ 50 then toUnits (js_div (of_int n) 1000000) = Inr (of_int n) else True"
  proof (cases "0 < n \<and> n < 2 ^ 50")
    case True
    then have "js_round (js_mul (js_div (of_int n) 1000000) 1000000) = of_int n"
      by (intro scale_roundtrip) simp_all
    moreover have "(of_int n :: rat) \<le> 9007199254740991"
    proof -
      have "n \<le> 9007199254740991" using True by simp
      then have "of_int n \<le> (of_int 9007199254740991 :: rat)" by (simp only: of_int_le_iff)
      then show ?thesis by simp
    qed
    ultimately show ?thesis using True
      by (simp add: toUnits_def is_safe_integer_def is_integer_def max_safe_integer_def)
  qed auto
qed


lemma sample_page_ok: "page_ok sample_browser" "cache_ok sample_browser"
  by (auto simp: page_ok_def cache_ok_def intro!: sample_page_clock_ok)
    (simp_all add: sample_browser_def sample_libraries_def)


end
