(* ===== verification/Seed_Lender.thy ===== *)
theory Seed_Lender
  imports Private_Actions "HOL-Library.Signed_Division"
begin

text \<open>
  The operator's script \<^verbatim>\<open>frontend/scripts/seed-lender.mjs\<close>: it supplies the lender account,
  and on request verifies a borrow or a repayment with a second wallet. It talks to the same relayer
  as the browser with its own client, which retries. Its surroundings are the ones of the browser;
  what it prints is not modelled. Its cryptography repeats \<^verbatim>\<open>frontend/src/lib/crypto.ts\<close> word
  for word but for the decryption, the padding's message and the key it looks up, which are below.
\<close>

section \<open>Settings\<close>

type_synonym variables = "string \<Rightarrow> string option"

definition trimmed :: "variables \<Rightarrow> string \<Rightarrow> string option" where
  "trimmed vars name = present (map_option (\<lambda>s. trim_end (trim_start s)) (vars name))"

definition required :: "variables \<Rightarrow> string \<Rightarrow> js_error + string" where
  "required vars name = (case trimmed vars name of
      None \<Rightarrow> Inl (JsError (name @ '' is required''))
    | Some v \<Rightarrow> Inr v)"

definition normalizePrivateKey :: "string \<Rightarrow> string" where
  "normalizePrivateKey value = (if prefix ''0x'' value then value else ''0x'' @ value)"

text \<open>\<open>process.env[name]?.trim() || fallback\<close>, read by \<open>BigInt\<close>.\<close>

definition bigint_variable :: "variables \<Rightarrow> string \<Rightarrow> string \<Rightarrow> js_error + int" where
  "bigint_variable vars name fallback = bigint_of_amount (AmountText
     (case trimmed vars name of Some v \<Rightarrow> v | None \<Rightarrow> fallback))"

text \<open>
  \<open>sd_blank\<close>: a response that is not JSON is read as an empty object; these are what its uses make
  of that as a value of the type expected.
\<close>

record blanks =
  bl_config :: live_config
  bl_info :: fcc_info
  bl_challenge :: challenge_view
  bl_token :: token_view
  bl_job :: relayer_job
  bl_jobs :: "relayer_job list"

record seed =
  sd_browser :: browser
  sd_blank :: blanks
  sd_vars :: variables
  sd_url :: string
  sd_fee :: int
  sd_operator :: address
  sd_borrowerKey :: "string option"
  sd_executeBorrow :: bool
  sd_executeClose :: bool
  sd_resetMandate :: bool
  sd_expectPartial :: bool
  sd_expectMultiLender :: bool

definition seed_settings ::
    "browser \<Rightarrow> blanks \<Rightarrow> variables \<Rightarrow> string list \<Rightarrow> (page, seed) act" where
  "seed_settings b blank vars argv =
     bindA (liftA (required vars ''RELAYER_URL'')) (\<lambda>url.
     bindA (liftA (bigint_variable vars ''FCC_INSTRUCTION_FEE_WEI'' ''1000000000000'')) (\<lambda>fee.
     bindA (liftA (required vars ''DEPLOYER_PRIVATE_KEY'')) (\<lambda>key.
     bindA (liftA (l_keyAddress (b_lib b) (normalizePrivateKey key))) (\<lambda>operator.
       ret \<lparr>sd_browser = b, sd_blank = blank, sd_vars = vars, sd_url = strip_slashes url, sd_fee = fee,
         sd_operator = operator, sd_borrowerKey = trimmed vars ''TEST_WALLET'',
         sd_executeBorrow = (''--borrow'' \<in> set argv), sd_executeClose = (''--close'' \<in> set argv),
         sd_resetMandate = (''--reset-mandate'' \<in> set argv),
         sd_expectPartial = (''--expect-partial'' \<in> set argv),
         sd_expectMultiLender = (''--expect-multi-lender'' \<in> set argv)\<rparr>))))"

section \<open>The client\<close>

definition seed_headers :: "seed \<Rightarrow> (string \<times> string) list" where
  "seed_headers s = (if text_includes (sd_url s) ''.ngrok-free.dev''
     then [(''ngrok-skip-browser-warning'', ''quietline'')] else [])"

definition seed_request :: "seed \<Rightarrow> string \<Rightarrow> string option \<Rightarrow> string option \<Rightarrow> string option \<Rightarrow> fetch_request" where
  "seed_request s path meth body token = \<lparr>fq_url = sd_url s @ path, fq_method = meth,
     fq_headers = [(''content-type'', ''application/json'')] @ seed_headers s
       @ (case present token of Some t \<Rightarrow> [(''authorization'', ''Bearer '' @ t)] | None \<Rightarrow> []),
     fq_body = body\<rparr>"

definition retry_statuses :: "int list" where
  "retry_statuses = [429, 502, 503, 504]"

text \<open>
  One turn of the loop: the body, or the error that lets the loop go on. A throw inside the \<open>try\<close>,
  also the one for a refused status, lands in its \<open>catch\<close>.
\<close>

definition api_attempt ::
    "(page_call list \<Rightarrow> js_error + 'b fetched) \<Rightarrow> 'b \<Rightarrow> fetch_request \<Rightarrow> bool \<Rightarrow> nat \<Rightarrow> nat
      \<Rightarrow> (page, js_error + 'b) act" where
  "api_attempt answer blank fetch retryable attempt attempts =
     tryA
       (bindA (askPE answer (PFetch fetch)) (\<lambda>response.
          let body = (case ft_json response of Inr x \<Rightarrow> x | Inl _ \<Rightarrow> blank) in
          if 200 \<le> ft_status response \<and> ft_status response \<le> 299 then ret (Inr body)
          else
            let error = JsError (case present (ft_message response) of
                Some m \<Rightarrow> m | None \<Rightarrow> ''Quietline API returned '' @ show_int (ft_status response))
            in if ft_status response \<notin> set retry_statuses \<or> attempt = attempts then throw error
               else ret (Inl error)))
       (\<lambda>error. if \<not> retryable \<or> attempt = attempts then throw error else ret (Inl error))"

text \<open>\<open>remaining\<close> is the number of attempts left after this one; \<open>attempts\<close> is at least 1.\<close>

fun api_loop ::
    "nat \<Rightarrow> (page_call list \<Rightarrow> js_error + 'b fetched) \<Rightarrow> 'b \<Rightarrow> fetch_request \<Rightarrow> bool \<Rightarrow> nat \<Rightarrow> nat
      \<Rightarrow> (page, 'b) act" where
  "api_loop remaining answer blank fetch retryable attempt attempts =
     bindA (api_attempt answer blank fetch retryable attempt attempts) (\<lambda>r. case r of
         Inr body \<Rightarrow> ret body
       | Inl lastError \<Rightarrow> thenA (waitP (500 * attempt)) (case remaining of
             0 \<Rightarrow> throw lastError
           | Suc k \<Rightarrow> api_loop k answer blank fetch retryable (attempt + 1) attempts))"

definition api ::
    "seed \<Rightarrow> (page_call list \<Rightarrow> js_error + 'b fetched) \<Rightarrow> 'b \<Rightarrow> string \<Rightarrow> string option \<Rightarrow> string option
      \<Rightarrow> string option \<Rightarrow> (page, 'b) act" where
  "api s answer blank path meth body token =
     (let retryable = (meth = None \<or> meth = Some ''GET'' \<or> prefix ''/auth/'' path);
          attempts = (if retryable then 4 else 1)
      in api_loop (attempts - 1) answer blank (seed_request s path meth body token) retryable 1 attempts)"

partial_function (option) seed_wait_loop ::
    "seed \<Rightarrow> string \<Rightarrow> string \<Rightarrow> int \<Rightarrow> int \<Rightarrow> page \<Rightarrow> ((js_error + relayer_job) \<times> page) option" where
  "seed_wait_loop s i token timeoutMs started p = bindA (nowP (sd_browser s)) (\<lambda>now p1.
     if now - started < timeoutMs then
       bindA (api s (b_job (sd_browser s)) (bl_job (sd_blank s)) (''/jobs/'' @ i) None None (Some token)) (\<lambda>job p2.
         if rj_status job = Confirmed then ret job p2
         else if rj_status job = Failed then
           throw (JsError (case present (rj_error job) of Some e \<Rightarrow> e | None \<Rightarrow> ''FCC action failed'')) p2
         else bindA (waitP 750) (\<lambda>_ p3. seed_wait_loop s i token timeoutMs started p3) p2) p1
     else throw (JsError (''Timed out waiting for FCC job '' @ i)) p1) p"

definition seed_waitForJob :: "seed \<Rightarrow> string \<Rightarrow> string \<Rightarrow> int \<Rightarrow> (page, relayer_job) act" where
  "seed_waitForJob s i token timeoutMs =
     bindA (nowP (sd_browser s)) (\<lambda>started. seed_wait_loop s i token timeoutMs started)"

partial_function (option) seed_chain_loop ::
    "seed \<Rightarrow> hex \<Rightarrow> string \<Rightarrow> int \<Rightarrow> int \<Rightarrow> page \<Rightarrow> ((js_error + relayer_job) \<times> page) option" where
  "seed_chain_loop s requestId token timeoutMs started p = bindA (nowP (sd_browser s)) (\<lambda>now p1.
     if now - started < timeoutMs then
       bindA (api s (b_jobs (sd_browser s)) (bl_jobs (sd_blank s)) ''/jobs'' None None (Some token)) (\<lambda>jobs p2.
         case find (\<lambda>candidate. rj_externalKey candidate = Some (chain_key requestId)) jobs of
           Some job \<Rightarrow> bindA (nowP (sd_browser s)) (\<lambda>later.
             seed_waitForJob s (rj_id job) token (timeoutMs - (later - started))) p2
         | None \<Rightarrow> bindA (waitP 1000) (\<lambda>_ p3. seed_chain_loop s requestId token timeoutMs started p3) p2) p1
     else throw (JsError (''Timed out waiting for chain request '' @ requestId)) p1) p"

definition seed_waitForChainJob :: "seed \<Rightarrow> hex \<Rightarrow> string \<Rightarrow> (page, relayer_job) act" where
  "seed_waitForChainJob s requestId token =
     bindA (nowP (sd_browser s)) (\<lambda>started. seed_chain_loop s requestId token 120000 started)"

text \<open>The first log that decodes as the event and has a request id, of whichever contract.\<close>

fun event_request_id :: "libraries \<Rightarrow> event_log list \<Rightarrow> string \<Rightarrow> hex option" where
  "event_request_id lib [] eventName = None"
| "event_request_id lib (l # logs) eventName = (case l_decodeLog lib l of
      Inl _ \<Rightarrow> event_request_id lib logs eventName
    | Inr event \<Rightarrow>
        (case present (de_requestId event) of
           Some i \<Rightarrow> if de_name event = eventName then Some i else event_request_id lib logs eventName
         | None \<Rightarrow> event_request_id lib logs eventName))"

definition eventRequestId :: "libraries \<Rightarrow> receipt \<Rightarrow> string \<Rightarrow> js_error + hex" where
  "eventRequestId lib r eventName = (case event_request_id lib (rc_logs r) eventName of
      Some i \<Rightarrow> Inr i
    | None \<Rightarrow> Inl (JsError (eventName @ '' receipt did not contain a QuietVault request id'')))"

section \<open>Cryptography\<close>

definition seed_padJson :: "string \<Rightarrow> js_error + bytes" where
  "seed_padJson value =
     (let bytes = encode_text value in
      case find (\<lambda>size. length bytes \<le> size) [512, 1024, 2048, 4096] of
        None \<Rightarrow> Inl (JsError ''Encrypted request exceeds the FCC privacy bucket'')
      | Some bucket \<Rightarrow> Inr (set_at 0 bytes (replicate bucket 32)))"

text \<open>\<open>bytes.slice(65, -32)\<close> and \<open>bytes.slice(-32)\<close>, with no check of the length;
  the platform refuses a counter block that is not 16 bytes long.\<close>

definition seed_eciesDecrypt :: "libraries \<Rightarrow> hex \<Rightarrow> bytes \<Rightarrow> ('s, bytes) act" where
  "seed_eciesDecrypt lib ciphertext privateKey =
     bindA (liftA (l_ofHex lib ciphertext)) (\<lambda>bytes.
       let ephemeralPublic = take 65 bytes;
           encryptedMessage = take (length bytes - 32 - 65) (drop 65 bytes);
           receivedTag = drop (length bytes - 32) bytes
       in bindA (liftA (l_sharedSecret lib privateKey ephemeralPublic)) (\<lambda>shared.
          bindA (liftO (derive_keys lib shared)) (\<lambda>(encryptionKey, macKey).
            if \<not> constantTimeEqual receivedTag (l_hmac lib macKey encryptedMessage)
            then throw (JsError ''FCC response authentication failed'')
            else if length (take 16 encryptedMessage) \<noteq> 16 then throw (JsError ''OperationError'')
            else ret (l_decrypt lib encryptionKey (take 16 encryptedMessage) (drop 16 encryptedMessage)))))"

definition seed_decryptPrivateResponse ::
    "libraries \<Rightarrow> (string \<Rightarrow> js_error + 'a) \<Rightarrow> hex \<Rightarrow> bytes \<Rightarrow> ('s, 'a) act" where
  "seed_decryptPrivateResponse lib parse ciphertext key =
     bindA (seed_eciesDecrypt lib ciphertext key) (\<lambda>plaintext.
       liftA (parse (trim_end (decode_text plaintext))))"

definition seed_sealSignedAction :: "browser \<Rightarrow> action_draft \<Rightarrow> hex \<Rightarrow> hex \<Rightarrow> (page, hex) act" where
  "seed_sealSignedAction b draft signature teePublicKey =
     bindA (liftA (seed_padJson (stringify (sealed_json draft signature)))) (\<lambda>padded.
       eciesEncrypt b padded teePublicKey)"

section \<open>Accounts\<close>

definition seed_direct ::
    "seed \<Rightarrow> live_config \<Rightarrow> hex \<Rightarrow> (string \<Rightarrow> js_error + 'a) \<Rightarrow> address \<Rightarrow> string \<Rightarrow> string \<Rightarrow> json
      \<Rightarrow> number \<Rightarrow> string \<Rightarrow> string option \<Rightarrow> (page, 'a option) act" where
  "seed_direct s protocol teeKey parse account token action load nonce route command =
     (let b = sd_browser s in
      bindA (createActionDraft b account nonce action load (of_int (net_id (lc_network protocol)))
               (lc_vault protocol) None) (\<lambda>draft.
      bindA (askPE (b_sign b) (PSign (ad_typedData draft))) (\<lambda>signature.
      bindA (seed_sealSignedAction b draft signature teeKey) (\<lambda>ciphertext.
      bindA (api s (b_job b) (bl_job (sd_blank s)) (''/direct/'' @ route) (Some ''POST'')
               (Some (stringify (JObject ([(''account'', JText account), (''ciphertext'', JText ciphertext)]
                  @ (case present command of Some c \<Rightarrow> [(''command'', JText c)] | None \<Rightarrow> [])))))
               (Some token)) (\<lambda>job.
      bindA (seed_waitForJob s (rj_id job) token 90000) (\<lambda>completed.
        case present (Option.bind (rj_response completed) jr_ciphertext) of
          None \<Rightarrow> ret None
        | Some c \<Rightarrow> bindA (seed_decryptPrivateResponse (b_lib b) parse c (ad_responsePrivateKey draft))
            (\<lambda>x. ret (Some x))))))))"

definition directAccount ::
    "seed \<Rightarrow> live_config \<Rightarrow> hex \<Rightarrow> address \<Rightarrow> string \<Rightarrow> number \<Rightarrow> (page, private_account_view option) act" where
  "directAccount s protocol teeKey account token nonce =
     seed_direct s protocol teeKey (l_parseView (b_lib (sd_browser s))) account token ''ACCOUNT_QUERY''
       (JObject []) nonce ''account'' None"

definition accountOrCreate ::
    "seed \<Rightarrow> live_config \<Rightarrow> hex \<Rightarrow> address \<Rightarrow> string \<Rightarrow> (page, private_account_view option) act" where
  "accountOrCreate s protocol teeKey account token =
     tryA (directAccount s protocol teeKey account token 0) (\<lambda>error.
       if \<not> text_includes (error_message error) ''private account does not exist'' then throw error
       else bindA (uuidP (sd_browser s)) (\<lambda>uuid.
         bindA (seed_direct s protocol teeKey (l_parseVoid (b_lib (sd_browser s))) account token ''OPEN_ACCOUNT''
                  (JObject [(''operationId'', JText uuid)]) 0 ''open-account'' None) (\<lambda>_.
           directAccount s protocol teeKey account token 1)))"

definition authenticate :: "seed \<Rightarrow> address \<Rightarrow> (page, token_view) act" where
  "authenticate s account =
     (let b = sd_browser s in
      bindA (api s (b_challenge b) (bl_challenge (sd_blank s)) ''/auth/challenge'' (Some ''POST'')
               (Some (stringify (JObject [(''address'', JText account)]))) None) (\<lambda>challenge.
      bindA (liftA (bigint_of_number (cv_issuedAt challenge))) (\<lambda>_.
      bindA (liftA (bigint_of_number (cv_expiresAt challenge))) (\<lambda>_.
      bindA (askPE (b_sign b) (PSignChallenge (cv_typedData challenge))) (\<lambda>signature.
        api s (b_token b) (bl_token (sd_blank s)) ''/auth/verify'' (Some ''POST'')
          (Some (stringify (JObject [(''address'', JText account), (''nonce'', JText (cv_nonce challenge)),
             (''issuedAt'', JNumber (cv_issuedAt challenge)), (''expiresAt'', JNumber (cv_expiresAt challenge)),
             (''signature'', JText signature)]))) None)))))"

section \<open>The attempts of a request\<close>

text \<open>What one answer is worth: the body of a good one, the error of any other.\<close>

definition answer_value :: "'b \<Rightarrow> js_error + 'b fetched \<Rightarrow> js_error + 'b" where
  "answer_value blank answer = (case answer of
      Inl e \<Rightarrow> Inl e
    | Inr response \<Rightarrow>
        if 200 \<le> ft_status response \<and> ft_status response \<le> 299
        then Inr (case ft_json response of Inr x \<Rightarrow> x | Inl _ \<Rightarrow> blank)
        else Inl (JsError (case present (ft_message response) of
            Some m \<Rightarrow> m | None \<Rightarrow> ''Quietline API returned '' @ show_int (ft_status response))))"

text \<open>The history after the attempts numbered from 0 to \<open>n\<close>, each a fetch, with a longer wait between them.\<close>

fun tried :: "fetch_request \<Rightarrow> nat \<Rightarrow> nat \<Rightarrow> page_call list \<Rightarrow> page_call list" where
  "tried fetch a 0 h = PFetch fetch # h"
| "tried fetch a (Suc n) h = tried fetch (a + 1) n (PWait (500 * a) # PFetch fetch # h)"

lemma api_attempt_value:
  "retryable \<or> attempt = attempts \<Longrightarrow> api_attempt answer blank fetch retryable attempt attempts p =
     (let h = PFetch fetch # asked p in
      Some (case answer_value blank (answer h) of
          Inr x \<Rightarrow> Inr (Inr x)
        | Inl e \<Rightarrow> if \<not> retryable \<or> attempt = attempts then Inl e else Inr (Inl e),
        p\<lparr>asked := h\<rparr>))"
  by (auto simp: api_attempt_def answer_value_def askPE_def askP_def act_defs Let_def split: sum.split)

lemma api_loop_value:
  assumes "retryable \<or> remaining = 0" and "attempts = attempt + remaining"
  shows "\<exists>n. n \<le> remaining
    \<and> api_loop remaining answer blank fetch retryable attempt attempts p
        = Some (answer_value blank (answer (tried fetch attempt n (asked p))), p\<lparr>asked := tried fetch attempt n (asked p)\<rparr>)
    \<and> (\<forall>k < n. \<exists>e. answer_value blank (answer (tried fetch attempt k (asked p))) = Inl e)
    \<and> (n = remaining \<or> (\<exists>x. answer_value blank (answer (tried fetch attempt n (asked p))) = Inr x))"
  using assms
proof (induction remaining arbitrary: attempt p)
  case 0
  then have "attempt = attempts" by simp
  then show ?case by (simp add: bindA_def api_attempt_value ret_def Let_def split: sum.split)
next
  case (Suc k)
  let ?v = "answer_value blank (answer (PFetch fetch # asked p))"
  show ?case
  proof (cases ?v)
    case (Inr x)
    then show ?thesis using Suc.prems
      by (intro exI [of _ 0]) (simp add: bindA_def api_attempt_value ret_def Let_def)
  next
    case (Inl e)
    let ?p = "p\<lparr>asked := PWait (500 * attempt) # PFetch fetch # asked p\<rparr>"
    have step: "api_loop (Suc k) answer blank fetch retryable attempt attempts p
        = api_loop k answer blank fetch retryable (attempt + 1) attempts ?p"
      using Suc.prems Inl
      by (subst api_loop.simps) (simp del: api_loop.simps add: bindA_def api_attempt_value thenA_def waitP_def askP_def Let_def)
    obtain n where n: "n \<le> k"
      "api_loop k answer blank fetch retryable (attempt + 1) attempts ?p
        = Some (answer_value blank (answer (tried fetch (attempt + 1) n (asked ?p))), ?p\<lparr>asked := tried fetch (attempt + 1) n (asked ?p)\<rparr>)"
      "\<forall>j < n. \<exists>e. answer_value blank (answer (tried fetch (attempt + 1) j (asked ?p))) = Inl e"
      "n = k \<or> (\<exists>x. answer_value blank (answer (tried fetch (attempt + 1) n (asked ?p))) = Inr x)"
      using Suc.IH [of "attempt + 1" ?p] Suc.prems by auto
    have "\<exists>e. answer_value blank (answer (tried fetch attempt j (asked p))) = Inl e" if "j < Suc n" for j
      using that n(3) Inl by (cases j) auto
    then show ?thesis
      unfolding step using n by (intro exI [of _ "Suc n"]) auto
  qed
qed

section \<open>What the script leaves alone\<close>

context quiet_page
begin

lemma keeps_api: "keeps R (api s answer blank path meth body token)"
proof -
  have attempt: "keeps R (api_attempt answer blank fetch retryable attempt attempts)" for fetch retryable attempt attempts
    unfolding api_attempt_def Let_def by (auto intro!: quiet_intros simp: is_tx_def)
  have "keeps R (api_loop n answer blank fetch retryable attempt attempts)" for n fetch retryable attempt attempts
    by (induction n arbitrary: attempt)
      (subst api_loop.simps, rule keeps_bindA [OF attempt], auto intro!: quiet_intros keeps_waitP
        simp del: api_loop.simps split: sum.split)+
  then show ?thesis unfolding api_def Let_def .
qed

lemma seed_wait_loop_rule:
  assumes run: "seed_wait_loop s i token timeoutMs started p = Some q"
  shows "R p (snd q)"
proof (rule seed_wait_loop.raw_induct [where P = "\<lambda>s i token timeoutMs started p q. R p (snd q)", OF _ run], goal_cases)
  case IH: (1 loop s i token timeoutMs started p q)
  define again where "again = loop s i token timeoutMs started"
  have keep: "keeps R again"
    using IH(1) by (fastforce simp: again_def keeps_def)
  have "keeps R (bindA (nowP (sd_browser s)) (\<lambda>now. if now - started < timeoutMs then
       bindA (api s (b_job (sd_browser s)) (bl_job (sd_blank s)) (''/jobs/'' @ i) None None (Some token)) (\<lambda>job.
         if rj_status job = Confirmed then ret job
         else if rj_status job = Failed then
           throw (JsError (case present (rj_error job) of Some e \<Rightarrow> e | None \<Rightarrow> ''FCC action failed''))
         else bindA (waitP 750) (\<lambda>_. again))
     else throw (JsError (''Timed out waiting for FCC job '' @ i))))" (is "keeps R ?m")
    by (auto intro!: keeps_intros keeps_nowP keeps_api keeps_waitP keep)
  moreover have "?m p = Some q"
    using IH(2) unfolding again_def [symmetric] by (simp only: body_simps)
  ultimately show ?case by (cases q) (auto dest: keepsD)
qed

lemma keeps_seed_waitForJob: "keeps R (seed_waitForJob s i token timeoutMs)"
  unfolding seed_waitForJob_def
  by (intro keeps_bindA keeps_nowP keepsI) (auto dest: seed_wait_loop_rule)

lemma seed_chain_loop_rule:
  assumes run: "seed_chain_loop s i token timeoutMs started p = Some q"
  shows "R p (snd q)"
proof (rule seed_chain_loop.raw_induct [where P = "\<lambda>s i token timeoutMs started p q. R p (snd q)", OF _ run], goal_cases)
  case IH: (1 loop s i token timeoutMs started p q)
  define again where "again = loop s i token timeoutMs started"
  have keep: "keeps R again"
    using IH(1) by (fastforce simp: again_def keeps_def)
  have "keeps R (bindA (nowP (sd_browser s)) (\<lambda>now. if now - started < timeoutMs then
       bindA (api s (b_jobs (sd_browser s)) (bl_jobs (sd_blank s)) ''/jobs'' None None (Some token)) (\<lambda>jobs.
         case find (\<lambda>candidate. rj_externalKey candidate = Some (chain_key i)) jobs of
           Some job \<Rightarrow> bindA (nowP (sd_browser s)) (\<lambda>later.
             seed_waitForJob s (rj_id job) token (timeoutMs - (later - started)))
         | None \<Rightarrow> bindA (waitP 1000) (\<lambda>_. again))
     else throw (JsError (''Timed out waiting for chain request '' @ i))))" (is "keeps R ?m")
    by (auto intro!: keeps_intros keeps_nowP keeps_api keeps_waitP keep keeps_seed_waitForJob
        split: option.split)
  moreover have "?m p = Some q"
    using IH(2) unfolding again_def [symmetric] by (simp only: body_simps)
  ultimately show ?case by (cases q) (auto dest: keepsD)
qed

lemma keeps_seed_waitForChainJob: "keeps R (seed_waitForChainJob s i token)"
  unfolding seed_waitForChainJob_def
  by (intro keeps_bindA keeps_nowP keepsI) (auto dest: seed_chain_loop_rule)

lemma keeps_seed_sealing:
  "keeps R (seed_sealSignedAction b d g k)" "keeps R (seed_decryptPrivateResponse l f c pk)"
proof -
  have dec: "keeps R (seed_eciesDecrypt l c pk)"
    unfolding seed_eciesDecrypt_def Let_def by (auto intro!: quiet_intros split: prod.split)
  show "keeps R (seed_sealSignedAction b d g k)"
    unfolding seed_sealSignedAction_def by (intro quiet_intros keeps_sealing)
  show "keeps R (seed_decryptPrivateResponse l f c pk)"
    unfolding seed_decryptPrivateResponse_def by (intro quiet_intros dec)
qed

lemma keeps_seed_direct: "keeps R (seed_direct s cfg k f acc t a j n r c)"
  unfolding seed_direct_def Let_def
  by (auto intro!: quiet_intros keeps_sealing keeps_seed_sealing keeps_api keeps_seed_waitForJob
      simp: is_tx_def split: option.split)

lemma keeps_accounts:
  "keeps R (directAccount s cfg k acc t n)" "keeps R (accountOrCreate s cfg k acc t)" "keeps R (authenticate s acc)"
  unfolding directAccount_def accountOrCreate_def authenticate_def Let_def
  by (auto intro!: quiet_intros keeps_seed_direct keeps_sealing keeps_api simp: is_tx_def)

end

section \<open>What comes to an end\<close>

lemma total_api [intro!, simp]: "total (api s answer blank path meth body token)"
proof -
  let ?retryable = "meth = None \<or> meth = Some ''GET'' \<or> prefix ''/auth/'' path"
  have "api s answer blank path meth body token p \<noteq> None" for p
    using api_loop_value [where retryable = ?retryable and remaining = "if ?retryable then 3 else 0"
        and attempt = 1 and attempts = "if ?retryable then 4 else 1" and p = p and answer = answer
        and blank = blank and fetch = "seed_request s path meth body token"]
    by (auto simp: api_def Let_def simp del: api_loop.simps split: if_splits)
  then show ?thesis by (simp add: total_def ends_def)
qed

lemma seed_wait_loop_ends:
  assumes "page_clock_ok (sd_browser s)"
  shows "ends (seed_wait_loop s i token timeoutMs started) p"
proof (rule polling_ends [OF assms, where d = 750
      and m = "api s (b_job (sd_browser s)) (bl_job (sd_blank s)) (''/jobs/'' @ i) None None (Some token)"
      and stop = "\<lambda>job. rj_status job = Confirmed \<or> rj_status job = Failed"
      and k = "\<lambda>job. if rj_status job = Confirmed then ret job
         else throw (JsError (case present (rj_error job) of Some e \<Rightarrow> e | None \<Rightarrow> ''FCC action failed''))"])
  show "seed_wait_loop s i token timeoutMs started p = bindA (nowP (sd_browser s)) (\<lambda>now. if now - started < timeoutMs
     then bindA (api s (b_job (sd_browser s)) (bl_job (sd_blank s)) (''/jobs/'' @ i) None None (Some token)) (\<lambda>job.
       if rj_status job = Confirmed \<or> rj_status job = Failed
       then if rj_status job = Confirmed then ret job
         else throw (JsError (case present (rj_error job) of Some e \<Rightarrow> e | None \<Rightarrow> ''FCC action failed''))
       else bindA (waitP 750) (\<lambda>_. seed_wait_loop s i token timeoutMs started))
     else throw (JsError (''Timed out waiting for FCC job '' @ i))) p" for p
    by (subst seed_wait_loop.simps) (auto simp: bindA_def split: option.split prod.split sum.split)
qed (auto intro!: total_basic page_asks.keeps_api)

lemma seed_waitForJob_ends: "page_clock_ok (sd_browser s) \<Longrightarrow> ends (seed_waitForJob s i token timeoutMs) p"
  unfolding seed_waitForJob_def ends_bindA by (auto simp: total_ends intro!: wp_total seed_wait_loop_ends)

lemma seed_chain_loop_ends:
  assumes "page_clock_ok (sd_browser s)"
  shows "ends (seed_chain_loop s i token timeoutMs started) p"
proof -
  let ?find = "find (\<lambda>candidate. rj_externalKey candidate = Some (chain_key i))"
  let ?k = "\<lambda>jobs. bindA (nowP (sd_browser s)) (\<lambda>later.
    seed_waitForJob s (rj_id (the (?find jobs))) token (timeoutMs - (later - started)))"
  let ?m = "api s (b_jobs (sd_browser s)) (bl_jobs (sd_blank s)) ''/jobs'' None None (Some token)"
  have k: "total (?k jobs)" for jobs
    using seed_waitForJob_ends [OF assms] by (intro total_bindA total_routes) (simp add: total_def)
  show ?thesis
  proof (rule polling_ends [OF assms, where d = 1000 and m = ?m
        and stop = "\<lambda>jobs. ?find jobs \<noteq> None" and k = ?k])
    show "seed_chain_loop s i token timeoutMs started p = bindA (nowP (sd_browser s)) (\<lambda>now.
       if now - started < timeoutMs
       then bindA ?m (\<lambda>jobs. if ?find jobs \<noteq> None then ?k jobs
         else bindA (waitP 1000) (\<lambda>_. seed_chain_loop s i token timeoutMs started))
       else throw (JsError (''Timed out waiting for chain request '' @ i))) p" for p
      by (subst seed_chain_loop.simps) (auto simp: bindA_def split: option.split prod.split sum.split)
  qed (auto intro!: k page_asks.keeps_api)
qed

lemma total_seed_waits:
  assumes "page_clock_ok (sd_browser s)"
  shows "total (seed_waitForJob s i token timeoutMs)" "total (seed_waitForChainJob s i token)"
  unfolding total_def
  using seed_waitForJob_ends [OF assms] seed_chain_loop_ends [OF assms]
  by (auto simp: seed_waitForChainJob_def ends_bindA total_ends intro!: wp_total)

lemma total_seed_sealing:
  assumes "page_ok b"
  shows "total (seed_sealSignedAction b d g k)" "total (seed_decryptPrivateResponse (b_lib b) f c pk)"
proof -
  have "total (liftO (derive_keys (b_lib b) sh))" for sh
    using derive_keys_total [of "b_lib b" sh] assms by (auto simp: page_ok_def total_def wp_simps)
  then have dec: "total (seed_eciesDecrypt (b_lib b) c pk)"
    unfolding seed_eciesDecrypt_def Let_def by (auto intro!: total_intros split: prod.split)
  show "total (seed_sealSignedAction b d g k)"
    unfolding seed_sealSignedAction_def by (intro total_intros total_sealing assms)
  show "total (seed_decryptPrivateResponse (b_lib b) f c pk)"
    unfolding seed_decryptPrivateResponse_def by (intro total_intros dec)
qed

lemma total_seed_direct:
  assumes "page_ok (sd_browser s)"
  shows "total (seed_direct s cfg k f acc t a j n r c)"
  using assms unfolding seed_direct_def Let_def
  by (auto intro!: total_intros total_seed_sealing total_seed_waits simp: page_ok_def split: option.split)

lemma total_accounts:
  assumes "page_ok (sd_browser s)"
  shows "total (directAccount s cfg k acc t n)" "total (accountOrCreate s cfg k acc t)" "total (authenticate s acc)"
  using assms unfolding directAccount_def accountOrCreate_def authenticate_def Let_def
  by (auto intro!: total_intros total_seed_direct)

section \<open>Properties\<close>

text \<open>
  A request of the script always comes to an end. A request that moves something (a POST outside
  \<^verbatim>\<open>/auth/\<close>) is fetched exactly once. Any other is fetched again, after waits of half a second and
  more, until an answer is good, and at most four times: the result is the first good answer or else
  the error of the fourth, every earlier answer was an error, and nothing else happens in between.
\<close>
lemma api_attempts:
  "\<exists>n. let attempts = (if meth = None \<or> meth = Some ''GET'' \<or> prefix ''/auth/'' path then 4 else 1);
        h = \<lambda>k. tried (seed_request s path meth body token) 1 k (asked p);
        value = \<lambda>k. answer_value blank (answer (h k))
    in n < attempts
       \<and> api s answer blank path meth body token p = Some (value n, p\<lparr>asked := h n\<rparr>)
       \<and> list_all (\<lambda>k. \<exists>e. value k = Inl e) [0..<n]
       \<and> (n + 1 = attempts \<or> (\<exists>x. value n = Inr x))"
proof -
  define retryable where "retryable = (meth = None \<or> meth = Some ''GET'' \<or> prefix ''/auth/'' path)"
  let ?attempts = "if retryable then 4 else (1::nat)"
  have "retryable \<or> ?attempts - 1 = 0" "?attempts = 1 + (?attempts - 1)" by simp_all
  from api_loop_value [OF this, of answer blank "seed_request s path meth body token" p]
  obtain n where n: "n \<le> ?attempts - 1" and rest:
    "api_loop (?attempts - 1) answer blank (seed_request s path meth body token) retryable 1 ?attempts p
      = Some (answer_value blank (answer (tried (seed_request s path meth body token) 1 n (asked p))),
          p\<lparr>asked := tried (seed_request s path meth body token) 1 n (asked p)\<rparr>)"
    "\<forall>k < n. \<exists>e. answer_value blank (answer (tried (seed_request s path meth body token) 1 k (asked p))) = Inl e"
    "n = ?attempts - 1 \<or> (\<exists>x. answer_value blank (answer (tried (seed_request s path meth body token) 1 n (asked p))) = Inr x)"
    by blast
  have "n < ?attempts" "(n = ?attempts - 1) = (n + 1 = ?attempts)" using n by auto
  then show ?thesis
    using rest unfolding api_def Let_def retryable_def [symmetric]
    by (intro exI [of _ n]) (simp add: list_all_iff)
qed

end
