(* ===== verification/Vault_Actions.thy ===== *)
theory Vault_Actions
  imports Private_Actions
begin

text \<open>
  The browser's vault actions, \<open>useVaultActions\<close> of
  \<^verbatim>\<open>frontend/src/hooks/usePrivateActions.ts\<close>: deposit, accepting a borrow, and withdrawal. Each
  sends a transaction from the wallet, waits for its receipt and for the relayer's job, and then
  reconciles the page.
\<close>

section \<open>Common steps\<close>

text \<open>
  \<open>hk_account\<close> is the wallet's account, present when the wallet client, the public client and the
  account are. A fee setting that is no integer keeps the module from loading.
\<close>

definition instructionFee :: "browser \<Rightarrow> int option" where
  "instructionFee b = string_to_bigint
     (case VITE_FCC_INSTRUCTION_FEE_WEI (b_settings b) of Some s \<Rightarrow> s | None \<Rightarrow> ''1000000000000'')"

definition requireClients :: "hook \<Rightarrow> js_error + address \<times> string" where
  "requireClients hk = (case hk_account hk of
      None \<Rightarrow> Inl (JsError ''Connect a Coston2 wallet before submitting a transaction'')
    | Some account \<Rightarrow> (case present (hk_token hk) of
        None \<Rightarrow> Inl (JsError ''Your private session is locked'')
      | Some token \<Rightarrow> Inr (account, token)))"

definition noTokenTransaction :: string where
  "noTokenTransaction = ''Confidential compute is not ready. No token transaction was submitted.''"

text \<open>\<open>writeContract\<close>, \<open>waitForTransactionReceipt\<close> and \<open>assertSuccessfulReceipt\<close>.\<close>

definition send_and_confirm :: "browser \<Rightarrow> contract_write \<Rightarrow> string \<Rightarrow> (page \<Rightarrow> page) \<Rightarrow> (page, hex \<times> receipt) act" where
  "send_and_confirm b tx label between =
     bindA (askPE (b_write b) (PWrite tx)) (\<lambda>hash.
     bindA (askPE (b_receipt b) (PReceipt hash)) (\<lambda>receipt.
     bindA (liftA (assertSuccessfulReceipt receipt label)) (\<lambda>_.
       thenA (modifyA between) (ret (hash, receipt)))))"

definition next_stage :: "string \<Rightarrow> page \<Rightarrow> page" where
  "next_stage stage p = p\<lparr>stages := stage # stages p\<rparr>"

definition addActivity :: "browser \<Rightarrow> string \<Rightarrow> string \<Rightarrow> activity_status \<Rightarrow> hex option \<Rightarrow> (page, unit) act" where
  "addActivity b label detail status tx =
     bindA (uuidP b) (\<lambda>uuid. setApp (addPublicActivity uuid label detail status tx))"

section \<open>Deposit\<close>

definition custody_warning :: "hex \<Rightarrow> js_error \<Rightarrow> js_error" where
  "custody_warning hash e = JsError (''QuietVault custody is confirmed in transaction '' @ hash
     @ '', but private credit did not complete: '' @ messageFor e @ ''. Do not deposit again.'')"

definition deposit_label :: "AssetId \<Rightarrow> string" where
  "deposit_label a = assetSymbol a @ '' deposit''"

text \<open>What follows the receipt of the deposit: the wait for private credit.\<close>

definition deposit_credit ::
    "browser \<Rightarrow> hook \<Rightarrow> AssetId \<Rightarrow> number \<Rightarrow> string \<Rightarrow> hex \<Rightarrow> hex \<Rightarrow> (page, hex) act" where
  "deposit_credit b hk asset x token requestId depositHash =
     bindA (outcomeA (waitForChainJob b requestId token defaultTimeout)) (\<lambda>outcome. case outcome of
         Inl error \<Rightarrow>
           thenA (synchronizePublicState b hk (Some token))
             (thenA (addActivity b (assetSymbol asset @ '' deposit awaiting private credit'')
                (to_fixed 4 x @ '' '' @ assetSymbol asset
                   @ '' is in QuietVault, but FCC processing did not complete. Do not submit the deposit again.'')
                Warning (Some depositHash))
                (throw (custody_warning depositHash error)))
       | Inr _ \<Rightarrow>
           thenA (bindA (refreshSettlementView (refreshAccount b hk None None None)
                    (setApp markSettlementRefreshPending)) (\<lambda>_. ret ()))
             (thenA (synchronizePublicState b hk (Some token))
               (thenA (addActivity b (deposit_label asset)
                  (to_fixed 4 x @ '' '' @ assetSymbol asset @ '' moved to QuietVault'')
                  Complete (Some depositHash))
                  (ret depositHash))))"

definition approval :: "address \<Rightarrow> live_config \<Rightarrow> AssetId \<Rightarrow> int \<Rightarrow> contract_write" where
  "approval account config asset units = \<lparr>cw_account = account,
     cw_address = as_address (lc_assets config asset), cw_call = Approve (lc_vault config) units,
     cw_value = None\<rparr>"

definition deposit_write :: "address \<Rightarrow> live_config \<Rightarrow> AssetId \<Rightarrow> int \<Rightarrow> int \<Rightarrow> contract_write" where
  "deposit_write account config asset units fee = \<lparr>cw_account = account, cw_address = lc_vault config,
     cw_call = DepositCall (as_address (lc_assets config asset)) units, cw_value = Some fee\<rparr>"

definition deposit_submit ::
    "browser \<Rightarrow> hook \<Rightarrow> AssetId \<Rightarrow> number \<Rightarrow> int \<Rightarrow> address \<Rightarrow> string \<Rightarrow> live_config \<Rightarrow> int \<Rightarrow> (page, hex) act" where
  "deposit_submit b hk asset x fee account token config units =
     thenA (announce ''approving'')
     (bindA (send_and_confirm b (approval account config asset units) ''Token approval''
               (next_stage ''depositing'')) (\<lambda>_.
      bindA (send_and_confirm b (deposit_write account config asset units fee) ''QuietVault deposit''
               (next_stage ''confirming'')) (\<lambda>(depositHash, depositReceipt).
      bindA (liftA (requestIdFromReceipt (b_lib b) depositReceipt (lc_vault config) ''DepositSubmitted'')) (\<lambda>requestId.
        deposit_credit b hk asset x token requestId depositHash))))"

definition deposit :: "browser \<Rightarrow> hook \<Rightarrow> AssetId \<Rightarrow> number \<Rightarrow> (page, hex) act" where
  "deposit b hk asset x =
     bindA (liftO (instructionFee b)) (\<lambda>fee.
     bindA (liftA (requireClients hk)) (\<lambda>(account, token).
     thenA (assertLiveFcc b noTokenTransaction)
     (bindA (protocolContext b) (\<lambda>(config, teeKey).
      bindA (liftA (l_parseUnits (b_lib b) (number_text x) (as_decimals (lc_assets config asset)))) (\<lambda>units.
        deposit_submit b hk asset x fee account token config units)))))"

section \<open>Accepting a borrow\<close>

record borrow_outcome =
  bo_requestHash :: "hex option"
  bo_settlementHash :: "hex option"
  bo_synchronized :: bool
  bo_recovered :: bool
  bo_synchronizationError :: "string option"

text \<open>An earlier settlement of the same quote, if the refreshed account holds its loan.\<close>

definition recover_prior ::
    "browser \<Rightarrow> hook \<Rightarrow> private_quote \<Rightarrow> string \<Rightarrow> (page, borrow_outcome option) act" where
  "recover_prior b hk quote token =
     bindA (clientListJobs b token) (\<lambda>jobs. case findConfirmedBorrowForQuote jobs quote of
         None \<Rightarrow> ret None
       | Some prior \<Rightarrow> bindA (refreshProcessedBorrow b hk) (\<lambda>view.
           if accountContainsQuoteLoan view quote then
             thenA (synchronizePublicState b hk (Some token))
               (ret (Some \<lparr>bo_requestHash = None, bo_settlementHash = present (rj_txHash prior),
                  bo_synchronized = True, bo_recovered = True, bo_synchronizationError = None\<rparr>))
           else ret None))"

text \<open>The relayer's job failed, or the wait for it did.\<close>

definition recover_processed ::
    "browser \<Rightarrow> hook \<Rightarrow> private_quote \<Rightarrow> string \<Rightarrow> hex \<Rightarrow> js_error \<Rightarrow> (page, borrow_outcome) act" where
  "recover_processed b hk quote token requestHash error =
     (if \<not> isAlreadyProcessedError error then throw error
      else bindA (refreshProcessedBorrow b hk) (\<lambda>view.
        if \<not> accountContainsQuoteLoan view quote then throw error
        else thenA (synchronizePublicState b hk (Some token))
          (ret \<lparr>bo_requestHash = Some requestHash, bo_settlementHash = None, bo_synchronized = True,
             bo_recovered = True, bo_synchronizationError = None\<rparr>)))"

definition settle_borrow ::
    "browser \<Rightarrow> hook \<Rightarrow> private_quote \<Rightarrow> string \<Rightarrow> hex \<Rightarrow> relayer_job \<Rightarrow> (page, borrow_outcome) act" where
  "settle_borrow b hk quote token requestHash completed =
     thenA (announce ''settling'')
     (bindA (outcomeA (refreshAfterNonceAdvance b hk)) (\<lambda>outcome.
      bindA (case outcome of
          Inl error \<Rightarrow> thenA (setApp markSettlementRefreshPending) (ret (Some (messageFor error)))
        | Inr _ \<Rightarrow> ret None) (\<lambda>synchronizationError.
      thenA (synchronizePublicState b hk (Some token))
        (thenA (addActivity b (assetSymbol USDT0 @ '' borrow payout'')
           (to_fixed 4 (js_div (q_amount quote) 1000000) @ '' '' @ assetSymbol USDT0 @ '' settled from QuietVault'')
           Complete (Some (case rj_txHash completed of Some h \<Rightarrow> h | None \<Rightarrow> requestHash)))
           (ret \<lparr>bo_requestHash = Some requestHash, bo_settlementHash = present (rj_txHash completed),
              bo_synchronized = (synchronizationError = None), bo_recovered = False,
              bo_synchronizationError = present synchronizationError\<rparr>)))))"

definition borrow_write :: "address \<Rightarrow> live_config \<Rightarrow> hex \<Rightarrow> int \<Rightarrow> contract_write" where
  "borrow_write account config ciphertext fee = \<lparr>cw_account = account, cw_address = lc_vault config,
     cw_call = RequestBorrow ciphertext, cw_value = Some fee\<rparr>"

definition request_borrow ::
    "browser \<Rightarrow> hook \<Rightarrow> private_quote \<Rightarrow> live_config \<Rightarrow> string \<Rightarrow> contract_write \<Rightarrow> (page, borrow_outcome) act" where
  "request_borrow b hk quote config token tx =
     thenA (announce ''submitting'')
     (bindA (send_and_confirm b tx ''QuietVault borrow request'' (next_stage ''computing''))
        (\<lambda>(requestHash, requestReceipt).
      bindA (liftA (requestIdFromReceipt (b_lib b) requestReceipt (lc_vault config)
               ''ConfidentialRequestSubmitted'')) (\<lambda>requestId.
      bindA (outcomeA (waitForChainJob b requestId token defaultTimeout)) (\<lambda>outcome. case outcome of
          Inl error \<Rightarrow> recover_processed b hk quote token requestHash error
        | Inr completed \<Rightarrow> settle_borrow b hk quote token requestHash completed))))"

definition submit_borrow ::
    "browser \<Rightarrow> hook \<Rightarrow> private_quote \<Rightarrow> live_config \<Rightarrow> address \<Rightarrow> string \<Rightarrow> int \<Rightarrow> (page, borrow_outcome) act" where
  "submit_borrow b hk quote config account token fee =
     thenA (announce ''signing'')
     (bindA getApp (\<lambda>st.
      bindA (uuidP b) (\<lambda>uuid.
      bindA (prepare b ''BORROW_ACCEPT'' (JObject [(''quote'', q_object quote), (''loanId'', JText uuid)])
               (accountNonce st) (hk_address hk)) (\<lambda>prepared.
        request_borrow b hk quote config token (borrow_write account config (pr_ciphertext prepared) fee)))))"

definition acceptBorrow ::
    "browser \<Rightarrow> hook \<Rightarrow> (page, unit) act list \<Rightarrow> private_quote \<Rightarrow> (page, borrow_outcome) act" where
  "acceptBorrow b hk pending quote = serializeMutation pending
     (bindA (liftO (instructionFee b)) (\<lambda>fee.
      bindA (liftA (requireClients hk)) (\<lambda>(account, token).
      thenA (assertLiveFcc b noTokenTransaction)
      (bindA (protocolContext b) (\<lambda>(config, teeKey).
       bindA (recover_prior b hk quote token) (\<lambda>recovered. case recovered of
           Some outcome \<Rightarrow> ret outcome
         | None \<Rightarrow> submit_borrow b hk quote config account token fee))))))"

section \<open>Withdrawal\<close>

definition withdrawal_write ::
    "address \<Rightarrow> live_config \<Rightarrow> AssetId \<Rightarrow> int \<Rightarrow> address \<Rightarrow> int \<Rightarrow> contract_write" where
  "withdrawal_write account config asset units destination fee = \<lparr>cw_account = account,
     cw_address = lc_vault config,
     cw_call = RequestWithdrawal (as_address (lc_assets config asset)) units destination, cw_value = Some fee\<rparr>"

definition withdraw_credit ::
    "browser \<Rightarrow> hook \<Rightarrow> AssetId \<Rightarrow> number \<Rightarrow> string \<Rightarrow> hex \<Rightarrow> hex \<Rightarrow> (page, hex) act" where
  "withdraw_credit b hk asset x token requestId requestHash =
     thenA (announce ''confirming'')
     (bindA (waitForChainJob b requestId token defaultTimeout) (\<lambda>_.
      bindA (refreshSettlementView (refreshAfterNonceAdvance b hk) (setApp markSettlementRefreshPending)) (\<lambda>_.
      thenA (synchronizePublicState b hk (Some token))
        (thenA (addActivity b (assetSymbol asset @ '' withdrawal'')
           (to_fixed 4 x @ '' '' @ assetSymbol asset @ '' settled to destination'') Complete (Some requestHash))
           (ret requestHash)))))"

definition withdraw ::
    "browser \<Rightarrow> hook \<Rightarrow> (page, unit) act list \<Rightarrow> AssetId \<Rightarrow> number \<Rightarrow> address \<Rightarrow> (page, hex) act" where
  "withdraw b hk pending asset x destination = serializeMutation pending
     (bindA (liftO (instructionFee b)) (\<lambda>fee.
      bindA (liftA (requireClients hk)) (\<lambda>(account, token).
      thenA (assertLiveFcc b noTokenTransaction)
      (bindA (protocolContext b) (\<lambda>(config, teeKey).
       bindA (liftA (l_parseUnits (b_lib b) (number_text x) (as_decimals (lc_assets config asset)))) (\<lambda>units.
       thenA (announce ''submitting'')
       (bindA (send_and_confirm b (withdrawal_write account config asset units destination fee)
                 ''QuietVault withdrawal request'' id) (\<lambda>(requestHash, requestReceipt).
        bindA (liftA (requestIdFromReceipt (b_lib b) requestReceipt (lc_vault config)
                 ''ConfidentialRequestSubmitted'')) (\<lambda>requestId.
          withdraw_credit b hk asset x token requestId requestHash)))))))))"

section \<open>What is sent\<close>

lemma sent_quiet:
  assumes "keeps nothing_sent m" and "\<And>x t. sent t = sent s \<Longrightarrow> wp (k x) Q E t"
    and "\<And>e t. sent t = sent s \<Longrightarrow> E e t"
  shows "wp (bindA m k) Q E s"
  unfolding wp_bindA
  by (rule wp_frame [OF assms(1)]) (auto simp: nothing_sent_def intro: assms)

lemma sent_quiet_then:
  assumes "keeps nothing_sent m" and "\<And>t. sent t = sent s \<Longrightarrow> wp k Q E t"
    and "\<And>e t. sent t = sent s \<Longrightarrow> E e t"
  shows "wp (thenA m k) Q E s"
  unfolding thenA_def by (rule sent_quiet [OF assms])

text \<open>A transaction that is tried counts as sent, whatever becomes of it.\<close>

lemma sent_transaction:
  assumes "\<And>p. sent (between p) = sent p"
    and "\<And>x t. sent t = PWrite tx # sent s \<Longrightarrow> wp (k x) Q E t"
    and "\<And>e t. sent t = PWrite tx # sent s \<Longrightarrow> E e t"
  shows "wp (bindA (send_and_confirm b tx label between) k) Q E s"
proof -
  have tx: "sent (s\<lparr>asked := PWrite tx # asked s\<rparr>) = PWrite tx # sent s"
    "sent (s\<lparr>asked := PReceipt h # PWrite tx # asked s\<rparr>) = PWrite tx # sent s" for h
    by (simp_all add: sent_def is_tx_def)
  show ?thesis
    unfolding send_and_confirm_def
    by (simp add: wp_bindA wp_askPE wp_liftA wp_thenA wp_modifyA wp_ret split: sum.split)
      (auto intro!: assms(2,3) simp: tx assms(1))
qed

lemma next_stage_sent [simp]: "sent (next_stage stage p) = sent p"
  by (simp add: next_stage_def sent_def)

lemma keeps_addActivity: "keeps nothing_sent (addActivity b l d st h)"
  unfolding addActivity_def
  by (intro quiet_sent.quiet_intros page_sent.keeps_sealing page_sent.keeps_setApp)

lemma keeps_settlement:
  "keeps nothing_sent m \<Longrightarrow> keeps nothing_sent (refreshSettlementView m (setApp f))"
  unfolding refreshSettlementView_def by (auto intro!: quiet_sent.quiet_intros page_sent.keeps_setApp)

lemmas sent_keeps = quiet_sent.quiet_intros page_sent.keeps_sealing page_sent.keeps_setApp keeps_addActivity
  keeps_settlement page_sent.keeps_refreshAccount page_sent.keeps_refreshes page_sent.keeps_announce
  page_sent.keeps_synchronizePublicState page_sent.keeps_protocolContext page_sent.keeps_assertLiveFcc
  page_sent.keeps_prepare quiet_sent.keeps_waitForChainJob quiet_sent.keeps_routes

lemma keeps_deposit_credit: "keeps nothing_sent (deposit_credit b hk asset x token i h)"
  unfolding deposit_credit_def by (auto intro!: sent_keeps split: sum.split)

section \<open>What comes to an end\<close>

lemma total_addActivity [intro!]: "total (addActivity b l d st h)"
  unfolding addActivity_def by (intro total_intros total_preparing total_page)

lemma total_settlement: "total m \<Longrightarrow> total (refreshSettlementView m (setApp f))"
  unfolding refreshSettlementView_def by (auto intro!: total_intros)

lemma total_send [intro!]: "total (send_and_confirm b tx l f)"
  unfolding send_and_confirm_def by (auto intro!: total_intros)

lemma total_refreshes:
  assumes "page_ok b"
  shows "total (refreshAfterNonceAdvance b hk)" "total (refreshProcessedBorrow b hk)"
  unfolding refreshAfterNonceAdvance_def refreshProcessedBorrow_def
  by (auto intro!: total_intros total_actions assms)

lemmas total_vault = total_intros total_addActivity total_settlement total_send total_refreshes total_actions
  total_waiting

lemma total_deposit_credit: "page_ok b \<Longrightarrow> total (deposit_credit b hk asset x token i h)"
  unfolding deposit_credit_def by (auto intro!: total_vault split: sum.split)

lemma bindA_liftO: "bindA (liftO (Some x)) k = k x"
  by (simp add: fun_eq_iff bindA_def liftO_def)

lemma total_liftO [simp]: "total (liftO (Some x))"
  by (simp add: total_def wp_simps)

section \<open>Loans of a quote\<close>

definition quote_loan :: "private_quote \<Rightarrow> private_loan \<Rightarrow> bool" where
  "quote_loan quote loan = (lower (pl_borrower loan) = lower (q_borrower quote)
     \<and> pl_principal loan = q_amount quote \<and> pl_collateralFxrp loan = q_collateralFxrp quote
     \<and> pl_borrowerAprBps loan = q_borrowerAprBps quote \<and> pl_termDays loan = q_termDays quote)"

text \<open>The page shows the position of a loan of the quote.\<close>

definition shows_loan :: "browser \<Rightarrow> private_quote \<Rightarrow> page \<Rightarrow> bool" where
  "shows_loan b quote q = (\<exists>loan price. quote_loan quote loan
     \<and> position_of (app q) = Some (positionFromView (b_formats b) loan price))"

lemma contains_shows:
  "accountContainsQuoteLoan view quote \<Longrightarrow> shows_view b view q \<Longrightarrow> shows_loan b quote q"
  by (auto simp: accountContainsQuoteLoan_def shows_view_def shows_loan_def quote_loan_def split: option.splits)

lemma refreshProcessedBorrow_leaves: "leaves (shows_view b) (refreshProcessedBorrow b hk)"
  unfolding refreshProcessedBorrow_def
  by (auto intro!: leaves_bindA leaves_tryA leaves_thenA leaves_throw refreshAccount_leaves)

lemma processed_wp:
  "wp (refreshProcessedBorrow b hk) (\<lambda>view t. sent t = sent s \<and> shows_view b view t) (\<lambda>_ t. sent t = sent s) s"
  using keepsD [OF page_sent.keeps_refreshes(2)] leavesD [OF refreshProcessedBorrow_leaves]
  by (intro wpI) (auto simp: nothing_sent_def)

lemma synchronized_wp:
  assumes "shows_loan b quote s"
  shows "wp (synchronizePublicState b hk t) (\<lambda>_ u. sent u = sent s \<and> shows_loan b quote u) (\<lambda>_ u. sent u = sent s) s"
  using keepsD [OF synchronize_keeps_account] keepsD [OF page_sent.keeps_synchronizePublicState] assms
  by (intro wpI) (auto simp: nothing_sent_def same_account_def shows_loan_def)

text \<open>How far a borrow came: nothing sent, or the one request.\<close>

definition borrow_sent :: "int \<Rightarrow> page \<Rightarrow> page \<Rightarrow> bool" where
  "borrow_sent fee p q = (\<exists>account config c. sent q = PWrite (borrow_write account config c fee) # sent p)"

lemma borrow_sent_eq: "sent t = sent s \<Longrightarrow> borrow_sent fee p s \<Longrightarrow> borrow_sent fee p t"
  by (simp add: borrow_sent_def)

definition borrow_result :: "browser \<Rightarrow> private_quote \<Rightarrow> int \<Rightarrow> page \<Rightarrow> borrow_outcome \<Rightarrow> page \<Rightarrow> bool" where
  "borrow_result b quote fee p r q =
     ((case bo_requestHash r of
         None \<Rightarrow> sent q = sent p \<and> bo_recovered r
       | Some _ \<Rightarrow> borrow_sent fee p q)
      \<and> (if bo_recovered r then shows_loan b quote q else True))"

definition borrow_failed :: "int \<Rightarrow> page \<Rightarrow> js_error \<Rightarrow> page \<Rightarrow> bool" where
  "borrow_failed fee p e q = (sent q = sent p \<or> borrow_sent fee p q)"

lemma recover_prior_wp:
  "wp (recover_prior b hk quote token)
     (\<lambda>r t. sent t = sent s \<and> (case r of None \<Rightarrow> True
        | Some x \<Rightarrow> bo_requestHash x = None \<and> bo_recovered x \<and> shows_loan b quote t))
     (\<lambda>_ t. sent t = sent s) s"
  unfolding recover_prior_def
proof (rule sent_quiet [OF quiet_sent.keeps_routes(9)], goal_cases)
  case (1 jobs t)
  show ?case
  proof (cases "findConfirmedBorrowForQuote jobs quote")
    case (Some prior)
    have synced: "wp (thenA (synchronizePublicState b hk (Some token)) (ret (Some x)))
        (\<lambda>r u. sent u = sent s \<and> (case r of None \<Rightarrow> True
          | Some x \<Rightarrow> bo_requestHash x = None \<and> bo_recovered x \<and> shows_loan b quote u))
        (\<lambda>_ u. sent u = sent s) u"
      if "sent u = sent t" "shows_loan b quote u" "bo_requestHash x = None" "bo_recovered x" for u x
      unfolding wp_thenA wp_ret
      by (rule wp_mono [OF synchronized_wp [OF that(2)]]) (use 1 that in auto)
    then show ?thesis
      unfolding Some option.case wp_bindA
      by (intro wp_mono [OF processed_wp [of b hk t]]) (auto simp: 1 wp_ret intro!: synced intro: contains_shows)
  qed (simp add: 1 wp_ret)
qed

lemma recover_processed_wp:
  assumes tx: "borrow_sent fee p s"
  shows "wp (recover_processed b hk quote token h e) (borrow_result b quote fee p) (borrow_failed fee p) s"
proof (cases "isAlreadyProcessedError e")
  case True
  have fail: "borrow_failed fee p e' u" if "sent u = sent s" for e' u
    using that tx by (auto simp: borrow_failed_def borrow_sent_def)
  have returned: "wp (thenA (synchronizePublicState b hk (Some token)) (ret x)) (borrow_result b quote fee p) (borrow_failed fee p) u"
    if "sent u = sent s" "shows_loan b quote u" "bo_requestHash x = Some h" for u x
    unfolding wp_thenA wp_ret
    by (rule wp_mono [OF synchronized_wp [OF that(2)]]) (use that tx fail in \<open>auto simp: borrow_result_def borrow_sent_def\<close>)
  show ?thesis
    unfolding recover_processed_def wp_bindA
    using True by (auto simp: wp_bindA wp_throw fail dest: contains_shows
        intro!: wp_mono [OF processed_wp [of b hk s]] returned)
qed (use tx in \<open>auto simp: recover_processed_def wp_throw borrow_failed_def\<close>)

lemma settle_borrow_wp:
  assumes tx: "borrow_sent fee p s"
  shows "wp (settle_borrow b hk quote token h job) (borrow_result b quote fee p) (borrow_failed fee p) s"
proof -
  have "keeps nothing_sent (settle_borrow b hk quote token h job)"
    unfolding settle_borrow_def by (auto intro!: sent_keeps split: sum.split)
  moreover have "leaves (\<lambda>r _. bo_requestHash r = Some h \<and> \<not> bo_recovered r) (settle_borrow b hk quote token h job)"
    unfolding settle_borrow_def by (intro leaves_thenA leaves_bindA leaves_retI) simp
  ultimately show ?thesis
    using tx by (intro wpI) (auto simp: borrow_result_def borrow_failed_def nothing_sent_def
        dest!: keepsD leavesD intro: borrow_sent_eq)
qed

lemma request_borrow_wp:
  assumes "sent s = sent p"
  shows "wp (request_borrow b hk quote config token (borrow_write account config c fee))
    (borrow_result b quote fee p) (borrow_failed fee p) s"
proof -
  have wait: "wp (bindA (outcomeA (waitForChainJob b i token defaultTimeout)) (\<lambda>outcome. case outcome of
          Inl error \<Rightarrow> recover_processed b hk quote token h error
        | Inr completed \<Rightarrow> settle_borrow b hk quote token h completed))
      (borrow_result b quote fee p) (borrow_failed fee p) t"
    if "borrow_sent fee p t" for i h t
    by (rule sent_quiet) (use that in \<open>auto simp: borrow_failed_def intro!: sent_keeps recover_processed_wp
      settle_borrow_wp intro: borrow_sent_eq split: sum.split\<close>)
  show ?thesis
    unfolding request_borrow_def
  proof (rule sent_quiet_then [OF page_sent.keeps_announce], rule sent_transaction, goal_cases)
    case (2 t x u)
    then have tx: "borrow_sent fee p u" using assms by (auto simp: borrow_sent_def)
    obtain h r where x: "x = (h, r)" by (cases x)
    show ?case
      unfolding x prod.case
      by (rule sent_quiet [OF nothing_sent_frame.keeps_liftA])
        (use tx in \<open>auto intro!: wait intro: borrow_sent_eq simp: borrow_failed_def\<close>)
  qed (use assms in \<open>auto simp: borrow_failed_def borrow_sent_def\<close>)
qed

lemma submit_borrow_wp:
  assumes "sent s = sent p"
  shows "wp (submit_borrow b hk quote config account token fee)
    (borrow_result b quote fee p) (borrow_failed fee p) s"
  unfolding submit_borrow_def
  by (intro sent_quiet sent_quiet_then sent_keeps request_borrow_wp)
    (use assms in \<open>simp_all add: borrow_failed_def\<close>)

lemma total_borrow:
  assumes "page_ok b" and "instructionFee b = Some fee"
  shows "total (acceptBorrow b hk [] quote)"
  unfolding acceptBorrow_def submit_borrow_def request_borrow_def recover_prior_def recover_processed_def
    settle_borrow_def serializeMutation_def settle_all.simps assms(2)
  by (auto intro!: total_vault assms split: prod.split option.split sum.split)

lemma serialize_alone: "serializeMutation [] m = m"
  by (simp add: serializeMutation_def thenA_def bindA_def ret_def)

text \<open>How far a deposit came.\<close>

definition deposit_done :: "AssetId \<Rightarrow> int \<Rightarrow> page \<Rightarrow> hex \<Rightarrow> page \<Rightarrow> bool" where
  "deposit_done asset fee p h q = (\<exists>account config units.
     sent q = [PWrite (deposit_write account config asset units fee), PWrite (approval account config asset units)] @ sent p)"

definition deposit_failed :: "AssetId \<Rightarrow> int \<Rightarrow> page \<Rightarrow> js_error \<Rightarrow> page \<Rightarrow> bool" where
  "deposit_failed asset fee p e q = (\<exists>account config units. sent q \<in> {sent p,
     [PWrite (approval account config asset units)] @ sent p,
     [PWrite (deposit_write account config asset units fee), PWrite (approval account config asset units)] @ sent p})"

lemma deposit_submit_wp:
  assumes "sent s = sent p"
  shows "wp (deposit_submit b hk asset x fee account token config units)
    (deposit_done asset fee p) (deposit_failed asset fee p) s"
proof -
  let ?a = "PWrite (approval account config asset units)"
  let ?d = "PWrite (deposit_write account config asset units fee)"
  have credit: "wp (bindA (liftA (requestIdFromReceipt (b_lib b) r (lc_vault config) ''DepositSubmitted''))
      (\<lambda>i. deposit_credit b hk asset x token i h)) (deposit_done asset fee p) (deposit_failed asset fee p) t"
    if "sent t = ?d # ?a # sent p" for r h t
    by (rule wp_frame [where R = nothing_sent])
      (use that in \<open>auto intro!: sent_keeps keeps_deposit_credit
        simp: nothing_sent_def deposit_done_def deposit_failed_def\<close>)
  have second: "wp (bindA (send_and_confirm b (deposit_write account config asset units fee) l (next_stage g))
      (\<lambda>(h, r). bindA (liftA (requestIdFromReceipt (b_lib b) r (lc_vault config) ''DepositSubmitted''))
        (\<lambda>i. deposit_credit b hk asset x token i h))) (deposit_done asset fee p) (deposit_failed asset fee p) t"
    if "sent t = ?a # sent p" for l g t
    by (rule sent_transaction) (use that in \<open>auto intro!: credit simp: deposit_failed_def split: prod.split\<close>)
  show ?thesis
    unfolding deposit_submit_def
    by (rule sent_quiet_then [OF page_sent.keeps_announce], rule sent_transaction)
      (use assms in \<open>auto intro!: second simp: deposit_failed_def\<close>)
qed

lemma deposit_wp:
  assumes "instructionFee b = Some fee"
  shows "wp (deposit b hk asset x) (deposit_done asset fee p) (deposit_failed asset fee p) p"
  unfolding deposit_def assms bindA_liftO
  by (intro sent_quiet sent_quiet_then sent_keeps; (simp split: prod.split)?)
    (auto simp: deposit_failed_def intro!: deposit_submit_wp sent_quiet sent_quiet_then sent_keeps)

lemma acceptBorrow_wp:
  assumes "instructionFee b = Some fee"
  shows "wp (acceptBorrow b hk [] quote) (borrow_result b quote fee p) (borrow_failed fee p) p"
proof -
  have recovered: "wp (bindA (recover_prior b hk quote token) (\<lambda>recovered. case recovered of
           Some outcome \<Rightarrow> ret outcome
         | None \<Rightarrow> submit_borrow b hk quote config account token fee))
      (borrow_result b quote fee p) (borrow_failed fee p) s"
    if "sent s = sent p" for token config account s
    unfolding wp_bindA
    by (rule wp_mono [OF recover_prior_wp])
      (use that in \<open>auto intro!: submit_borrow_wp simp: wp_ret borrow_result_def borrow_failed_def split: option.splits\<close>)
  show ?thesis
    unfolding acceptBorrow_def serialize_alone assms bindA_liftO
  proof (rule sent_quiet [OF nothing_sent_frame.keeps_liftA], goal_cases)
    case (1 x t)
    then show ?case
      by (cases x) (auto intro!: sent_quiet_then [OF page_sent.keeps_assertLiveFcc]
          sent_quiet [OF page_sent.keeps_protocolContext] recovered simp: borrow_failed_def)
  qed (simp add: borrow_failed_def)
qed

text \<open>A withdrawal sends at most its one request.\<close>

definition withdrawal_sent :: "AssetId \<Rightarrow> address \<Rightarrow> int \<Rightarrow> page \<Rightarrow> page \<Rightarrow> bool" where
  "withdrawal_sent asset destination fee p q = (\<exists>account config units.
     sent q = PWrite (withdrawal_write account config asset units destination fee) # sent p)"

lemma withdrawal_sentI:
  "sent q = PWrite (withdrawal_write account config asset units destination fee) # sent p \<Longrightarrow>
   withdrawal_sent asset destination fee p q"
  by (auto simp: withdrawal_sent_def)

lemma keeps_withdraw_credit: "keeps nothing_sent (withdraw_credit b hk asset x token i h)"
  unfolding withdraw_credit_def by (auto intro!: sent_keeps)

lemma withdraw_wp:
  assumes "instructionFee b = Some fee"
  shows "wp (withdraw b hk [] asset x destination) (\<lambda>_. withdrawal_sent asset destination fee p)
    (\<lambda>_ q. sent q = sent p \<or> withdrawal_sent asset destination fee p q) p"
proof -
  have credit: "wp (bindA (liftA (requestIdFromReceipt (b_lib b) r v l)) (\<lambda>i. withdraw_credit b hk asset x token i h))
      (\<lambda>_. withdrawal_sent asset destination fee p)
      (\<lambda>_ q. sent q = sent p \<or> withdrawal_sent asset destination fee p q) t"
    if "sent t = PWrite (withdrawal_write account config asset units destination fee) # sent p"
    for r v l h token account config units t
    by (rule wp_frame [where R = nothing_sent])
      (use that in \<open>auto intro!: sent_keeps keeps_withdraw_credit simp: nothing_sent_def withdrawal_sent_def\<close>)
  have submit: "wp (bindA (send_and_confirm b (withdrawal_write account config asset units destination fee) l id)
      (\<lambda>(h, r). bindA (liftA (requestIdFromReceipt (b_lib b) r v n)) (\<lambda>i. withdraw_credit b hk asset x token i h)))
      (\<lambda>_. withdrawal_sent asset destination fee p)
      (\<lambda>_ q. sent q = sent p \<or> withdrawal_sent asset destination fee p q) t"
    if "sent t = sent p" for account config units l v n token t
    by (rule sent_transaction) (use that in \<open>auto intro!: credit withdrawal_sentI split: prod.split\<close>)
  show ?thesis
    unfolding withdraw_def serialize_alone assms bindA_liftO
  proof (rule sent_quiet [OF nothing_sent_frame.keeps_liftA], goal_cases)
    case (1 c t)
    then show ?case
      by (cases c) (auto intro!: sent_quiet_then sent_quiet sent_keeps submit)
  qed simp
qed

lemma total_withdraw:
  assumes "page_ok b" and "instructionFee b = Some fee"
  shows "total (withdraw b hk [] asset x destination)"
  unfolding withdraw_def withdraw_credit_def serialize_alone assms(2)
  by (auto intro!: total_vault assms split: prod.split)

lemma total_deposit:
  assumes "page_ok b" and "instructionFee b = Some fee"
  shows "total (deposit b hk asset x)"
  unfolding deposit_def deposit_submit_def assms(2)
  by (auto intro!: total_vault total_deposit_credit assms split: prod.split)

section \<open>Properties\<close>

text \<open>
  C22. After the deposit is on the chain, the wait for its private credit always comes to an end and
  sends nothing more. It returns the hash of the deposit, whatever became of the refresh; or it
  throws the warning that names that hash and says not to deposit again. Either way an entry of the
  feed leads with that transaction.
\<close>
theorem deposit_credit_reports:
  assumes "page_ok b" and "cache_ok b"
  shows "\<exists>r q item rest. deposit_credit b hk asset x token requestId hash p = Some (r, q) \<and> nothing_sent p q
    \<and> activities (app q) = item # rest \<and> ai_txHash item = Some hash
    \<and> (case r of Inr h \<Rightarrow> h = hash \<and> ai_status item = Complete
       | Inl e \<Rightarrow> ai_status item = Warning \<and> (\<exists>cause. e = custody_warning hash cause))"
proof -
  let ?R = "\<lambda>r q. \<exists>item rest. activities (app q) = item # rest \<and> ai_txHash item = Some hash
    \<and> (case r of Inr h \<Rightarrow> h = hash \<and> ai_status item = Complete
       | Inl e \<Rightarrow> ai_status item = Warning \<and> (\<exists>cause. e = custody_warning hash cause))"
  have sync: "wp (synchronizePublicState b hk t) (\<lambda>_ _. True) (\<lambda>_ _. False) s" for t s
    using synchronize_returns [OF assms(2), of hk t s] by (auto simp: wp_def)
  have feed: "wp (addActivity b l d st h) (\<lambda>_ q. \<exists>item rest. activities (app q) = item # rest
      \<and> ai_txHash item = h \<and> ai_status item = st) (\<lambda>_ _. False) s" for l d st h s
    by (simp add: addActivity_def uuidP_def wp_simps addPublicActivity_def)
  have refresh: "wp (refreshSettlementView m (setApp markSettlementRefreshPending)) (\<lambda>_ _. True) (\<lambda>_ _. False) s"
    for m :: "(page, private_account_view) act" and s
    unfolding refreshSettlementView_def wp_tryA wp_bindA wp_ret wp_thenA wp_setApp by simp
  have "wp (deposit_credit b hk asset x token requestId hash) (\<lambda>h. ?R (Inr h)) (\<lambda>e. ?R (Inl e)) p"
    unfolding deposit_credit_def wp_bindA wp_outcomeA
  proof (rule wp_total, goal_cases)
    case (1 job t)
    show ?case
      unfolding sum.case wp_thenA wp_bindA wp_ret
      by (rule wp_mono [OF refresh], rule wp_mono [OF sync], rule wp_mono [OF feed]) auto
  next
    case (2 e t)
    show ?case
      unfolding sum.case wp_thenA wp_throw
      by (rule wp_mono [OF sync], rule wp_mono [OF feed]) auto
  qed
  moreover obtain r q where run: "deposit_credit b hk asset x token requestId hash p = Some (r, q)"
    using total_ends [OF total_deposit_credit [OF assms(1)]] by (rule endsE)
  ultimately have "?R r q" by (cases r) (auto simp: wp_def)
  then show ?thesis using run keepsD [OF keeps_deposit_credit run] by blast
qed

theorem deposit_credit_reports_witness:
  "\<exists>r q. deposit_credit (sample_browser\<lparr>b_jobs := \<lambda>_. Inl (JsError ''offline'')\<rparr>)
       \<lparr>hk_address = Some ''0xa'', hk_token = Some ''t'', hk_account = Some ''0xa''\<rparr> FXRP 5 ''t'' ''0x07'' ''0xd0'' sample_page
     = Some (r, q) \<and> nothing_sent sample_page q"
proof -
  have "page_ok (sample_browser\<lparr>b_jobs := f\<rparr>)" "cache_ok (sample_browser\<lparr>b_jobs := f\<rparr>)" for f
    using sample_page_ok by (simp_all add: page_ok_def cache_ok_def page_clock_ok_def)
  from deposit_credit_reports [OF this] show ?thesis by blast
qed

text \<open>
  C21. A deposit comes to an end and sends at most two transactions from the wallet: an approval of
  the vault for the amount, and after it the deposit of the same amount of the same token; it
  returns only when it sent both, and never sends the deposit without the approval.
\<close>
theorem deposit_sends_once:
  assumes "page_ok b" and "instructionFee b = Some fee"
  shows "case deposit b hk asset x p of
      None \<Rightarrow> False
    | Some (r, q) \<Rightarrow> \<exists>account config units.
        let a = PWrite (approval account config asset units);
            d = PWrite (deposit_write account config asset units fee)
        in (case r of
             Inr _ \<Rightarrow> sent q = [d, a] @ sent p
           | Inl _ \<Rightarrow> sent q \<in> {sent p, [a] @ sent p, [d, a] @ sent p})"
proof -
  obtain r q where run: "deposit b hk asset x p = Some (r, q)"
    using total_ends [OF total_deposit [OF assms]] by (rule endsE)
  with deposit_wp [OF assms(2), of hk asset x p] show ?thesis
    by (cases r) (auto simp: wp_def Let_def deposit_done_def deposit_failed_def)
qed

lemma sample_fee: "instructionFee sample_browser = Some 7"
  by (simp add: instructionFee_def sample_browser_def) code_simp

theorem deposit_sends_once_witness:
  "deposit sample_browser \<lparr>hk_address = Some ''0xa'', hk_token = Some ''t'', hk_account = Some ''0xa''\<rparr> FXRP 5 sample_page \<noteq> None"
  using deposit_sends_once [OF sample_page_ok(1) sample_fee,
      where hk = "\<lparr>hk_address = Some ''0xa'', hk_token = Some ''t'', hk_account = Some ''0xa''\<rparr>" and asset = FXRP and x = 5 and p = sample_page]
  by (auto split: option.splits)

text \<open>
  C10. Accepting a quote comes to an end and asks the vault for at most one borrow. It reports no
  request only when it sent none and found the quote already settled; whenever it reports a recovery,
  the page shows the position of a loan with the borrower, principal, collateral, rate and term of
  the quote.
\<close>
theorem acceptBorrow_sends_once:
  assumes "page_ok b" and "instructionFee b = Some fee"
  shows "case acceptBorrow b hk [] quote p of
      None \<Rightarrow> False
    | Some (r, q) \<Rightarrow> (case r of
          Inr x \<Rightarrow> (case bo_requestHash x of
                None \<Rightarrow> sent q = sent p \<and> bo_recovered x
              | Some _ \<Rightarrow> \<exists>account config c. sent q = PWrite (borrow_write account config c fee) # sent p)
            \<and> (if bo_recovered x then \<exists>loan price. quote_loan quote loan
                 \<and> position_of (app q) = Some (positionFromView (b_formats b) loan price) else True)
        | Inl _ \<Rightarrow> sent q = sent p
            \<or> (\<exists>account config c. sent q = PWrite (borrow_write account config c fee) # sent p))"
proof -
  obtain r q where run: "acceptBorrow b hk [] quote p = Some (r, q)"
    using total_ends [OF total_borrow [OF assms]] by (rule endsE)
  with acceptBorrow_wp [OF assms(2), of hk quote p] have "case r of Inl e \<Rightarrow> borrow_failed fee p e q | Inr x \<Rightarrow> borrow_result b quote fee p x q"
    by (simp add: wp_def)
  then show ?thesis
    unfolding run option.case prod.case borrow_result_def borrow_failed_def borrow_sent_def shows_loan_def
    .
qed

definition sample_quote :: private_quote where
  "sample_quote = \<lparr>q_requestId = ''r'', q_borrower = ''0xa'', q_amount = 1000000, q_requestedAmount = None,
     q_termDays = 7, q_collateralFxrp = 4000000, q_requestedCollateralFxrp = None, q_partial = None,
     q_lenderAprBps = 800, q_borrowerAprBps = 850, q_maxAprBps = 900, q_tranches = [], q_expiresAt = 300,
     q_priceE6 = 600000, q_object = JObject []\<rparr>"

theorem acceptBorrow_sends_once_witness:
  "acceptBorrow sample_browser \<lparr>hk_address = Some ''0xa'', hk_token = Some ''t'', hk_account = Some ''0xa''\<rparr> []
     sample_quote sample_page \<noteq> None"
  using acceptBorrow_sends_once [OF sample_page_ok(1) sample_fee,
      where hk = "\<lparr>hk_address = Some ''0xa'', hk_token = Some ''t'', hk_account = Some ''0xa''\<rparr>" and quote = sample_quote and p = sample_page]
  by (auto split: option.splits)

end
