(* ===== verification/Seed_Run.thy ===== *)
theory Seed_Run
  imports Seed_Lender Vault_Actions
begin

text \<open>
  The course of the operator's script \<^verbatim>\<open>frontend/scripts/seed-lender.mjs\<close>: the lender's
  deposit and mandate, then the second wallet's collateral and either the repayment and withdrawal or
  the quote and the borrow. A value that may be undefined fails at its first use.
\<close>

section \<open>Steps\<close>

definition need :: "string \<Rightarrow> 'a option \<Rightarrow> ('s, 'a) act" where
  "need member x = (case x of
      Some v \<Rightarrow> ret v
    | None \<Rightarrow> throw (JsError (''Cannot read properties of undefined (reading '' @ member @ '')'')))"

text \<open>The connection of one wallet: what the steps of the script share.\<close>

record wallet =
  wl_config :: live_config
  wl_teeKey :: hex
  wl_account :: address
  wl_token :: string

definition available :: "AssetId \<Rightarrow> private_account_view \<Rightarrow> number" where
  "available asset view = pb_available (pa_balances (av_account view) asset)"

definition next_nonce :: "private_account_view \<Rightarrow> number" where
  "next_nonce view = js_add (pa_nonce (av_account view)) 1"

definition view_of :: "seed \<Rightarrow> wallet \<Rightarrow> number \<Rightarrow> (page, private_account_view option) act" where
  "view_of s w nonce = directAccount s (wl_config w) (wl_teeKey w) (wl_account w) (wl_token w) nonce"

definition seed_send :: "seed \<Rightarrow> wallet \<Rightarrow> address \<Rightarrow> contract_call \<Rightarrow> int option \<Rightarrow> (page, receipt) act" where
  "seed_send s w contract call value =
     bindA (askPE (b_write (sd_browser s)) (PWrite \<lparr>cw_account = wl_account w, cw_address = contract,
       cw_call = call, cw_value = value\<rparr>)) (\<lambda>hash.
     askPE (b_receipt (sd_browser s)) (PReceipt hash))"

definition balance_of :: "seed \<Rightarrow> wallet \<Rightarrow> AssetId \<Rightarrow> (page, int) act" where
  "balance_of s w asset =
     askPE (b_balance (sd_browser s)) (PBalance (as_address (lc_assets (wl_config w) asset)) (wl_account w))"

definition approve_and_deposit :: "seed \<Rightarrow> wallet \<Rightarrow> AssetId \<Rightarrow> int \<Rightarrow> (page, relayer_job) act" where
  "approve_and_deposit s w asset units =
     (let cfg = wl_config w; tokenAddress = as_address (lc_assets cfg asset) in
      bindA (seed_send s w tokenAddress (Approve (lc_vault cfg) units) None) (\<lambda>_.
      bindA (seed_send s w (lc_vault cfg) (DepositCall tokenAddress units) (Some (sd_fee s))) (\<lambda>receipt.
      bindA (liftA (eventRequestId (b_lib (sd_browser s)) receipt ''DepositSubmitted'')) (\<lambda>requestId.
        seed_waitForChainJob s requestId (wl_token w)))))"

fun cancel_mandates ::
    "seed \<Rightarrow> wallet \<Rightarrow> private_mandate list \<Rightarrow> private_account_view \<Rightarrow> (page, private_account_view) act" where
  "cancel_mandates s w [] view = ret view"
| "cancel_mandates s w (m # ms) view =
     bindA (seed_direct s (wl_config w) (wl_teeKey w) (l_parseVoid (b_lib (sd_browser s))) (wl_account w) (wl_token w)
              ''CANCEL_MANDATE'' (JObject [(''mandateId'', JText (pm_id m))]) (pa_nonce (av_account view))
              ''mandate'' (Some ''CANCEL_MANDATE'')) (\<lambda>_.
     bindA (view_of s w (next_nonce view)) (\<lambda>answer.
     bindA (need ''account'' answer) (\<lambda>fresh. cancel_mandates s w ms fresh)))"

section \<open>The lender\<close>

text \<open>A deposit is made only where the private balance is empty; it takes no more than the wallet has.\<close>

definition lender_deposit :: "seed \<Rightarrow> wallet \<Rightarrow> private_account_view \<Rightarrow> (page, private_account_view) act" where
  "lender_deposit s w view =
     bindA (liftA (bigint_of_number (available USDT0 view))) (\<lambda>currentPrivate.
       if currentPrivate \<noteq> 0 then ret view
       else
         bindA (balance_of s w USDT0) (\<lambda>walletBalance.
         bindA (liftA (case trimmed (sd_vars s) ''LENDER_DEPOSIT_USDT0_BASE_UNITS'' of
             Some v \<Rightarrow> bigint_of_amount (AmountText v)
           | None \<Rightarrow> l_parseUnits (b_lib (sd_browser s)) ''10'' (as_decimals (lc_assets (wl_config w) USDT0))))
           (\<lambda>requestedDeposit.
           let depositAmount = (if requestedDeposit < walletBalance then requestedDeposit else walletBalance) in
           if depositAmount = 0
           then throw (JsError (''Operator has no public or private '' @ as_symbol (lc_assets (wl_config w) USDT0)))
           else
             bindA (approve_and_deposit s w USDT0 depositAmount) (\<lambda>_.
             bindA (view_of s w (pa_nonce (av_account view))) (\<lambda>answer. need ''account'' answer)))))"

definition borrower_cap :: "variables \<Rightarrow> number \<Rightarrow> js_error + number" where
  "borrower_cap vars mandateAmount =
     (let requested = (case trimmed vars ''LENDER_PER_BORROWER_CAP_USDT0_BASE_UNITS'' of
            Some v \<Rightarrow> number_of_text v | None \<Rightarrow> Some mandateAmount)
      in case requested of
           None \<Rightarrow> Inl (JsError ''Lender per-borrower cap must be a positive safe integer'')
         | Some cap \<Rightarrow>
             let perBorrowerCap = min mandateAmount cap in
             if \<not> is_safe_integer perBorrowerCap \<or> perBorrowerCap \<le> 0
             then Inl (JsError ''Lender per-borrower cap must be a positive safe integer'')
             else Inr perBorrowerCap)"

definition lender_mandate :: "seed \<Rightarrow> wallet \<Rightarrow> private_account_view \<Rightarrow> (page, private_account_view) act" where
  "lender_mandate s w view =
     (let mandateAmount = available USDT0 view in
      if mandateAmount \<le> 0
      then throw (JsError (''Operator confidential account has no lendable '' @ assetSymbol USDT0))
      else
        bindA (liftA (borrower_cap (sd_vars s) mandateAmount)) (\<lambda>perBorrowerCap.
        bindA (uuidP (sd_browser s)) (\<lambda>mandateId.
        bindA (seed_direct s (wl_config w) (wl_teeKey w) (l_parseVoid (b_lib (sd_browser s))) (wl_account w) (wl_token w)
                 ''SET_MANDATE'' (JObject [(''mandateId'', JText mandateId), (''amount'', JNumber mandateAmount),
                    (''minAprBps'', JNumber 750), (''termMask'', JNumber 7), (''perBorrowerCap'', JNumber perBorrowerCap)])
                 (pa_nonce (av_account view)) ''mandate'' (Some ''SET_MANDATE'')) (\<lambda>_.
        bindA (view_of s w (next_nonce view)) (\<lambda>answer.
        bindA (need ''mandates'' answer) (\<lambda>fresh.
          case find (\<lambda>m. pm_id m = mandateId) (av_mandates fresh) of
            Some m \<Rightarrow> if pm_active m then ret fresh
              else throw (JsError ''FCC did not activate the bootstrap lender mandate'')
          | None \<Rightarrow> throw (JsError ''FCC did not activate the bootstrap lender mandate'')))))))"

definition seed_lender :: "seed \<Rightarrow> wallet \<Rightarrow> (page, unit) act" where
  "seed_lender s w =
     bindA (accountOrCreate s (wl_config w) (wl_teeKey w) (wl_account w) (wl_token w)) (\<lambda>answer.
     bindA (need ''mandates'' answer) (\<lambda>view.
       let activeMandate = find pm_active (av_mandates view) in
       if activeMandate \<noteq> None \<and> \<not> sd_resetMandate s then ret ()
       else
         bindA (if activeMandate \<noteq> None then cancel_mandates s w (filter pm_active (av_mandates view)) view
                else ret view) (\<lambda>view.
         bindA (lender_deposit s w view) (\<lambda>view.
         bindA (lender_mandate s w view) (\<lambda>_. ret ())))))"

section \<open>The second wallet\<close>

definition borrower_collateral :: "seed \<Rightarrow> wallet \<Rightarrow> private_account_view \<Rightarrow> (page, private_account_view option) act" where
  "borrower_collateral s w view =
     (if \<not> sd_executeBorrow s then ret (Some view)
      else bindA (liftA (bigint_of_number (available FXRP view))) (\<lambda>private.
        if private \<noteq> 0 then ret (Some view)
        else
          bindA (balance_of s w FXRP) (\<lambda>walletBalance.
          bindA (liftA (case trimmed (sd_vars s) ''BORROWER_COLLATERAL_FXRP_BASE_UNITS'' of
              Some v \<Rightarrow> bigint_of_amount (AmountText v) | None \<Rightarrow> Inr walletBalance)) (\<lambda>requestedCollateral.
            let collateralDeposit = (if requestedCollateral < walletBalance then requestedCollateral else walletBalance) in
            if collateralDeposit = 0 then throw (JsError ''Borrower wallet has no FXRP available to deposit'')
            else
              bindA (approve_and_deposit s w FXRP collateralDeposit) (\<lambda>_.
              view_of s w (pa_nonce (av_account view)))))))"

text \<open>The withdrawal that verifies the release of collateral, to the last unit on both sides.\<close>

definition verify_withdrawal :: "seed \<Rightarrow> wallet \<Rightarrow> private_account_view \<Rightarrow> (page, unit) act" where
  "verify_withdrawal s w view =
     (let cfg = wl_config w; lib = b_lib (sd_browser s); fxrp = as_address (lc_assets cfg FXRP) in
      bindA (liftA (bigint_variable (sd_vars s) ''WITHDRAW_FXRP_BASE_UNITS'' ''1000000'')) (\<lambda>withdrawalAmount.
      bindA (liftA (bigint_of_number (available FXRP view))) (\<lambda>privateFxrp.
        let units = (if withdrawalAmount < privateFxrp then withdrawalAmount else privateFxrp) in
        if units \<le> 0 then throw (JsError ''No released FXRP is available for withdrawal verification'')
        else
          bindA (balance_of s w FXRP) (\<lambda>walletBefore.
          bindA (seed_send s w (lc_vault cfg) (RequestWithdrawal fxrp units (wl_account w)) (Some (sd_fee s))) (\<lambda>receipt.
          bindA (liftA (eventRequestId lib receipt ''ConfidentialRequestSubmitted'')) (\<lambda>requestId.
          bindA (seed_waitForChainJob s requestId (wl_token w)) (\<lambda>_.
          bindA (view_of s w (next_nonce view)) (\<lambda>answer.
          bindA (balance_of s w FXRP) (\<lambda>walletAfter.
            if walletAfter - walletBefore \<noteq> units
            then throw (JsError ''FXRP withdrawal did not settle exact public and private balances'')
            else
              bindA (need ''account'' answer) (\<lambda>withdrawn.
              bindA (liftA (bigint_of_number (available FXRP withdrawn))) (\<lambda>left.
                if privateFxrp - left \<noteq> units
                then throw (JsError ''FXRP withdrawal did not settle exact public and private balances'')
                else ret ())))))))))))"

definition close_loan :: "seed \<Rightarrow> wallet \<Rightarrow> private_account_view \<Rightarrow> (page, unit) act" where
  "close_loan s w view =
     bindA (cancel_mandates s w (filter pm_active (av_mandates view)) view) (\<lambda>view.
       let repaymentAmount = available USDT0 view in
       if repaymentAmount \<le> 0
       then throw (JsError (''Borrower private account has no '' @ assetSymbol USDT0 @ '' available for repayment''))
       else
         bindA (uuidP (sd_browser s)) (\<lambda>uuid.
         bindA (seed_direct s (wl_config w) (wl_teeKey w) (l_parseVoid (b_lib (sd_browser s))) (wl_account w) (wl_token w)
                  ''APPLY_REPAYMENT'' (JObject [(''amount'', JNumber repaymentAmount), (''operationId'', JText uuid)])
                  (pa_nonce (av_account view)) ''repayment'' None) (\<lambda>_.
         bindA (view_of s w (next_nonce view)) (\<lambda>answer.
         bindA (need ''loan'' answer) (\<lambda>fresh.
           if av_loan fresh \<noteq> None then throw (JsError ''Private repayment did not close the active loan'')
           else verify_withdrawal s w fresh)))))"

text \<open>Nine tenths of half the collateral's value; a division of bigints truncates.\<close>

definition safe_capacity :: "int \<Rightarrow> int \<Rightarrow> int" where
  "safe_capacity collateral xrpUsdE6 =
     (let collateralValue = (collateral * xrpUsdE6) sdiv 1000000;
          maximumAtInitialLtv = collateralValue sdiv 2
      in (maximumAtInitialLtv * 9) sdiv 10)"

definition seed_borrow :: "seed \<Rightarrow> wallet \<Rightarrow> private_account_view \<Rightarrow> private_quote \<Rightarrow> (page, unit) act" where
  "seed_borrow s w view quote =
     (let b = sd_browser s; cfg = wl_config w in
      bindA (balance_of s w USDT0) (\<lambda>payoutBefore.
      bindA (uuidP b) (\<lambda>loanId.
      bindA (createActionDraft b (wl_account w) (pa_nonce (av_account view)) ''BORROW_ACCEPT''
               (JObject [(''quote'', q_object quote), (''loanId'', JText loanId)])
               (of_int (net_id (lc_network cfg))) (lc_vault cfg) None) (\<lambda>acceptance.
      bindA (askPE (b_sign b) (PSign (ad_typedData acceptance))) (\<lambda>signature.
      bindA (seed_sealSignedAction b acceptance signature (wl_teeKey w)) (\<lambda>encryptedAcceptance.
      bindA (seed_send s w (lc_vault cfg) (RequestBorrow encryptedAcceptance) (Some (sd_fee s))) (\<lambda>receipt.
      bindA (liftA (eventRequestId (b_lib b) receipt ''ConfidentialRequestSubmitted'')) (\<lambda>requestId.
      bindA (seed_waitForChainJob s requestId (wl_token w)) (\<lambda>_.
      bindA (view_of s w (next_nonce view)) (\<lambda>answer.
      bindA (balance_of s w USDT0) (\<lambda>payoutAfter.
      bindA (need ''loan'' answer) (\<lambda>settled.
        if av_loan settled = None
        then throw (JsError ''Borrow settlement did not create the private loan and exact public payout'')
        else bindA (liftA (bigint_of_number (q_amount quote))) (\<lambda>paid.
          if payoutAfter - payoutBefore \<noteq> paid
          then throw (JsError ''Borrow settlement did not create the private loan and exact public payout'')
          else ret ())))))))))))))"

definition verify_quote :: "seed \<Rightarrow> wallet \<Rightarrow> private_account_view \<Rightarrow> (page, unit) act" where
  "verify_quote s w view =
     (let b = sd_browser s; collateral = min (available FXRP view) 10000000 in
      if collateral \<le> 0
      then throw (JsError ''Borrower confidential account has no FXRP available for quote verification'')
      else
        bindA (liftA (bigint_of_number collateral)) (\<lambda>units.
        bindA (liftA (bigint_of_number (pp_xrpUsdE6 (av_price view)))) (\<lambda>price.
        bindA (liftA (bigint_variable (sd_vars s) ''BORROW_AMOUNT_USDT0_BASE_UNITS'' ''3000000'')) (\<lambda>requestedBorrow.
          let capacity = safe_capacity units price;
              borrowAmount = (if requestedBorrow < capacity then requestedBorrow else capacity)
          in if borrowAmount \<le> 0
             then throw (JsError ''Borrower collateral has no positive capacity at the 50% initial LTV'')
             else
               bindA (uuidP b) (\<lambda>uuid.
               bindA (nowP b) (\<lambda>now.
               bindA (seed_direct s (wl_config w) (wl_teeKey w) (l_parseQuote (b_lib b)) (wl_account w) (wl_token w)
                        ''QUOTE_REQUEST'' (JObject [(''id'', JText uuid), (''borrower'', JText (wl_account w)),
                           (''amount'', JNumber (fl (of_int borrowAmount))), (''termDays'', JNumber 14),
                           (''maxAprBps'', JNumber 1200), (''collateralFxrp'', JNumber collateral),
                           (''expiresAt'', JNumber (of_int (now div 1000 + 300)))])
                        (pa_nonce (av_account view)) ''quote'' None) (\<lambda>answer.
               bindA (need ''amount'' answer) (\<lambda>quote.
                 if sd_expectPartial s \<and> q_partial quote \<noteq> Some True
                 then throw (JsError ''Expected a private partial quote, but full liquidity was returned'')
                 else if sd_expectMultiLender s \<and> length (q_tranches quote) < 2
                 then throw (JsError ''Expected multiple private lender tranches'')
                 else if sd_executeBorrow s \<and> av_loan view = None then seed_borrow s w view quote
                 else ret ()))))))))"

definition seed_borrower :: "seed \<Rightarrow> live_config \<Rightarrow> hex \<Rightarrow> string \<Rightarrow> (page, unit) act" where
  "seed_borrower s cfg teeKey key =
     bindA (liftA (l_keyAddress (b_lib (sd_browser s)) (normalizePrivateKey key))) (\<lambda>borrower.
     bindA (authenticate s borrower) (\<lambda>session.
       let w = \<lparr>wl_config = cfg, wl_teeKey = teeKey, wl_account = borrower, wl_token = tv_token session\<rparr> in
       bindA (accountOrCreate s cfg teeKey borrower (tv_token session)) (\<lambda>answer.
       bindA (if sd_executeBorrow s then bindA (need ''account'' answer) (borrower_collateral s w) else ret answer)
         (\<lambda>answer.
       bindA (need (if sd_executeClose s then ''loan'' else ''account'') answer) (\<lambda>view.
         if sd_executeClose s \<and> av_loan view \<noteq> None then close_loan s w view else verify_quote s w view)))))"

definition seed_main :: "browser \<Rightarrow> blanks \<Rightarrow> variables \<Rightarrow> string list \<Rightarrow> (page, unit) act" where
  "seed_main b blank vars argv =
     bindA (seed_settings b blank vars argv) (\<lambda>s.
     bindA (api s (b_config b) (bl_config blank) ''/config'' None None None) (\<lambda>cfg.
     bindA (api s (b_attestation b) (bl_info blank) ''/attestation'' None None None) (\<lambda>info.
     bindA (liftA (teePublicKeyFromInfo (b_lib b) info)) (\<lambda>teeKey.
     bindA (authenticate s (sd_operator s)) (\<lambda>session.
     thenA (seed_lender s \<lparr>wl_config = cfg, wl_teeKey = teeKey, wl_account = sd_operator s, wl_token = tv_token session\<rparr>)
       (case sd_borrowerKey s of None \<Rightarrow> ret () | Some key \<Rightarrow> seed_borrower s cfg teeKey key))))))"

section \<open>What is sent\<close>

definition seed_write :: "wallet \<Rightarrow> address \<Rightarrow> contract_call \<Rightarrow> int option \<Rightarrow> contract_write" where
  "seed_write w contract call value =
     \<lparr>cw_account = wl_account w, cw_address = contract, cw_call = call, cw_value = value\<rparr>"

lemma seed_transaction:
  assumes "\<And>x t. sent t = PWrite (seed_write w contract call value) # sent p \<Longrightarrow> wp (k x) Q E t"
    and "\<And>e t. sent t = PWrite (seed_write w contract call value) # sent p \<Longrightarrow> E e t"
  shows "wp (bindA (seed_send s w contract call value) k) Q E p"
proof -
  have "sent (p\<lparr>asked := PWrite (seed_write w contract call value) # asked p\<rparr>)
      = PWrite (seed_write w contract call value) # sent p"
    "sent (p\<lparr>asked := PReceipt h # PWrite (seed_write w contract call value) # asked p\<rparr>)
      = PWrite (seed_write w contract call value) # sent p" for h
    by (simp_all add: sent_def is_tx_def)
  then show ?thesis
    unfolding seed_send_def seed_write_def [symmetric]
    by (auto simp: wp_bindA wp_askPE intro!: assms split: sum.split)
qed

lemma keeps_need: "keeps nothing_sent (need member x)"
  unfolding need_def by (auto intro!: quiet_sent.quiet_intros split: option.split)

lemma keeps_balance_of: "keeps nothing_sent (balance_of s w asset)"
  unfolding balance_of_def by (auto intro!: quiet_sent.quiet_intros simp: is_tx_def)

lemma keeps_view_of: "keeps nothing_sent (view_of s w n)"
  unfolding view_of_def by (rule page_sent.keeps_accounts)

lemmas seed_keeps = quiet_sent.quiet_intros page_sent.keeps_accounts page_sent.keeps_seed_direct
  page_sent.keeps_seed_waitForChainJob page_sent.keeps_sealing keeps_need keeps_balance_of keeps_view_of

lemma keeps_cancel_mandates: "keeps nothing_sent (cancel_mandates s w ms view)"
  by (induction ms arbitrary: view) (auto intro!: seed_keeps)

lemma keeps_lender_mandate: "keeps nothing_sent (lender_mandate s w view)"
  unfolding lender_mandate_def Let_def by (auto intro!: seed_keeps split: option.split)

text \<open>The two transactions of a deposit of \<open>units\<close>, newest first.\<close>

definition seed_deposit :: "seed \<Rightarrow> wallet \<Rightarrow> AssetId \<Rightarrow> int \<Rightarrow> page_call list" where
  "seed_deposit s w asset units = (let vault = lc_vault (wl_config w); token = as_address (lc_assets (wl_config w) asset) in
     [PWrite (seed_write w vault (DepositCall token units) (Some (sd_fee s))),
      PWrite (seed_write w token (Approve vault units) None)])"

text \<open>How far the lender's part came: nothing sent, or a deposit of some units, or only its approval.\<close>

definition lender_done :: "seed \<Rightarrow> wallet \<Rightarrow> page \<Rightarrow> page \<Rightarrow> bool" where
  "lender_done s w p q = (sent q = sent p \<or> (\<exists>units. units \<noteq> 0 \<and> sent q = seed_deposit s w USDT0 units @ sent p))"

definition lender_failed :: "seed \<Rightarrow> wallet \<Rightarrow> page \<Rightarrow> page \<Rightarrow> bool" where
  "lender_failed s w p q = (lender_done s w p q
     \<or> (\<exists>units. units \<noteq> 0 \<and> sent q = tl (seed_deposit s w USDT0 units) @ sent p))"

lemma lender_done_eq: "sent t = sent u \<Longrightarrow> lender_done s w p u \<Longrightarrow> lender_done s w p t"
  by (simp add: lender_done_def)

lemma approve_and_deposit_wp:
  assumes "units \<noteq> 0" and "sent u = sent p"
  shows "wp (approve_and_deposit s w USDT0 units) (\<lambda>_. lender_done s w p) (\<lambda>_. lender_failed s w p) u"
  unfolding approve_and_deposit_def Let_def
proof (rule seed_transaction, rule seed_transaction)
  fix x t y v
  assume "sent t = PWrite (seed_write w (as_address (lc_assets (wl_config w) USDT0)) (Approve (lc_vault (wl_config w)) units) None) # sent u"
    and "sent v = PWrite (seed_write w (lc_vault (wl_config w))
      (DepositCall (as_address (lc_assets (wl_config w) USDT0)) units) (Some (sd_fee s))) # sent t"
  then have v: "sent v = seed_deposit s w USDT0 units @ sent p"
    using assms by (simp add: seed_deposit_def Let_def)
  show "wp (bindA (liftA (eventRequestId (b_lib (sd_browser s)) y ''DepositSubmitted''))
      (\<lambda>requestId. seed_waitForChainJob s requestId (wl_token w)))
      (\<lambda>_. lender_done s w p) (\<lambda>_. lender_failed s w p) v"
    by (rule wp_frame [where R = nothing_sent])
      (use assms v in \<open>auto intro!: seed_keeps simp: nothing_sent_def lender_done_def lender_failed_def\<close>)
qed (use assms in \<open>auto simp: lender_failed_def lender_done_def seed_deposit_def Let_def\<close>)

lemma lender_deposit_wp:
  assumes "sent u = sent p"
  shows "wp (lender_deposit s w view) (\<lambda>_. lender_done s w p) (\<lambda>_. lender_failed s w p) u"
proof -
  have early: "lender_failed s w p t" "lender_done s w p t" if "sent t = sent u" for t
    using that assms by (simp_all add: lender_failed_def lender_done_def)
  have credited: "wp (bindA (approve_and_deposit s w USDT0 units)
      (\<lambda>_. bindA (view_of s w n) (\<lambda>answer. need ''account'' answer)))
      (\<lambda>_. lender_done s w p) (\<lambda>_. lender_failed s w p) t"
    if "units \<noteq> 0" and "sent t = sent u" for units n t
    unfolding wp_bindA [of "approve_and_deposit s w USDT0 units"]
  proof (rule wp_mono [OF approve_and_deposit_wp [of units t p]], goal_cases)
    case (3 x v)
    show ?case
      by (rule wp_frame [where R = nothing_sent])
        (use 3 in \<open>auto intro!: seed_keeps simp: nothing_sent_def lender_failed_def intro: lender_done_eq\<close>)
  qed (use that assms in auto)
  show ?thesis
    unfolding lender_deposit_def Let_def
    by (rule sent_quiet [OF nothing_sent_frame.keeps_liftA])
      (auto simp: wp_ret wp_throw early intro!: sent_quiet [OF keeps_balance_of]
        sent_quiet [OF nothing_sent_frame.keeps_liftA] credited)
qed

text \<open>A division of bigints truncates; where nothing is negative it is the floor.\<close>

lemma sdiv_floor: "0 \<le> a \<Longrightarrow> 0 \<le> b \<Longrightarrow> a sdiv b = a div (b::int)"
  by (cases "a = 0"; cases "b = 0") (simp_all add: signed_divide_int_def sgn_if)

section \<open>What comes to an end\<close>

lemma total_seed_send [intro!, simp]: "total (seed_send s w c call v)"
  unfolding seed_send_def by (auto intro!: total_intros)

lemma total_need [intro!, simp]: "total (need m x)"
  unfolding need_def by (auto intro!: total_intros split: option.split)

lemma total_balance_of [intro!, simp]: "total (balance_of s w asset)"
  unfolding balance_of_def by simp

lemma total_seed_lender:
  assumes "page_ok (sd_browser s)"
  shows "total (seed_lender s w)"
proof -
  have clock: "page_clock_ok (sd_browser s)" using assms by (simp add: page_ok_def)
  have view: "total (view_of s w n)" for n
    unfolding view_of_def by (rule total_accounts [OF assms])
  have cancel: "total (cancel_mandates s w ms v)" for ms v
    by (induction ms arbitrary: v) (auto intro!: total_intros total_seed_direct assms view)
  have dep: "total (lender_deposit s w v)" for v
    unfolding lender_deposit_def approve_and_deposit_def Let_def
    by (auto intro!: total_intros view total_seed_waits clock)
  have mandate: "total (lender_mandate s w v)" for v
    unfolding lender_mandate_def Let_def
    by (auto intro!: total_intros view total_seed_direct assms split: option.split)
  show ?thesis
    unfolding seed_lender_def Let_def
    by (auto intro!: total_intros cancel dep mandate total_accounts assms)
qed

section \<open>Properties\<close>

text \<open>
  The lender's part of the script comes to an end and sends at most one deposit. When it
  succeeds it sent nothing, or an approval of the vault and after it a deposit of the same positive
  amount of USDT0; when it fails it may also have sent the approval alone. A deposit is never sent
  twice and never without its approval.
\<close>
lemma seed_lender_sends_once:
  assumes "page_ok (sd_browser s)"
  shows "case seed_lender s w p of
      None \<Rightarrow> False
    | Some (r, q) \<Rightarrow> sent q = sent p \<or> (\<exists>units. units \<noteq> 0
        \<and> (sent q = seed_deposit s w USDT0 units @ sent p
           \<or> (\<exists>e. r = Inl e \<and> sent q = tl (seed_deposit s w USDT0 units) @ sent p)))"
proof -
  have early: "lender_failed s w p t" "lender_done s w p t" if "sent t = sent p" for t
    using that by (simp_all add: lender_failed_def lender_done_def)
  have "wp (bindA (lender_deposit s w view) (\<lambda>view. bindA (lender_mandate s w view) (\<lambda>_. ret ())))
      (\<lambda>_. lender_done s w p) (\<lambda>_. lender_failed s w p) t" if "sent t = sent p" for view t
    unfolding wp_bindA [of "lender_deposit s w view"]
  proof (rule wp_mono [OF lender_deposit_wp [OF that]], goal_cases)
    case (1 x v)
    show ?case
      by (rule wp_frame [where R = nothing_sent])
        (use 1 in \<open>auto intro!: seed_keeps keeps_lender_mandate simp: nothing_sent_def lender_failed_def
          intro: lender_done_eq\<close>)
  qed
  note course = this
  have "wp (seed_lender s w) (\<lambda>_. lender_done s w p) (\<lambda>_. lender_failed s w p) p"
    unfolding seed_lender_def Let_def
    by (rule sent_quiet [OF page_sent.keeps_accounts(2)], rule sent_quiet [OF keeps_need])
      (auto simp: wp_ret early intro!: sent_quiet [OF keeps_cancel_mandates]
        sent_quiet [OF nothing_sent_frame.keeps_ret] course)
  moreover obtain r q where run: "seed_lender s w p = Some (r, q)"
    using total_ends [OF total_seed_lender [OF assms]] by (rule endsE)
  ultimately show ?thesis
    by (cases r) (auto simp: wp_def lender_done_def lender_failed_def)
qed

definition sample_seed :: "blanks \<Rightarrow> seed" where
  "sample_seed blank = \<lparr>sd_browser = sample_browser, sd_blank = blank, sd_vars = (\<lambda>_. None),
     sd_url = ''http://localhost:8787'', sd_fee = 7, sd_operator = ''0xa'', sd_borrowerKey = None,
     sd_executeBorrow = False, sd_executeClose = False, sd_resetMandate = False, sd_expectPartial = False,
     sd_expectMultiLender = False\<rparr>"

definition sample_wallet :: wallet where
  "sample_wallet = \<lparr>wl_config = \<lparr>lc_vault = ''0xf'', lc_network = COSTON2, lc_assets = ASSETS,
     lc_termsDays = [7, 14, 30], lc_quoteValiditySeconds = 300\<rparr>, wl_teeKey = ''0x04'', wl_account = ''0xa'', wl_token = ''t''\<rparr>"

lemma seed_lender_sends_once_witness:
  "\<forall>blank. seed_lender (sample_seed blank) sample_wallet sample_page \<noteq> None"
proof
  fix blank
  have "page_ok (sd_browser (sample_seed blank))"
    using sample_page_ok(1) by (simp add: sample_seed_def)
  from seed_lender_sends_once [OF this, where w = sample_wallet and p = sample_page]
  show "seed_lender (sample_seed blank) sample_wallet sample_page \<noteq> None" by (auto split: option.splits)
qed

text \<open>
  The capacity the script quotes against is nine twentieths of the value of the collateral at
  the price, rounded down: it is never negative, never exceeds that share, and stays within two
  base units of it.
\<close>
lemma safe_capacity_bounds:
  assumes "0 \<le> collateral" and "0 \<le> xrpUsdE6"
  shows "0 \<le> safe_capacity collateral xrpUsdE6
    \<and> 20000000 * safe_capacity collateral xrpUsdE6 \<le> 9 * (collateral * xrpUsdE6)
    \<and> 9 * (collateral * xrpUsdE6) < 20000000 * (safe_capacity collateral xrpUsdE6 + 2)"
proof -
  define v where "v = collateral * xrpUsdE6"
  have "0 \<le> v" using assms by (simp add: v_def)
  define m c where "m = v div 1000000 div 2" and "c = m * 9 div 10"
  have "safe_capacity collateral xrpUsdE6 = c"
    using \<open>0 \<le> v\<close> by (simp add: safe_capacity_def Let_def v_def [symmetric] sdiv_floor
        pos_imp_zdiv_nonneg_iff m_def c_def)
  moreover have "m = v div 2000000" by (simp add: m_def zdiv_zmult2_eq [symmetric])
  then have "2000000 * m \<le> v" "v < 2000000 * m + 2000000" "0 \<le> m"
    using \<open>0 \<le> v\<close> by (simp_all add: pos_imp_zdiv_nonneg_iff)
  moreover have "10 * c \<le> 9 * m" "9 * m < 10 * c + 10" by (simp_all add: c_def)
  ultimately show ?thesis
    unfolding v_def [symmetric] by simp
qed

lemma safe_capacity_bounds_witness:
  "0 \<le> safe_capacity 10000000 520000 \<and> safe_capacity 10000000 520000 = 2340000"
  using safe_capacity_bounds [of 10000000 520000] by (simp add: safe_capacity_def)

end
