(* ===== verification/Ui.thy ===== *)
theory Ui
  imports Vault_Actions
begin

text \<open>
  What the pages share (\<^verbatim>\<open>frontend/src/components/ui.tsx\<close> and React): toasts, the view of a page
  with its local state beside the browser's page, the keyboard loop of a dialog, the scale of
  health, and effects that run again when what they depend on has changed. Markup is not modelled.
\<close>

text \<open>The truth of an optional number.\<close>

definition nonzero :: "number option \<Rightarrow> bool" where
  "nonzero x = (case x of None \<Rightarrow> False | Some n \<Rightarrow> n \<noteq> 0)"

text \<open>A status is a text in the source.\<close>

primrec loan_status_text :: "loan_status \<Rightarrow> string" where
  "loan_status_text LoanHealthy = ''healthy''"
| "loan_status_text LoanRestricted = ''restricted''"
| "loan_status_text LoanWarning = ''warning''"
| "loan_status_text LoanLiquidatable = ''liquidatable''"
| "loan_status_text LoanClosed = ''closed''"
| "loan_status_text LoanLiquidated = ''liquidated''"

section \<open>Toasts\<close>

datatype tone = ToneSuccess | ToneWarning | ToneError | ToneInfo

record toast =
  to_tone :: tone
  to_title :: string
  to_body :: "string option"

type_synonym toast_stack = "(string \<times> toast) list"

text \<open>\<open>push\<close> appends under a new identifier; the same toast is filtered out 4.5 seconds later.\<close>

definition push_toast :: "string \<Rightarrow> toast \<Rightarrow> toast_stack \<Rightarrow> toast_stack" where
  "push_toast i x stack = stack @ [(i, x)]"

definition drop_toast :: "string \<Rightarrow> toast_stack \<Rightarrow> toast_stack" where
  "drop_toast i stack = filter (\<lambda>item. fst item \<noteq> i) stack"

lemma drop_push_toast: "i \<notin> fst ` set stack \<Longrightarrow> drop_toast i (push_toast i x stack) = stack"
  by (auto simp: drop_toast_def push_toast_def filter_id_conv)

section \<open>The view of a page\<close>

text \<open>A component of the page: the browser's page, the toasts on show, and its own \<open>useState\<close>s.\<close>

record 'l view =
  vw_page :: page
  vw_toasts :: toast_stack
  vw_local :: 'l

definition onPage :: "(page, 'a) act \<Rightarrow> ('l view, 'a) act" where
  "onPage m = (\<lambda>v. case m (vw_page v) of
      None \<Rightarrow> None
    | Some (r, p) \<Rightarrow> Some (r, v\<lparr>vw_page := p\<rparr>))"

definition setLocal :: "('l \<Rightarrow> 'l) \<Rightarrow> ('l view, unit) act" where
  "setLocal f = modifyA (\<lambda>v. v\<lparr>vw_local := f (vw_local v)\<rparr>)"

definition push :: "browser \<Rightarrow> tone \<Rightarrow> string \<Rightarrow> string option \<Rightarrow> ('l view, unit) act" where
  "push b t title body = bindA (onPage (uuidP b)) (\<lambda>i.
     modifyA (\<lambda>v. v\<lparr>vw_toasts := push_toast i \<lparr>to_tone = t, to_title = title, to_body = body\<rparr> (vw_toasts v)\<rparr>))"

text \<open>\<open>if (c) { ...; return }\<close> before the rest of a handler.\<close>

definition failing :: "browser \<Rightarrow> string \<Rightarrow> js_error \<Rightarrow> ('l view, unit) act" where
  "failing b title e = push b ToneError title (Some (error_message e))"

lemma wp_onPage [wp_simps]:
  "wp (onPage m) Q E v = wp m (\<lambda>x p. Q x (v\<lparr>vw_page := p\<rparr>)) (\<lambda>e p. E e (v\<lparr>vw_page := p\<rparr>)) (vw_page v)"
  by (simp add: wp_def onPage_def split: option.splits prod.splits sum.splits)

lemma wp_setLocal [wp_simps]: "wp (setLocal f) Q E v = Q () (v\<lparr>vw_local := f (vw_local v)\<rparr>)"
  by (simp add: setLocal_def wp_simps)

lemma wp_push [wp_simps]:
  "wp (push b t title body) Q E v = Q () (v\<lparr>vw_page := (vw_page v)\<lparr>asked := PUuid # asked (vw_page v)\<rparr>,
     vw_toasts := vw_toasts v @ [(b_uuid b (PUuid # asked (vw_page v)),
       \<lparr>to_tone = t, to_title = title, to_body = body\<rparr>)]\<rparr>)"
  by (simp add: push_def push_toast_def uuidP_def wp_simps)

lemma ends_onPage [wp_simps]: "ends (onPage m) v \<longleftrightarrow> ends m (vw_page v)"
  by (auto simp: ends_def onPage_def split: option.splits)

lemma total_onPage: "total m \<Longrightarrow> total (onPage m)"
  by (simp add: total_def ends_onPage)

lemma total_view [intro!, simp]: "total (setLocal f)" "total (push b t title body)"
  by (auto simp: setLocal_def push_def uuidP_def intro!: total_intros total_onPage)

lemma sent_PUuid [simp]: "sent (p\<lparr>asked := PUuid # asked p\<rparr>) = sent p"
  by (simp add: sent_def is_tx_def)

text \<open>A page's own frames, lifted to its view.\<close>

definition lifted :: "(page \<Rightarrow> page \<Rightarrow> bool) \<Rightarrow> 'l view \<Rightarrow> 'l view \<Rightarrow> bool" where
  "lifted R v w = R (vw_page v) (vw_page w)"

lemma frame_lifted: "frame R \<Longrightarrow> frame (lifted R)"
  unfolding frame_def lifted_def by blast

interpretation view_sent: frame "lifted nothing_sent"
  by (rule frame_lifted) unfold_locales

interpretation view_app: frame "lifted same_app"
  by (rule frame_lifted) unfold_locales

lemma keeps_onPage: "keeps R m \<Longrightarrow> keeps (lifted R) (onPage m)"
  by (auto simp: keeps_def lifted_def onPage_def split: option.splits prod.splits)

lemma keeps_local: "frame R \<Longrightarrow> keeps (lifted R) (setLocal f)"
  by (auto simp: keeps_def lifted_def setLocal_def modifyA_def frame_def)

lemma keeps_push:
  "keeps (lifted nothing_sent) (push b t title body)" "keeps (lifted same_app) (push b t title body)"
  by (auto simp: keeps_def lifted_def push_def uuidP_def onPage_def askP_def bindA_def modifyA_def Let_def
      nothing_sent_def same_app_def sent_def is_tx_def)

section \<open>The keyboard in a dialog\<close>

text \<open>
  \<open>Modal\<close>'s listener: Escape closes, Tab at either end of the focusable elements goes round to the
  other. Everything else is left to the browser.
\<close>

datatype 'e key_outcome = CloseDialog | FocusOn 'e | LeaveToBrowser

definition dialog_key :: "string \<Rightarrow> bool \<Rightarrow> 'e list \<Rightarrow> 'e \<Rightarrow> 'e key_outcome" where
  "dialog_key key shift focusable active =
     (if key = ''Escape'' then CloseDialog
      else if key \<noteq> ''Tab'' \<or> focusable = [] then LeaveToBrowser
      else if shift \<and> active = hd focusable then FocusOn (last focusable)
      else if \<not> shift \<and> active = last focusable then FocusOn (hd focusable)
      else LeaveToBrowser)"

lemma dialog_key_inside: "dialog_key key shift focusable active = FocusOn e \<Longrightarrow> e \<in> set focusable"
  by (auto simp: dialog_key_def split: if_splits)

section \<open>The scale and the steps\<close>

definition bounded_value :: "number \<Rightarrow> number" where
  "bounded_value x = max 0 (min 100 x)"

definition health_label :: "string \<Rightarrow> number \<Rightarrow> string" where
  "health_label label x = label @ '': '' @ to_fixed 1 x @ '' percent''"

lemma bounded_value_range: "0 \<le> bounded_value x \<and> bounded_value x \<le> 100"
  by (simp add: bounded_value_def)

datatype step_class = StepComplete | StepActive | StepAhead

definition step_classes :: "string list \<Rightarrow> nat \<Rightarrow> step_class list" where
  "step_classes names active = map (\<lambda>i. if i < active then StepComplete
     else if i = active then StepActive else StepAhead) [0 ..< length names]"

section \<open>Effects\<close>

text \<open>
  \<open>useEffect(body, deps)\<close>: what the effect last ran with, and the timer its body left, which the
  clean-up clears before the body runs again.
\<close>

record ('d, 't) effect =
  ef_seen :: "'d option"
  ef_timer :: "'t option"

definition fresh_effect :: "('d, 't) effect" where
  "fresh_effect = \<lparr>ef_seen = None, ef_timer = None\<rparr>"

text \<open>The delay of \<open>setTimeout\<close>, a signed 32-bit integer, negative ones as zero.\<close>

definition timer_delay :: "number \<Rightarrow> int" where
  "timer_delay d = (let n = (if d < 0 then \<lceil>d\<rceil> else \<lfloor>d\<rfloor>); w = (n + 2 ^ 31) mod 2 ^ 32 - 2 ^ 31 in max 0 w)"

lemma timer_delay_small: "0 \<le> d \<Longrightarrow> d < 2 ^ 31 \<Longrightarrow> timer_delay d = \<lfloor>d\<rfloor>"
proof -
  assume d: "0 \<le> d" "d < 2 ^ 31"
  then have "0 \<le> \<lfloor>d\<rfloor>" "\<lfloor>d\<rfloor> < 2 ^ 31" by (simp_all add: floor_less_iff)
  then have "(\<lfloor>d\<rfloor> + 2 ^ 31) mod 2 ^ 32 = \<lfloor>d\<rfloor> + 2 ^ 31" by (intro mod_pos_pos_trivial) simp_all
  then show ?thesis using d \<open>0 \<le> \<lfloor>d\<rfloor>\<close> by (simp add: timer_delay_def Let_def)
qed

end
