(* ===== verification/Shell_View.thy ===== *)
theory Shell_View
  imports Ui Session_Spec
begin

text \<open>
  The frame of the application, \<^verbatim>\<open>frontend/src/components/AppShell.tsx\<close>: the effects that lock an
  expired session, leave a session whose wallet went away or changed, announce health and maturity,
  reconcile a flagged settlement once after a reload, and poll the market. An effect runs with the
  state that was rendered and acts on the state as it then is; whenever the store or the wallet
  changes React renders again before anything else happens.
\<close>

section \<open>State\<close>

datatype wallet_status = WalletConnecting | WalletReconnecting | WalletConnected | WalletDisconnected

text \<open>wagmi's \<open>useAccount()\<close>.\<close>

record wallet =
  wa_status :: wallet_status
  wa_connected :: bool
  wa_address :: "address option"

type_synonym guard_deps = "address option \<times> bool \<times> wallet"
type_synonym health_deps = "bool \<times> position option \<times> number option"
type_synonym maturity_deps = "bool \<times> bool \<times> position option"

text \<open>
  \<open>sl_toasts\<close> are the calls of \<open>push\<close>, \<open>sl_notified\<close> the keys in the set \<open>notified\<close>, both newest
  first; \<open>sl_refreshes\<close> counts the refreshes the shell started. A timer is the time it is due.
\<close>

record shell =
  sl_app :: quietline
  sl_wallet :: wallet
  sl_now :: int
  sl_toasts :: "toast list"
  sl_notified :: "string list"
  sl_reconciled :: bool
  sl_refreshes :: nat
  sl_expiry :: "(number option, int) effect"
  sl_guard :: "(guard_deps, int) effect"
  sl_health :: "(health_deps, unit) effect"
  sl_maturity :: "(maturity_deps, int) effect"

definition loaded_shell :: "quietline \<Rightarrow> wallet \<Rightarrow> int \<Rightarrow> shell" where
  "loaded_shell st w now = \<lparr>sl_app = st, sl_wallet = w, sl_now = now, sl_toasts = [], sl_notified = [],
     sl_reconciled = False, sl_refreshes = 0, sl_expiry = fresh_effect, sl_guard = fresh_effect,
     sl_health = fresh_effect, sl_maturity = fresh_effect\<rparr>"

definition say :: "tone \<Rightarrow> string \<Rightarrow> string \<Rightarrow> shell \<Rightarrow> shell" where
  "say t title body s = s\<lparr>sl_toasts := \<lparr>to_tone = t, to_title = title, to_body = Some body\<rparr> # sl_toasts s\<rparr>"

definition wallet_settling :: "wallet \<Rightarrow> bool" where
  "wallet_settling w = (wa_status w = WalletConnecting \<or> wa_status w = WalletReconnecting)"

definition wallet_present :: "wallet \<Rightarrow> address option" where
  "wallet_present w = (if wa_connected w then present (wa_address w) else None)"

section \<open>Reconciling after a reload\<close>

text \<open>
  The effect also depends on the identity of \<open>refreshAccount\<close>; run again with the same other values
  it does nothing, so here it runs at every render.
\<close>

definition reconcileOnLoad :: "quietline \<Rightarrow> wallet \<Rightarrow> shell \<Rightarrow> shell" where
  "reconcileOnLoad st w s =
     (if sl_reconciled s then s
      else case present (address_of st) of
          None \<Rightarrow> s
        | Some a \<Rightarrow>
            if \<not> hasHydrated st \<or> mode_of st \<noteq> Live \<or> \<not> pendingSettlementRefresh st then s
            else if wallet_settling w then s
            else if map_option lower (wallet_present w) \<noteq> Some (lower a) then s
            else s\<lparr>sl_reconciled := True, sl_refreshes := Suc (sl_refreshes s)\<rparr>)"

section \<open>The end of the session\<close>

definition expiryEffect :: "quietline \<Rightarrow> shell \<Rightarrow> shell" where
  "expiryEffect st s =
     (let expires = sessionExpiresAt st; idle = s\<lparr>sl_expiry := \<lparr>ef_seen = Some expires, ef_timer = None\<rparr>\<rparr> in
      if ef_seen (sl_expiry s) = Some expires then s
      else case expires of
          None \<Rightarrow> idle
        | Some e \<Rightarrow>
            if e = 0 then idle
            else let remaining = js_sub e (of_int (sl_now s)) in
              if remaining \<le> 0 then idle\<lparr>sl_app := lock (sl_app idle)\<rparr>
              else s\<lparr>sl_expiry := \<lparr>ef_seen = Some expires, ef_timer = Some (sl_now s + timer_delay remaining)\<rparr>\<rparr>)"

definition sessionTimeout :: "shell \<Rightarrow> shell" where
  "sessionTimeout s = say ToneInfo ''Private session locked''
     ''The signed relayer session expired and decrypted account data was cleared.''
     (s\<lparr>sl_app := lock (sl_app s), sl_expiry := (sl_expiry s)\<lparr>ef_timer := None\<rparr>\<rparr>)"

section \<open>The wallet\<close>

definition guardEffect :: "quietline \<Rightarrow> wallet \<Rightarrow> shell \<Rightarrow> shell" where
  "guardEffect st w s =
     (let deps = (address_of st, hasHydrated st, w);
          idle = s\<lparr>sl_guard := \<lparr>ef_seen = Some deps, ef_timer = None\<rparr>\<rparr> in
      if ef_seen (sl_guard s) = Some deps then s
      else case present (address_of st) of
          None \<Rightarrow> idle
        | Some a \<Rightarrow>
            if \<not> hasHydrated st then idle
            else if wallet_settling w then idle
            else case wallet_present w of
                None \<Rightarrow> s\<lparr>sl_guard := \<lparr>ef_seen = Some deps, ef_timer = Some (sl_now s + 2000)\<rparr>\<rparr>
              | Some x \<Rightarrow>
                  if lower x \<noteq> lower a then
                    say ToneWarning ''Wallet account changed''
                      ''Open a new private session for the selected account.''
                      (idle\<lparr>sl_app := disconnect (sl_app idle)\<rparr>)
                  else idle)"

text \<open>The callback compares with the address its effect closed over.\<close>

definition guardTimeout :: "shell \<Rightarrow> shell" where
  "guardTimeout s =
     (let s' = s\<lparr>sl_guard := (sl_guard s)\<lparr>ef_timer := None\<rparr>\<rparr> in
      if map_option fst (ef_seen (sl_guard s)) = Some (address_of (sl_app s))
      then s'\<lparr>sl_app := disconnect (sl_app s')\<rparr> else s')"

section \<open>Notices\<close>

definition notify_once :: "string \<Rightarrow> tone \<Rightarrow> string \<Rightarrow> string \<Rightarrow> shell \<Rightarrow> shell" where
  "notify_once key t title body s =
     (if key \<in> set (sl_notified s) then s
      else say t title body (s\<lparr>sl_notified := key # sl_notified s\<rparr>))"

definition healthNoticeBody :: string where
  "healthNoticeBody = ''This status was decrypted from the latest FCC account refresh.''"

definition maturityNoticeBody :: string where
  "maturityNoticeBody = ''Repay the private credit line before the grace period ends.''"

definition healthNotice :: "position \<Rightarrow> shell \<Rightarrow> shell" where
  "healthNotice pos s = notify_once (po_id pos @ '':health:'' @ loan_status_text (po_status pos))
     (if po_status pos = LoanLiquidatable then ToneError else ToneWarning)
     (if po_status pos = LoanLiquidatable then ''Position is liquidatable'' else ''Private health warning'')
     healthNoticeBody s"

definition healthEffect :: "quietline \<Rightarrow> shell \<Rightarrow> shell" where
  "healthEffect st s =
     (let deps = (notifications st NHealth, position_of st, privateUpdatedAt st);
          seen = s\<lparr>sl_health := \<lparr>ef_seen = Some deps, ef_timer = None\<rparr>\<rparr> in
      if ef_seen (sl_health s) = Some deps then s
      else case position_of st of
          None \<Rightarrow> seen
        | Some pos \<Rightarrow>
            if \<not> nonzero (privateUpdatedAt st) then seen
            else if notifications st NHealth \<and> po_status pos \<in> {LoanRestricted, LoanWarning, LoanLiquidatable}
            then healthNotice pos seen else seen)"

definition maturityThreshold :: "position \<Rightarrow> number \<Rightarrow> bool \<Rightarrow> number \<Rightarrow> string \<Rightarrow> shell \<Rightarrow> shell" where
  "maturityThreshold pos seconds enabled threshold label s =
     (if enabled \<and> seconds > 0 \<and> seconds \<le> threshold
      then notify_once (po_id pos @ '':maturity:'' @ number_text threshold) ToneWarning
        (''Position matures within '' @ label) maturityNoticeBody s
      else s)"

definition checkMaturity :: "bool \<Rightarrow> bool \<Rightarrow> position \<Rightarrow> shell \<Rightarrow> shell" where
  "checkMaturity hour day pos s =
     (let seconds = js_sub (po_maturesAt pos) (js_floor (js_div (of_int (sl_now s)) 1000)) in
      maturityThreshold pos seconds hour 3600 ''1 hour''
        (maturityThreshold pos seconds day 86400 ''24 hours'' s))"

definition maturityEffect :: "quietline \<Rightarrow> shell \<Rightarrow> shell" where
  "maturityEffect st s =
     (let deps = (notifications st NMaturity1h, notifications st NMaturity24h, position_of st) in
      if ef_seen (sl_maturity s) = Some deps then s
      else case position_of st of
          None \<Rightarrow> s\<lparr>sl_maturity := \<lparr>ef_seen = Some deps, ef_timer = None\<rparr>\<rparr>
        | Some pos \<Rightarrow> (checkMaturity (notifications st NMaturity1h) (notifications st NMaturity24h) pos s)
            \<lparr>sl_maturity := \<lparr>ef_seen = Some deps, ef_timer = Some (sl_now s + 60000)\<rparr>\<rparr>)"

text \<open>The interval's callback closes over the values its effect ran with.\<close>

definition maturityTick :: "shell \<Rightarrow> shell" where
  "maturityTick s = (case ef_seen (sl_maturity s) of
      Some (hour, day, Some pos) \<Rightarrow>
        (checkMaturity hour day pos s)\<lparr>sl_maturity := (sl_maturity s)\<lparr>ef_timer := Some (sl_now s + 60000)\<rparr>\<rparr>
    | _ \<Rightarrow> s)"

section \<open>The market\<close>

definition health_shown :: "health_view \<Rightarrow> service_health" where
  "health_shown h = \<lparr>sh_ok = hv_ok h, sh_api = hv_api h, sh_database = hv_database h, sh_fcc = hv_fcc h,
     sh_timestamp = hv_timestamp h\<rparr>"

definition health_down :: "string \<Rightarrow> service_health" where
  "health_down timestamp = \<lparr>sh_ok = False, sh_api = ServiceUnavailable, sh_database = ServiceUnavailable,
     sh_fcc = ServiceUnavailable, sh_timestamp = timestamp\<rparr>"

text \<open>\<open>active\<close> is whether the shell is still mounted when both answers are in; \<open>stamp\<close> is \<open>toISOString\<close>.\<close>

definition refreshMarket :: "browser \<Rightarrow> (int \<Rightarrow> string) \<Rightarrow> bool \<Rightarrow> (page, unit) act" where
  "refreshMarket b stamp active =
     bindA (outcomeA (getMarket b)) (\<lambda>market.
     bindA (outcomeA (getHealth b)) (\<lambda>health.
       if \<not> active then ret ()
       else thenA (setApp (case market of Inr m \<Rightarrow> hydrateMarket m | Inl _ \<Rightarrow> markMarketUnavailable))
         (case health of
            Inr h \<Rightarrow> setApp (hydrateHealth (health_shown h))
          | Inl _ \<Rightarrow> bindA (nowP b) (\<lambda>now. setApp (hydrateHealth (health_down (stamp now)))))))"

section \<open>What the header shows\<close>

definition shortAddress :: "address option \<Rightarrow> string" where
  "shortAddress a = (case present a of
      Some x \<Rightarrow> take 6 x @ ''...'' @ drop (length x - 4) x
    | None \<Rightarrow> ''Not connected'')"

definition marketPrice :: "quietline \<Rightarrow> string" where
  "marketPrice st =
     (if nonzero (marketPriceE6 st) then ''$'' @ to_fixed 4 (js_div (the (marketPriceE6 st)) 1000000)
      else if marketStatus st = MarketUnavailable then ''Unavailable'' else ''Loading'')"

definition marketAge :: "int \<Rightarrow> quietline \<Rightarrow> string" where
  "marketAge now st =
     (if nonzero (marketUpdatedAt st)
      then number_text (max 0 (js_floor (js_sub (js_div (of_int now) 1000) (the (marketUpdatedAt st))))) @ ''s''
      else ''--'')"

text \<open>The wallet menu: locking, and disconnecting the wallet, which may throw before the store forgets.\<close>

definition menuLock :: "shell \<Rightarrow> shell" where
  "menuLock s = s\<lparr>sl_app := lock (sl_app s)\<rparr>"

definition menuDisconnect :: "js_error + unit \<Rightarrow> shell \<Rightarrow> shell" where
  "menuDisconnect answer s = (case answer of
      Inl _ \<Rightarrow> s
    | Inr _ \<Rightarrow> s\<lparr>sl_app := disconnect (sl_app s)\<rparr>)"

text \<open>The keyboard in the open secondary menu: Tab always stays among its elements.\<close>

definition menu_key :: "string \<Rightarrow> bool \<Rightarrow> 'e list \<Rightarrow> 'e option \<Rightarrow> 'e key_outcome" where
  "menu_key key shift focusable active =
     (let current = (case active of None \<Rightarrow> None | Some e \<Rightarrow> find (\<lambda>i. focusable ! i = e) [0 ..< length focusable]) in
      if key = ''Escape'' then CloseDialog
      else if key \<noteq> ''Tab'' \<or> focusable = [] then LeaveToBrowser
      else FocusOn (focusable !
        (if shift then (case current of None \<Rightarrow> length focusable - 1
            | Some i \<Rightarrow> if i = 0 then length focusable - 1 else i - 1)
         else (case current of None \<Rightarrow> 0
            | Some i \<Rightarrow> if i = length focusable - 1 then 0 else i + 1))))"

lemma menu_key_inside: "menu_key key shift focusable active = FocusOn e \<Longrightarrow> e \<in> set focusable"
  by (auto simp: menu_key_def Let_def find_Some_iff nth_mem split: if_splits option.splits)

section \<open>Rendering\<close>

definition commit :: "shell \<Rightarrow> shell" where
  "commit s = (let st = sl_app s; w = sl_wallet s in
     maturityEffect st (healthEffect st (guardEffect st w (expiryEffect st (reconcileOnLoad st w s)))))"

text \<open>An effect may change the store, which renders once more; \<open>react_settled\<close> shows this is enough.\<close>

definition react :: "shell \<Rightarrow> shell" where
  "react s = commit (commit s)"

text \<open>
  An action of the store. A refresh of the account makes a new position object, so the effects that
  depend on it run again.
\<close>

definition storeEvent :: "formats \<Rightarrow> store_action \<Rightarrow> shell \<Rightarrow> shell" where
  "storeEvent fmt a s =
     (let s' = s\<lparr>sl_app := perform fmt a (sl_app s)\<rparr> in
      case a of
        HydratePrivateAccount _ _ \<Rightarrow> s'\<lparr>sl_health := fresh_effect, sl_maturity := fresh_effect\<rparr>
      | _ \<Rightarrow> s')"

text \<open>A session's expiry is a whole number of milliseconds, less than 25 days ahead.\<close>

definition lifetime_ok :: "int \<Rightarrow> number \<Rightarrow> bool" where
  "lifetime_ok now e = (is_integer e \<and> 0 < e \<and> e < of_int now + 2 ^ 31)"

definition opens_ahead :: "int \<Rightarrow> store_action \<Rightarrow> bool" where
  "opens_ahead now a = (case a of ConnectLive _ _ e \<Rightarrow> lifetime_ok now e | _ \<Rightarrow> True)"

definition restored_ok :: "int \<Rightarrow> quietline \<Rightarrow> bool" where
  "restored_ok now st = (case sessionExpiresAt st of None \<Rightarrow> True | Some e \<Rightarrow> lifetime_ok now e)"

inductive shell_run :: "formats \<Rightarrow> shell \<Rightarrow> bool" for fmt where
  load: "restored_ok now st \<Longrightarrow> shell_run fmt (react (loaded_shell st w now))"
| store: "shell_run fmt s \<Longrightarrow> opens_ahead (sl_now s) a \<Longrightarrow> shell_run fmt (react (storeEvent fmt a s))"
| wallet: "shell_run fmt s \<Longrightarrow> shell_run fmt (react (s\<lparr>sl_wallet := w\<rparr>))"
| time: "shell_run fmt s \<Longrightarrow> 0 \<le> d \<Longrightarrow> shell_run fmt (s\<lparr>sl_now := sl_now s + d\<rparr>)"
| expire: "shell_run fmt s \<Longrightarrow> ef_timer (sl_expiry s) = Some t \<Longrightarrow> t \<le> sl_now s \<Longrightarrow>
    shell_run fmt (react (sessionTimeout s))"
| gone: "shell_run fmt s \<Longrightarrow> ef_timer (sl_guard s) = Some t \<Longrightarrow> t \<le> sl_now s \<Longrightarrow>
    shell_run fmt (react (guardTimeout s))"
| tick: "shell_run fmt s \<Longrightarrow> ef_timer (sl_maturity s) = Some t \<Longrightarrow> t \<le> sl_now s \<Longrightarrow>
    shell_run fmt (maturityTick s)"
| menu_lock: "shell_run fmt s \<Longrightarrow> shell_run fmt (react (menuLock s))"
| menu_disconnect: "shell_run fmt s \<Longrightarrow> shell_run fmt (react (menuDisconnect answer s))"

section \<open>What an effect leaves alone\<close>

lemma say_simps [simp]:
  "sl_app (say t m x s) = sl_app s" "sl_wallet (say t m x s) = sl_wallet s" "sl_now (say t m x s) = sl_now s"
  "sl_notified (say t m x s) = sl_notified s" "sl_reconciled (say t m x s) = sl_reconciled s"
  "sl_refreshes (say t m x s) = sl_refreshes s" "sl_expiry (say t m x s) = sl_expiry s"
  "sl_guard (say t m x s) = sl_guard s" "sl_health (say t m x s) = sl_health s"
  "sl_maturity (say t m x s) = sl_maturity s"
  by (simp_all add: say_def)

text \<open>What of the shell a notice leaves as it was.\<close>

definition apart_from_notices :: "shell \<Rightarrow> shell \<Rightarrow> bool" where
  "apart_from_notices s s' = (sl_app s' = sl_app s \<and> sl_wallet s' = sl_wallet s \<and> sl_now s' = sl_now s
     \<and> sl_reconciled s' = sl_reconciled s \<and> sl_refreshes s' = sl_refreshes s
     \<and> sl_expiry s' = sl_expiry s \<and> sl_guard s' = sl_guard s)"

lemma notices_apart:
  "apart_from_notices s (healthEffect st s)" "apart_from_notices s (maturityEffect st s)"
  "apart_from_notices s (maturityTick s)"
proof -
  have once: "apart_from_notices s (notify_once k t m x s)" for k t m x s
    by (simp add: apart_from_notices_def notify_once_def)
  have trans: "apart_from_notices s s' \<Longrightarrow> apart_from_notices s' s'' \<Longrightarrow> apart_from_notices s s''" for s s' s''
    by (simp add: apart_from_notices_def)
  have refl: "apart_from_notices s s" for s by (simp add: apart_from_notices_def)
  have threshold: "apart_from_notices s (maturityThreshold pos n en th l s)" for pos n en th l s
    using once refl by (simp add: maturityThreshold_def)
  have check: "apart_from_notices s (checkMaturity h d pos s)" for h d pos s
    unfolding checkMaturity_def Let_def by (rule trans [OF threshold threshold])
  show "apart_from_notices s (healthEffect st s)"
    using trans [OF _ once] by (simp add: healthEffect_def healthNotice_def Let_def apart_from_notices_def
        notify_once_def split: option.split)
  show "apart_from_notices s (maturityEffect st s)"
    using check by (simp add: maturityEffect_def Let_def apart_from_notices_def split: option.split)
  show "apart_from_notices s (maturityTick s)"
    using check by (simp add: maturityTick_def apart_from_notices_def split: option.split prod.split)
qed

lemmas notices_keep [simp] =
  notices_apart [unfolded apart_from_notices_def, THEN conjunct1]
  notices_apart [unfolded apart_from_notices_def, THEN conjunct2, THEN conjunct1]
  notices_apart [unfolded apart_from_notices_def, THEN conjunct2, THEN conjunct2, THEN conjunct1]
  notices_apart [unfolded apart_from_notices_def, THEN conjunct2, THEN conjunct2, THEN conjunct2, THEN conjunct1]
  notices_apart [unfolded apart_from_notices_def, THEN conjunct2, THEN conjunct2, THEN conjunct2, THEN conjunct2,
    THEN conjunct1]
  notices_apart [unfolded apart_from_notices_def, THEN conjunct2, THEN conjunct2, THEN conjunct2, THEN conjunct2,
    THEN conjunct2, THEN conjunct1]
  notices_apart [unfolded apart_from_notices_def, THEN conjunct2, THEN conjunct2, THEN conjunct2, THEN conjunct2,
    THEN conjunct2, THEN conjunct2]

lemma reconcile_keeps [simp]:
  "sl_app (reconcileOnLoad st w s) = sl_app s" "sl_wallet (reconcileOnLoad st w s) = sl_wallet s"
  "sl_now (reconcileOnLoad st w s) = sl_now s" "sl_expiry (reconcileOnLoad st w s) = sl_expiry s"
  "sl_guard (reconcileOnLoad st w s) = sl_guard s" "sl_notified (reconcileOnLoad st w s) = sl_notified s"
  "sl_toasts (reconcileOnLoad st w s) = sl_toasts s" "sl_health (reconcileOnLoad st w s) = sl_health s"
  "sl_maturity (reconcileOnLoad st w s) = sl_maturity s"
  by (simp_all add: reconcileOnLoad_def split: option.split)

lemma expiry_keeps [simp]:
  "sl_wallet (expiryEffect st s) = sl_wallet s" "sl_now (expiryEffect st s) = sl_now s"
  "sl_guard (expiryEffect st s) = sl_guard s" "sl_notified (expiryEffect st s) = sl_notified s"
  "sl_toasts (expiryEffect st s) = sl_toasts s" "sl_reconciled (expiryEffect st s) = sl_reconciled s"
  "sl_refreshes (expiryEffect st s) = sl_refreshes s" "sl_health (expiryEffect st s) = sl_health s"
  "sl_maturity (expiryEffect st s) = sl_maturity s"
  by (simp_all add: expiryEffect_def Let_def split: option.split)

lemma guard_keeps [simp]:
  "sl_wallet (guardEffect st w s) = sl_wallet s" "sl_now (guardEffect st w s) = sl_now s"
  "sl_expiry (guardEffect st w s) = sl_expiry s" "sl_notified (guardEffect st w s) = sl_notified s"
  "sl_reconciled (guardEffect st w s) = sl_reconciled s" "sl_refreshes (guardEffect st w s) = sl_refreshes s"
  "sl_health (guardEffect st w s) = sl_health s" "sl_maturity (guardEffect st w s) = sl_maturity s"
  by (simp_all add: guardEffect_def Let_def split: option.split)

lemma store_projections [simp]:
  "sessionExpiresAt (lock st) = None" "sessionExpiresAt (disconnect st) = None"
  "address_of (lock st) = address_of st" "address_of (disconnect st) = None"
  "hasHydrated (lock st) = hasHydrated st" "hasHydrated (disconnect st) = hasHydrated st"
  "position_of (lock st) = None" "position_of (disconnect st) = None"
  by (simp_all add: lock_def disconnect_def)

lemma notices_effects [simp]:
  "sl_maturity (healthEffect st s) = sl_maturity s" "sl_health (maturityEffect st s) = sl_health s"
  by (simp_all add: healthEffect_def healthNotice_def notify_once_def maturityEffect_def checkMaturity_def
      maturityThreshold_def Let_def split: option.split)

section \<open>Rendering settles\<close>

lemma effect_seen:
  "ef_seen (sl_expiry (expiryEffect st s)) = Some (sessionExpiresAt st)"
  "ef_seen (sl_guard (guardEffect st w s)) = Some (address_of st, hasHydrated st, w)"
  "ef_seen (sl_health (healthEffect st s)) = Some (notifications st NHealth, position_of st, privateUpdatedAt st)"
  "ef_seen (sl_maturity (maturityEffect st s))
     = Some (notifications st NMaturity1h, notifications st NMaturity24h, position_of st)"
  by (simp_all add: expiryEffect_def guardEffect_def healthEffect_def healthNotice_def notify_once_def
      maturityEffect_def Let_def split: option.split)

lemma effect_idle:
  "ef_seen (sl_expiry s) = Some (sessionExpiresAt st) \<Longrightarrow> expiryEffect st s = s"
  "ef_seen (sl_guard s) = Some (address_of st, hasHydrated st, w) \<Longrightarrow> guardEffect st w s = s"
  "ef_seen (sl_health s) = Some (notifications st NHealth, position_of st, privateUpdatedAt st) \<Longrightarrow>
     healthEffect st s = s"
  "ef_seen (sl_maturity s) = Some (notifications st NMaturity1h, notifications st NMaturity24h, position_of st) \<Longrightarrow>
     maturityEffect st s = s"
  by (simp_all add: expiryEffect_def guardEffect_def healthEffect_def maturityEffect_def Let_def)

lemma reconcile_idle:
  "sl_reconciled s' = sl_reconciled (reconcileOnLoad st w s) \<Longrightarrow> reconcileOnLoad st w s' = s'"
  by (auto simp: reconcileOnLoad_def split: option.splits if_splits)

lemma commit_seen:
  "ef_seen (sl_expiry (commit s)) = Some (sessionExpiresAt (sl_app s))"
  "ef_seen (sl_guard (commit s)) = Some (address_of (sl_app s), hasHydrated (sl_app s), sl_wallet s)"
  "ef_seen (sl_health (commit s))
     = Some (notifications (sl_app s) NHealth, position_of (sl_app s), privateUpdatedAt (sl_app s))"
  "ef_seen (sl_maturity (commit s))
     = Some (notifications (sl_app s) NMaturity1h, notifications (sl_app s) NMaturity24h, position_of (sl_app s))"
  "sl_wallet (commit s) = sl_wallet s" "sl_now (commit s) = sl_now s"
  "sl_reconciled (commit s) = sl_reconciled (reconcileOnLoad (sl_app s) (sl_wallet s) s)"
  by (simp_all add: commit_def Let_def effect_seen)

lemma commit_again: "sl_app (commit s) = sl_app s \<Longrightarrow> commit (commit s) = commit s"
  unfolding commit_def [of "commit s"] Let_def
  by (simp add: commit_seen effect_idle reconcile_idle)

lemma expiry_app:
  "sl_app (expiryEffect st s) = sl_app s \<or> sl_app (expiryEffect st s) = lock (sl_app s)"
  by (simp add: expiryEffect_def Let_def split: option.split)

lemma guard_app:
  "sl_app (guardEffect st w s) = sl_app s \<or> sl_app (guardEffect st w s) = disconnect (sl_app s)"
  by (simp add: guardEffect_def Let_def split: option.split)

lemma commit_app:
  "sl_app (commit s) \<in> {sl_app s, lock (sl_app s), disconnect (sl_app s), disconnect (lock (sl_app s))}"
  using expiry_app [of "sl_app s" "reconcileOnLoad (sl_app s) (sl_wallet s) s"]
    guard_app [of "sl_app s" "sl_wallet s" "expiryEffect (sl_app s) (reconcileOnLoad (sl_app s) (sl_wallet s) s)"]
  by (auto simp: commit_def Let_def)

text \<open>Locked or disconnected, the store is not changed by a second render.\<close>

lemma commit_commit_app: "sl_app (commit (commit s)) = sl_app (commit s)"
proof -
  let ?t = "commit s"
  let ?st = "sl_app ?t"
  have e: "sl_app (expiryEffect ?st (reconcileOnLoad ?st (sl_wallet ?t) ?t)) = ?st"
  proof (cases "sessionExpiresAt ?st = sessionExpiresAt (sl_app s)")
    case True
    then show ?thesis by (simp add: effect_idle commit_seen)
  next
    case False
    then have "sessionExpiresAt ?st = None" using commit_app [of s] by auto
    then show ?thesis by (simp add: expiryEffect_def Let_def)
  qed
  have "sl_app (guardEffect ?st (sl_wallet ?t) x) = sl_app x" if "sl_guard x = sl_guard ?t" for x
  proof (cases "address_of ?st = address_of (sl_app s)")
    case True
    moreover have "hasHydrated ?st = hasHydrated (sl_app s)" using commit_app [of s] by auto
    ultimately show ?thesis using that by (subst effect_idle) (simp_all add: commit_seen)
  next
    case False
    then have "address_of ?st = None" using commit_app [of s] by auto
    then show ?thesis by (simp add: guardEffect_def present_def Let_def)
  qed
  then show ?thesis using e by (simp add: commit_def [of ?t] Let_def)
qed

lemma react_app: "sl_app (react s) = sl_app (commit s)"
  by (simp add: react_def commit_commit_app)

lemma react_settled: "commit (react s) = react s"
  unfolding react_def by (rule commit_again) (rule commit_commit_app)

lemma react_seen:
  "ef_seen (sl_expiry (react s)) = Some (sessionExpiresAt (sl_app (react s)))"
  "ef_seen (sl_guard (react s))
     = Some (address_of (sl_app (react s)), hasHydrated (sl_app (react s)), sl_wallet (react s))"
  "sl_wallet (react s) = sl_wallet s" "sl_now (react s) = sl_now s"
  by (simp_all add: react_def commit_seen commit_commit_app)

section \<open>Invariants\<close>

text \<open>A session that is set has its timer at its expiry, once the effect has seen it.\<close>

definition armed :: "shell \<Rightarrow> bool" where
  "armed s = (case sessionExpiresAt (sl_app s) of
      None \<Rightarrow> True
    | Some e \<Rightarrow> lifetime_ok (sl_now s) e
        \<and> (ef_seen (sl_expiry s) = Some (Some e) \<longrightarrow> ef_timer (sl_expiry s) = Some \<lfloor>e\<rfloor>))"

text \<open>The wallet is the session's, is still settling, or its absence is being waited out.\<close>

definition wallet_agrees :: "shell \<Rightarrow> bool" where
  "wallet_agrees s = (case present (address_of (sl_app s)) of
      None \<Rightarrow> True
    | Some a \<Rightarrow> \<not> hasHydrated (sl_app s) \<or> wallet_settling (sl_wallet s) \<or>
        (case wallet_present (sl_wallet s) of
           None \<Rightarrow> (case ef_timer (sl_guard s) of None \<Rightarrow> False | Some t \<Rightarrow> t \<le> sl_now s + 2000)
         | Some x \<Rightarrow> lower x = lower a))"

definition guarded :: "shell \<Rightarrow> bool" where
  "guarded s = (ef_seen (sl_guard s) = Some (address_of (sl_app s), hasHydrated (sl_app s), sl_wallet s)
     \<longrightarrow> wallet_agrees s)"

text \<open>Every notice shown has its own key.\<close>

definition is_notice :: "toast \<Rightarrow> bool" where
  "is_notice x = (to_body x = Some healthNoticeBody \<or> to_body x = Some maturityNoticeBody)"

definition told_once :: "shell \<Rightarrow> bool" where
  "told_once s = (distinct (sl_notified s) \<and> length (filter is_notice (sl_toasts s)) = length (sl_notified s))"

definition reconciled_once :: "shell \<Rightarrow> bool" where
  "reconciled_once s = (sl_refreshes s = (if sl_reconciled s then 1 else 0))"

definition shell_ok :: "shell \<Rightarrow> bool" where
  "shell_ok s = (armed s \<and> guarded s \<and> told_once s \<and> reconciled_once s)"

lemma lifetime_later: "lifetime_ok now e \<Longrightarrow> now \<le> now' \<Longrightarrow> lifetime_ok now' e"
  by (simp add: lifetime_ok_def)

lemma remaining_exact:
  assumes "lifetime_ok now e" and "\<not> js_sub e (of_int now) \<le> 0"
  shows "now + timer_delay (js_sub e (of_int now)) = \<lfloor>e\<rfloor>"
proof -
  obtain k where e: "e = of_int k" using assms(1) by (auto simp: lifetime_ok_def is_integer_def)
  have k: "0 < k - now"
    using assms(2) fl_nonpos [of "of_int k - of_int now"] by (fastforce simp: js_sub_def e)
  have "(of_int k :: rat) < of_int (now + 2 ^ 31)" using assms(1) by (simp add: lifetime_ok_def e)
  then have small: "k - now < 2 ^ 31" by (simp only: of_int_less_iff)
  have "fl (of_int (k - now)) = of_int (k - now)" using k small by (intro fl_integer) simp
  then have "js_sub e (of_int now) = of_int (k - now)" by (simp add: js_sub_def e)
  moreover have "timer_delay (of_int (k - now)) = k - now"
  proof (subst timer_delay_small)
    show "(0 :: rat) \<le> of_int (k - now)" using k by (simp only: of_int_0_le_iff)
    have "(of_int (k - now) :: rat) < of_int (2 ^ 31)" using small by (simp only: of_int_less_iff)
    then show "(of_int (k - now) :: rat) < 2 ^ 31" by simp
  qed simp
  ultimately show ?thesis by (simp add: e)
qed

lemma armed_commit:
  assumes "armed s"
  shows "armed (commit s)"
proof (cases "sessionExpiresAt (sl_app (commit s))")
  case None
  then show ?thesis by (simp add: armed_def)
next
  case (Some e)
  then have app: "sl_app (commit s) = sl_app s" and e: "sessionExpiresAt (sl_app s) = Some e"
    using commit_app [of s] by auto
  have life: "lifetime_ok (sl_now s) e"
    and seen: "ef_seen (sl_expiry s) = Some (Some e) \<Longrightarrow> ef_timer (sl_expiry s) = Some \<lfloor>e\<rfloor>"
    using assms e by (simp_all add: armed_def)
  let ?r = "reconcileOnLoad (sl_app s) (sl_wallet s) s"
  have "sessionExpiresAt (sl_app (expiryEffect (sl_app s) ?r)) \<noteq> None"
    using Some guard_app [of "sl_app s" "sl_wallet s" "expiryEffect (sl_app s) ?r"]
    by (auto simp: commit_def Let_def)
  then have "ef_timer (sl_expiry (expiryEffect (sl_app s) ?r)) = Some \<lfloor>e\<rfloor>"
    using e life seen remaining_exact [OF life]
    by (auto simp: expiryEffect_def Let_def lifetime_ok_def split: if_splits)
  then show ?thesis
    using Some life by (simp add: armed_def commit_seen) (simp add: commit_def Let_def)
qed

lemma guarded_commit:
  assumes "guarded s"
  shows "guarded (commit s)"
proof -
  let ?st = "sl_app s" and ?w = "sl_wallet s"
  let ?x = "expiryEffect ?st (reconcileOnLoad ?st ?w s)"
  have shape: "sl_app (commit s) = sl_app (guardEffect ?st ?w ?x)"
    "sl_guard (commit s) = sl_guard (guardEffect ?st ?w ?x)"
    by (simp_all add: commit_def Let_def)
  have hyd: "hasHydrated (sl_app (commit s)) = hasHydrated ?st" using commit_app [of s] by auto
  show ?thesis
  proof (cases "address_of (sl_app (commit s)) = address_of ?st")
    case True
    have "wallet_agrees (commit s)"
    proof (cases "ef_seen (sl_guard s) = Some (address_of ?st, hasHydrated ?st, ?w)")
      case seen: True
      then have "wallet_agrees s" using assms by (simp add: guarded_def)
      moreover have "sl_guard (commit s) = sl_guard s" using seen shape by (simp add: effect_idle)
      ultimately show ?thesis using True hyd
        by (auto simp: wallet_agrees_def commit_seen split: option.splits)
    next
      case False
      then show ?thesis using True hyd shape
        by (auto simp: wallet_agrees_def commit_seen guardEffect_def Let_def present_def split: option.splits if_splits)
    qed
    then show ?thesis by (simp add: guarded_def)
  next
    case False
    then show ?thesis by (simp add: guarded_def commit_seen)
  qed
qed

lemma told_notify:
  "told_once s \<Longrightarrow> x = healthNoticeBody \<or> x = maturityNoticeBody \<Longrightarrow> told_once (notify_once k t m x s)"
  by (auto simp: told_once_def notify_once_def say_def is_notice_def)

lemma told_frame:
  "told_once (s\<lparr>sl_health := h\<rparr>) = told_once s" "told_once (s\<lparr>sl_maturity := d\<rparr>) = told_once s"
  "told_once (s\<lparr>sl_expiry := e\<rparr>) = told_once s" "told_once (s\<lparr>sl_guard := g\<rparr>) = told_once s"
  "told_once (s\<lparr>sl_app := a\<rparr>) = told_once s" "told_once (s\<lparr>sl_wallet := w\<rparr>) = told_once s"
  "told_once (s\<lparr>sl_now := n\<rparr>) = told_once s" "told_once (s\<lparr>sl_reconciled := r, sl_refreshes := k\<rparr>) = told_once s"
  by (simp_all add: told_once_def)

lemma told_say:
  "x \<noteq> healthNoticeBody \<Longrightarrow> x \<noteq> maturityNoticeBody \<Longrightarrow> told_once (say t m x s) = told_once s"
  by (simp add: told_once_def say_def is_notice_def)

lemma told_threshold: "told_once s \<Longrightarrow> told_once (maturityThreshold pos n en th l s)"
  by (simp add: maturityThreshold_def told_notify)

lemma told_check: "told_once s \<Longrightarrow> told_once (checkMaturity h d pos s)"
  by (simp add: checkMaturity_def Let_def told_threshold)

lemmas told_simps = told_frame told_say healthNoticeBody_def maturityNoticeBody_def

lemma told_commit: "told_once s \<Longrightarrow> told_once (commit s)"
proof -
  assume a: "told_once s"
  let ?st = "sl_app s" and ?w = "sl_wallet s"
  have r: "told_once (reconcileOnLoad ?st ?w s)"
    using a by (simp add: reconcileOnLoad_def told_frame split: option.split)
  have e: "told_once (expiryEffect ?st x)" if "told_once x" for x
    using that by (simp add: expiryEffect_def Let_def told_frame split: option.split)
  have g: "told_once (guardEffect ?st ?w x)" if "told_once x" for x
    using that by (simp add: guardEffect_def Let_def told_simps split: option.split)
  have h: "told_once (healthEffect ?st x)" if "told_once x" for x
    using that by (simp add: healthEffect_def healthNotice_def Let_def told_frame told_notify split: option.split)
  have m: "told_once (maturityEffect ?st x)" if "told_once x" for x
    using that by (simp add: maturityEffect_def Let_def told_frame told_check split: option.split)
  show ?thesis unfolding commit_def Let_def by (intro m h g e r)
qed

lemma reconciled_commit: "reconciled_once s \<Longrightarrow> reconciled_once (commit s)"
  by (simp add: reconciled_once_def commit_def Let_def reconcileOnLoad_def split: option.split)

lemma react_ok: "shell_ok s \<Longrightarrow> shell_ok (react s)"
  by (simp add: shell_ok_def react_def armed_commit guarded_commit told_commit reconciled_commit)

text \<open>Between events the effects have seen the store and the wallet as they are.\<close>

definition settled :: "shell \<Rightarrow> bool" where
  "settled s = (ef_seen (sl_expiry s) = Some (sessionExpiresAt (sl_app s))
     \<and> ef_seen (sl_guard s) = Some (address_of (sl_app s), hasHydrated (sl_app s), sl_wallet s))"

lemma settled_react: "settled (react s)"
  by (simp add: settled_def react_seen)

lemma perform_opens:
  assumes "restored_ok now st" and "opens_ahead now a"
  shows "restored_ok now (perform fmt a st)"
  using assms
  by (cases a) (auto simp: perform_def store_defs restored_ok_def opens_ahead_def Let_def split: option.split)

lemma armed_store:
  assumes "armed s" and "settled s" and "opens_ahead (sl_now s) a"
  shows "armed (storeEvent fmt a s)"
proof -
  have now: "sl_now (storeEvent fmt a s) = sl_now s" "sl_app (storeEvent fmt a s) = perform fmt a (sl_app s)"
    "sl_expiry (storeEvent fmt a s) = sl_expiry s"
    by (simp_all add: storeEvent_def Let_def split: store_action.split)
  have "restored_ok (sl_now s) (sl_app s)" using assms(1) by (auto simp: armed_def restored_ok_def split: option.splits)
  then have "restored_ok (sl_now s) (perform fmt a (sl_app s))" using assms(3) by (rule perform_opens)
  then show ?thesis using assms(1,2) by (auto simp: armed_def settled_def now restored_ok_def split: option.splits)
qed

lemma wallet_agrees_same:
  "address_of (sl_app s') = address_of (sl_app s) \<Longrightarrow> hasHydrated (sl_app s') = hasHydrated (sl_app s) \<Longrightarrow>
   sl_wallet s' = sl_wallet s \<Longrightarrow> sl_now s' = sl_now s \<Longrightarrow> sl_guard s' = sl_guard s \<Longrightarrow>
   wallet_agrees s' = wallet_agrees s"
  by (simp add: wallet_agrees_def split: option.split)

lemma armed_same:
  "sl_app s' = sl_app s \<Longrightarrow> sl_now s' = sl_now s \<Longrightarrow> sl_expiry s' = sl_expiry s \<Longrightarrow> armed s' = armed s"
  by (simp add: armed_def split: option.split)

text \<open>An event that leaves the wallet and its effect alone keeps the guard.\<close>

lemma guarded_event:
  assumes "guarded s" and "settled s" and "sl_wallet s' = sl_wallet s" "sl_now s' = sl_now s" "sl_guard s' = sl_guard s"
  shows "guarded s'"
proof -
  have "wallet_agrees s" using assms(1,2) by (simp add: guarded_def settled_def)
  then show ?thesis using assms(2-) wallet_agrees_same [of s' s] by (auto simp: guarded_def settled_def)
qed

lemma storeEvent_keeps [simp]:
  "sl_wallet (storeEvent fmt a s) = sl_wallet s" "sl_now (storeEvent fmt a s) = sl_now s"
  "sl_guard (storeEvent fmt a s) = sl_guard s" "sl_expiry (storeEvent fmt a s) = sl_expiry s"
  "sl_app (storeEvent fmt a s) = perform fmt a (sl_app s)"
  by (simp_all add: storeEvent_def Let_def split: store_action.split)

lemma shell_run_ok:
  assumes "shell_run fmt s"
  shows "shell_ok s \<and> settled s"
  using assms
proof induction
  case (load now st w)
  then have "shell_ok (loaded_shell st w now)"
    by (simp add: shell_ok_def armed_def guarded_def told_once_def reconciled_once_def loaded_shell_def
        fresh_effect_def restored_ok_def split: option.splits)
  then show ?case by (simp add: react_ok settled_react)
next
  case (store s a)
  then have "told_once (storeEvent fmt a s)" "reconciled_once (storeEvent fmt a s)"
    by (auto simp: shell_ok_def storeEvent_def Let_def told_simps reconciled_once_def split: store_action.split)
  then have "shell_ok (storeEvent fmt a s)"
    using store guarded_event [of s "storeEvent fmt a s"] by (simp add: shell_ok_def armed_store)
  then show ?case by (simp add: react_ok settled_react)
next
  case (wallet s w)
  then have "shell_ok (s\<lparr>sl_wallet := w\<rparr>)"
    using armed_same [of "s\<lparr>sl_wallet := w\<rparr>" s]
    by (cases "w = sl_wallet s")
      (simp_all add: shell_ok_def guarded_def told_simps reconciled_once_def settled_def)
  then show ?case by (simp add: react_ok settled_react)
next
  case (time s d)
  then show ?case
    by (auto simp: shell_ok_def armed_def guarded_def wallet_agrees_def told_simps reconciled_once_def settled_def
        intro: lifetime_later split: option.splits)
next
  case (expire s t)
  then have "shell_ok (sessionTimeout s)"
    using guarded_event [of s "sessionTimeout s"]
    by (simp add: shell_ok_def sessionTimeout_def armed_def told_simps reconciled_once_def)
  then show ?case by (simp add: react_ok settled_react)
next
  case (gone s t)
  then have "shell_ok (guardTimeout s)"
    by (simp add: shell_ok_def guardTimeout_def armed_def guarded_def wallet_agrees_def present_def told_simps
        reconciled_once_def settled_def Let_def)
  then show ?case by (simp add: react_ok settled_react)
next
  case (tick s t)
  have "told_once (maturityTick s)"
    using tick by (auto simp: maturityTick_def shell_ok_def told_frame told_check split: option.split prod.split)
  moreover have "armed (maturityTick s)" "guarded (maturityTick s)" "reconciled_once (maturityTick s)"
    "settled (maturityTick s)"
    using tick guarded_event [of s "maturityTick s"] armed_same [of "maturityTick s" s]
    by (simp_all add: shell_ok_def reconciled_once_def settled_def)
  ultimately show ?case by (simp add: shell_ok_def)
next
  case (menu_lock s)
  then have "shell_ok (menuLock s)"
    using guarded_event [of s "menuLock s"]
    by (simp add: shell_ok_def menuLock_def armed_def told_simps reconciled_once_def)
  then show ?case by (simp add: react_ok settled_react)
next
  case (menu_disconnect s answer)
  then have "shell_ok (menuDisconnect answer s)"
    using guarded_event [of s "menuDisconnect answer s"]
    by (cases answer) (simp_all add: shell_ok_def menuDisconnect_def armed_def told_simps reconciled_once_def)
  then show ?case by (simp add: react_ok settled_react)
qed

section \<open>A shell for the witnesses\<close>

definition sample_wallet :: wallet where
  "sample_wallet = \<lparr>wa_status = WalletConnected, wa_connected = True, wa_address = Some ''0xA''\<rparr>"

definition sample_shell :: shell where
  "sample_shell = react (loaded_shell (setHasHydrated True (connectLive ''0xa'' ''t'' 9000 initialPrivateState))
     sample_wallet 0)"

lemma sample_shell_run: "shell_run fmt sample_shell"
  unfolding sample_shell_def
  by (rule shell_run.load)
    (simp add: restored_ok_def lifetime_ok_def is_integer_def setHasHydrated_def connectLive_def initialPrivateState_def)

lemma sample_addresses: "lower ''0xA'' = ''0xa''" "lower ''0xa'' = ''0xa''"
  by code_simp+

lemma sample_shell_app:
  "sessionExpiresAt (sl_app sample_shell) = Some 9000" "address_of (sl_app sample_shell) = Some ''0xa''"
  "sl_wallet sample_shell = sample_wallet"
proof -
  let ?st = "setHasHydrated True (connectLive ''0xa'' ''t'' 9000 initialPrivateState)"
  let ?s = "loaded_shell ?st sample_wallet 0"
  have "fl 9000 = 9000" using fl_integer [of 9000] by simp
  then have "sl_app (commit ?s) = ?st"
    by (simp add: commit_def loaded_shell_def fresh_effect_def expiryEffect_def guardEffect_def js_sub_def
        setHasHydrated_def connectLive_def initialPrivateState_def sample_wallet_def wallet_settling_def
        wallet_present_def present_def sample_addresses reconcileOnLoad_def timer_delay_def Let_def)
  then show "sessionExpiresAt (sl_app sample_shell) = Some 9000" "address_of (sl_app sample_shell) = Some ''0xa''"
    "sl_wallet sample_shell = sample_wallet"
    by (simp_all add: sample_shell_def react_app react_seen setHasHydrated_def connectLive_def loaded_shell_def)
qed

section \<open>Properties\<close>

text \<open>
  C8. Whatever the page, the wallet and the clock do, a session that is set is armed: its timer is
  due exactly at its expiry, and when it fires, and the page has rendered again, no session is
  open, the holdings are gone and only the public activity is left.
\<close>
theorem shell_closes_expired:
  assumes "shell_run fmt s"
  shows "(case sessionExpiresAt (sl_app s) of
      None \<Rightarrow> True
    | Some e \<Rightarrow> ef_timer (sl_expiry s) = Some \<lfloor>e\<rfloor> \<and> e = of_int \<lfloor>e\<rfloor>)
    \<and> (let q = sl_app (react (sessionTimeout s)) in
         session_in q = Closed \<and> holdings_in q = no_holdings \<and> sealed q)"
proof -
  have ok: "armed s" "settled s" using shell_run_ok [OF assms] by (simp_all add: shell_ok_def)
  have "sealed (lock (sl_app s))" "sealed (disconnect (lock (sl_app s)))"
    "holdings_in (disconnect (lock (sl_app s))) = no_holdings" "holdings_in (lock (sl_app s)) = no_holdings"
    "session_in (lock (sl_app s)) = Closed" "session_in (disconnect (lock (sl_app s))) = Closed"
    by (simp_all add: sealed_def holdings_in_def no_holdings_def session_in_def lock_def disconnect_def list_all_iff)
  moreover have "sl_app (react (sessionTimeout s)) \<in> {lock (sl_app s), disconnect (lock (sl_app s))}"
  proof -
    have "lock (lock (sl_app s)) = lock (sl_app s)" by (simp add: lock_def)
    then show ?thesis using commit_app [of "sessionTimeout s"] by (auto simp: react_app sessionTimeout_def)
  qed
  ultimately show ?thesis
    using ok by (auto simp: armed_def settled_def lifetime_ok_def is_integer_def Let_def split: option.splits)
qed

theorem shell_closes_expired_witness:
  "shell_run sample_formats sample_shell \<and> ef_timer (sl_expiry sample_shell) = Some 9000
   \<and> session_in (sl_app (react (sessionTimeout sample_shell))) = Closed"
  using shell_closes_expired [OF sample_shell_run] sample_shell_run
  by (simp add: sample_shell_app Let_def)

text \<open>
  C23. The page follows the wallet: whenever an account is held and the wallet has settled, the
  wallet is connected with that account, or it is gone and within two seconds the timer that
  forgets the account is due; when it fires the store holds no account, and after every render
  the effects have nothing more to do.
\<close>
theorem shell_follows_wallet:
  assumes "shell_run fmt s"
  shows "wallet_agrees s \<and> address_of (sl_app (react (guardTimeout s))) = None
    \<and> commit (react (guardTimeout s)) = react (guardTimeout s)"
proof -
  have ok: "guarded s" "settled s" using shell_run_ok [OF assms] by (simp_all add: shell_ok_def)
  then have "address_of (sl_app (guardTimeout s)) = None" by (simp add: guardTimeout_def settled_def Let_def)
  then have "address_of (sl_app (react (guardTimeout s))) = None"
    using commit_app [of "guardTimeout s"] by (auto simp: react_app)
  then show ?thesis using ok react_settled by (simp add: guarded_def settled_def)
qed

theorem shell_follows_wallet_witness:
  "lower ''0xA'' = lower ''0xa'' \<and> address_of (sl_app sample_shell) = Some ''0xa''
   \<and> wallet_agrees sample_shell \<and> address_of (sl_app (react (guardTimeout sample_shell))) = None"
  using shell_follows_wallet [OF sample_shell_run] sample_shell_app by (simp add: sample_addresses)

text \<open>
  However often the account is refreshed and the clock ticks, each notice of health or maturity
  is shown at most once, and the settlement that a reload finds flagged is reconciled at most once.
\<close>
lemma shell_notices_once:
  assumes "shell_run fmt s"
  shows "distinct (sl_notified s) \<and> length (filter is_notice (sl_toasts s)) = length (sl_notified s)
    \<and> sl_refreshes s \<le> 1"
  using shell_run_ok [OF assms] by (simp add: shell_ok_def told_once_def reconciled_once_def)

lemma shell_notices_once_witness:
  "shell_run sample_formats (react (storeEvent sample_formats MarkSettlementRefreshPending sample_shell))
   \<and> sl_refreshes (react (storeEvent sample_formats MarkSettlementRefreshPending sample_shell)) \<le> 1"
proof -
  have "shell_run sample_formats (react (storeEvent sample_formats MarkSettlementRefreshPending sample_shell))"
    by (rule shell_run.store [OF sample_shell_run]) (simp add: opens_ahead_def)
  then show ?thesis using shell_notices_once by blast
qed

end
