(* ===== verification/Connect_View.thy ===== *)
theory Connect_View
  imports Ui Session_Spec
begin

text \<open>
  Signing in, \<^verbatim>\<open>frontend/src/components/ConnectQuietline.tsx\<close>: wallet access, the network, the
  session challenge, and the first refresh of the private account, with what the button and the
  toasts say of it.
\<close>

section \<open>The handler\<close>

text \<open>\<open>useAccount()\<close> and \<open>connectors[0] !== undefined\<close>.\<close>

record wallet_account =
  wc_connected :: bool
  wc_address :: "address option"
  wc_chainId :: "int option"
  wc_connector :: bool

record connect_state =
  cs_loading :: bool
  cs_step :: "string option"

definition relayerUnavailable :: "browser \<Rightarrow> quietline \<Rightarrow> bool" where
  "relayerUnavailable b st = (\<not> relayerClientConfigured b
     \<or> (case serviceHealth st of Some h \<Rightarrow> sh_api h = ServiceUnavailable | None \<Rightarrow> False))"

definition privateSessionStep :: "string \<Rightarrow> string" where
  "privateSessionStep stage =
     (if stage = ''checking-account'' then ''Sign to decrypt your private account''
      else if stage = ''creating-account'' then ''Sign to create your private account''
      else ''Sign once more to decrypt the new account'')"

text \<open>\<open>replace(/\s+Version:.*$/isu, "")\<close>: from the first run of white space before the word on.\<close>

fun strip_version :: "string \<Rightarrow> string" where
  "strip_version [] = []"
| "strip_version (c # cs) =
     (if is_space c \<and> prefix ''version:'' (lower (dropWhile is_space cs)) then []
      else c # strip_version cs)"

definition connectionErrorMessage :: "js_error \<Rightarrow> string" where
  "connectionErrorMessage error =
     (let m = error_message error; l = lower m in
      if text_includes l ''user rejected'' \<or> text_includes l ''user denied''
         \<or> text_includes l ''rejected the request'' then
        ''The wallet request was rejected. Try again when you are ready to sign in.''
      else if text_includes l ''provider not found'' then
        ''Install or unlock MetaMask or Rabby, then refresh this page.''
      else case error of
          ConfigurationError c \<Rightarrow> c
        | _ \<Rightarrow> trim_end (trim_start (strip_version m)))"

definition setStep :: "string option \<Rightarrow> (connect_state view, unit) act" where
  "setStep step = setLocal (\<lambda>s. s\<lparr>cs_step := step\<rparr>)"

text \<open>The step shown is that of the last stage \<open>openOrRefresh\<close> announced.\<close>

definition open_showing :: "browser \<Rightarrow> hook \<Rightarrow> address \<Rightarrow> string \<Rightarrow> (connect_state view, unit) act" where
  "open_showing b hk address token =
     bindA (outcomeA (onPage (openOrRefresh b hk address token))) (\<lambda>outcome.
     bindA getA (\<lambda>v.
     thenA (case stages (vw_page v) of
         [] \<Rightarrow> ret ()
       | stage # _ \<Rightarrow> setStep (Some (privateSessionStep stage)))
       (case outcome of Inl e \<Rightarrow> throw e | Inr _ \<Rightarrow> ret ())))"

definition sign_in :: "browser \<Rightarrow> address \<Rightarrow> (page, token_view) act" where
  "sign_in b address =
     bindA (getChallenge b address) (\<lambda>challenge.
     bindA (liftA (bigint_of_number (cv_issuedAt challenge))) (\<lambda>_.
     bindA (liftA (bigint_of_number (cv_expiresAt challenge))) (\<lambda>_.
     bindA (askPE (b_sign b) (PSignChallenge (cv_typedData challenge))) (\<lambda>signature.
       verifyChallenge b address (cv_nonce challenge) (cv_issuedAt challenge) (cv_expiresAt challenge) signature))))"

definition live_from :: "browser \<Rightarrow> address \<Rightarrow> token_view \<Rightarrow> (page, unit) act" where
  "live_from b address session = bindA (nowP b) (\<lambda>now.
     setApp (connectLive address (tv_token session)
       (js_add (of_int now) (js_mul (tv_expiresIn session) 1000))))"

definition open_session :: "browser \<Rightarrow> hook \<Rightarrow> wallet_account \<Rightarrow> (connect_state view, unit) act" where
  "open_session b hk account =
     thenA (setStep (Some (if wc_connected account then ''Using connected wallet'' else ''Requesting wallet access'')))
     (bindA (case (wc_connected account, present (wc_address account)) of
          (True, Some a) \<Rightarrow> ret \<lparr>cn_account = a, cn_chainId = wc_chainId account\<rparr>
        | _ \<Rightarrow> onPage (askPE (b_connect b) PConnect)) (\<lambda>connection.
      thenA (if cn_chainId connection \<noteq> Some (net_id COSTON2)
          then thenA (setStep (Some ''Switching wallet to Coston2''))
            (onPage (askPE (b_switch b) (PSwitchChain (net_id COSTON2))))
          else ret ())
      (thenA (setStep (Some ''Sign the 30-minute session challenge''))
      (bindA (onPage (sign_in b (cn_account connection))) (\<lambda>session.
       thenA (onPage (live_from b (cn_account connection) session))
       (thenA (open_showing b hk (cn_account connection) (tv_token session))
         (push b ToneSuccess ''Private session opened''
           (Some ''Financial requests are now encrypted to the active FCC environment.''))))))))"

definition has_provider :: "browser \<Rightarrow> wallet_account \<Rightarrow> (connect_state view, bool) act" where
  "has_provider b account =
     (if \<not> wc_connected account \<and> wc_connector account
      then bindA (outcomeA (onPage (askPE (b_provider b) PProvider))) (\<lambda>r.
        ret (case r of Inr p \<Rightarrow> p | Inl _ \<Rightarrow> False))
      else ret False)"

definition finish_connecting :: "connect_state view \<Rightarrow> connect_state view" where
  "finish_connecting v = v\<lparr>vw_local := \<lparr>cs_loading = False, cs_step = None\<rparr>\<rparr>"

definition connect :: "browser \<Rightarrow> hook \<Rightarrow> wallet_account \<Rightarrow> (connect_state view, unit) act" where
  "connect b hk account = bindA getA (\<lambda>v.
     if relayerUnavailable b (app (vw_page v)) then
       push b ToneWarning ''Live service unavailable''
         (Some (if \<not> relayerClientConfigured b then ''This deployment is missing its public relayer URL.''
            else ''The Quietline relayer is offline. Wallet access was not requested.''))
     else bindA (has_provider b account) (\<lambda>provider.
       if \<not> wc_connected account \<and> (\<not> wc_connector account \<or> \<not> provider) then
         push b ToneError ''No browser wallet found''
           (Some ''Install or unlock MetaMask or Rabby, then refresh this page.'')
       else thenA (setLocal (\<lambda>s. s\<lparr>cs_loading := True\<rparr>))
         (finallyA (tryA (open_session b hk account) (\<lambda>error.
            push b ToneError ''Could not open a live session'' (Some (connectionErrorMessage error))))
            finish_connecting)))"

definition connect_label :: "browser \<Rightarrow> quietline \<Rightarrow> connect_state \<Rightarrow> string" where
  "connect_label b st s =
     (if relayerUnavailable b st then ''Live service unavailable''
      else if cs_loading s then (case cs_step s of Some x \<Rightarrow> x | None \<Rightarrow> ''Opening private session'')
      else ''Connect Coston2 wallet'')"

section \<open>Frames\<close>

text \<open>A frame that survives what a refresh of the account does to the store.\<close>

locale account_frame = quiet_page R for R :: "page \<Rightarrow> page \<Rightarrow> bool" +
  assumes hydrating: "R p (p\<lparr>app := hydratePrivateAccount f n w (app p)\<rparr>)"
    and counting: "R p (p\<lparr>app := incrementAccountNonce (app p)\<rparr>)"
begin

lemma keeps_refresh: "keeps R (refreshAccount b hk n a t)"
proof -
  have "keeps R (setApp (hydratePrivateAccount f n w))" for f n w
    unfolding setApp_def by (intro keeps_modifyA hydrating)
  then show ?thesis
    unfolding refreshAccount_def
    by (auto intro!: quiet_intros keeps_direct keeps_nowP split: option.split)
qed

lemma keeps_openOrRefresh: "keeps R (openOrRefresh b hk a t)"
proof -
  have "keeps R (setApp incrementAccountNonce)"
    unfolding setApp_def by (intro keeps_modifyA counting)
  then show ?thesis
    unfolding openOrRefresh_def
    by (auto intro!: quiet_intros keeps_refresh keeps_announce keeps_direct keeps_sealing)
qed

lemma keeps_sign_in: "keeps R (sign_in b a)"
  unfolding sign_in_def by (auto intro!: quiet_intros keeps_routes simp: is_tx_def)

end

definition same_session :: "page \<Rightarrow> page \<Rightarrow> bool" where
  "same_session p q = (mode_of (app q) = mode_of (app p) \<and> address_of (app q) = address_of (app p)
     \<and> sessionToken (app q) = sessionToken (app p) \<and> sessionExpiresAt (app q) = sessionExpiresAt (app p))"

interpretation session_kept: account_frame same_session
  by unfold_locales (auto simp: same_session_def hydratePrivateAccount_def incrementAccountNonce_def Let_def)

interpretation sent_kept: account_frame nothing_sent
  by unfold_locales (simp_all add: nothing_sent_def sent_def)

interpretation asks_kept: account_frame asks_more
  by unfold_locales (simp_all add: asks_more_def)

section \<open>What opens a session\<close>

text \<open>
  Since the history was \<open>h\<close> the wallet signed a challenge and the relayer's verification was asked
  next; and a live session for an account that was opened so.
\<close>

definition verified_since :: "browser \<Rightarrow> page_call list \<Rightarrow> page \<Rightarrow> bool" where
  "verified_since b h p = (\<exists>n req challenge m. asked p = n @ PFetch req # PSignChallenge challenge # m
     \<and> suffix h m \<and> fq_url req = baseUrl b @ ''/auth/verify'')"

definition opened_since :: "browser \<Rightarrow> page_call list \<Rightarrow> page \<Rightarrow> bool" where
  "opened_since b h p = (mode_of (app p) = Live \<and> address_of (app p) \<noteq> None \<and> sessionToken (app p) \<noteq> None
     \<and> verified_since b h p)"

lemma verified_now:
  "asked p = PFetch req # PSignChallenge c # m \<Longrightarrow> suffix h m \<Longrightarrow> fq_url req = baseUrl b @ ''/auth/verify'' \<Longrightarrow>
   verified_since b h p"
  unfolding verified_since_def by (metis append_Nil)

lemma verified_earlier: "verified_since b h' p \<Longrightarrow> suffix h h' \<Longrightarrow> verified_since b h p"
  unfolding verified_since_def by (meson suffix_order.trans)

lemma verified_app: "verified_since b h (p\<lparr>app := x\<rparr>) = verified_since b h p"
  by (simp add: verified_since_def)

lemma verified_kept: "verified_since b h p \<Longrightarrow> asks_more p q \<Longrightarrow> verified_since b h q"
  unfolding verified_since_def asks_more_def suffix_def by (metis append_assoc)

definition calm :: "page \<Rightarrow> page \<Rightarrow> bool" where
  "calm p q = (same_session p q \<and> nothing_sent p q \<and> asks_more p q)"

lemmas calm_simps = calm_def same_session_def nothing_sent_def sent_def is_tx_def asks_more_def

interpretation calm_frame: account_frame calm
  by unfold_locales (auto simp: calm_simps hydratePrivateAccount_def incrementAccountNonce_def Let_def
      intro: suffix_order.trans suffix_ConsI)

lemma opened_kept: "opened_since b h p \<Longrightarrow> calm p q \<Longrightarrow> opened_since b h q"
  by (auto simp: opened_since_def calm_def same_session_def verified_kept)

lemma sign_in_wp:
  assumes "calm p0 p"
  shows "wp (sign_in b a) (\<lambda>_ q. calm p0 q \<and> verified_since b (asked p0) q) (\<lambda>_ q. calm p0 q) p"
  using assms
  by (auto simp: sign_in_def getChallenge_def verifyChallenge_def request_def the_request_def wp_simps calm_simps
      intro!: suffix_ConsI verified_now split: sum.split)

text \<open>The page of a view, its toasts and its steps.\<close>

definition opened_toast :: "browser \<Rightarrow> connect_state view \<Rightarrow> connect_state view \<Rightarrow> bool" where
  "opened_toast b v w = (sent (vw_page w) = sent (vw_page v) \<and> opened_since b (asked (vw_page v)) (vw_page w)
     \<and> (\<exists>view. shows_view b view (vw_page w))
     \<and> (\<exists>i x. vw_toasts w = vw_toasts v @ [(i, x)] \<and> to_tone x = ToneSuccess))"

definition not_opened :: "browser \<Rightarrow> connect_state view \<Rightarrow> connect_state view \<Rightarrow> bool" where
  "not_opened b v w = (sent (vw_page w) = sent (vw_page v) \<and> vw_toasts w = vw_toasts v
     \<and> (same_session (vw_page v) (vw_page w) \<or> opened_since b (asked (vw_page v)) (vw_page w)))"

lemma open_showing_wp:
  assumes "opened_since b h (vw_page u)" and "sent (vw_page u) = sent0"
  shows "wp (open_showing b hk a t)
    (\<lambda>_ w. opened_since b h (vw_page w) \<and> sent (vw_page w) = sent0 \<and> vw_toasts w = vw_toasts u
       \<and> (\<exists>view. shows_view b view (vw_page w)))
    (\<lambda>_ w. opened_since b h (vw_page w) \<and> sent (vw_page w) = sent0 \<and> vw_toasts w = vw_toasts u) u"
proof -
  have leaves: "leaves (shows_view b) (openOrRefresh b hk a t)"
    unfolding openOrRefresh_def
    by (auto intro!: leaves_bindA leaves_thenA leaves_tryA leaves_throw refreshAccount_leaves)
  have "wp (openOrRefresh b hk a t)
      (\<lambda>x q. shows_view b x q \<and> opened_since b h q \<and> sent q = sent0)
      (\<lambda>_ q. opened_since b h q \<and> sent q = sent0) (vw_page u)"
  proof (rule wpI)
    fix x q assume run: "openOrRefresh b hk a t (vw_page u) = Some (Inr x, q)"
    then have "calm (vw_page u) q" by (rule keepsD [OF calm_frame.keeps_openOrRefresh])
    then show "shows_view b x q \<and> opened_since b h q \<and> sent q = sent0"
      using assms leavesD [OF leaves run] opened_kept by (auto simp: calm_def nothing_sent_def)
  next
    fix e q assume run: "openOrRefresh b hk a t (vw_page u) = Some (Inl e, q)"
    then have "calm (vw_page u) q" by (rule keepsD [OF calm_frame.keeps_openOrRefresh])
    then show "opened_since b h q \<and> sent q = sent0"
      using assms opened_kept by (auto simp: calm_def nothing_sent_def)
  qed
  then show ?thesis
    unfolding open_showing_def setStep_def
    by (auto simp: wp_simps elim!: wp_mono split: list.split)
qed

lemma calm_ask: "calm p q \<Longrightarrow> \<not> is_tx c \<Longrightarrow> calm p (q\<lparr>asked := c # asked q\<rparr>)"
  using calm_frame.trans calm_frame.asking by blast

text \<open>From a page that has only asked on: the sign-in, the store's session, the first refresh.\<close>

lemma open_from_calm:
  assumes calm: "calm (vw_page v) (vw_page u)" and toasts: "vw_toasts u = vw_toasts v"
  shows "wp (bindA (onPage (sign_in b a)) (\<lambda>session.
       thenA (onPage (live_from b a session)) (thenA (open_showing b hk a (tv_token session))
         (push b ToneSuccess title body))))
     (\<lambda>_ w. opened_toast b v w) (\<lambda>_ w. not_opened b v w) u"
proof -
  have last: "wp (push b ToneSuccess title body) (\<lambda>_ w. opened_toast b v w) E w"
    if "opened_since b (asked (vw_page v)) (vw_page w)" "sent (vw_page w) = sent (vw_page v)"
      "vw_toasts w = vw_toasts v" "\<exists>view. shows_view b view (vw_page w)" for E w
    using that opened_kept [OF that(1), of "(vw_page w)\<lparr>asked := PUuid # asked (vw_page w)\<rparr>"] calm_frame.asking
    by (fastforce simp: wp_push opened_toast_def is_tx_def shows_view_def)
  have opens: "wp (thenA (open_showing b hk a (tv_token session)) (push b ToneSuccess title body))
      (\<lambda>_ w. opened_toast b v w) (\<lambda>_ w. not_opened b v w) w"
    if "opened_since b (asked (vw_page v)) (vw_page w)" "sent (vw_page w) = sent (vw_page v)"
      "vw_toasts w = vw_toasts v" for session w
    unfolding wp_thenA
    by (rule wp_mono [OF open_showing_wp [OF that(1,2)]]) (auto intro: last simp: that not_opened_def)
  have live: "wp (onPage (live_from b a session))
      (\<lambda>_ w. opened_since b (asked (vw_page v)) (vw_page w) \<and> sent (vw_page w) = sent (vw_page v)
         \<and> vw_toasts w = vw_toasts v) E w"
    if "verified_since b (asked (vw_page v)) (vw_page w)" "sent (vw_page w) = sent (vw_page v)"
      "vw_toasts w = vw_toasts v" for session w E
    using that(2,3) verified_kept [OF that(1), of "(vw_page w)\<lparr>asked := PNow # asked (vw_page w)\<rparr>"]
    by (auto simp: verified_app live_from_def nowP_def wp_simps opened_since_def connectLive_def sent_def is_tx_def asks_more_def
        intro: suffix_ConsI)
  have signed: "wp (onPage (sign_in b a))
      (\<lambda>_ w. verified_since b (asked (vw_page v)) (vw_page w) \<and> sent (vw_page w) = sent (vw_page v)
         \<and> vw_toasts w = vw_toasts v) (\<lambda>_ w. not_opened b v w) u"
    unfolding wp_onPage
    by (rule wp_mono [OF sign_in_wp [OF calm]]) (simp_all add: calm_def nothing_sent_def not_opened_def toasts)
  show ?thesis
    by (rule wp_bind_via [OF signed wp_then_via [OF live opens]]) auto
qed

lemma open_session_wp: "wp (open_session b hk account) (\<lambda>_ w. opened_toast b v w) (\<lambda>_ w. not_opened b v w) v"
proof -
  have still: "not_opened b v w" if "calm (vw_page v) (vw_page w)" "vw_toasts w = vw_toasts v" for w
    using that by (simp add: not_opened_def calm_def nothing_sent_def)
  have refl: "calm (vw_page v) (vw_page v)" by (rule calm_frame.refl)
  have connected: "wp (case (wc_connected account, present (wc_address account)) of
          (True, Some a) \<Rightarrow> ret \<lparr>cn_account = a, cn_chainId = wc_chainId account\<rparr>
        | _ \<Rightarrow> onPage (askPE (b_connect b) PConnect))
      (\<lambda>_ w. calm (vw_page v) (vw_page w) \<and> vw_toasts w = vw_toasts v) (\<lambda>_ w. not_opened b v w) u"
    if "calm (vw_page v) (vw_page u)" "vw_toasts u = vw_toasts v" for u
    using that calm_ask [OF that(1), of PConnect]
    by (auto simp: wp_simps is_tx_def still split: option.split bool.split sum.split)
  have switched: "wp (if cn_chainId c \<noteq> Some (net_id COSTON2)
          then thenA (setStep (Some s)) (onPage (askPE (b_switch b) (PSwitchChain (net_id COSTON2)))) else ret ())
      (\<lambda>_ w. calm (vw_page v) (vw_page w) \<and> vw_toasts w = vw_toasts v) (\<lambda>_ w. not_opened b v w) u"
    if "calm (vw_page v) (vw_page u)" "vw_toasts u = vw_toasts v" for u c s
    using that calm_ask [OF that(1), of "PSwitchChain (net_id COSTON2)"]
    by (auto simp: wp_simps setStep_def is_tx_def still split: sum.split)
  let ?calm = "\<lambda>w. calm (vw_page v) (vw_page w) \<and> vw_toasts w = vw_toasts v"
  have step: "wp (setStep x) (\<lambda>_. ?calm) E u" if "?calm u" for x E u
    using that by (simp add: setStep_def wp_simps)
  show ?thesis
    unfolding open_session_def
    by (rule wp_then_via [OF step wp_bind_via [OF connected wp_then_via [OF switched
            wp_then_via [OF step open_from_calm]]]]) (auto simp: refl)
qed

section \<open>The handler ends\<close>

lemma total_sign_in: "total (sign_in b a)"
  unfolding sign_in_def by (auto intro!: total_intros)

lemma total_openOrRefresh: "page_ok b \<Longrightarrow> total (openOrRefresh b hk a t)"
  unfolding openOrRefresh_def by (auto intro!: total_intros total_actions)

lemma total_open_session: "page_ok b \<Longrightarrow> total (open_session b hk account)"
  unfolding open_session_def open_showing_def live_from_def setStep_def
  by (auto intro!: total_intros total_onPage total_sign_in total_openOrRefresh split: option.split bool.split list.split
      sum.split)

lemma total_connect: "page_ok b \<Longrightarrow> total (connect b hk account)"
  unfolding connect_def has_provider_def
  by (auto intro!: total_intros total_onPage total_open_session split: sum.split)

text \<open>What is left when the handler is done: one toast more, nothing loading.\<close>

definition connect_done :: "browser \<Rightarrow> connect_state view \<Rightarrow> connect_state view \<Rightarrow> bool" where
  "connect_done b v w = (sent (vw_page w) = sent (vw_page v)
     \<and> (vw_local w = vw_local v \<or> vw_local w = \<lparr>cs_loading = False, cs_step = None\<rparr>)
     \<and> (\<exists>i x. vw_toasts w = vw_toasts v @ [(i, x)]
          \<and> (if to_tone x = ToneSuccess
             then opened_since b (asked (vw_page v)) (vw_page w) \<and> (\<exists>view. shows_view b view (vw_page w))
             else same_session (vw_page v) (vw_page w) \<or> opened_since b (asked (vw_page v)) (vw_page w))))"

lemma not_opened_toast:
  assumes "not_opened b v w" and "t \<noteq> ToneSuccess"
  shows "wp (push b t title body) (\<lambda>_ u. connect_done b v (finish_connecting u)) E w"
proof -
  have "calm (vw_page w) ((vw_page w)\<lparr>asked := PUuid # asked (vw_page w)\<rparr>)"
    by (rule calm_frame.asking) (simp add: is_tx_def)
  then show ?thesis
    using assms opened_kept
    by (fastforce simp: wp_push connect_done_def finish_connecting_def not_opened_def same_session_def)
qed

lemma connect_wp: "wp (connect b hk account) (\<lambda>_ w. connect_done b v w) (\<lambda>_ _. False) v"
proof -
  have early: "wp (push b t title body) (\<lambda>_ w. connect_done b v w) E u"
    if "calm (vw_page v) (vw_page u)" "vw_toasts u = vw_toasts v" "vw_local u = vw_local v" "t \<noteq> ToneSuccess"
    for t title body E u
    using that by (auto simp: wp_push connect_done_def calm_def nothing_sent_def same_session_def)
  have provider: "wp (has_provider b account) (\<lambda>_ u. calm (vw_page v) (vw_page u) \<and> vw_toasts u = vw_toasts v
      \<and> vw_local u = vw_local v) (\<lambda>_ _. False) v"
    using calm_ask [OF calm_frame.refl, of PProvider]
    by (auto simp: has_provider_def wp_simps is_tx_def calm_frame.refl split: sum.split)
  have main: "wp (thenA (setLocal (\<lambda>s. s\<lparr>cs_loading := True\<rparr>))
      (finallyA (tryA (open_session b hk account) (\<lambda>error. push b ToneError title (Some (message error))))
         finish_connecting)) (\<lambda>_ w. connect_done b v w) (\<lambda>_ _. False) u"
    if u: "calm (vw_page v) (vw_page u)" "vw_toasts u = vw_toasts v" "vw_local u = vw_local v" for u title message
  proof -
    have shift: "opened_toast b v w" if "opened_toast b u' w" "vw_page u' = vw_page u" "vw_toasts u' = vw_toasts u" for u' w
      using that u by (auto simp: opened_toast_def opened_since_def calm_def nothing_sent_def asks_more_def
          intro: verified_earlier)
    have shift_not: "not_opened b v w" if "not_opened b u' w" "vw_page u' = vw_page u" "vw_toasts u' = vw_toasts u" for u' w
      using that u by (auto simp: not_opened_def opened_since_def calm_def nothing_sent_def
          asks_more_def same_session_def intro: verified_earlier)
    have shown: "connect_done b v (finish_connecting w)" if "opened_toast b v w" for w
      using that by (auto simp: connect_done_def finish_connecting_def opened_toast_def)
    show ?thesis
      unfolding wp_thenA wp_setLocal wp_finallyA wp_tryA
      by (rule wp_mono [OF open_session_wp]) (auto intro!: shown not_opened_toast dest: shift shift_not)
  qed
  show ?thesis
    unfolding connect_def wp_bindA [of getA] wp_getA wp_if
    by (auto simp: calm_frame.refl intro!: early wp_bind_via [OF provider] main)
qed

section \<open>Properties\<close>


definition sample_hook_closed :: hook where
  "sample_hook_closed = \<lparr>hk_address = None, hk_token = None, hk_account = None\<rparr>"


end
