(* ===== verification/Page_View.thy ===== *)
theory Page_View
  imports Ui
begin

text \<open>
  What the pages of \<^verbatim>\<open>frontend/src/pages\<close> share: the numbers a user types, \<open>NaN\<close> and the infinities
  included, the handlers that show one toast and put their state back, and the presentation of a
  position's status.
\<close>

section \<open>Typed numbers\<close>

text \<open>A double; the argument of \<open>Infinite\<close> says that it is negative. Minus zero is zero.\<close>

datatype double = NaN | Infinite bool | Finite number

definition double_of :: "rat \<Rightarrow> double" where
  "double_of x = (if \<bar>fl x\<bar> < 2 ^ 1024 then Finite (fl x) else Infinite (x < 0))"

definition to_numeric :: "double \<Rightarrow> numeric" where
  "to_numeric x = (case x of Finite v \<Rightarrow> Some v | _ \<Rightarrow> None)"

text \<open>
  \<open>Number(text)\<close> of what stands in an input: where \<open>number_of_text\<close> finds no finite number, a
  numeral too large and the word \<open>Infinity\<close> are infinite.
\<close>

definition unsigned_text :: "string \<Rightarrow> string" where
  "unsigned_text t = (if prefix ''-'' t \<or> prefix ''+'' t then drop 1 t else t)"

definition based_numeral :: "string \<Rightarrow> bool" where
  "based_numeral t =
     ((prefix ''0x'' t \<or> prefix ''0X'' t) \<and> digits_to_nat 16 (drop 2 t) \<noteq> None
      \<or> (prefix ''0o'' t \<or> prefix ''0O'' t) \<and> digits_to_nat 8 (drop 2 t) \<noteq> None
      \<or> (prefix ''0b'' t \<or> prefix ''0B'' t) \<and> digits_to_nat 2 (drop 2 t) \<noteq> None)"

definition typed :: "string \<Rightarrow> double" where
  "typed s = (case number_of_text s of
      Some v \<Rightarrow> Finite v
    | None \<Rightarrow> (let t = trim_end (trim_start s) in
        if unsigned_text t = ''Infinity'' \<or> based_numeral t \<or> decimal (unsigned_text t) \<noteq> None
        then Infinite (prefix ''-'' t) else NaN))"

text \<open>Comparisons, all of them false on \<open>NaN\<close>.\<close>

fun double_less :: "double \<Rightarrow> double \<Rightarrow> bool" where
  "double_less (Finite x) (Finite y) = (x < y)"
| "double_less (Infinite s) (Infinite t) = (s \<and> \<not> t)"
| "double_less (Infinite s) (Finite y) = s"
| "double_less (Finite x) (Infinite t) = (\<not> t)"
| "double_less _ _ = False"

definition double_le :: "double \<Rightarrow> double \<Rightarrow> bool" where
  "double_le x y = (double_less x y \<or> x = y \<and> x \<noteq> NaN)"

text \<open>Products and quotients; a divisor that is zero is a positive zero.\<close>

fun double_mul :: "double \<Rightarrow> double \<Rightarrow> double" where
  "double_mul (Finite x) (Finite y) = double_of (x * y)"
| "double_mul (Infinite s) (Infinite t) = Infinite (s \<noteq> t)"
| "double_mul (Infinite s) (Finite y) = (if y = 0 then NaN else Infinite (s \<noteq> (y < 0)))"
| "double_mul (Finite x) (Infinite t) = (if x = 0 then NaN else Infinite (t \<noteq> (x < 0)))"
| "double_mul _ _ = NaN"

fun double_div :: "double \<Rightarrow> double \<Rightarrow> double" where
  "double_div (Finite x) (Finite y) =
     (if y \<noteq> 0 then double_of (x / y) else if x = 0 then NaN else Infinite (x < 0))"
| "double_div (Infinite s) (Finite y) = Infinite (s \<noteq> (y < 0))"
| "double_div (Finite x) (Infinite t) = Finite 0"
| "double_div _ _ = NaN"

text \<open>\<open>x.toFixed(digits)\<close> below \<open>10 ^ 21\<close>.\<close>

definition double_fixed :: "nat \<Rightarrow> double \<Rightarrow> string" where
  "double_fixed digits x = (case x of
      NaN \<Rightarrow> ''NaN''
    | Infinite s \<Rightarrow> (if s then ''-Infinity'' else ''Infinity'')
    | Finite v \<Rightarrow> to_fixed digits v)"

text \<open>\<open>x % y\<close> for numbers that are not negative; the remainder is exact.\<close>

definition js_mod :: "number \<Rightarrow> number \<Rightarrow> number" where
  "js_mod x y = x - y * of_int \<lfloor>x / y\<rfloor>"

text \<open>The check of every amount: \<open>!Number.isFinite(x) || x <= 0\<close> refuses it.\<close>

definition positive_amount :: "string \<Rightarrow> number option" where
  "positive_amount s = (case typed s of Finite x \<Rightarrow> if x \<le> 0 then None else Some x | _ \<Rightarrow> None)"

lemma to_numeric_typed: "to_numeric (typed s) = number_of_text s"
  by (auto simp: typed_def to_numeric_def Let_def split: option.splits)

lemma positive_amountD: "positive_amount s = Some x \<Longrightarrow> 0 < x \<and> typed s = Finite x"
  by (auto simp: positive_amount_def split: double.splits if_splits)

section \<open>Reading back what is shown\<close>

definition fixed_units :: "nat \<Rightarrow> number \<Rightarrow> nat" where
  "fixed_units digits x = nat \<lfloor>x * 10 ^ digits + 1 / 2\<rfloor>"

lemma digits_pad_left: "digits_to_nat 10 (pad_left k (show_nat n)) = Some n"
proof -
  have zero: "char_digit (CHR ''0'') = Some 0" by (simp add: char_digit_def)
  have "parse_base 10 0 (replicate j (CHR ''0'') @ s) = parse_base 10 0 s" for j s
    by (induction j) (simp_all add: zero)
  then show ?thesis
    by (simp add: digits_to_nat_def pad_left_def parse_show_nat)
qed

lemma pad_left_digits: "c \<in> set (pad_left k (show_nat n)) \<Longrightarrow> \<exists>d < 10. c = digit_char d"
proof -
  have "digit_char 0 = CHR ''0''" by code_simp
  then have "\<exists>d < 10. CHR ''0'' = digit_char d" by (intro exI [of _ 0]) simp
  then show "c \<in> set (pad_left k (show_nat n)) \<Longrightarrow> \<exists>d < 10. c = digit_char d"
    using show_nat_digits [of c n] by (auto simp: pad_left_def)
qed

lemma length_pad_left: "k \<le> length (pad_left k s)"
  by (simp add: pad_left_def)

definition number_char :: "char \<Rightarrow> bool" where
  "number_char c = (c = CHR ''.'' \<or> (\<exists>d < 10. c = digit_char d))"

lemma number_char_plain:
  assumes "number_char c"
  shows "\<not> is_space c" "c \<noteq> CHR ''-''" "c \<noteq> CHR ''+''" "c \<noteq> CHR ''x''" "c \<noteq> CHR ''X''" "c \<noteq> CHR ''o''"
    "c \<noteq> CHR ''O''" "c \<noteq> CHR ''b''" "c \<noteq> CHR ''B''" "c \<noteq> CHR ''e''" "c \<noteq> CHR ''E''"
proof -
  have n: "(of_char c :: nat) = 46 \<or> 48 \<le> (of_char c :: nat) \<and> (of_char c :: nat) < 58"
    using assms by (auto simp: number_char_def)
  have ne: "c \<noteq> d" if "(of_char d :: nat) \<noteq> 46" "(of_char d :: nat) < 48 \<or> 58 \<le> (of_char d :: nat)" for d
    using n that by auto
  show "\<not> is_space c" using n by (auto simp: is_space_def)
  show "c \<noteq> CHR ''-''" "c \<noteq> CHR ''+''" "c \<noteq> CHR ''x''" "c \<noteq> CHR ''X''" "c \<noteq> CHR ''o''"
    "c \<noteq> CHR ''O''" "c \<noteq> CHR ''b''" "c \<noteq> CHR ''B''" "c \<noteq> CHR ''e''" "c \<noteq> CHR ''E''"
    by (rule ne; simp)+
qed

lemma not_number_char:
  "c \<in> {CHR ''-'', CHR ''+'', CHR ''x'', CHR ''X'', CHR ''o'', CHR ''O'', CHR ''b'', CHR ''B''} \<Longrightarrow> \<not> number_char c"
  using number_char_plain by blast

text \<open>A text of digits and points is read as a decimal.\<close>

lemma number_of_plain_text:
  assumes "\<And>c. c \<in> set s \<Longrightarrow> number_char c" and "s \<noteq> []"
  shows "number_of_text s = finite_number (map_option fl (decimal s))"
proof -
  have trim: "trim_end (trim_start s) = s"
    using assms(1) number_char_plain(1) by (intro trim_plain) blast
  have pre: "\<not> prefix [a, c] s" if "c \<in> {CHR ''x'', CHR ''X'', CHR ''o'', CHR ''O'', CHR ''b'', CHR ''B''}" for a c
  proof
    assume "prefix [a, c] s"
    then have "c \<in> set s" by (auto simp: prefix_def)
    then show False using assms(1) [of c] not_number_char [of c] that by blast
  qed
  have sign: "\<not> prefix [c] s" if "c \<in> {CHR ''-'', CHR ''+''}" for c
  proof
    assume "prefix [c] s"
    then have "c \<in> set s" by (auto simp: prefix_def)
    then show False using assms(1) [of c] not_number_char [of c] that by blast
  qed
  show ?thesis
    by (simp add: number_of_text_def Let_def trim pre sign assms(2))
qed

lemma decimal_to_fixed:
  assumes "0 \<le> x" and "0 < k"
  shows "decimal (to_fixed k x) = Some (of_nat (fixed_units k x) / 10 ^ k)"
    and "\<And>c. c \<in> set (to_fixed k x) \<Longrightarrow> number_char c" and "to_fixed k x \<noteq> []"
proof -
  define m where "m = pad_left (k + 1) (show_nat (fixed_units k x))"
  define whole where "whole = take (length m - k) m"
  define part where "part = drop (length m - k) m"
  have shape: "to_fixed k x = whole @ ''.'' @ part"
    using assms by (simp add: to_fixed_def Let_def m_def fixed_units_def whole_def part_def)
  have len: "k + 1 \<le> length m" unfolding m_def by (rule length_pad_left)
  have part: "length part = k" using len by (simp add: part_def)
  have whole_part: "whole @ part = m" by (simp add: whole_def part_def)
  have digit: "\<exists>d < 10. c = digit_char d" if "c \<in> set m" for c
    using pad_left_digits that by (simp add: m_def)
  have set: "set whole \<subseteq> set m" "set part \<subseteq> set m"
    using set_take_subset set_drop_subset by (auto simp: whole_def part_def dest: in_set_takeD in_set_dropD)
  show chars: "number_char c" if "c \<in> set (to_fixed k x)" for c
    using that set digit by (auto simp: shape number_char_def)
  show "to_fixed k x \<noteq> []" by (simp add: shape)
  have dot: "c \<noteq> CHR ''.''" if c: "c \<in> set whole" for c
  proof -
    obtain d where d: "d < 10" "c = digit_char d" using digit set c by blast
    then have "(of_char c :: nat) = 48 + d" by simp
    then show ?thesis by auto
  qed
  have mantissa: "takeWhile (\<lambda>c. c \<noteq> CHR ''e'' \<and> c \<noteq> CHR ''E'') (to_fixed k x) = to_fixed k x"
    using chars number_char_plain(10,11) by (simp add: takeWhile_eq_all_conv)
  have first: "takeWhile (\<lambda>c. c \<noteq> CHR ''.'') (whole @ ''.'' @ part) = whole"
    using dot by (subst takeWhile_append2) auto
  have "digits_to_nat 10 m = Some (fixed_units k x)"
    unfolding m_def by (rule digits_pad_left)
  then show "decimal (to_fixed k x) = Some (of_nat (fixed_units k x) / 10 ^ k)"
    unfolding decimal_def Let_def mantissa
    unfolding shape first
    by (simp add: whole_part part power_int_minus divide_inverse)
qed

lemma number_to_fixed:
  "0 \<le> x \<Longrightarrow> 0 < k \<Longrightarrow> number_of_text (to_fixed k x) = finite_number (Some (fl (of_nat (fixed_units k x) / 10 ^ k)))"
  using decimal_to_fixed [of x k] by (subst number_of_plain_text) auto

section \<open>Handlers\<close>

text \<open>
  \<open>setBusy(true); try { ... } catch { ... } finally { setBusy(false) }\<close>: \<open>start\<close> and \<open>finish\<close> change
  the local state.
\<close>

definition attempt ::
    "('l \<Rightarrow> 'l) \<Rightarrow> ('l view, unit) act \<Rightarrow> (js_error \<Rightarrow> ('l view, unit) act) \<Rightarrow> ('l \<Rightarrow> 'l) \<Rightarrow> ('l view, unit) act" where
  "attempt start m handler finish = thenA (setLocal start)
     (finallyA (tryA m handler) (\<lambda>v. v\<lparr>vw_local := finish (vw_local v)\<rparr>))"

text \<open>
  An action of a hook that is given a callback for its stages: the callback changes the local state
  once for every stage announced, in their order, whatever becomes of the action.
\<close>

definition new_stages :: "page \<Rightarrow> page \<Rightarrow> string list" where
  "new_stages p q = rev (take (length (stages q) - length (stages p)) (stages q))"

definition showing :: "(string \<Rightarrow> 'l \<Rightarrow> 'l) \<Rightarrow> (page, 'a) act \<Rightarrow> ('l view, 'a) act" where
  "showing f m = (\<lambda>v. case m (vw_page v) of
      None \<Rightarrow> None
    | Some (r, p) \<Rightarrow> Some (r, v\<lparr>vw_page := p, vw_local := fold f (new_stages (vw_page v) p) (vw_local v)\<rparr>))"

lemma wp_showing [wp_simps]:
  "wp (showing f m) Q E v = wp m
     (\<lambda>x p. Q x (v\<lparr>vw_page := p, vw_local := fold f (new_stages (vw_page v) p) (vw_local v)\<rparr>))
     (\<lambda>e p. E e (v\<lparr>vw_page := p, vw_local := fold f (new_stages (vw_page v) p) (vw_local v)\<rparr>)) (vw_page v)"
  by (simp add: wp_def showing_def split: option.splits prod.splits sum.splits)

lemma ends_showing [wp_simps]: "ends (showing f m) v \<longleftrightarrow> ends m (vw_page v)"
  by (auto simp: ends_def showing_def split: option.splits)

lemma total_showing: "total m \<Longrightarrow> total (showing f m)"
  by (simp add: total_def ends_showing)

lemma keeps_showing: "keeps R m \<Longrightarrow> keeps (lifted R) (showing f m)"
  by (auto simp: keeps_def lifted_def showing_def split: option.splits prod.splits)

lemma total_failing [intro!]: "total (failing b title e)"
  by (simp add: failing_def total_view)

lemma total_attempt: "total m \<Longrightarrow> (\<And>e. total (h e)) \<Longrightarrow> total (attempt f m h g)"
  unfolding attempt_def by (intro total_intros total_view)

lemma wp_attempt:
  "wp (attempt f m h g) Q E v =
     wp m (\<lambda>x w. Q x (w\<lparr>vw_local := g (vw_local w)\<rparr>))
       (\<lambda>e. wp (h e) (\<lambda>x w. Q x (w\<lparr>vw_local := g (vw_local w)\<rparr>)) (\<lambda>e w. E e (w\<lparr>vw_local := g (vw_local w)\<rparr>)))
       (v\<lparr>vw_local := f (vw_local v)\<rparr>)"
  by (simp add: attempt_def wp_thenA wp_setLocal wp_finallyA wp_tryA)

lemma keeps_attempt:
  assumes "frame R" and "keeps (lifted R) m" and "\<And>e. keeps (lifted R) (h e)"
  shows "keeps (lifted R) (attempt f m h g)"
  unfolding attempt_def
  by (intro frame.keeps_intros [OF frame_lifted [OF assms(1)]] assms keeps_local)
    (use assms(1) in \<open>simp_all add: lifted_def frame_def\<close>)

text \<open>
  What every handler of a page promises: it comes to an end, throws nothing, leaves the local state
  with \<open>rest\<close>, and adds at most one toast to those on show.
\<close>

definition settles :: "('l \<Rightarrow> bool) \<Rightarrow> ('l view, unit) act \<Rightarrow> 'l view \<Rightarrow> bool" where
  "settles rest m v = (\<exists>w. m v = Some (Inr (), w) \<and> rest (vw_local w)
     \<and> (\<exists>new. vw_toasts w = vw_toasts v @ new \<and> length new \<le> 1))"

text \<open>The same of a body that may still throw: then it has added no toast.\<close>

definition shown_after :: "nat \<Rightarrow> toast_stack \<Rightarrow> 'l view \<Rightarrow> bool" where
  "shown_after n before w = (\<exists>new. vw_toasts w = before @ new \<and> length new \<le> n)"

definition body_ok :: "('l view, unit) act \<Rightarrow> toast_stack \<Rightarrow> 'l view \<Rightarrow> bool" where
  "body_ok m before v = wp m (\<lambda>_. shown_after 1 before) (\<lambda>_. shown_after 0 before) v"

lemma settles_wp:
  "ends m v \<Longrightarrow> wp m (\<lambda>_ w. rest (vw_local w) \<and> shown_after 1 (vw_toasts v) w) (\<lambda>_ _. False) v \<Longrightarrow> settles rest m v"
proof -
  assume "ends m v" and post: "wp m (\<lambda>_ w. rest (vw_local w) \<and> shown_after 1 (vw_toasts v) w) (\<lambda>_ _. False) v"
  then obtain r w where run: "m v = Some (r, w)" by (auto elim: endsE)
  with post show ?thesis by (cases r) (auto simp: settles_def wp_def shown_after_def)
qed

lemma settles_ret: "rest (vw_local v) \<Longrightarrow> settles rest (ret ()) v"
  by (simp add: settles_def ret_def)

lemma settles_push: "rest (vw_local v) \<Longrightarrow> settles rest (push b t title body) v"
  by (rule settles_wp) (auto simp: total_ends wp_push shown_after_def)

lemma settles_if: "(c \<Longrightarrow> settles rest m v) \<Longrightarrow> (\<not> c \<Longrightarrow> settles rest k v) \<Longrightarrow> settles rest (if c then m else k) v"
  by simp

lemma settles_get: "settles rest (k v) v \<Longrightarrow> settles rest (bindA getA k) v"
  by (simp add: settles_def bindA_def getA_def)

lemma settles_attempt:
  assumes "total m" and "\<And>before w. vw_toasts w = before \<Longrightarrow> body_ok m before w" and "\<And>s. rest (g s)"
  shows "settles rest (attempt f m (failing b title) g) v"
proof (rule settles_wp)
  show "ends (attempt f m (failing b title) g) v"
    by (intro total_ends total_attempt assms(1) total_failing)
  show "wp (attempt f m (failing b title) g) (\<lambda>_ w. rest (vw_local w) \<and> shown_after 1 (vw_toasts v) w) (\<lambda>_ _. False) v"
    unfolding wp_attempt failing_def wp_push
    by (rule wp_mono [OF assms(2) [unfolded body_ok_def, of _ "vw_toasts v"]])
      (auto simp: assms(3) shown_after_def)
qed

text \<open>Bodies are built from actions of the hooks, which show nothing, one toast, and changes of the local state.\<close>

lemma body_onPage: "(\<And>x w. vw_toasts w = before \<Longrightarrow> body_ok (k x) before w) \<Longrightarrow> vw_toasts v = before \<Longrightarrow>
    body_ok (bindA (onPage m) k) before v"
  by (auto simp: body_ok_def wp_bindA wp_onPage shown_after_def intro!: wp_total)

lemma body_showing: "(\<And>x w. vw_toasts w = before \<Longrightarrow> body_ok (k x) before w) \<Longrightarrow> vw_toasts v = before \<Longrightarrow>
    body_ok (bindA (showing f m) k) before v"
  by (auto simp: body_ok_def wp_bindA wp_showing shown_after_def intro!: wp_total)

lemma body_local: "(\<And>w. vw_toasts w = before \<Longrightarrow> body_ok k before w) \<Longrightarrow> vw_toasts v = before \<Longrightarrow>
    body_ok (thenA (setLocal f) k) before v"
  by (simp add: body_ok_def wp_thenA wp_setLocal)

lemma body_toast: "(\<And>w. shown_after 1 before w \<Longrightarrow> wp k (\<lambda>_. shown_after 1 before) (\<lambda>_ _. False) w) \<Longrightarrow>
    vw_toasts v = before \<Longrightarrow> body_ok (thenA (push b t title body) k) before v"
  unfolding body_ok_def wp_thenA wp_push
  by (rule wp_mono [where Q = "\<lambda>_. shown_after 1 before" and E = "\<lambda>_ _. False"]) (auto simp: shown_after_def)

lemma body_done: "vw_toasts v = before \<Longrightarrow> body_ok (push b t title body) before v"
  "vw_toasts v = before \<Longrightarrow> body_ok (setLocal f) before v" "vw_toasts v = before \<Longrightarrow> body_ok (ret ()) before v"
  by (simp_all add: body_ok_def wp_push wp_setLocal wp_ret shown_after_def)

lemma body_throw: "vw_toasts v = before \<Longrightarrow> body_ok (throw e) before v"
  by (simp add: body_ok_def wp_throw shown_after_def)

lemma closing: "shown_after n before w \<Longrightarrow> wp (setLocal f) (\<lambda>_. shown_after n before) E w"
  by (simp add: wp_setLocal shown_after_def)

text \<open>What the wallet was asked to sign, newest first.\<close>

definition signatures :: "page \<Rightarrow> page_call list" where
  "signatures p = filter (\<lambda>c. case c of PSign _ \<Rightarrow> True | _ \<Rightarrow> False) (asked p)"

lemma push_signatures: "push b t title body v = Some (r, w) \<Longrightarrow> signatures (vw_page w) = signatures (vw_page v)"
  by (auto simp: push_def onPage_def uuidP_def askP_def bindA_def modifyA_def Let_def signatures_def)

section \<open>The status of a position\<close>

datatype status_tone = ShownHealthy | ShownWarning | ShownDanger | ShownInfo | ShownNeutral

text \<open>
  Three pages present a status, each with functions of its own: \<open>OverviewPage\<close>, \<open>BorrowPage\<close> and
  \<open>PositionPage\<close>.
\<close>

definition upper_char :: "char \<Rightarrow> char" where
  "upper_char c = (let n = (of_char c :: nat) in if 97 \<le> n \<and> n \<le> 122 then char_of (n - 32) else c)"

definition capitalized :: "string \<Rightarrow> string" where
  "capitalized s = map upper_char (take 1 s) @ drop 1 s"

definition statusTone :: "loan_status \<Rightarrow> status_tone" where
  "statusTone status =
     (if status = LoanHealthy then ShownHealthy
      else if status = LoanLiquidatable \<or> status = LoanLiquidated then ShownDanger
      else if status = LoanRestricted \<or> status = LoanWarning then ShownWarning
      else ShownNeutral)"

definition statusLabel :: "loan_status \<Rightarrow> string" where
  "statusLabel status =
     (if status = LoanRestricted then ''Restricted''
      else if status = LoanLiquidatable then ''Liquidatable''
      else if status = LoanLiquidated then ''Liquidated''
      else capitalized (loan_status_text status))"

definition positionStatus :: "loan_status \<Rightarrow> string \<times> status_tone" where
  "positionStatus status =
     (if status = LoanHealthy then (''Healthy'', ShownHealthy)
      else if status = LoanRestricted then (''Restricted'', ShownWarning)
      else if status = LoanWarning then (''Warning'', ShownWarning)
      else if status = LoanLiquidatable then (''Liquidatable'', ShownDanger)
      else if status = LoanLiquidated then (''Liquidated'', ShownDanger)
      else (''Closed'', ShownNeutral))"

definition statusPresentation :: "loan_status \<Rightarrow> string \<times> status_tone" where
  "statusPresentation status =
     (if status = LoanHealthy then (''Healthy'', ShownHealthy)
      else if status = LoanRestricted then (''Restricted'', ShownWarning)
      else if status = LoanWarning then (''Warning'', ShownWarning)
      else if status = LoanLiquidatable then (''Liquidatable'', ShownDanger)
      else if status = LoanLiquidated then (''Liquidated'', ShownDanger)
      else (''Closed'', ShownNeutral))"

lemma status_presentations_agree:
  "positionStatus status = (statusLabel status, statusTone status)" "statusPresentation status = positionStatus status"
proof -
  have "capitalized (loan_status_text LoanHealthy) = ''Healthy''" "capitalized (loan_status_text LoanWarning) = ''Warning''"
    "capitalized (loan_status_text LoanClosed) = ''Closed''"
    by code_simp+
  then show "positionStatus status = (statusLabel status, statusTone status)"
    by (cases status) (simp_all add: positionStatus_def statusLabel_def statusTone_def)
qed (simp add: statusPresentation_def positionStatus_def)

text \<open>A view to try things on.\<close>

definition sample_view :: "'l \<Rightarrow> 'l view" where
  "sample_view s = \<lparr>vw_page = sample_page, vw_toasts = [], vw_local = s\<rparr>"

end
