(* ===== verification/Borrow_View.thy ===== *)
theory Borrow_View
  imports Page_View
begin

text \<open>
  The borrower's page, \<^verbatim>\<open>frontend/src/pages/BorrowPage.tsx\<close>: the four steps of the workflow, the
  checks before a private quote is asked for, accepting a quote, and the figures shown of it. The
  buttons of the workflow are the steps of a relation; a handler runs to its end before the next
  button is pressed, and the store and the toasts may change in between.
\<close>

section \<open>State\<close>

record borrow_state =
  br_step :: nat
  br_collateral :: string
  br_amount :: string
  br_term :: number
  br_maxApr :: string
  br_computing :: bool
  br_settlementStage :: nat
  br_settlementSynchronized :: bool
  br_quote :: "private_quote option"
  br_nowSeconds :: number

definition seconds_of :: "int \<Rightarrow> number" where
  "seconds_of now = js_floor (js_div (of_int now) 1000)"

definition fresh_borrow :: "int \<Rightarrow> borrow_state" where
  "fresh_borrow now = \<lparr>br_step = 0, br_collateral = ''10'', br_amount = ''3'', br_term = 14,
     br_maxApr = ''12'', br_computing = False, br_settlementStage = 0, br_settlementSynchronized = True,
     br_quote = None, br_nowSeconds = seconds_of now\<rparr>"

type_synonym borrow_view = "borrow_state view"

datatype borrow_page =
    BorrowDisconnected
  | ExistingPosition string status_tone
  | BorrowWorkflow

definition borrow_screen :: "quietline \<Rightarrow> borrow_page" where
  "borrow_screen st =
     (if mode_of st = Disconnected then BorrowDisconnected
      else case position_of st of
          Some pos \<Rightarrow> (case positionStatus (po_status pos) of (label, t) \<Rightarrow> ExistingPosition (label @ '' credit line'') t)
        | None \<Rightarrow> BorrowWorkflow)"

section \<open>Asking for a quote\<close>

definition startingLtv :: "quietline \<Rightarrow> borrow_state \<Rightarrow> double" where
  "startingLtv st s =
     (let price = js_div (case marketPriceE6 st of Some p \<Rightarrow> p | None \<Rightarrow> 0) 1000000;
          collateralValue = double_mul (typed (br_collateral s)) (Finite price)
      in if double_less (Finite 0) collateralValue
         then double_mul (double_div (typed (br_amount s)) collateralValue) (Finite 100) else Finite 0)"

text \<open>The checks in their order: the title of the toast that refuses the input, or the amount.\<close>

definition quote_check :: "quietline \<Rightarrow> borrow_state \<Rightarrow> string + number" where
  "quote_check st s =
     (let c = typed (br_collateral s) in
      if double_le c (Finite 0) \<or> double_less (Finite (privateFxrp st)) c then
        Inl (''Collateral exceeds your private '' @ assetSymbol FXRP @ '' balance'')
      else if \<not> nonzero (marketPriceE6 st) then Inl ''FTSOv2 price is not available yet''
      else case positive_amount (br_amount s) of
          None \<Rightarrow> Inl (''Enter a positive '' @ assetSymbol USDT0 @ '' amount'')
        | Some x \<Rightarrow>
            if double_less (Finite 50) (startingLtv st s)
            then Inl ''Starting LTV exceeds the 50% policy limit'' else Inr x)"

definition quote_failure :: "js_error \<Rightarrow> string" where
  "quote_failure e =
     (if text_includes (lower (error_message e)) ''no eligible private lender liquidity''
      then ''No lending mandate currently matches your request. Lender capital may be committed to active loans, capped per borrower, or outside your selected term or maximum APR.''
      else error_message e)"

definition requestQuote_page :: "browser \<Rightarrow> hook \<Rightarrow> (borrow_view, unit) act" where
  "requestQuote_page b hk = bindA getA (\<lambda>v. let s = vw_local v in
     case quote_check (app (vw_page v)) s of
       Inl title \<Rightarrow> push b ToneError title None
     | Inr x \<Rightarrow> attempt (\<lambda>s. s\<lparr>br_computing := True\<rparr>)
         (bindA (onPage (requestQuote b hk x (to_numeric (typed (br_collateral s))) (br_term s)
                   (to_numeric (typed (br_maxApr s))))) (\<lambda>result.
            setLocal (\<lambda>s. s\<lparr>br_quote := result, br_step := 2\<rparr>)))
         (\<lambda>e. push b ToneError ''Private quote failed'' (Some (quote_failure e)))
         (\<lambda>s. s\<lparr>br_computing := False\<rparr>))"

section \<open>Accepting a quote\<close>

definition settlement_stage :: "string \<Rightarrow> nat" where
  "settlement_stage stage =
     (if stage = ''signing'' then 1 else if stage = ''submitting'' then 2
      else if stage = ''computing'' then 3 else 5)"

definition show_stage :: "string \<Rightarrow> borrow_state \<Rightarrow> borrow_state" where
  "show_stage stage s = s\<lparr>br_settlementStage := settlement_stage stage\<rparr>"

definition quote_text :: "private_quote \<Rightarrow> string" where
  "quote_text quote = to_fixed 2 (js_div (q_amount quote) 1000000) @ '' '' @ assetSymbol USDT0"

definition settlement_toast :: "browser \<Rightarrow> quietline \<Rightarrow> private_quote \<Rightarrow> borrow_outcome \<Rightarrow> (borrow_view, unit) act" where
  "settlement_toast b st quote outcome =
     (if \<not> bo_synchronized outcome then
        push b ToneWarning ''Credit settled; private view needs refresh''
          (Some (quote_text quote @ '' was delivered. Use Refresh private position to decrypt the updated account; do not accept the quote again.''))
      else if notifications st NPayout then
        push b ToneSuccess ''Private credit line active''
          (Some (quote_text quote @ '' has been delivered to your wallet.''))
      else ret ())"

definition accept_body ::
    "browser \<Rightarrow> hook \<Rightarrow> (page, unit) act list \<Rightarrow> quietline \<Rightarrow> private_quote \<Rightarrow> (borrow_view, unit) act" where
  "accept_body b hk pending st quote =
     bindA (showing show_stage (acceptBorrow b hk pending quote)) (\<lambda>outcome.
       thenA (setLocal (\<lambda>s. s\<lparr>br_settlementSynchronized := bo_synchronized outcome, br_settlementStage := 6\<rparr>))
         (settlement_toast b st quote outcome))"

definition accept :: "browser \<Rightarrow> hook \<Rightarrow> (page, unit) act list \<Rightarrow> (borrow_view, unit) act" where
  "accept b hk pending = bindA getA (\<lambda>v. case br_quote (vw_local v) of
       None \<Rightarrow> ret ()
     | Some quote \<Rightarrow> bindA (onPage (nowP b)) (\<lambda>now.
         if q_expiresAt quote \<le> seconds_of now then
           thenA (push b ToneWarning ''This private quote has expired'' None)
             (setLocal (\<lambda>s. s\<lparr>br_step := 1, br_quote := None\<rparr>))
         else thenA (setLocal (\<lambda>s. s\<lparr>br_step := 3\<rparr>))
           (tryA (accept_body b hk pending (app (vw_page v)) quote) (\<lambda>e.
              thenA (setLocal (\<lambda>s. s\<lparr>br_step := 2, br_settlementStage := 0\<rparr>))
                (failing b ''Borrow settlement failed'' e)))))"

section \<open>What is shown of a quote\<close>

record quote_facts =
  qf_amount :: number
  qf_requested :: number
  qf_collateral :: number
  qf_apr :: number
  qf_price :: number
  qf_ltv :: double
  qf_interest :: number
  qf_secondsLeft :: number
  qf_liquidationPrice :: number

definition quote_figures :: "private_quote option \<Rightarrow> number \<Rightarrow> quote_facts" where
  "quote_figures quote nowSeconds =
     (let part = (\<lambda>f. case quote of Some q \<Rightarrow> f q | None \<Rightarrow> 0);
          amount = js_div (part q_amount) 1000000;
          requested = js_div (part (\<lambda>q. case q_requestedAmount q of Some r \<Rightarrow> r | None \<Rightarrow> q_amount q)) 1000000;
          collateral = js_div (part q_collateralFxrp) 1000000;
          apr = js_div (part q_borrowerAprBps) 100;
          price = js_div (part q_priceE6) 1000000;
          termDays = (case quote of Some q \<Rightarrow> q_termDays q | None \<Rightarrow> 14)
      in \<lparr>qf_amount = amount, qf_requested = requested, qf_collateral = collateral, qf_apr = apr,
          qf_price = price,
          qf_ltv = (case quote of
              Some _ \<Rightarrow> double_mul (double_div (Finite amount) (double_mul (Finite collateral) (Finite price))) (Finite 100)
            | None \<Rightarrow> Finite 0),
          qf_interest = js_mul (js_mul amount (js_div apr 100)) (js_div termDays 365),
          qf_secondsLeft = (case quote of Some q \<Rightarrow> max 0 (js_sub (q_expiresAt q) nowSeconds) | None \<Rightarrow> 0),
          qf_liquidationPrice = (if collateral > 0 then js_div amount (js_mul collateral (fl (65 / 100))) else 0)\<rparr>)"

definition formatCountdown :: "number \<Rightarrow> string" where
  "formatCountdown seconds =
     pad_left 2 (number_text (js_floor (js_div seconds 60))) @ '':'' @ pad_left 2 (number_text (js_mod seconds 60))"

definition countdown :: "number \<Rightarrow> status_tone \<times> string" where
  "countdown left =
     (if left = 0 then (ShownDanger, ''Expired'')
      else (if left \<le> 60 then ShownWarning else ShownHealthy, ''Expires in '' @ formatCountdown left))"

definition workflow_tabs :: "nat \<Rightarrow> step_class list" where
  "workflow_tabs step = step_classes [''Collateral'', ''Request'', ''Private quote'', ''Settlement''] step"

definition settlement_steps :: "nat \<Rightarrow> step_class list" where
  "settlement_steps active = step_classes [''Request on Coston2'', ''Provider authorization'',
     ''Private matching'', ''Private loan created'', assetSymbol USDT0 @ '' payout signed'',
     assetSymbol USDT0 @ '' delivered''] active"

text \<open>The heading, the text and the button of the last step.\<close>

definition settlement_text :: "borrow_state \<Rightarrow> string \<times> string \<times> (string \<times> string) option" where
  "settlement_text s =
     (let amount = to_fixed 2 (qf_amount (quote_figures (br_quote s) (br_nowSeconds s))) @ '' '' @ assetSymbol USDT0 in
      if br_settlementStage s \<ge> 6 then
        (''Your private credit line is active.'',
         if br_settlementSynchronized s then amount @ '' has arrived in your wallet.''
         else amount @ '' has arrived. One read-only signature is required to reveal the updated private position.'',
         Some (if br_settlementSynchronized s then (''View position'', ''/app/position'')
           else (''Refresh private position'', ''/app'')))
      else (''Quietline is settling your request.'',
        ''You can leave this screen. The relayer will continue from the durable job state.'', None))"

section \<open>The buttons\<close>

definition tick :: "browser \<Rightarrow> (borrow_view, unit) act" where
  "tick b = bindA (onPage (nowP b)) (\<lambda>now. setLocal (\<lambda>s. s\<lparr>br_nowSeconds := seconds_of now\<rparr>))"

text \<open>A button is there only in its step; accepting is disabled once the countdown shown is at zero.\<close>

inductive borrow_step :: "browser \<Rightarrow> hook \<Rightarrow> borrow_view \<Rightarrow> borrow_view \<Rightarrow> bool" for b hk where
  edit_collateral: "br_step (vw_local v) = 0 \<Longrightarrow> w = v\<lparr>vw_local := (vw_local v)\<lparr>br_collateral := t\<rparr>\<rparr> \<Longrightarrow> borrow_step b hk v w"
| use_all: "br_step (vw_local v) = 0 \<Longrightarrow>
    w = v\<lparr>vw_local := (vw_local v)\<lparr>br_collateral := number_text (privateFxrp (app (vw_page v)))\<rparr>\<rparr> \<Longrightarrow> borrow_step b hk v w"
| continue: "br_step (vw_local v) = 0 \<Longrightarrow> w = v\<lparr>vw_local := (vw_local v)\<lparr>br_step := 1\<rparr>\<rparr> \<Longrightarrow> borrow_step b hk v w"
| edit_amount: "br_step (vw_local v) = 1 \<Longrightarrow> w = v\<lparr>vw_local := (vw_local v)\<lparr>br_amount := t\<rparr>\<rparr> \<Longrightarrow> borrow_step b hk v w"
| edit_maxApr: "br_step (vw_local v) = 1 \<Longrightarrow> w = v\<lparr>vw_local := (vw_local v)\<lparr>br_maxApr := t\<rparr>\<rparr> \<Longrightarrow> borrow_step b hk v w"
| pick_term: "br_step (vw_local v) = 1 \<Longrightarrow> days \<in> {7, 14, 30} \<Longrightarrow>
    w = v\<lparr>vw_local := (vw_local v)\<lparr>br_term := days\<rparr>\<rparr> \<Longrightarrow> borrow_step b hk v w"
| go_back: "br_step (vw_local v) = 1 \<Longrightarrow> w = v\<lparr>vw_local := (vw_local v)\<lparr>br_step := 0\<rparr>\<rparr> \<Longrightarrow> borrow_step b hk v w"
| get_quote: "br_step (vw_local v) = 1 \<Longrightarrow> requestQuote_page b hk v = Some (r, w) \<Longrightarrow> borrow_step b hk v w"
| edit_request: "br_step (vw_local v) = 2 \<Longrightarrow> w = v\<lparr>vw_local := (vw_local v)\<lparr>br_step := 1\<rparr>\<rparr> \<Longrightarrow> borrow_step b hk v w"
| accept_quote: "br_step (vw_local v) = 2 \<Longrightarrow>
    qf_secondsLeft (quote_figures (br_quote (vw_local v)) (br_nowSeconds (vw_local v))) \<noteq> 0 \<Longrightarrow>
    accept b hk [] v = Some (r, w) \<Longrightarrow> borrow_step b hk v w"
| ticking: "br_quote (vw_local v) \<noteq> None \<Longrightarrow> tick b v = Some (r, w) \<Longrightarrow> borrow_step b hk v w"
| elsewhere: "w = v\<lparr>vw_page := (vw_page v)\<lparr>app := st\<rparr>, vw_toasts := ts\<rparr> \<Longrightarrow> borrow_step b hk v w"

inductive_cases borrow_stepE: "borrow_step b hk v w"

section \<open>Lemmas\<close>

lemma keeps_requestQuote: "keeps nothing_sent (requestQuote b hk x c d m)"
  unfolding requestQuote_def by (auto intro!: sent_keeps page_sent.keeps_direct quiet_sent.keeps_nowP)

lemma total_requestQuote: "page_ok b \<Longrightarrow> total (requestQuote b hk x c d m)"
  unfolding requestQuote_def uuidP_def nowP_def by (auto intro!: total_vault)

lemma fold_show_stage:
  "fold show_stage ss s = s\<lparr>br_settlementStage := br_settlementStage (fold show_stage ss s)\<rparr>"
  by (induction ss arbitrary: s) (simp_all add: show_stage_def, metis borrow_state.surjective borrow_state.update_convs(7))

lemma fold_show_stage_fields [simp]:
  "br_step (fold show_stage ss s) = br_step s" "br_quote (fold show_stage ss s) = br_quote s"
  "br_collateral (fold show_stage ss s) = br_collateral s" "br_amount (fold show_stage ss s) = br_amount s"
  "br_term (fold show_stage ss s) = br_term s" "br_maxApr (fold show_stage ss s) = br_maxApr s"
  "br_computing (fold show_stage ss s) = br_computing s" "br_nowSeconds (fold show_stage ss s) = br_nowSeconds s"
  by (induction ss arbitrary: s) (simp_all add: show_stage_def)

lemma borrow_result_asked:
  "borrow_result b quote fee p r q \<Longrightarrow> borrow_result b quote fee p r (q\<lparr>asked := PUuid # asked q\<rparr>)"
  by (auto simp: borrow_result_def borrow_sent_def shows_loan_def split: option.splits)

lemma borrow_failed_asked:
  "borrow_failed fee p e q \<Longrightarrow> sent (q\<lparr>asked := PUuid # asked q\<rparr>) = sent p \<or> borrow_sent fee p (q\<lparr>asked := PUuid # asked q\<rparr>)"
  by (simp add: borrow_failed_def borrow_sent_def)

text \<open>The form is as it was.\<close>

definition same_input :: "borrow_state \<Rightarrow> borrow_state \<Rightarrow> bool" where
  "same_input s t = (br_collateral t = br_collateral s \<and> br_amount t = br_amount s \<and> br_term t = br_term s
     \<and> br_maxApr t = br_maxApr s \<and> br_computing t = br_computing s)"

text \<open>What accepting comes to.\<close>

definition accept_settled :: "browser \<Rightarrow> private_quote \<Rightarrow> int \<Rightarrow> borrow_view \<Rightarrow> borrow_view \<Rightarrow> bool" where
  "accept_settled b quote fee v w =
     (br_step (vw_local w) = 3 \<and> br_settlementStage (vw_local w) = 6 \<and> br_quote (vw_local w) = Some quote
      \<and> (\<exists>r. borrow_result b quote fee (vw_page v) r (vw_page w)
          \<and> br_settlementSynchronized (vw_local w) = bo_synchronized r)
      \<and> same_input (vw_local v) (vw_local w) \<and> shown_after 1 (vw_toasts v) w)"

definition accept_failed :: "private_quote \<Rightarrow> int \<Rightarrow> borrow_view \<Rightarrow> borrow_view \<Rightarrow> bool" where
  "accept_failed quote fee v w =
     (br_step (vw_local w) = 2 \<and> br_settlementStage (vw_local w) = 0 \<and> br_quote (vw_local w) = Some quote
      \<and> (sent (vw_page w) = sent (vw_page v) \<or> borrow_sent fee (vw_page v) (vw_page w))
      \<and> same_input (vw_local v) (vw_local w) \<and> (\<exists>i body. vw_toasts w = vw_toasts v @
          [(i, \<lparr>to_tone = ToneError, to_title = ''Borrow settlement failed'', to_body = Some body\<rparr>)]))"

lemma accept_body_wp:
  assumes "instructionFee b = Some fee" and "br_quote (vw_local v) = Some quote" and "br_step (vw_local v) = 3"
  shows "wp (accept_body b hk [] st quote) (\<lambda>_. accept_settled b quote fee v)
    (\<lambda>e w. borrow_failed fee (vw_page v) e (vw_page w) \<and> br_quote (vw_local w) = Some quote
      \<and> same_input (vw_local v) (vw_local w) \<and> vw_toasts w = vw_toasts v) v"
  unfolding accept_body_def wp_bindA wp_showing
  by (rule wp_mono [OF acceptBorrow_wp [OF assms(1)]])
    (use assms(2,3) in \<open>auto simp: settlement_toast_def wp_simps accept_settled_def shown_after_def same_input_def
      intro: borrow_result_asked\<close>)

lemma total_accept:
  assumes "page_ok b" and "instructionFee b = Some fee"
  shows "total (accept b hk [])"
  unfolding accept_def accept_body_def settlement_toast_def nowP_def
  by (auto intro!: total_intros total_showing total_borrow [OF assms] total_onPage split: option.split)

lemma accept_wp:
  assumes fee: "instructionFee b = Some fee" and quote: "br_quote (vw_local v) = Some quote"
    and fresh: "\<not> q_expiresAt quote \<le> seconds_of (b_now b (PNow # asked (vw_page v)))"
  shows "wp (accept b hk []) (\<lambda>_ w. accept_settled b quote fee v w \<or> accept_failed quote fee v w) (\<lambda>_ _. False) v"
proof -
  define v1 where "v1 = v\<lparr>vw_page := (vw_page v)\<lparr>asked := PNow # asked (vw_page v)\<rparr>,
    vw_local := (vw_local v)\<lparr>br_step := 3\<rparr>\<rparr>"
  have sent1: "sent (vw_page v1) = sent (vw_page v)" by (simp add: v1_def sent_def is_tx_def)
  have result: "borrow_result b quote fee (vw_page v1) r q = borrow_result b quote fee (vw_page v) r q"
    and failed: "borrow_failed fee (vw_page v1) e q = borrow_failed fee (vw_page v) e q" for r e q
    by (simp_all only: borrow_result_def borrow_failed_def borrow_sent_def sent1)
  have body: "wp (accept_body b hk [] (app (vw_page v)) quote) (\<lambda>_. accept_settled b quote fee v)
    (\<lambda>e w. borrow_failed fee (vw_page v) e (vw_page w) \<and> br_quote (vw_local w) = Some quote
      \<and> same_input (vw_local v) (vw_local w) \<and> vw_toasts w = vw_toasts v) v1"
    by (rule wp_mono [OF accept_body_wp [OF fee]])
      (use quote in \<open>auto simp: accept_settled_def result failed, auto simp: v1_def shown_after_def same_input_def\<close>)
  show ?thesis
    unfolding accept_def wp_bindA wp_getA quote option.case wp_onPage nowP_def wp_askP
    using fresh unfolding if_False wp_if wp_thenA wp_setLocal wp_tryA
    by (simp add: v1_def [symmetric])
      (rule wp_mono [OF body], simp, auto simp: failing_def wp_push wp_setLocal accept_failed_def same_input_def
        dest: borrow_failed_asked)
qed

text \<open>Only a valid input is signed.\<close>

definition quote_input_ok :: "quietline \<Rightarrow> borrow_state \<Rightarrow> bool" where
  "quote_input_ok st s = (case typed (br_collateral s) of
      Finite c \<Rightarrow> 0 < c \<and> c \<le> privateFxrp st \<and> nonzero (marketPriceE6 st)
        \<and> positive_amount (br_amount s) \<noteq> None \<and> \<not> double_less (Finite 50) (startingLtv st s)
    | _ \<Rightarrow> False)"

lemma quote_check_ok:
  "quote_check st s = Inr x \<Longrightarrow> quote_input_ok st s \<or> typed (br_collateral s) = NaN"
  by (cases "typed (br_collateral s)")
    (auto simp: quote_check_def quote_input_ok_def Let_def double_le_def split: if_splits option.splits)

text \<open>\<open>NaN\<close> passes the page's checks, and is refused by the hook before anything is signed.\<close>

lemma requestQuote_unsigned:
  "wp (requestQuote b hk x None d m) (\<lambda>_ _. False) (\<lambda>_ q. signatures q = signatures p) p"
  by (simp add: requestQuote_def uuidP_def units_of_def wp_simps signatures_def split: sum.split)

lemma total_requestQuote_page: "page_ok b \<Longrightarrow> total (requestQuote_page b hk)"
  unfolding requestQuote_page_def Let_def
  by (auto intro!: total_intros total_attempt total_requestQuote total_onPage split: sum.split)

definition quote_shown :: "borrow_view \<Rightarrow> borrow_view \<Rightarrow> bool" where
  "quote_shown v w = (sent (vw_page w) = sent (vw_page v) \<and> \<not> br_computing (vw_local w)
     \<and> br_term (vw_local w) = br_term (vw_local v) \<and> br_settlementStage (vw_local w) = br_settlementStage (vw_local v)
     \<and> (br_step (vw_local w) = 2 \<and> vw_toasts w = vw_toasts v
        \<or> br_step (vw_local w) = br_step (vw_local v) \<and> br_quote (vw_local w) = br_quote (vw_local v)
          \<and> (\<exists>i body. vw_toasts w = vw_toasts v @
              [(i, \<lparr>to_tone = ToneError, to_title = ''Private quote failed'', to_body = Some body\<rparr>)])))"

lemma requestQuote_page_wp:
  assumes "quote_check (app (vw_page v)) (vw_local v) = Inr x"
  shows "wp (requestQuote_page b hk) (\<lambda>_. quote_shown v) (\<lambda>_ _. False) v"
  unfolding requestQuote_page_def wp_bindA wp_getA Let_def assms sum.case wp_attempt wp_onPage wp_setLocal wp_push
  by (rule wp_frame [OF keeps_requestQuote]) (auto simp: nothing_sent_def quote_shown_def)

lemma requestQuote_page_unsigned:
  assumes "quote_check (app (vw_page v)) (vw_local v) = Inr x" and "typed (br_collateral (vw_local v)) = NaN"
  shows "wp (requestQuote_page b hk) (\<lambda>_ w. signatures (vw_page w) = signatures (vw_page v)) (\<lambda>_ _. False) v"
  unfolding requestQuote_page_def wp_bindA wp_getA Let_def assms sum.case wp_attempt wp_onPage wp_setLocal wp_push
  by (simp add: to_numeric_def) (rule wp_mono [OF requestQuote_unsigned], auto simp: signatures_def)

lemma requestQuote_page_refused:
  assumes "quote_check (app (vw_page v)) (vw_local v) = Inl title"
  shows "\<exists>i. requestQuote_page b hk v = Some (Inr (), v\<lparr>vw_page := (vw_page v)\<lparr>asked := PUuid # asked (vw_page v)\<rparr>,
    vw_toasts := vw_toasts v @ [(i, \<lparr>to_tone = ToneError, to_title = title, to_body = None\<rparr>)]\<rparr>)"
proof -
  have "requestQuote_page b hk v = push b ToneError title None v"
    using assms by (simp add: requestQuote_page_def bindA_def getA_def)
  then show ?thesis
    by (simp add: push_def onPage_def uuidP_def askP_def bindA_def modifyA_def push_toast_def Let_def) blast
qed

lemma accept_expired_wp:
  assumes "br_quote (vw_local v) = Some quote" and "q_expiresAt quote \<le> seconds_of (b_now b (PNow # asked (vw_page v)))"
  shows "wp (accept b hk []) (\<lambda>_ w. sent (vw_page w) = sent (vw_page v) \<and> app (vw_page w) = app (vw_page v)
      \<and> vw_local w = (vw_local v)\<lparr>br_step := 1, br_quote := None\<rparr>
      \<and> (\<exists>i. vw_toasts w = vw_toasts v @
          [(i, \<lparr>to_tone = ToneWarning, to_title = ''This private quote has expired'', to_body = None\<rparr>)])) (\<lambda>_ _. False) v"
  using assms by (simp add: accept_def nowP_def wp_simps sent_def is_tx_def)

section \<open>The workflow\<close>

text \<open>What holds of the local state between two buttons.\<close>

definition borrow_ok :: "borrow_state \<Rightarrow> bool" where
  "borrow_ok s = (br_step s \<le> 3 \<and> br_term s \<in> {7, 14, 30} \<and> \<not> br_computing s
     \<and> (if br_step s = 3 then br_settlementStage s = 6 \<and> br_quote s \<noteq> None else br_settlementStage s = 0))"

text \<open>Which steps may send something, and what.\<close>

definition borrow_allowed :: "browser \<Rightarrow> int \<Rightarrow> borrow_view \<Rightarrow> borrow_view \<Rightarrow> bool" where
  "borrow_allowed b fee v w = (sent (vw_page w) = sent (vw_page v)
     \<or> br_step (vw_local v) = 2 \<and> borrow_sent fee (vw_page v) (vw_page w)
       \<and> (\<exists>quote. br_quote (vw_local v) = Some quote
           \<and> seconds_of (b_now b (PNow # asked (vw_page v))) < q_expiresAt quote))"

lemma accept_step:
  assumes "instructionFee b = Some fee" and "accept b hk [] v = Some (r, w)"
    and "br_step (vw_local v) = 2" and "borrow_ok (vw_local v)"
  shows "borrow_ok (vw_local w) \<and> borrow_allowed b fee v w"
proof (cases "br_quote (vw_local v)")
  case None
  then have "w = v" using assms(2) by (simp add: accept_def bindA_def getA_def ret_def)
  then show ?thesis using assms(4) by (simp add: borrow_allowed_def)
next
  case (Some quote)
  show ?thesis
  proof (cases "q_expiresAt quote \<le> seconds_of (b_now b (PNow # asked (vw_page v)))")
    case True
    with accept_expired_wp [OF Some True, of hk] assms show ?thesis
      by (cases r) (auto simp: wp_def borrow_ok_def borrow_allowed_def)
  next
    case False
    with accept_wp [OF assms(1) Some False, of hk] assms(2)
    have came: "accept_settled b quote fee v w \<or> accept_failed quote fee v w" by (cases r) (auto simp: wp_def)
    have "sent (vw_page w) = sent (vw_page v) \<or> borrow_sent fee (vw_page v) (vw_page w)"
      using came by (auto simp: accept_settled_def accept_failed_def borrow_result_def split: option.splits)
    moreover have "borrow_ok (vw_local w)"
      using came assms(4) by (auto simp: accept_settled_def accept_failed_def borrow_ok_def same_input_def)
    ultimately show ?thesis using Some False assms(3) by (auto simp: borrow_allowed_def)
  qed
qed

lemma get_quote_step:
  assumes "requestQuote_page b hk v = Some (r, w)" and "br_step (vw_local v) = 1" and "borrow_ok (vw_local v)"
  shows "borrow_ok (vw_local w) \<and> sent (vw_page w) = sent (vw_page v)"
proof (cases "quote_check (app (vw_page v)) (vw_local v)")
  case (Inl title)
  then show ?thesis using requestQuote_page_refused [OF Inl, of b hk] assms by auto
next
  case (Inr x)
  then have "quote_shown v w" using requestQuote_page_wp [OF Inr, of b hk] assms(1) by (cases r) (auto simp: wp_def)
  then show ?thesis using assms(2,3) by (auto simp: quote_shown_def borrow_ok_def)
qed

lemma tick_step:
  assumes "tick b v = Some (r, w)" and "borrow_ok (vw_local v)"
  shows "borrow_ok (vw_local w) \<and> sent (vw_page w) = sent (vw_page v) \<and> br_step (vw_local w) = br_step (vw_local v)"
  using assms
  by (auto simp: tick_def onPage_def nowP_def askP_def bindA_def setLocal_def modifyA_def Let_def borrow_ok_def
      sent_def is_tx_def)

lemma borrow_step_ok:
  assumes "instructionFee b = Some fee" and "borrow_step b hk v w" and "borrow_ok (vw_local v)"
  shows "borrow_ok (vw_local w) \<and> borrow_allowed b fee v w \<and> (br_step (vw_local v) = 3 \<longrightarrow> br_step (vw_local w) = 3)"
  using assms(2,3)
proof (cases rule: borrow_step.cases)
  case (get_quote r)
  then show ?thesis using get_quote_step [OF get_quote(2,1) assms(3)] by (simp add: borrow_allowed_def)
next
  case (accept_quote r)
  then show ?thesis using accept_step [OF assms(1) accept_quote(3,1) assms(3)] by simp
next
  case (ticking r)
  then show ?thesis using tick_step [OF ticking(2) assms(3)] by (simp add: borrow_allowed_def)
qed (auto simp: borrow_ok_def borrow_allowed_def sent_def split: if_splits)

lemma borrow_reachable_ok:
  assumes "instructionFee b = Some fee"
  shows "(borrow_step b hk)\<^sup>*\<^sup>* v w \<Longrightarrow> borrow_ok (vw_local v) \<Longrightarrow> borrow_ok (vw_local w)"
  by (induction rule: rtranclp_induct) (use borrow_step_ok [OF assms] in blast)+

lemma borrow_settled_quiet:
  assumes "instructionFee b = Some fee"
  shows "(borrow_step b hk)\<^sup>*\<^sup>* v w \<Longrightarrow> borrow_ok (vw_local v) \<Longrightarrow> br_step (vw_local v) = 3 \<Longrightarrow>
    br_step (vw_local w) = 3 \<and> sent (vw_page w) = sent (vw_page v)"
proof (induction rule: rtranclp_induct)
  case (step w u)
  then have "borrow_ok (vw_local w)" using borrow_reachable_ok [OF assms] by blast
  then show ?case using step borrow_step_ok [OF assms step.hyps(2)] by (auto simp: borrow_allowed_def)
qed simp

lemma fresh_borrow_ok: "borrow_ok (fresh_borrow now)"
  by (simp add: borrow_ok_def fresh_borrow_def)

section \<open>Properties\<close>



text \<open>
  C11. The page never accepts a quote that has expired and never loses one it accepted. Accepting ends
  and throws nothing: an expired quote is dropped with a warning and nothing is sent; otherwise either
  the page is at its last stage with what the vault was asked at most once reported, or it is back at
  the quote, which it keeps, with the error shown and at most one request sent.
\<close>
theorem accept_settles:
  assumes "page_ok b" and "instructionFee b = Some fee" and "br_quote (vw_local v) = Some quote"
  shows "\<exists>w. accept b hk [] v = Some (Inr (), w)
    \<and> (if q_expiresAt quote \<le> seconds_of (b_now b (PNow # asked (vw_page v)))
       then sent (vw_page w) = sent (vw_page v) \<and> app (vw_page w) = app (vw_page v)
         \<and> vw_local w = (vw_local v)\<lparr>br_step := 1, br_quote := None\<rparr>
         \<and> (\<exists>i. vw_toasts w = vw_toasts v @
             [(i, \<lparr>to_tone = ToneWarning, to_title = ''This private quote has expired'', to_body = None\<rparr>)])
       else accept_settled b quote fee v w \<or> accept_failed quote fee v w)"
proof -
  obtain r w where run: "accept b hk [] v = Some (r, w)"
    using total_ends [OF total_accept [OF assms(1,2)]] by (rule endsE)
  show ?thesis
  proof (cases "q_expiresAt quote \<le> seconds_of (b_now b (PNow # asked (vw_page v)))")
    case False
    with accept_wp [OF assms(2,3) False, of hk] run show ?thesis by (cases r) (auto simp: wp_def)
  next
    case True
    then have "wp (accept b hk []) (\<lambda>_ w. sent (vw_page w) = sent (vw_page v) \<and> app (vw_page w) = app (vw_page v)
         \<and> vw_local w = (vw_local v)\<lparr>br_step := 1, br_quote := None\<rparr>
         \<and> (\<exists>i. vw_toasts w = vw_toasts v @
             [(i, \<lparr>to_tone = ToneWarning, to_title = ''This private quote has expired'', to_body = None\<rparr>)])) (\<lambda>_ _. False) v"
      using assms(3) by (simp add: accept_def nowP_def wp_simps sent_def is_tx_def)
    with run True show ?thesis by (cases r) (auto simp: wp_def)
  qed
qed

theorem accept_settles_witness:
  "\<exists>w. accept sample_browser \<lparr>hk_address = Some ''0xa'', hk_token = Some ''t'', hk_account = Some ''0xa''\<rparr> []
     (sample_view ((fresh_borrow 0)\<lparr>br_step := 2, br_quote := Some sample_quote\<rparr>)) = Some (Inr (), w)"
proof -
  have "br_quote (vw_local (sample_view ((fresh_borrow 0)\<lparr>br_step := 2, br_quote := Some sample_quote\<rparr>))) = Some sample_quote"
    by (simp add: sample_view_def)
  from accept_settles [OF sample_page_ok(1) sample_fee this,
      where hk = "\<lparr>hk_address = Some ''0xa'', hk_token = Some ''t'', hk_account = Some ''0xa''\<rparr>"]
  show ?thesis by blast
qed



end
