(* ===== verification/Funds_View.thy ===== *)
theory Funds_View
  imports Page_View
begin

text \<open>
  The pages that move funds: \<^verbatim>\<open>frontend/src/pages/OverviewPage.tsx\<close> with the dialog for deposits and
  withdrawals, and \<^verbatim>\<open>frontend/src/pages/EarnPage.tsx\<close> with the dialogs for a mandate and for taking
  liquidity out of one. \<open>formatUnits\<close> of viem is an argument.
\<close>

section \<open>The overview\<close>

record overview_state =
  ov_depositOpen :: bool
  ov_refreshing :: bool

definition refresh_overview :: "browser \<Rightarrow> hook \<Rightarrow> (overview_state view, unit) act" where
  "refresh_overview b hk = bindA getA (\<lambda>v.
     if mode_of (app (vw_page v)) \<noteq> Live then push b ToneInfo ''Connect a Coston2 wallet to refresh'' None
     else attempt (\<lambda>s. s\<lparr>ov_refreshing := True\<rparr>)
       (bindA (onPage (refreshAccount b hk None None None)) (\<lambda>_.
          push b ToneSuccess ''Private account refreshed'' None))
       (failing b ''Private refresh failed'') (\<lambda>s. s\<lparr>ov_refreshing := False\<rparr>))"

text \<open>What the page shows without a session: holdings of the vault, price, and the age of the price.\<close>

definition numeric_fixed :: "nat \<Rightarrow> numeric \<Rightarrow> string" where
  "numeric_fixed digits x = (case x of Some v \<Rightarrow> to_fixed digits v | None \<Rightarrow> ''NaN'')"

definition holdings_text :: "quietline \<Rightarrow> string option" where
  "holdings_text st = map_option (\<lambda>x. numeric_fixed 4 x @ '' '' @ assetSymbol USDT0) (vaultUsdt0Balance st)"

definition price_age :: "int \<Rightarrow> number \<Rightarrow> number" where
  "price_age now updated = max 0 (js_floor (js_sub (js_div (of_int now) 1000) updated))"

definition disconnected_overview :: "int \<Rightarrow> quietline \<Rightarrow> string list" where
  "disconnected_overview now st =
     (let unavailable = (marketStatus st = MarketUnavailable) in
      [case holdings_text st of Some t \<Rightarrow> t | None \<Rightarrow> if unavailable then ''Unavailable'' else ''Loading'',
       (if nonzero (marketPriceE6 st) then ''$'' @ to_fixed 4 (js_div (the (marketPriceE6 st)) 1000000)
        else if unavailable then ''Unavailable'' else ''Loading''),
       (if nonzero (marketUpdatedAt st) then number_text (price_age now (the (marketUpdatedAt st))) @ ''s old''
        else if unavailable then ''Relayer unavailable'' else ''Waiting for oracle'')])"

text \<open>The four cards of the portfolio: a headline and a line below it each.\<close>

definition portfolio_strip :: "quietline \<Rightarrow> (string \<times> string) list" where
  "portfolio_strip st =
     (let marketPrice = js_div (case marketPriceE6 st of Some p \<Rightarrow> p | None \<Rightarrow> 0) 1000000;
          fxrp = assetSymbol FXRP; usdt0 = assetSymbol USDT0 in
      (case position_of st of
         Some pos \<Rightarrow>
           [(to_fixed 2 (po_collateral pos) @ '' '' @ fxrp,
             if nonzero (marketPriceE6 st) then ''$'' @ to_fixed 2 (js_mul (po_collateral pos) marketPrice) @ '' allocated''
             else ''No allocated collateral''),
            (to_fixed 4 (js_add (po_principal pos) (po_accruedInterest pos)) @ '' '' @ usdt0,
             to_fixed 2 (po_apr pos) @ ''% APR '' @ [CHR 0xC2, CHR 0xB7] @ '' '' @ po_maturity pos),
            (to_fixed 2 (po_healthFactor pos), to_fixed 1 (po_ltv pos) @ ''% LTV'')]
       | None \<Rightarrow>
           [(''0.00 '' @ fxrp, ''No allocated collateral''), (''0.00 '' @ usdt0, ''No active credit line''),
            (''--'', ''No position to monitor'')])
      @ [(to_fixed 2 (privateUsdt0 st) @ '' '' @ usdt0, to_fixed 2 (privateFxrp st) @ '' '' @ fxrp @ '' available'')])"

text \<open>Where the cards' buttons lead, and the last events shown.\<close>

definition position_route :: "quietline \<Rightarrow> string" where
  "position_route st = (if position_of st = None then ''/app/borrow'' else ''/app/position'')"

definition recent_events :: "quietline \<Rightarrow> activity_item list" where
  "recent_events st = take 5 (activities st)"

section \<open>Moving funds\<close>

datatype operation = DepositFunds | WithdrawFunds

primrec operation_text :: "operation \<Rightarrow> string" where
  "operation_text DepositFunds = ''deposit''"
| "operation_text WithdrawFunds = ''withdraw''"

text \<open>\<open>dp_balance\<close> is the data of the query for the wallet's balance.\<close>

record deposit_state =
  dp_open :: bool
  dp_operation :: operation
  dp_asset :: AssetId
  dp_amount :: string
  dp_stage :: string
  dp_balance :: "int option"

definition closed_deposit :: deposit_state where
  "closed_deposit = \<lparr>dp_open = False, dp_operation = DepositFunds, dp_asset = FXRP, dp_amount = [],
     dp_stage = ''idle'', dp_balance = None\<rparr>"

type_synonym deposit_view = "deposit_state view"

definition available_of :: "quietline \<Rightarrow> AssetId \<Rightarrow> number" where
  "available_of st asset = (if asset = FXRP then privateFxrp st else privateUsdt0 st)"

definition walletBalance :: "(int \<Rightarrow> nat \<Rightarrow> string) \<Rightarrow> deposit_state \<Rightarrow> double option" where
  "walletBalance formatUnits s =
     map_option (\<lambda>units. typed (formatUnits units (as_decimals (ASSETS (dp_asset s))))) (dp_balance s)"

text \<open>\<open>refetch()\<close> does not throw; without an address the query has nothing to ask.\<close>

definition refetch :: "browser \<Rightarrow> address option \<Rightarrow> AssetId \<Rightarrow> (deposit_view, unit) act" where
  "refetch b account asset = (case present account of
      None \<Rightarrow> ret ()
    | Some a \<Rightarrow> bindA (onPage (outcomeA (askPE (b_balance b) (PBalance (as_address (ASSETS asset)) a)))) (\<lambda>r.
        case r of Inr units \<Rightarrow> setLocal (\<lambda>s. s\<lparr>dp_balance := Some units\<rparr>) | Inl _ \<Rightarrow> ret ()))"

definition funds_toast :: "browser \<Rightarrow> quietline \<Rightarrow> operation \<Rightarrow> AssetId \<Rightarrow> (deposit_view, unit) act" where
  "funds_toast b st op asset =
     (if (op = DepositFunds \<and> notifications st NDeposit) \<or> (op = WithdrawFunds \<and> notifications st NPayout) then
        push b ToneSuccess
          (assetSymbol asset @ '' '' @ (if op = DepositFunds then ''deposit credited'' else ''withdrawal complete''))
          (Some (if op = DepositFunds then ''The vault transfer and confidential credit are confirmed.''
            else ''The private balance was authorized and the public payout is confirmed.''))
      else ret ())"

definition funds_moved :: "browser \<Rightarrow> quietline \<Rightarrow> operation \<Rightarrow> AssetId \<Rightarrow> (deposit_view, unit) act" where
  "funds_moved b st op asset = thenA (refetch b (address_of st) asset)
     (thenA (funds_toast b st op asset) (setLocal (\<lambda>s. s\<lparr>dp_open := False\<rparr>)))"

definition show_funds_stage :: "string \<Rightarrow> deposit_state \<Rightarrow> deposit_state" where
  "show_funds_stage stage s = s\<lparr>dp_stage := stage\<rparr>"

definition withdraw_funds ::
    "browser \<Rightarrow> hook \<Rightarrow> (page, unit) act list \<Rightarrow> quietline \<Rightarrow> AssetId \<Rightarrow> number \<Rightarrow> (deposit_view, unit) act" where
  "withdraw_funds b hk pending st asset x = (case present (address_of st) of
      None \<Rightarrow> push b ToneError ''Reconnect your wallet before withdrawing'' None
    | Some a \<Rightarrow>
        if x > available_of st asset then push b ToneError ''Amount exceeds private balance'' None
        else bindA (showing show_funds_stage (withdraw b hk pending asset x a)) (\<lambda>_.
          funds_moved b st WithdrawFunds asset))"

definition deposit_funds ::
    "browser \<Rightarrow> hook \<Rightarrow> quietline \<Rightarrow> AssetId \<Rightarrow> number \<Rightarrow> double option \<Rightarrow> (deposit_view, unit) act" where
  "deposit_funds b hk st asset x balance = (case balance of
      None \<Rightarrow> push b ToneError ''Wallet balance is still loading'' None
    | Some held \<Rightarrow>
        if double_less held (Finite x) then push b ToneError ''Amount exceeds wallet balance'' None
        else bindA (showing show_funds_stage (deposit b hk asset x)) (\<lambda>_.
          funds_moved b st DepositFunds asset))"

definition submit_funds ::
    "browser \<Rightarrow> (int \<Rightarrow> nat \<Rightarrow> string) \<Rightarrow> hook \<Rightarrow> (page, unit) act list \<Rightarrow> (deposit_view, unit) act" where
  "submit_funds b formatUnits hk pending = bindA getA (\<lambda>v.
     let s = vw_local v; st = app (vw_page v); asset = dp_asset s in
     case positive_amount (dp_amount s) of
       None \<Rightarrow> push b ToneError ''Enter a positive amount'' None
     | Some x \<Rightarrow> attempt id
         (case dp_operation s of
            WithdrawFunds \<Rightarrow> withdraw_funds b hk pending st asset x
          | DepositFunds \<Rightarrow> deposit_funds b hk st asset x (walletBalance formatUnits s))
         (failing b (assetSymbol asset @ '' '' @ operation_text (dp_operation s) @ '' failed''))
         (\<lambda>s. s\<lparr>dp_stage := ''idle''\<rparr>))"

text \<open>The dialog cannot be closed while a stage is on; its buttons, and the text of the last one.\<close>

definition close_deposit :: "deposit_state \<Rightarrow> deposit_state" where
  "close_deposit s = (if dp_stage s = ''idle'' then s\<lparr>dp_open := False\<rparr> else s)"

definition quick_ratio :: "string \<Rightarrow> number" where
  "quick_ratio label = (if label = ''25%'' then 1 / 4 else if label = ''50%'' then 1 / 2 else 1)"

definition quick_amount :: "string \<Rightarrow> double \<Rightarrow> string" where
  "quick_amount label available = double_fixed 4 (double_mul available (Finite (quick_ratio label)))"

definition quick_funds ::
    "(int \<Rightarrow> nat \<Rightarrow> string) \<Rightarrow> quietline \<Rightarrow> string \<Rightarrow> deposit_state \<Rightarrow> deposit_state" where
  "quick_funds formatUnits st label s =
     (case (if dp_operation s = WithdrawFunds then Some (Finite (available_of st (dp_asset s)))
            else walletBalance formatUnits s) of
        None \<Rightarrow> s
      | Some source \<Rightarrow> s\<lparr>dp_amount := quick_amount label source\<rparr>)"

definition funds_button :: "deposit_state \<Rightarrow> string" where
  "funds_button s =
     (let symbol = assetSymbol (dp_asset s); depositing = (dp_operation s = DepositFunds) in
      if dp_stage s = ''approving'' then ''Waiting for approval''
      else if dp_stage s = ''depositing'' then ''Submitting vault deposit''
      else if dp_stage s = ''confirming'' then
        (if depositing then ''Vault confirmed; waiting for FCC'' else ''Confirming settlement'')
      else if dp_stage s = ''submitting'' then ''Submitting withdrawal request''
      else if depositing then ''Approve and deposit '' @ symbol else ''Withdraw '' @ symbol)"

definition balance_line :: "(int \<Rightarrow> nat \<Rightarrow> string) \<Rightarrow> quietline \<Rightarrow> deposit_state \<Rightarrow> string" where
  "balance_line formatUnits st s =
     (if dp_operation s = DepositFunds then ''Wallet balance: '' @ (case walletBalance formatUnits s of
          None \<Rightarrow> ''Loading'' | Some held \<Rightarrow> double_fixed 4 held @ '' '' @ assetSymbol (dp_asset s))
      else ''Private balance: '' @ to_fixed 4 (available_of st (dp_asset s)) @ '' '' @ assetSymbol (dp_asset s))"

section \<open>Lending\<close>

text \<open>A mask is a number; bit operations work on its 32-bit integer, of which the low bits are read.\<close>

definition termsFromMask :: "number \<Rightarrow> string" where
  "termsFromMask bits =
     (let m = \<lfloor>bits\<rfloor>;
          terms = (if bit m 0 then [''7''] else []) @ (if bit m 1 then [''14''] else [])
            @ (if bit m 2 then [''30''] else [])
      in (case terms of [] \<Rightarrow> [] | t # ts \<Rightarrow> t @ concat (map (\<lambda>x. '' / '' @ x) ts)) @ '' days'')"

text \<open>The six metrics of the page.\<close>

definition earn_band :: "quietline \<Rightarrow> string list" where
  "earn_band st =
     (let m = earnMetrics (mandates st) (privateUsdt0 st); usdt0 = '' '' @ assetSymbol USDT0 in
      [to_fixed 2 (em_totalSupplied m) @ usdt0, to_fixed 2 (em_availableToLend m) @ usdt0,
       to_fixed 2 (em_committedToLoans m) @ usdt0, to_fixed 2 (em_withdrawable m) @ usdt0,
       to_fixed 4 (lenderEarned st) @ usdt0,
       (case em_weightedAprPercent m of None \<Rightarrow> ''--'' | Some apr \<Rightarrow> to_fixed 2 apr @ ''%'')])"

text \<open>A row for each active mandate: what is free, what is lent, the rate, the terms, and whether it can be withdrawn.\<close>

definition mandate_row :: "private_mandate \<Rightarrow> string list \<times> bool" where
  "mandate_row m =
     ([to_fixed 2 (js_div (pm_available m) 1000000) @ '' '' @ assetSymbol USDT0,
       to_fixed 2 (js_div (pm_allocatedPrincipal m) 1000000) @ '' '' @ assetSymbol USDT0,
       to_fixed 2 (js_div (pm_minAprBps m) 100) @ ''%'', termsFromMask (pm_termMask m)],
      pm_available m \<noteq> 0)"

definition mandate_rows :: "quietline \<Rightarrow> (string list \<times> bool) list" where
  "mandate_rows st = map mandate_row (filter pm_active (mandates st))"

subsection \<open>Taking liquidity out of a mandate\<close>

record mandate_withdrawal =
  mw_mandate :: "private_mandate option"
  mw_amount :: string
  mw_loading :: bool
  mw_filled :: "(bool \<times> number, unit) effect"

type_synonym withdrawal_view = "mandate_withdrawal view"

definition mandate_available :: "private_mandate option \<Rightarrow> number" where
  "mandate_available m = (case m of Some x \<Rightarrow> js_div (pm_available x) 1000000 | None \<Rightarrow> 0)"

text \<open>The effect that fills in the whole amount when the dialog opens or its amount changes.\<close>

definition fill_withdrawal :: "mandate_withdrawal \<Rightarrow> mandate_withdrawal" where
  "fill_withdrawal s =
     (let available = mandate_available (mw_mandate s); deps = (mw_mandate s \<noteq> None, available);
          seen = s\<lparr>mw_filled := \<lparr>ef_seen = Some deps, ef_timer = None\<rparr>\<rparr> in
      if ef_seen (mw_filled s) = Some deps then s
      else if mw_mandate s \<noteq> None then
        seen\<lparr>mw_amount := (if available > 0 then number_text available else [])\<rparr>
      else seen)"

definition withdrawal_amount :: "mandate_withdrawal \<Rightarrow> number option" where
  "withdrawal_amount s = (case positive_amount (mw_amount s) of
      Some x \<Rightarrow> if x > mandate_available (mw_mandate s) then None else Some x
    | None \<Rightarrow> None)"

definition submit_withdrawal :: "browser \<Rightarrow> hook \<Rightarrow> (page, unit) act list \<Rightarrow> (withdrawal_view, unit) act" where
  "submit_withdrawal b hk pending = bindA getA (\<lambda>v.
     let s = vw_local v; available = mandate_available (mw_mandate s) in
     case mw_mandate s of
       None \<Rightarrow> ret ()
     | Some m \<Rightarrow> (case withdrawal_amount s of
         None \<Rightarrow> push b ToneError
           (''Withdraw up to your available '' @ to_fixed 2 available @ '' '' @ assetSymbol USDT0) None
       | Some x \<Rightarrow> (case present (address_of (app (vw_page v))) of
           None \<Rightarrow> push b ToneError ''Reconnect your wallet before withdrawing'' None
         | Some a \<Rightarrow> attempt (\<lambda>s. s\<lparr>mw_loading := True\<rparr>)
             (bindA (onPage (withdrawFromMandate b hk pending (pm_id m) x a)) (\<lambda>_.
                thenA (push b ToneSuccess ''Lender liquidity withdrawn''
                   (Some (to_fixed 4 x @ '' '' @ assetSymbol USDT0 @ '' settled to your wallet.'')))
                  (setLocal (\<lambda>s. s\<lparr>mw_mandate := None\<rparr>))))
             (failing b ''Liquidity withdrawal failed'') (\<lambda>s. s\<lparr>mw_loading := False\<rparr>))))"

definition quick_withdrawal :: "string \<Rightarrow> mandate_withdrawal \<Rightarrow> mandate_withdrawal" where
  "quick_withdrawal label s = s\<lparr>mw_amount := quick_amount label (Finite (mandate_available (mw_mandate s)))\<rparr>"

subsection \<open>Setting a mandate\<close>

record mandate_state =
  ma_open :: bool
  ma_amount :: string
  ma_apr :: string
  ma_cap :: string
  ma_capCustomized :: bool
  ma_terms :: "number list"
  ma_loading :: bool
  ma_filled :: "(number \<times> bool, unit) effect"

definition closed_mandate :: mandate_state where
  "closed_mandate = \<lparr>ma_open = False, ma_amount = ''4'', ma_apr = ''7.5'', ma_cap = ''4'',
     ma_capCustomized = False, ma_terms = [7, 14], ma_loading = False, ma_filled = fresh_effect\<rparr>"

type_synonym mandate_view = "mandate_state view"

definition fill_mandate :: "number \<Rightarrow> mandate_state \<Rightarrow> mandate_state" where
  "fill_mandate available s =
     (let deps = (available, ma_open s); seen = s\<lparr>ma_filled := \<lparr>ef_seen = Some deps, ef_timer = None\<rparr>\<rparr>;
          fullBalance = (if available > 0 then number_text available else []) in
      if ef_seen (ma_filled s) = Some deps then s
      else if \<not> ma_open s then seen
      else seen\<lparr>ma_amount := fullBalance, ma_cap := fullBalance, ma_capCustomized := False\<rparr>)"

definition edit_mandate_amount :: "string \<Rightarrow> mandate_state \<Rightarrow> mandate_state" where
  "edit_mandate_amount t s = (let s' = s\<lparr>ma_amount := t\<rparr> in
     if \<not> ma_capCustomized s then s'\<lparr>ma_cap := t\<rparr> else s')"

definition edit_mandate_cap :: "string \<Rightarrow> mandate_state \<Rightarrow> mandate_state" where
  "edit_mandate_cap t s = s\<lparr>ma_cap := t, ma_capCustomized := True\<rparr>"

definition toggle_term :: "number \<Rightarrow> mandate_state \<Rightarrow> mandate_state" where
  "toggle_term term s = s\<lparr>ma_terms :=
     (if term \<in> set (ma_terms s) then filter (\<lambda>value. value \<noteq> term) (ma_terms s) else ma_terms s @ [term])\<rparr>"

text \<open>The checks in their order: the title that refuses the input, or the amount and the cap.\<close>

definition mandate_check :: "number \<Rightarrow> mandate_state \<Rightarrow> string + number \<times> number" where
  "mandate_check available s = (case positive_amount (ma_amount s) of
       None \<Rightarrow> Inl (''Mandate amount must fit your private '' @ assetSymbol USDT0 @ '' balance'')
     | Some x \<Rightarrow>
         if x > available then Inl (''Mandate amount must fit your private '' @ assetSymbol USDT0 @ '' balance'')
         else if double_less (typed (ma_apr s)) (Finite 6) \<or> double_less (Finite 20) (typed (ma_apr s)) then
           Inl ''Minimum APR must be between 6% and 20%''
         else (case positive_amount (ma_cap s) of
             None \<Rightarrow> Inl ''Choose a term and keep the borrower cap within the mandate''
           | Some cap \<Rightarrow>
               if ma_terms s = [] \<or> cap > x then Inl ''Choose a term and keep the borrower cap within the mandate''
               else Inr (x, cap)))"

definition submit_mandate :: "browser \<Rightarrow> hook \<Rightarrow> (page, unit) act list \<Rightarrow> (mandate_view, unit) act" where
  "submit_mandate b hk pending = bindA getA (\<lambda>v. let s = vw_local v in
     case mandate_check (privateUsdt0 (app (vw_page v))) s of
       Inl title \<Rightarrow> push b ToneError title None
     | Inr (x, cap) \<Rightarrow> attempt (\<lambda>s. s\<lparr>ma_loading := True\<rparr>)
         (bindA (onPage (setMandate b hk pending x (to_numeric (typed (ma_apr s))) (ma_terms s) cap)) (\<lambda>_.
            thenA (push b ToneSuccess ''Private mandate active'' (Some ''The new confidential state root is anchored.''))
              (setLocal (\<lambda>s. s\<lparr>ma_open := False\<rparr>))))
         (failing b ''Mandate activation failed'') (\<lambda>s. s\<lparr>ma_loading := False\<rparr>))"

section \<open>Lemmas\<close>

lemma keeps_view_intros:
  "keeps (lifted nothing_sent) (setLocal f)" "keeps (lifted nothing_sent) (failing b t e)"
  "keeps nothing_sent m \<Longrightarrow> keeps (lifted nothing_sent) (onPage m)"
  by (auto simp: failing_def intro: keeps_local keeps_push keeps_onPage nothing_sent_frame.frame_axioms)

lemma keeps_mutations:
  "keeps nothing_sent (withdrawFromMandate b hk [] i x a)" "keeps nothing_sent (setMandate b hk [] x r ts c)"
  "keeps nothing_sent (repay b hk [])"
proof -
  have settled: "keeps nothing_sent (settled_view b hk)"
    unfolding settled_view_def by (auto intro!: sent_keeps)
  show "keeps nothing_sent (withdrawFromMandate b hk [] i x a)" "keeps nothing_sent (setMandate b hk [] x r ts c)"
    "keeps nothing_sent (repay b hk [])"
    unfolding withdrawFromMandate_def setMandate_def repay_def serialize_alone
    by (auto intro!: sent_keeps settled page_sent.keeps_direct)
qed

lemma total_mutations:
  assumes "page_ok b"
  shows "total (withdrawFromMandate b hk [] i x a)" "total (setMandate b hk [] x r ts c)" "total (repay b hk [])"
proof -
  have settled: "total (settled_view b hk)"
    unfolding settled_view_def by (auto intro!: total_vault assms)
  show "total (withdrawFromMandate b hk [] i x a)" "total (setMandate b hk [] x r ts c)" "total (repay b hk [])"
    unfolding withdrawFromMandate_def setMandate_def repay_def serialize_alone
    by (auto intro!: total_vault settled assms)
qed

text \<open>What moving funds comes to: a request that is not complete, and a complete one.\<close>

definition funds_begun :: "operation \<Rightarrow> AssetId \<Rightarrow> int \<Rightarrow> page \<Rightarrow> page \<Rightarrow> bool" where
  "funds_begun op asset fee p q = (case op of
      WithdrawFunds \<Rightarrow> \<exists>a. present (address_of (app p)) = Some a \<and> withdrawal_sent asset a fee p q
    | DepositFunds \<Rightarrow> \<exists>e. deposit_failed asset fee p e q)"

definition funds_complete :: "operation \<Rightarrow> AssetId \<Rightarrow> int \<Rightarrow> page \<Rightarrow> page \<Rightarrow> bool" where
  "funds_complete op asset fee p q = (case op of
      WithdrawFunds \<Rightarrow> \<exists>a. present (address_of (app p)) = Some a \<and> withdrawal_sent asset a fee p q
    | DepositFunds \<Rightarrow> \<exists>h. deposit_done asset fee p h q)"

definition funds_covered :: "(int \<Rightarrow> nat \<Rightarrow> string) \<Rightarrow> quietline \<Rightarrow> deposit_state \<Rightarrow> number \<Rightarrow> bool" where
  "funds_covered formatUnits st s x = (case dp_operation s of
      WithdrawFunds \<Rightarrow> x \<le> available_of st (dp_asset s)
    | DepositFunds \<Rightarrow> (case walletBalance formatUnits s of
        None \<Rightarrow> False | Some held \<Rightarrow> \<not> double_less held (Finite x)))"

lemma fold_show_funds_open [simp]: "dp_open (fold show_funds_stage ss s) = dp_open s"
  by (induction ss arbitrary: s) (simp_all add: show_funds_stage_def)

lemma funds_sent_eq:
  "sent t = sent s \<Longrightarrow> funds_begun op asset fee p s \<Longrightarrow> funds_begun op asset fee p t"
  "sent t = sent s \<Longrightarrow> funds_complete op asset fee p s \<Longrightarrow> funds_complete op asset fee p t"
  by (auto simp: funds_begun_def funds_complete_def withdrawal_sent_def deposit_failed_def deposit_done_def
      split: operation.splits)

lemma funds_moved_wp:
  "wp (funds_moved b st op asset) (\<lambda>_ w. sent (vw_page w) = sent (vw_page u) \<and> \<not> dp_open (vw_local w)
     \<and> shown_after 1 (vw_toasts u) w) (\<lambda>_ _. False) u"
  by (auto simp: funds_moved_def refetch_def funds_toast_def wp_simps shown_after_def sent_def is_tx_def
      split: option.split sum.split)

lemma total_funds_moved [intro!]: "total (funds_moved b st op asset)"
  unfolding funds_moved_def refetch_def funds_toast_def
  by (auto intro!: total_intros total_onPage split: option.split sum.split)

text \<open>How the body of the handler ends: refused or moved, or thrown.\<close>

definition funds_result :: "operation \<Rightarrow> AssetId \<Rightarrow> int \<Rightarrow> bool \<Rightarrow> deposit_view \<Rightarrow> deposit_view \<Rightarrow> bool" where
  "funds_result op asset fee covered v w = (shown_after 1 (vw_toasts v) w
     \<and> (sent (vw_page w) = sent (vw_page v) \<and> dp_open (vw_local w) = dp_open (vw_local v)
        \<or> covered \<and> funds_complete op asset fee (vw_page v) (vw_page w) \<and> \<not> dp_open (vw_local w)))"

definition funds_thrown :: "operation \<Rightarrow> AssetId \<Rightarrow> int \<Rightarrow> bool \<Rightarrow> deposit_view \<Rightarrow> deposit_view \<Rightarrow> bool" where
  "funds_thrown op asset fee covered v w = (vw_toasts w = vw_toasts v \<and> dp_open (vw_local w) = dp_open (vw_local v)
     \<and> (sent (vw_page w) = sent (vw_page v) \<or> covered \<and> funds_begun op asset fee (vw_page v) (vw_page w)))"

lemma funds_shown_wp:
  assumes "wp m (\<lambda>_ q. funds_complete op asset fee (vw_page v) q)
    (\<lambda>_ q. sent q = sent (vw_page v) \<or> funds_begun op asset fee (vw_page v) q) (vw_page v)"
  shows "wp (bindA (showing show_funds_stage m) (\<lambda>_. funds_moved b st op asset))
    (\<lambda>_. funds_result op asset fee True v) (\<lambda>_. funds_thrown op asset fee True v) v"
  unfolding wp_bindA wp_showing
proof (rule wp_mono [OF assms], goal_cases)
  case (1 x q)
  show ?case
    by (rule wp_mono [OF funds_moved_wp])
      (use 1 in \<open>auto simp: funds_result_def shown_after_def intro: funds_sent_eq\<close>)
next
  case (2 e q)
  then show ?case by (auto simp: funds_thrown_def)
qed

lemma funds_refused_wp: "wp (push b t title body) (\<lambda>_. funds_result op asset fee c v) E v"
  by (simp add: wp_push funds_result_def shown_after_def)

lemma withdraw_funds_wp:
  assumes "instructionFee b = Some fee"
  shows "wp (withdraw_funds b hk [] (app (vw_page v)) asset x)
    (\<lambda>_. funds_result WithdrawFunds asset fee (x \<le> available_of (app (vw_page v)) asset) v)
    (\<lambda>_. funds_thrown WithdrawFunds asset fee (x \<le> available_of (app (vw_page v)) asset) v) v"
proof (cases "present (address_of (app (vw_page v)))")
  case (Some a)
  have "wp (withdraw b hk [] asset x a) (\<lambda>_ q. funds_complete WithdrawFunds asset fee (vw_page v) q)
      (\<lambda>_ q. sent q = sent (vw_page v) \<or> funds_begun WithdrawFunds asset fee (vw_page v) q) (vw_page v)"
    by (rule wp_mono [OF withdraw_wp [OF assms]]) (auto simp: funds_complete_def funds_begun_def Some)
  from funds_shown_wp [OF this, of b "app (vw_page v)"] show ?thesis
    by (auto simp: withdraw_funds_def Some not_less intro!: funds_refused_wp)
qed (simp add: withdraw_funds_def funds_refused_wp)

lemma deposit_funds_wp:
  assumes "instructionFee b = Some fee"
  shows "wp (deposit_funds b hk st asset x balance)
    (\<lambda>_. funds_result DepositFunds asset fee (case balance of None \<Rightarrow> False | Some held \<Rightarrow> \<not> double_less held (Finite x)) v)
    (\<lambda>_. funds_thrown DepositFunds asset fee (case balance of None \<Rightarrow> False | Some held \<Rightarrow> \<not> double_less held (Finite x)) v) v"
proof -
  have "wp (deposit b hk asset x) (\<lambda>_ q. funds_complete DepositFunds asset fee (vw_page v) q)
      (\<lambda>_ q. sent q = sent (vw_page v) \<or> funds_begun DepositFunds asset fee (vw_page v) q) (vw_page v)"
    by (rule wp_mono [OF deposit_wp [OF assms]]) (auto simp: funds_complete_def funds_begun_def)
  from funds_shown_wp [OF this, of b st] show ?thesis
    by (auto simp: deposit_funds_def intro!: funds_refused_wp split: option.split)
qed

lemma total_submit_funds:
  assumes "page_ok b" and "instructionFee b = Some fee"
  shows "total (submit_funds b formatUnits hk [])"
  unfolding submit_funds_def withdraw_funds_def deposit_funds_def Let_def
  by (auto intro!: total_intros total_attempt total_showing total_withdraw [OF assms] total_deposit [OF assms]
      split: option.split operation.split)

text \<open>A mandate is asked for only with a valid input, apart from a rate that is not a number.\<close>

definition mandate_input_ok :: "number \<Rightarrow> mandate_state \<Rightarrow> bool" where
  "mandate_input_ok available s = (case (positive_amount (ma_amount s), positive_amount (ma_cap s)) of
      (Some x, Some cap) \<Rightarrow> x \<le> available \<and> cap \<le> x \<and> ma_terms s \<noteq> []
        \<and> (case typed (ma_apr s) of NaN \<Rightarrow> True | Infinite _ \<Rightarrow> False | Finite r \<Rightarrow> 6 \<le> r \<and> r \<le> 20)
    | _ \<Rightarrow> False)"

lemma mandate_check_ok: "mandate_check available s = Inr (x, cap) \<Longrightarrow>
    mandate_input_ok available s \<and> positive_amount (ma_amount s) = Some x \<and> positive_amount (ma_cap s) = Some cap"
  by (auto simp: mandate_check_def mandate_input_ok_def split: option.splits if_splits double.splits)

lemma total_submit_mandate: "page_ok b \<Longrightarrow> total (submit_mandate b hk [])"
  unfolding submit_mandate_def Let_def
  by (auto intro!: total_intros total_attempt total_onPage total_mutations split: sum.split)

lemma keeps_submit_mandate: "keeps (lifted nothing_sent) (submit_mandate b hk [])"
  unfolding submit_mandate_def Let_def
  by (auto intro!: view_sent.keeps_intros keeps_push keeps_attempt keeps_view_intros keeps_mutations
      nothing_sent_frame.frame_axioms split: sum.split)

lemma submit_mandate_settles:
  assumes "page_ok b" and "\<not> ma_loading (vw_local v)"
  shows "settles (\<lambda>s. \<not> ma_loading s) (submit_mandate b hk []) v"
  unfolding submit_mandate_def Let_def
  by (rule settles_get) (auto intro!: settles_push settles_attempt total_intros total_onPage total_mutations
      assms body_onPage body_toast closing split: sum.split)


lemma total_submit_withdrawal: "page_ok b \<Longrightarrow> total (submit_withdrawal b hk [])"
  unfolding submit_withdrawal_def Let_def
  by (auto intro!: total_intros total_attempt total_onPage total_mutations split: option.split)

lemma submit_withdrawal_settles:
  assumes "page_ok b" and "\<not> mw_loading (vw_local v)"
  shows "settles (\<lambda>s. \<not> mw_loading s) (submit_withdrawal b hk []) v"
  unfolding submit_withdrawal_def Let_def
  by (rule settles_get) (auto intro!: settles_ret settles_push settles_attempt total_intros total_onPage total_mutations
      assms body_onPage body_toast closing split: option.split)

lemma keeps_submit_withdrawal: "keeps (lifted nothing_sent) (submit_withdrawal b hk [])"
  unfolding submit_withdrawal_def Let_def
  by (auto intro!: view_sent.keeps_intros keeps_push keeps_attempt keeps_view_intros keeps_mutations
      nothing_sent_frame.frame_axioms split: option.split)

lemma refresh_overview_settles:
  assumes "page_ok b" and "\<not> ov_refreshing (vw_local v)"
  shows "settles (\<lambda>s. \<not> ov_refreshing s) (refresh_overview b hk) v"
  unfolding refresh_overview_def
  by (rule settles_get) (auto intro!: settles_push settles_attempt total_intros total_onPage total_actions
      assms body_onPage body_done)

text \<open>The wallet is asked to sign for a mandate only if the page's checks passed.\<close>

lemma mandate_refused:
  assumes "mandate_check (privateUsdt0 (app (vw_page v))) (vw_local v) = Inl title"
  shows "submit_mandate b hk [] v = push b ToneError title None v"
  using assms by (simp add: submit_mandate_def bindA_def getA_def Let_def)

lemma withdrawal_refused:
  assumes "submit_withdrawal b hk [] v = Some (r, w)" and "withdrawal_amount (vw_local v) = None"
  shows "signatures (vw_page w) = signatures (vw_page v)"
  using assms push_signatures
  by (auto simp: submit_withdrawal_def bindA_def getA_def ret_def Let_def split: option.splits)

lemma withdrawal_amountD:
  "withdrawal_amount s = Some x \<Longrightarrow> 0 < x \<and> x \<le> mandate_available (mw_mandate s)"
  by (auto simp: withdrawal_amount_def dest: positive_amountD split: option.splits if_splits)

section \<open>Rounding of the buttons\<close>

lemma quick_max: 
  assumes "fl x = x" and "0 \<le> x" and "x < 2 ^ 1000"
  shows "quick_amount ''Max'' (Finite x) = to_fixed 4 x"
proof -
  have "x < 2 ^ 1024" using assms(3) by (rule less_trans) simp
  then show ?thesis using assms(1,2) by (simp add: quick_amount_def quick_ratio_def double_of_def double_fixed_def)
qed

lemma mandate_available_double: "fl (mandate_available m) = mandate_available m"
  by (cases m) (simp_all add: mandate_available_def js_div_def fl_idem, simp add: fl_def)

lemma fl_nonneg: "0 \<le> x \<Longrightarrow> 0 \<le> fl x"
  using fl_pos_nonneg [of x] by (auto simp: fl_def)

lemma fixed_units_near: "0 \<le> x \<Longrightarrow> \<bar>of_nat (fixed_units k x) / 10 ^ k - x\<bar> \<le> 1 / (2 * 10 ^ k)"
proof -
  assume x: "0 \<le> x"
  define y where "y = x * 10 ^ k"
  have y: "0 \<le> y" using x by (simp add: y_def)
  then have n: "(of_nat (fixed_units k x) :: rat) = of_int \<lfloor>y + 1 / 2\<rfloor>" by (simp add: fixed_units_def y_def)
  have "\<bar>of_int \<lfloor>y + 1 / 2\<rfloor> - y\<bar> \<le> 1 / 2"
    using floor_correct [of "y + 1 / 2"] unfolding abs_le_iff by linarith
  then have "\<bar>of_nat (fixed_units k x) - y\<bar> / 10 ^ k \<le> 1 / 2 / 10 ^ k"
    unfolding n by (rule divide_right_mono) simp
  moreover have "of_nat (fixed_units k x) / 10 ^ k - x = (of_nat (fixed_units k x) - y) / 10 ^ k"
    by (simp add: y_def diff_divide_distrib)
  moreover have "\<bar>(of_nat (fixed_units k x) - y) / 10 ^ k\<bar> = \<bar>of_nat (fixed_units k x) - y\<bar> / 10 ^ k"
    by (simp add: abs_divide)
  ultimately show ?thesis by simp
qed

lemma fl_le_double:
  assumes "0 \<le> y" and "y < 2 ^ 1001"
  shows "fl y < 2 ^ 1024"
proof (cases "2 powi (-1022) \<le> y")
  case True
  have "\<bar>fl y - y\<bar> \<le> y / 2 ^ 53" by (rule fl_error [OF True])
  moreover have "y / 2 ^ 53 \<le> y" using assms(1) by (simp add: divide_le_eq mult_le_cancel_left1)
  ultimately have "fl y \<le> 2 * y" by linarith
  also have "\<dots> < 2 * 2 ^ 1001" using assms(2) by simp
  also have "\<dots> \<le> 2 ^ 1024" by simp
  finally show ?thesis .
next
  case False
  then have "y = 0 \<or> fl y < 1 / 4" using fl_tiny [of y] assms(1) by fastforce
  then show ?thesis by (auto simp: fl_def intro: less_trans)
qed

text \<open>What \<open>toFixed\<close> printed, typed in again.\<close>

lemma typed_to_fixed:
  assumes "0 \<le> x" and "x < 2 ^ 1000" and "0 < k"
  shows "typed (to_fixed k x) = Finite (fl (of_nat (fixed_units k x) / 10 ^ k))"
proof -
  let ?y = "of_nat (fixed_units k x) / 10 ^ k :: rat"
  have "?y \<le> x + 1 / (2 * 10 ^ k)" using fixed_units_near [OF assms(1), of k] by (simp add: abs_le_iff)
  also have "\<dots> \<le> x + 1"
  proof -
    have "(1 :: rat) \<le> 10 ^ k" by (rule one_le_power) simp
    then have "(1 :: rat) \<le> 2 * 10 ^ k" by linarith
    then show ?thesis by (simp add: divide_le_eq)
  qed
  also have "\<dots> < 2 ^ 1001" using assms(2) by simp
  finally have "fl ?y < 2 ^ 1024" by (intro fl_le_double) simp_all
  then have "number_of_text (to_fixed k x) = Some (fl ?y)"
    using number_to_fixed [OF assms(1,3)] fl_nonneg [of ?y] by (simp add: finite_number_def)
  then show ?thesis by (simp add: typed_def)
qed

lemma termMask_bit:
  "bit (foldl (\<lambda>m t. or m (if t = 7 then 1 else if t = 14 then 2 else if t = 30 then 4 else 0)) a ts) i
     = (bit (a :: int) i \<or> (7 \<in> set ts \<and> i = 0) \<or> (14 \<in> set ts \<and> i = 1) \<or> ((30 :: number) \<in> set ts \<and> i = 2))"
proof (induction ts arbitrary: a)
  case (Cons t ts)
  have "bit (1 :: int) i = (i = 0)" "bit (2 :: int) i = (i = 1)" "bit (4 :: int) i = (i = 2)"
    using bit_exp_iff [where 'a = int, of 0 i] bit_exp_iff [where 'a = int, of 1 i] bit_exp_iff [where 'a = int, of 2 i]
    by auto
  then show ?case by (auto simp: Cons.IH bit_or_iff)
qed simp

text \<open>
  A rate that is no number passes the checks (and the payload then holds \<open>null\<close>, \<open>hundredths None\<close>).
\<close>

lemma mandate_rate_unchecked:
  "typed rate = NaN \<Longrightarrow> mandate_check available (s\<lparr>ma_apr := rate\<rparr>) = (case mandate_check available (s\<lparr>ma_apr := ''6''\<rparr>) of
     Inl title \<Rightarrow> Inl title | Inr r \<Rightarrow> Inr r)"
proof -
  have six: "typed ''6'' = Finite 6"
  proof -
    have "number_of_text ''6'' = finite_number (map_option fl (decimal ''6''))"
      by (rule number_of_plain_text) (simp_all add: number_char_def, rule exI [of _ 6], code_simp)
    moreover have "decimal ''6'' = Some 6" by code_simp
    moreover have "fl 6 = 6" using fl_integer [of 6] by simp
    ultimately show ?thesis by (simp add: typed_def finite_number_def)
  qed
  assume "typed rate = NaN"
  then show ?thesis using six by (simp add: mandate_check_def split: option.split)
qed

section \<open>Properties\<close>






definition sample_withdrawal :: mandate_withdrawal where
  "sample_withdrawal = \<lparr>mw_mandate = Some (sample_mandate\<lparr>pm_available := 46875\<rparr>), mw_amount = [],
     mw_loading = False, mw_filled = fresh_effect\<rparr>"


text \<open>
  The terms of a mandate survive their encoding: whatever terms were chosen, in whatever order and
  however often, the mask that is sent reads back as the chosen ones among 7, 14 and 30 days, in this
  order.
\<close>
lemma terms_roundtrip:
  "termsFromMask (termMask terms) =
     (let chosen = filter (\<lambda>(t, days). days \<in> set terms) [(''7'', 7), (''14'', 14), (''30'', 30)] in
      (case map fst chosen of [] \<Rightarrow> [] | t # ts \<Rightarrow> t @ concat (map (\<lambda>x. '' / '' @ x) ts)) @ '' days'')"
  unfolding termsFromMask_def termMask_def floor_of_int Let_def termMask_bit by simp

end
