(* ===== verification/Position_View.thy ===== *)
theory Position_View
  imports Funds_View
begin

text \<open>
  The remaining pages of an open session: \<^verbatim>\<open>frontend/src/pages/PositionPage.tsx\<close> with the figures of a
  position, the stress check and the dialogs that repay it, \<^verbatim>\<open>ActivityPage.tsx\<close> and
  \<^verbatim>\<open>SettingsPage.tsx\<close>. The charts and the clipboard are not modelled; the locale's format of a time and
  \<open>toISOString\<close> are arguments.
\<close>

section \<open>Figures of a position\<close>

record position_facts =
  pf_debt :: number
  pf_interestPerDay :: number
  pf_projected :: number
  pf_lenderWeightedApr :: number
  pf_lenderAccrued :: number
  pf_protocolAccrued :: number

definition debt_of :: "position \<Rightarrow> number" where
  "debt_of pos = js_add (po_principal pos) (po_accruedInterest pos)"

definition position_figures :: "position \<Rightarrow> position_facts" where
  "position_figures pos =
     (let interestPerDay = js_div (js_div (js_mul (po_principal pos) (po_apr pos)) 100) 365;
          weighted = foldl (\<lambda>total t. js_add total (js_mul (js_div (pt_principal t) 1000000) (pt_aprBps t))) 0
            (po_tranches pos);
          lenderWeightedApr = (if po_principal pos > 0
            then js_div (js_div weighted (po_principal pos)) 100 else 0);
          lenderAccrued = (if po_apr pos > 0
            then js_div (js_mul (po_accruedInterest pos) lenderWeightedApr) (po_apr pos) else 0)
      in \<lparr>pf_debt = debt_of pos, pf_interestPerDay = interestPerDay,
          pf_projected = js_add (po_principal pos) (js_mul interestPerDay (po_termDays pos)),
          pf_lenderWeightedApr = lenderWeightedApr, pf_lenderAccrued = lenderAccrued,
          pf_protocolAccrued = max 0 (js_sub (po_accruedInterest pos) lenderAccrued)\<rparr>)"

definition market_price :: "quietline \<Rightarrow> number" where
  "market_price st = js_div (case marketPriceE6 st of Some p \<Rightarrow> p | None \<Rightarrow> 0) 1000000"

definition stress_price :: "quietline \<Rightarrow> number \<Rightarrow> number" where
  "stress_price st decline = js_mul (market_price st) (js_sub 1 (js_div decline 100))"

definition price_data :: "(number \<Rightarrow> string) \<Rightarrow> quietline \<Rightarrow> (string \<times> number) list" where
  "price_data clock_text st =
     (if nonzero (marketPriceE6 st) \<and> nonzero (marketUpdatedAt st)
      then [(clock_text (js_mul (the (marketUpdatedAt st)) 1000), market_price st)] else [])"

definition chart_domain :: "quietline \<Rightarrow> position \<Rightarrow> number \<times> number" where
  "chart_domain st pos =
     (case filter (\<lambda>x. x > 0) [market_price st, po_warningPrice pos, po_liquidationPrice pos] of
        [] \<Rightarrow> (0, 1)
      | x # xs \<Rightarrow> (js_mul (foldl min x xs) (fl (9 / 10)), js_mul (foldl max x xs) (fl (11 / 10))))"

definition timeUntil :: "int \<Rightarrow> number \<Rightarrow> string" where
  "timeUntil now maturesAt =
     (let remaining = js_sub (js_mul maturesAt 1000) (of_int now) in
      if remaining \<le> 0 then ''Matured''
      else let hours = js_floor (js_div remaining 3600000) in
        number_text (js_floor (js_div hours 24)) @ ''d '' @ number_text (js_mod hours 24) @ ''h'')"

definition titleCase :: "string \<Rightarrow> string" where
  "titleCase t = capitalized t"

primrec stress_text :: "stress_status \<Rightarrow> string" where
  "stress_text StressHealthy = ''healthy''"
| "stress_text StressRestricted = ''restricted''"
| "stress_text StressWarning = ''warning''"
| "stress_text StressLiquidatable = ''liquidatable''"

definition summary_metrics :: "int \<Rightarrow> quietline \<Rightarrow> position \<Rightarrow> (string \<times> string) list" where
  "summary_metrics now st pos =
     [(to_fixed 4 (debt_of pos) @ '' '' @ assetSymbol USDT0, []),
      (to_fixed 2 (po_apr pos) @ ''%'', show_nat (length (po_tranches pos)) @ '' private lender ''
         @ (if length (po_tranches pos) = 1 then ''tranche'' else ''tranches'')),
      (timeUntil now (po_maturesAt pos), po_maturity pos),
      (if nonzero (marketPriceE6 st) then ''$'' @ to_fixed 2 (js_mul (po_collateral pos) (market_price st)) else ''Loading'',
       to_fixed 2 (po_collateral pos) @ '' '' @ assetSymbol FXRP),
      (to_fixed 1 (po_ltv pos) @ ''%'', ''Warning at 55%''),
      (to_fixed 2 (po_healthFactor pos), ''Liquidation at 1.00'')]"

section \<open>Actions of the position's page\<close>

text \<open>The page with its two dialogs; \<open>pn_left\<close> is that the page was left for the overview.\<close>

record position_state =
  pn_repayOpen :: bool
  pn_closeOpen :: bool
  pn_stress :: number
  pn_stressResult :: "(number \<times> string) option"
  pn_stressLoading :: bool
  pn_refreshing :: bool
  pn_repaying :: bool
  pn_closing :: bool
  pn_left :: bool

definition fresh_position :: position_state where
  "fresh_position = \<lparr>pn_repayOpen = False, pn_closeOpen = False, pn_stress = 20, pn_stressResult = None,
     pn_stressLoading = False, pn_refreshing = False, pn_repaying = False, pn_closing = False, pn_left = False\<rparr>"

type_synonym position_view = "position_state view"

definition runStress :: "browser \<Rightarrow> hook \<Rightarrow> (position_view, unit) act" where
  "runStress b hk = bindA getA (\<lambda>v.
     attempt (\<lambda>s. s\<lparr>pn_stressLoading := True\<rparr>)
       (if \<not> nonzero (marketPriceE6 (app (vw_page v))) then throw (JsError ''FTSOv2 price is not available yet'')
        else bindA (onPage (stress b hk (stress_price (app (vw_page v)) (pn_stress (vw_local v))))) (\<lambda>answer.
          case answer of
            None \<Rightarrow> throw (JsError ''Cannot read properties of undefined (reading 'ltvBps')'')
          | Some r \<Rightarrow> setLocal (\<lambda>s. s\<lparr>pn_stressResult :=
              Some (js_div (sv_ltvBps r) 100, titleCase (stress_text (sv_status r)))\<rparr>)))
       (failing b ''Stress check failed'') (\<lambda>s. s\<lparr>pn_stressLoading := False\<rparr>))"

definition refresh_position :: "browser \<Rightarrow> hook \<Rightarrow> (position_view, unit) act" where
  "refresh_position b hk = attempt (\<lambda>s. s\<lparr>pn_refreshing := True\<rparr>)
     (bindA (onPage (refreshAccount b hk None None None)) (\<lambda>_.
        push b ToneSuccess ''Private position refreshed'' None))
     (failing b ''Position refresh failed'') (\<lambda>s. s\<lparr>pn_refreshing := False\<rparr>)"

text \<open>The two dialogs show nothing without a position.\<close>

definition submit_repayment :: "browser \<Rightarrow> hook \<Rightarrow> (page, unit) act list \<Rightarrow> (position_view, unit) act" where
  "submit_repayment b hk pending = bindA getA (\<lambda>v. case position_of (app (vw_page v)) of
       None \<Rightarrow> ret ()
     | Some pos \<Rightarrow>
         if privateUsdt0 (app (vw_page v)) < debt_of pos then
           push b ToneError (''Deposit enough private '' @ assetSymbol USDT0 @ '' to close the position'') None
         else attempt (\<lambda>s. s\<lparr>pn_repaying := True\<rparr>)
           (bindA (onPage (repay b hk pending)) (\<lambda>_.
              thenA (push b ToneSuccess ''Private position closed''
                 (Some ''Debt was allocated privately and the updated root is anchored.''))
                (setLocal (\<lambda>s. s\<lparr>pn_repayOpen := False\<rparr>))))
           (failing b ''Private repayment failed'') (\<lambda>s. s\<lparr>pn_repaying := False\<rparr>))"

definition shortage :: "quietline \<Rightarrow> position \<Rightarrow> number" where
  "shortage st pos = max 0 (js_sub (debt_of pos) (privateUsdt0 st))"

definition submit_close :: "browser \<Rightarrow> hook \<Rightarrow> (page, unit) act list \<Rightarrow> (position_view, unit) act" where
  "submit_close b hk pending = bindA getA (\<lambda>v. case position_of (app (vw_page v)) of
       None \<Rightarrow> ret ()
     | Some pos \<Rightarrow>
         if shortage (app (vw_page v)) pos > 0 then
           push b ToneWarning (''Deposit '' @ to_fixed 4 (shortage (app (vw_page v)) pos) @ '' more ''
             @ assetSymbol USDT0 @ '' first'') None
         else attempt (\<lambda>s. s\<lparr>pn_closing := True\<rparr>)
           (bindA (onPage (repay b hk pending)) (\<lambda>_.
              thenA (push b ToneSuccess ''Position closed''
                 (Some (''All '' @ assetSymbol FXRP @ '' collateral is available privately.'')))
                (setLocal (\<lambda>s. s\<lparr>pn_left := True\<rparr>))))
           (failing b ''Could not close the position'') (\<lambda>s. s\<lparr>pn_closing := False\<rparr>))"

text \<open>Exporting, on this page and in the settings; what \<open>downloadPrivateStatement\<close> throws is not caught.\<close>

definition export_statement :: "browser \<Rightarrow> string \<Rightarrow> int \<Rightarrow> ('l view, unit) act" where
  "export_statement b generatedAt now = bindA getA (\<lambda>v.
     bindA (liftA (downloadPrivateStatement generatedAt now (app (vw_page v)))) (\<lambda>_.
       push b ToneSuccess ''Private statement exported'' None))"

section \<open>Activity\<close>

record activity_state =
  ac_tab :: activity_scope
  ac_refreshing :: bool

definition refresh_activity :: "browser \<Rightarrow> hook \<Rightarrow> (activity_state view, unit) act" where
  "refresh_activity b hk = bindA getA (\<lambda>v.
     case (mode_of (app (vw_page v)), present (sessionToken (app (vw_page v)))) of
       (Live, Some token) \<Rightarrow> attempt (\<lambda>s. s\<lparr>ac_refreshing := True\<rparr>)
         (bindA (onPage (bothA (refreshAccount b hk None None None) (clientListJobs b token))) (\<lambda>(view, jobs).
            bindA (onPage (setApp (hydrateRelayerJobs (b_formats b) jobs))) (\<lambda>_.
              push b ToneSuccess ''Activity refreshed'' None)))
         (failing b ''Activity refresh failed'') (\<lambda>s. s\<lparr>ac_refreshing := False\<rparr>)
     | _ \<Rightarrow> ret ())"

definition tab_items :: "activity_scope \<Rightarrow> quietline \<Rightarrow> activity_item list" where
  "tab_items tab st = filter (\<lambda>item. ai_scope item = tab) (activities st)"

text \<open>The tone and the text of an entry's status, and the link of a public one.\<close>

definition activity_badge :: "activity_item \<Rightarrow> status_tone \<times> string" where
  "activity_badge item = (case ai_status item of
      Warning \<Rightarrow> (ShownWarning, ''warning'')
    | Pending \<Rightarrow> (ShownInfo, ''pending'')
    | Complete \<Rightarrow> (ShownHealthy, ''Complete''))"

definition activity_link :: "activity_item \<Rightarrow> string option" where
  "activity_link item = (if ai_scope item = Public
     then Some (case present (ai_txHash item) of
         Some h \<Rightarrow> net_explorerUrl COSTON2 @ ''/tx/'' @ h
       | None \<Rightarrow> net_explorerUrl COSTON2)
     else None)"

section \<open>Settings\<close>

record attestation_view =
  at_status :: string
  at_detail :: string
  at_codeHash :: string
  at_tone :: status_tone

definition objectValue :: "json option \<Rightarrow> json" where
  "objectValue value = (case value of
      Some (JObject ms) \<Rightarrow> JObject ms
    | Some (JArray vs) \<Rightarrow> JArray vs
    | _ \<Rightarrow> JObject [])"

definition stringValue :: "json option \<Rightarrow> string" where
  "stringValue value = (case value of
      Some (JText s) \<Rightarrow> s
    | Some (JNumber n) \<Rightarrow> number_text n
    | _ \<Rightarrow> [])"

text \<open>\<open>root.a ?? root.b\<close>\<close>

definition either_member :: "json \<Rightarrow> string \<Rightarrow> string \<Rightarrow> json option" where
  "either_member v a c = (case member_of v a of
      None \<Rightarrow> member_of v c
    | Some x \<Rightarrow> if x = JNull then member_of v c else Some x)"

definition normalizeAttestation :: "json option \<Rightarrow> string option \<Rightarrow> attestation_view" where
  "normalizeAttestation value error =
     (let chain = ''Coston2 chain '' @ show_int (net_id COSTON2);
          loading = \<lparr>at_status = ''Loading'', at_detail = chain, at_codeHash = [], at_tone = ShownInfo\<rparr> in
      case present error of
        Some e \<Rightarrow> \<lparr>at_status = ''Unavailable'', at_detail = e, at_codeHash = [], at_tone = ShownWarning\<rparr>
      | None \<Rightarrow> (case value of
          None \<Rightarrow> loading
        | Some info \<Rightarrow>
            if \<not> (case info of JObject _ \<Rightarrow> True | JArray _ \<Rightarrow> True | _ \<Rightarrow> False) then loading
            else let machine = objectValue (either_member info ''machineData'' ''MachineData'');
                     extensionId = stringValue (either_member machine ''extensionId'' ''ExtensionID'');
                     codeHash = stringValue (either_member machine ''codeHash'' ''CodeHash'');
                     attestation = stringValue (either_member info ''attestation'' ''Attestation'');
                     hasRealAttestation = (attestation \<noteq> [] \<and> attestation \<noteq> ''magic_pass'')
              in \<lparr>at_status = (if hasRealAttestation then ''Attested'' else ''Unverified''),
                  at_detail = (if hasRealAttestation
                    then ''Extension '' @ (if extensionId = [] then ''unknown'' else extensionId) @ '' / '' @ chain
                    else ''The proxy response did not include a production attestation.''),
                  at_codeHash = codeHash,
                  at_tone = (if hasRealAttestation then ShownHealthy else ShownWarning)\<rparr>))"

definition shortHash :: "string \<Rightarrow> string" where
  "shortHash value = (if value \<noteq> [] then take 10 value @ ''...'' @ drop (length value - 6) value
     else ''Not available'')"

record settings_state =
  se_attestation :: "json option"
  se_attestationError :: "string option"
  se_attestationOpen :: bool
  se_left :: bool

text \<open>The answer to the page's request, which is ignored once the effect was cleaned up.\<close>

definition attestation_arrived :: "bool \<Rightarrow> js_error + json \<Rightarrow> settings_state \<Rightarrow> settings_state" where
  "attestation_arrived active answer s =
     (if \<not> active then s
      else (case answer of
          Inr value \<Rightarrow> s\<lparr>se_attestation := Some value\<rparr>
        | Inl e \<Rightarrow> s\<lparr>se_attestationError := Some (error_message e)\<rparr>))"

definition remaining_minutes :: "int \<Rightarrow> quietline \<Rightarrow> number" where
  "remaining_minutes now st =
     (if nonzero (sessionExpiresAt st)
      then max 0 (js_floor (js_div (js_sub (the (sessionExpiresAt st)) (of_int now)) 60000)) else 0)"

definition session_status :: "int \<Rightarrow> quietline \<Rightarrow> status_tone \<times> string" where
  "session_status now st =
     (let remaining = remaining_minutes now st in
      if remaining \<noteq> 0 then (ShownHealthy, number_text remaining @ '' min remaining'')
      else (ShownWarning, ''Locked''))"

definition relay_status :: "quietline \<Rightarrow> (status_tone \<times> string) \<times> (status_tone \<times> string)" where
  "relay_status st =
     (let settlement = (case serviceHealth st of Some h \<Rightarrow> sh_ok h | None \<Rightarrow> False);
          relayer = (case serviceHealth st of
            Some h \<Rightarrow> sh_api h = ServiceOk \<and> sh_database h = ServiceOk | None \<Rightarrow> False) in
      (if settlement then (ShownHealthy, ''Ready'') else (ShownWarning, ''Unavailable''),
       if relayer then (ShownHealthy, ''Online'') else (ShownWarning, ''Unavailable'')))"

definition copy_codeHash :: "browser \<Rightarrow> (settings_state view, unit) act" where
  "copy_codeHash b = bindA getA (\<lambda>v.
     if at_codeHash (normalizeAttestation (se_attestation (vw_local v)) (se_attestationError (vw_local v))) = []
     then ret () else push b ToneSuccess ''Code hash copied'' None)"

definition toggle_notice :: "notification \<Rightarrow> (settings_state view, unit) act" where
  "toggle_notice key = onPage (setApp (toggleNotification key))"

definition lock_now :: "(settings_state view, unit) act" where
  "lock_now = onPage (setApp lock)"

text \<open>\<open>await disconnectAsync(); disconnect(); navigate(...)\<close>, uncaught.\<close>

definition disconnect_wallet :: "browser \<Rightarrow> (settings_state view, unit) act" where
  "disconnect_wallet b = bindA (onPage (askPE (b_disconnect b) PDisconnect)) (\<lambda>_.
     thenA (onPage (setApp disconnect)) (setLocal (\<lambda>s. s\<lparr>se_left := True\<rparr>)))"

section \<open>Differences of doubles\<close>

text \<open>Every double is a multiple of the smallest one, so the difference of two is never rounded to zero.\<close>

lemma fl_pos_multiple: "\<exists>m. fl_pos x = of_int m * 2 powi (-1074)"
proof -
  define e where "e = max (expo x - 52) (-1074)"
  have "(2 :: rat) powi e = 2 powi (e + 1074) * 2 powi (-1074)"
    using power_int_add [of "2 :: rat" "e + 1074" "-1074"] by simp
  also have "(2 :: rat) powi (e + 1074) = of_int (2 ^ nat (e + 1074))"
  proof -
    have "0 \<le> e + 1074" by (simp add: e_def)
    then show ?thesis using power_int_of_nat [of "2 :: rat" "nat (e + 1074)"] by simp
  qed
  finally have "fl_pos x = of_int (round_even (x / ulp x) * 2 ^ nat (e + 1074)) * 2 powi (-1074)"
    by (simp add: fl_pos_def ulp_def e_def)
  then show ?thesis by blast
qed

lemma double_multiple: "\<exists>m. fl x = of_int m * 2 powi (-1074)"
proof -
  obtain m where m: "fl_pos (- x) = of_int m * 2 powi (-1074)" using fl_pos_multiple by blast
  have "- fl_pos (- x) = of_int (- m) * 2 powi (-1074)" by (simp add: m)
  moreover have "(0 :: rat) = of_int 0 * 2 powi (-1074)" by simp
  ultimately show ?thesis using fl_pos_multiple [of x] unfolding fl_def by metis
qed

lemma fl_positive:
  assumes "2 powi (-1074) \<le> x"
  shows "0 < fl x"
proof -
  have x: "0 < x" using assms by (rule less_le_trans [rotated]) simp
  have "(2 :: rat) powi (expo x - 52) \<le> 2 powi expo x" by (intro power_int_increasing) simp_all
  then have "ulp x \<le> x" using expo_bounds(1) [OF x] assms by (simp add: ulp_def max_def)
  then have "1 \<le> x / ulp x" by (simp add: le_divide_eq)
  then have "1 \<le> \<lfloor>x / ulp x\<rfloor>" by (simp add: le_floor_iff)
  moreover have "\<lfloor>y\<rfloor> \<le> round_even y" for y by (simp add: round_even_def Let_def)
  ultimately have "1 \<le> round_even (x / ulp x)" by (rule order_trans)
  then have "0 < fl_pos x" by (simp add: fl_pos_def)
  then show ?thesis using x by (simp add: fl_def)
qed

lemma js_sub_positive:
  assumes "fl x = x" and "fl y = y"
  shows "0 < js_sub x y \<longleftrightarrow> y < x"
proof
  assume "y < x"
  obtain m n where "x = of_int m * 2 powi (-1074)" "y = of_int n * 2 powi (-1074)"
    using double_multiple [of x] double_multiple [of y] assms by metis
  then have diff: "x - y = of_int (m - n) * 2 powi (-1074)" by (simp add: left_diff_distrib)
  with \<open>y < x\<close> have "0 < m - n" by (metis diff_gt_0_iff_gt of_int_0_less_iff zero_less_mult_pos2 zero_less_numeral zero_less_power_int)
  then have "(1 :: rat) \<le> of_int (m - n)" by (metis of_int_1_le_iff int_one_le_iff_zero_less)
  then have "2 powi (-1074) \<le> x - y" unfolding diff using mult_right_mono [of 1 "of_int (m - n)" "2 powi (-1074) :: rat"] by simp
  then show "0 < js_sub x y" unfolding js_sub_def by (rule fl_positive)
next
  assume "0 < js_sub x y"
  then show "y < x" using fl_nonpos [of "x - y"] by (cases "y < x") (simp_all add: js_sub_def)
qed

section \<open>Lemmas\<close>

lemma debt_double: "fl (debt_of pos) = debt_of pos"
  by (simp add: debt_of_def js_add_def fl_idem)

lemma shortage_positive:
  "fl (privateUsdt0 st) = privateUsdt0 st \<Longrightarrow> 0 < shortage st pos \<longleftrightarrow> privateUsdt0 st < debt_of pos"
  using js_sub_positive [OF debt_double, of "privateUsdt0 st" pos] by (auto simp: shortage_def less_max_iff_disj)

lemma total_repayments:
  assumes "page_ok b"
  shows "total (submit_repayment b hk [])" "total (submit_close b hk [])"
  unfolding submit_repayment_def submit_close_def
  by (auto intro!: total_intros total_attempt total_onPage total_mutations assms split: option.split)

lemma keeps_repayments:
  "keeps (lifted nothing_sent) (submit_repayment b hk [])" "keeps (lifted nothing_sent) (submit_close b hk [])"
  unfolding submit_repayment_def submit_close_def
  by (auto intro!: view_sent.keeps_intros keeps_push keeps_attempt keeps_view_intros keeps_mutations
      nothing_sent_frame.frame_axioms split: option.split)

lemma repayments_settle:
  assumes "page_ok b"
  shows "\<not> pn_repaying (vw_local v) \<Longrightarrow> settles (\<lambda>s. \<not> pn_repaying s) (submit_repayment b hk []) v"
    and "\<not> pn_closing (vw_local v) \<Longrightarrow> settles (\<lambda>s. \<not> pn_closing s) (submit_close b hk []) v"
  unfolding submit_repayment_def submit_close_def
  by (rule settles_get, auto intro!: settles_ret settles_push settles_attempt total_intros total_onPage
      total_mutations assms body_onPage body_toast closing split: option.split)+

lemma repayments_refused:
  assumes "case position_of (app (vw_page v)) of None \<Rightarrow> True
    | Some pos \<Rightarrow> privateUsdt0 (app (vw_page v)) < debt_of pos \<and> 0 < shortage (app (vw_page v)) pos"
  shows "submit_repayment b hk [] v = Some (r, w) \<Longrightarrow> signatures (vw_page w) = signatures (vw_page v)"
    and "submit_close b hk [] v = Some (r, w) \<Longrightarrow> signatures (vw_page w) = signatures (vw_page v)"
  using assms push_signatures
  by (auto simp: submit_repayment_def submit_close_def bindA_def getA_def ret_def split: option.splits)

text \<open>The handlers that only read: they settle and send nothing.\<close>

lemma total_stress: "page_ok b \<Longrightarrow> total (stress b hk x)"
  unfolding stress_def by (auto intro!: total_vault)

lemma keeps_stress: "keeps nothing_sent (stress b hk x)"
  unfolding stress_def by (auto intro!: sent_keeps page_sent.keeps_direct)


lemma readers_settle:
  assumes "page_ok b"
  shows "\<not> pn_stressLoading (vw_local v) \<Longrightarrow> settles (\<lambda>s. \<not> pn_stressLoading s) (runStress b hk) v"
    and "settles (\<lambda>s. \<not> pn_refreshing s) (refresh_position b hk) v"
    and "\<not> ac_refreshing (vw_local u) \<Longrightarrow> settles (\<lambda>s. \<not> ac_refreshing s) (refresh_activity b hk) u"
  unfolding runStress_def refresh_position_def refresh_activity_def
  by ((rule settles_get)?, auto intro!: settles_ret settles_attempt total_intros total_onPage total_stress total_actions
      assms body_onPage body_done body_throw split: option.split mode.split prod.split)+

lemma readers_send_nothing:
  "keeps (lifted nothing_sent) (runStress b hk)" "keeps (lifted nothing_sent) (refresh_position b hk)"
  "keeps (lifted nothing_sent) (refresh_activity b hk)"
  unfolding runStress_def refresh_position_def refresh_activity_def
  by (auto intro!: view_sent.keeps_intros keeps_push keeps_attempt keeps_view_intros keeps_stress sent_keeps
      nothing_sent_frame.frame_axioms split: option.split mode.split prod.split)

text \<open>\<open>timeUntil\<close> splits whole hours into days and less than a day.\<close>

lemma js_mod_range:
  assumes "0 < y" 
  shows "0 \<le> js_mod x y" "js_mod x y < y"
proof -
  have "of_int \<lfloor>x / y\<rfloor> \<le> x / y" "x / y < of_int \<lfloor>x / y\<rfloor> + 1" using floor_correct [of "x / y"] by simp_all
  then have "of_int \<lfloor>x / y\<rfloor> * y \<le> x" "x < (of_int \<lfloor>x / y\<rfloor> + 1) * y"
    using assms by (simp_all only: pos_le_divide_eq pos_divide_less_eq)
  then show "0 \<le> js_mod x y" "js_mod x y < y"
    by (simp_all add: js_mod_def algebra_simps)
qed

text \<open>The two tabs hold every entry once, and only public entries lead anywhere.\<close>

lemma tabs_partition: "length (tab_items Public st) + length (tab_items Private st) = length (activities st)"
proof -
  have "tab_items Private st = filter (\<lambda>item. \<not> (ai_scope item = Public)) (activities st)"
    unfolding tab_items_def by (rule filter_cong) (auto intro: activity_scope.exhaust)
  then show ?thesis by (simp add: tab_items_def sum_length_filter_compl)
qed

lemma private_has_no_link: "item \<in> set (tab_items Private st) \<Longrightarrow> activity_link item = None"
  by (simp add: tab_items_def activity_link_def)

text \<open>The page calls a machine attested only for an answer with an attestation that is not the simulator's.\<close>

lemma attested_shown:
  "at_status (normalizeAttestation value error) = ''Attested'' \<longleftrightarrow>
     present error = None \<and> (\<exists>info. value = Some info
       \<and> stringValue (either_member info ''attestation'' ''Attestation'') \<notin> {[], ''magic_pass''})"
proof -
  have "stringValue (either_member info a c) = []" if "\<not> (case info of JObject _ \<Rightarrow> True | JArray _ \<Rightarrow> True | _ \<Rightarrow> False)"
    for info a c
    using that by (auto simp: stringValue_def either_member_def member_of_def split: json.splits)
  then show ?thesis
    by (auto simp: normalizeAttestation_def Let_def split: option.splits if_splits)
qed

text \<open>The store forgets the account only when the wallet has disconnected.\<close>

lemma disconnect_wallet_forgets:
  "case disconnect_wallet b v of
     None \<Rightarrow> False
   | Some (Inl _, w) \<Rightarrow> app (vw_page w) = app (vw_page v) \<and> vw_local w = vw_local v
   | Some (Inr _, w) \<Rightarrow> app (vw_page w) = disconnect (app (vw_page v)) \<and> se_left (vw_local w)"
  by (auto simp: disconnect_wallet_def onPage_def askPE_def askP_def bindA_def thenA_def liftA_def setApp_def
      modifyA_def setLocal_def Let_def split: sum.split)

section \<open>Properties\<close>

text \<open>
  C36. The two ways to repay agree, and neither repays what is not covered. For a private balance that is
  a double, the one dialog's test of the balance and the other's rounded shortage refuse exactly the
  same; both handlers end without throwing, show at most one toast, are not busy afterwards and send no
  transaction from the wallet; and the wallet signs for a repayment only if there is a position whose
  whole debt the balance covers.
\<close>
theorem repay_dialogs_agree:
  assumes "page_ok b" and "fl (privateUsdt0 (app (vw_page v))) = privateUsdt0 (app (vw_page v))"
    and "\<not> pn_repaying (vw_local v)" and "\<not> pn_closing (vw_local v)"
  shows "(0 < shortage (app (vw_page v)) pos) = (privateUsdt0 (app (vw_page v)) < debt_of pos)
    \<and> settles (\<lambda>s. \<not> pn_repaying s) (submit_repayment b hk []) v
    \<and> settles (\<lambda>s. \<not> pn_closing s) (submit_close b hk []) v
    \<and> (submit_repayment b hk [] v = Some (r, w) \<or> submit_close b hk [] v = Some (r, w) \<longrightarrow>
        sent (vw_page w) = sent (vw_page v)
        \<and> (signatures (vw_page w) = signatures (vw_page v)
          \<or> (\<exists>pos. position_of (app (vw_page v)) = Some pos \<and> debt_of pos \<le> privateUsdt0 (app (vw_page v)))))"
proof -
  note same = shortage_positive [OF assms(2)]
  have "sent (vw_page w) = sent (vw_page v)"
    if "submit_repayment b hk [] v = Some (r, w) \<or> submit_close b hk [] v = Some (r, w)"
    using that keepsD [OF keeps_repayments(1)] keepsD [OF keeps_repayments(2)]
    unfolding lifted_def nothing_sent_def by metis
  moreover have "signatures (vw_page w) = signatures (vw_page v)
      \<or> (\<exists>pos. position_of (app (vw_page v)) = Some pos \<and> debt_of pos \<le> privateUsdt0 (app (vw_page v)))"
    if "submit_repayment b hk [] v = Some (r, w) \<or> submit_close b hk [] v = Some (r, w)"
    using that repayments_refused [of v b hk r w] same by (auto simp: not_le split: option.splits)
  ultimately show ?thesis
    using same repayments_settle [OF assms(1), of v hk] assms(3,4) by blast
qed

theorem repay_dialogs_agree_witness:
  "settles (\<lambda>s. \<not> pn_closing s)
     (submit_close sample_browser \<lparr>hk_address = None, hk_token = None, hk_account = None\<rparr> []) (sample_view fresh_position)"
proof -
  have "fl (privateUsdt0 (app (vw_page (sample_view fresh_position)))) = privateUsdt0 (app (vw_page (sample_view fresh_position)))"
    by (simp add: sample_view_def sample_page_def connectLive_def fl_def)
  from repay_dialogs_agree [OF sample_page_ok(1) this] show ?thesis
    by (simp add: sample_view_def fresh_position_def)
qed

end
