(* ===== verification/Landing_View.thy ===== *)
theory Landing_View
  imports Page_View
begin

text \<open>
  The landing page, \<^verbatim>\<open>frontend/src/pages/LandingPage.tsx\<close>, as far as it computes: the market it polls,
  the texts it makes of it, the steps of the animated account, and the preview of a quote.
  \<open>toLocaleString\<close> with its least and greatest number of decimals is an argument; observers of
  scrolling and of the pointer, the texts and the markup are not modelled.
\<close>

section \<open>The market\<close>

datatype landing_market =
    LandingLoading
  | LandingReady market_view bool
  | LandingUnavailable

text \<open>
  An answer to a poll, which counts while the page is mounted: the last good values are kept and
  flagged as stale when a later poll fails.
\<close>

definition poll_market :: "bool \<Rightarrow> js_error + market_view \<Rightarrow> landing_market \<Rightarrow> landing_market" where
  "poll_market active answer st =
     (if \<not> active then st
      else case answer of
          Inr market \<Rightarrow> LandingReady market False
        | Inl _ \<Rightarrow> (case st of
            LandingReady market stale \<Rightarrow> LandingReady market True
          | _ \<Rightarrow> LandingUnavailable))"

definition poll_landing :: "browser \<Rightarrow> bool \<Rightarrow> (landing_market view, unit) act" where
  "poll_landing b active = bindA (onPage (outcomeA (getMarket b))) (\<lambda>answer. setLocal (poll_market active answer))"

definition seconds_since :: "number \<Rightarrow> number option \<Rightarrow> number option" where
  "seconds_since nowSeconds timestamp = map_option (\<lambda>t. max 0 (js_sub nowSeconds t)) timestamp"

definition formatVaultBalance :: "(nat \<Rightarrow> nat \<Rightarrow> number \<Rightarrow> string) \<Rightarrow> string \<Rightarrow> string" where
  "formatVaultBalance locale_text t =
     (case double_div (typed t) (Finite 1000000) of
        Finite x \<Rightarrow>
          if x \<ge> 1000000 then locale_text 0 2 (js_div x 1000000) @ ''M''
          else if x \<ge> 1000 then locale_text 0 1 (js_div x 1000) @ ''K''
          else locale_text 0 2 x
      | _ \<Rightarrow> ''Unavailable'')"

text \<open>The four cells of the grid: price, limits, vault, and the age of the price with its unit.\<close>

definition waiting_text :: "landing_market \<Rightarrow> string" where
  "waiting_text st = (if st = LandingLoading then ''Loading'' else ''Unavailable'')"

definition price_text :: "(nat \<Rightarrow> nat \<Rightarrow> number \<Rightarrow> string) \<Rightarrow> landing_market \<Rightarrow> string" where
  "price_text locale_text st = (case st of
      LandingReady m stale \<Rightarrow> ''$'' @ locale_text 4 4 (js_div (mv_xrpUsdE6 m) 1000000)
    | _ \<Rightarrow> waiting_text st)"

definition price_foot :: "landing_market \<Rightarrow> string" where
  "price_foot st = (case st of
      LandingUnavailable \<Rightarrow> ''Price feed is unavailable right now''
    | LandingReady m True \<Rightarrow> ''Showing the last known price''
    | _ \<Rightarrow> ''Live from Flare's FTSOv2 price feed'')"

definition limits_text :: string where
  "limits_text = number_text (js_div (of_int (initialLtvBps POLICY)) 100) @ '' / ''
     @ number_text (js_div (of_int (warningLtvBps POLICY)) 100) @ '' / ''
     @ number_text (js_div (of_int (liquidationLtvBps POLICY)) 100)"

definition vault_text :: "(nat \<Rightarrow> nat \<Rightarrow> number \<Rightarrow> string) \<Rightarrow> landing_market \<Rightarrow> string" where
  "vault_text locale_text st = (case st of
      LandingReady m stale \<Rightarrow> formatVaultBalance locale_text (mv_vaultUsdt0Balance m)
    | _ \<Rightarrow> waiting_text st)"

definition age_text :: "number \<Rightarrow> landing_market \<Rightarrow> string \<times> string" where
  "age_text nowSeconds st =
     (case seconds_since nowSeconds (case st of LandingReady m stale \<Rightarrow> Some (mv_updatedAt m) | _ \<Rightarrow> None) of
        None \<Rightarrow> (waiting_text st, [])
      | Some age \<Rightarrow>
          if age < 90 then (number_text age, if age = 1 then ''second ago'' else ''seconds ago'')
          else let minutes = js_floor (js_div age 60) in
            (number_text minutes, if minutes = 1 then ''minute ago'' else ''minutes ago''))"

section \<open>The animated account\<close>

definition next_phase :: "nat \<Rightarrow> nat" where
  "next_phase p = (p + 1) mod 3"

definition node_states :: "nat \<Rightarrow> string list" where
  "node_states phase =
     [if phase > 0 then ''done'' else ''active'',
      if phase > 1 then ''done'' else if phase = 1 then ''active'' else ''idle'',
      if phase > 2 then ''done'' else if phase = 2 then ''active'' else ''idle'']"

definition refresh_preview :: "browser \<Rightarrow> bool \<Rightarrow> (nat view, unit) act" where
  "refresh_preview b reducedMotion =
     (if reducedMotion then
        push b ToneInfo ''Live preview needs motion'' (Some ''Enable motion to see the steps run.'')
      else thenA (setLocal (\<lambda>_. 0))
        (push b ToneInfo ''Private account refreshed'' (Some ''The preview shows the current demo state.'')))"

section \<open>The preview of a quote\<close>

record preview =
  pq_collateral :: string
  pq_term :: number
  pq_quote :: "string option"
  pq_working :: bool

definition fresh_preview :: preview where
  "fresh_preview = \<lparr>pq_collateral = ''10,000'', pq_term = 14, pq_quote = None, pq_working = False\<rparr>"

definition digit_or_point :: "char \<Rightarrow> bool" where
  "digit_or_point c = (let n = (of_char c :: nat) in n = 46 \<or> (48 \<le> n \<and> n \<le> 57))"

definition collateral_number :: "preview \<Rightarrow> double" where
  "collateral_number s = (case typed (filter digit_or_point (pq_collateral s)) of NaN \<Rightarrow> Finite 0 | x \<Rightarrow> x)"

definition preview_borrow :: "preview \<Rightarrow> number" where
  "preview_borrow s = (case double_mul (collateral_number s) (Finite (1 / 2)) of
      Finite cap \<Rightarrow> min cap 999999
    | _ \<Rightarrow> 999999)"

definition preview_interest :: "preview \<Rightarrow> number" where
  "preview_interest s = js_mul (js_mul (preview_borrow s) (fl (18 / 1000))) (js_div (pq_term s) 14)"

definition preview_total :: "preview \<Rightarrow> number" where
  "preview_total s = js_add (preview_borrow s) (preview_interest s)"

definition total_text :: "(nat \<Rightarrow> nat \<Rightarrow> number \<Rightarrow> string) \<Rightarrow> preview \<Rightarrow> string" where
  "total_text locale_text s = locale_text 0 2 (preview_total s) @ '' '' @ assetSymbol USDT0"

text \<open>The row of the total shows the last quote while there is one.\<close>

definition total_row :: "(nat \<Rightarrow> nat \<Rightarrow> number \<Rightarrow> string) \<Rightarrow> preview \<Rightarrow> string" where
  "total_row locale_text s = (case pq_quote s of
      Some t \<Rightarrow> t
    | None \<Rightarrow> if pq_working s then ''computing'' @ [CHR 0xE2, CHR 0x80, CHR 0xA6] else total_text locale_text s)"

text \<open>The handler waits 1.4 seconds and shows the total of the render it was called in.\<close>

definition cycle_quote ::
    "browser \<Rightarrow> (nat \<Rightarrow> nat \<Rightarrow> number \<Rightarrow> string) \<Rightarrow> bool \<Rightarrow> (preview view, unit) act" where
  "cycle_quote b locale_text reducedMotion = bindA getA (\<lambda>v.
     if reducedMotion then
       push b ToneInfo ''Preview runs on motion'' (Some ''Enable motion to watch the quote compute.'')
     else if pq_working (vw_local v) then ret ()
     else thenA (setLocal (\<lambda>s. s\<lparr>pq_working := True, pq_quote := None\<rparr>))
       (thenA (onPage (waitP 1400))
         (setLocal (\<lambda>s. s\<lparr>pq_quote := Some (total_text locale_text (vw_local v)), pq_working := False\<rparr>))))"

section \<open>Lemmas\<close>

text \<open>The last step of the animation is never shown as done.\<close>

lemma settle_never_done: "node_states ((next_phase ^^ n) 0) ! 2 \<noteq> ''done''"
proof -
  have "next_phase p < 3" for p by (simp add: next_phase_def)
  then have "(next_phase ^^ n) 0 < 3" by (cases n) simp_all
  then show ?thesis by (simp add: node_states_def)
qed

text \<open>
  The preview's limit is half the number of FXRP, whatever their price; and a total once computed
  stays when the collateral is edited.
\<close>

lemma preview_borrow_top: "preview_borrow s \<le> 999999"
  by (auto simp: preview_borrow_def split: double.splits)

lemma preview_total_stale:
  "pq_quote s = Some t \<Longrightarrow> total_row locale_text (s\<lparr>pq_collateral := c\<rparr>) = t"
  by (simp add: total_row_def)

section \<open>The market is honest\<close>

text \<open>
  The landing page never invents a number. After any answers to its polls the market it shows is
  that of the last answer that was good, flagged as stale exactly when a later poll has failed; it is
  unavailable exactly when polls have failed and none was ever good, and loading only before the
  first answer. Answers that arrive after the page was left change nothing.
\<close>
lemma landing_market_honest:
  "(case foldl (\<lambda>st answer. poll_market True answer st) LandingLoading answers of
      LandingLoading \<Rightarrow> answers = []
    | LandingUnavailable \<Rightarrow> answers \<noteq> [] \<and> list_all isl answers
    | LandingReady market stale \<Rightarrow> \<exists>before later. answers = before @ Inr market # later
        \<and> list_all isl later \<and> stale = (later \<noteq> []))
   \<and> poll_market False answer st = st"
proof (induction answers rule: rev_induct)
  case (snoc a answers)
  let ?st = "foldl (\<lambda>st answer. poll_market True answer st) LandingLoading answers"
  show ?case
  proof (cases a)
    case (Inr market)
    have "answers @ [a] = answers @ Inr market # []" using Inr by simp
    then show ?thesis using Inr by (simp add: poll_market_def)
  next
    case (Inl e)
    show ?thesis
    proof (cases ?st)
      case (LandingReady market stale)
      then obtain before later where split: "answers = before @ Inr market # later"
          "list_all isl later"
        using snoc by auto
      have step: "foldl (\<lambda>st answer. poll_market True answer st) LandingLoading (answers @ [a]) = LandingReady market True"
        using LandingReady Inl by (simp add: poll_market_def)
      show ?thesis
        unfolding step landing_market.case
        by (intro conjI exI [of _ before] exI [of _ "later @ [a]"]) (use split Inl in \<open>simp_all add: poll_market_def\<close>)
    qed (use snoc Inl in \<open>auto simp: poll_market_def\<close>)
  qed
qed (simp add: poll_market_def)

end
