(* ===== verification/Dialog_View.thy ===== *)
theory Dialog_View
  imports Ui
begin

text \<open>
  What the application does to the document around its overlays: the focus, the scrolling and the
  listeners of a dialog (\<open>Modal\<close> in \<^verbatim>\<open>components/ui.tsx\<close>), the styles the open menu of
  \<^verbatim>\<open>components/AppShell.tsx\<close> sets and puts back, and the preloader, the menu and the header of
  \<^verbatim>\<open>pages/LandingPage.tsx\<close>.
\<close>

section \<open>A dialog\<close>

text \<open>
  The elements of the document are of any type \<open>'e\<close>. A place says which of them are the dialog's, on which
  \<open>focus()\<close> has an effect, what holds the focus when no element does, and what the two queries of
  the dialog find: its focusable elements in document order, and the first input or button.
\<close>

record 'e place =
  pl_inside :: "'e \<Rightarrow> bool"
  pl_takes :: "'e \<Rightarrow> bool"
  pl_body :: 'e
  pl_focusable :: "'e list"
  pl_first :: "'e option"

text \<open>
  The document and the effect: \<open>sc_seen\<close> are the dependencies of its last run, \<open>sc_setup\<close> what its
  body closed over (the element that had the focus, and the \<open>onClose\<close> its listener calls) while the
  clean-up has not run, and \<open>sc_frames\<close> the animation frames it asked for. A function is known by a
  number, as the dependencies compare it.
\<close>

record 'e screen =
  sc_active :: 'e
  sc_overflow :: string
  sc_listeners :: "nat list"
  sc_frames :: nat
  sc_seen :: "(bool \<times> nat) option"
  sc_setup :: "('e \<times> nat) option"

definition fresh_screen :: "'e \<Rightarrow> 'e screen" where
  "fresh_screen active = \<lparr>sc_active = active, sc_overflow = [], sc_listeners = [], sc_frames = 0,
     sc_seen = None, sc_setup = None\<rparr>"

definition on_screen :: "'e screen \<Rightarrow> bool" where
  "on_screen s = (case sc_seen s of Some (shown, onClose) \<Rightarrow> shown | None \<Rightarrow> False)"

text \<open>\<open>e.focus()\<close>: an element of a dialog that is not mounted is not in the document.\<close>

definition focus :: "'e place \<Rightarrow> bool \<Rightarrow> 'e \<Rightarrow> 'e screen \<Rightarrow> 'e screen" where
  "focus d mounted e s = (if pl_takes d e \<and> (pl_inside d e \<longrightarrow> mounted) then s\<lparr>sc_active := e\<rparr> else s)"

definition modal_cleanup :: "'e place \<Rightarrow> bool \<Rightarrow> 'e screen \<Rightarrow> 'e screen" where
  "modal_cleanup d mounted s = (case sc_setup s of
      None \<Rightarrow> s
    | Some (previous, onClose) \<Rightarrow>
        focus d mounted previous (s\<lparr>sc_listeners := remove1 onClose (sc_listeners s), sc_overflow := [],
          sc_setup := None\<rparr>))"

definition modal_setup :: "nat \<Rightarrow> 'e screen \<Rightarrow> 'e screen" where
  "modal_setup onClose s = s\<lparr>sc_setup := Some (sc_active s, onClose),
     sc_listeners := onClose # sc_listeners s, sc_overflow := ''hidden'', sc_frames := sc_frames s + 1\<rparr>"

text \<open>
  A render with its effect. The elements of a dialog that closes leave the document before the
  clean-up runs, and the focus with them.
\<close>

definition modal_render :: "'e place \<Rightarrow> bool \<Rightarrow> nat \<Rightarrow> 'e screen \<Rightarrow> 'e screen" where
  "modal_render d shown onClose s =
     (let s1 = (if \<not> shown \<and> pl_inside d (sc_active s) then s\<lparr>sc_active := pl_body d\<rparr> else s) in
      if sc_seen s = Some (shown, onClose) then s1
      else let s2 = modal_cleanup d shown s1 in
        (if shown then modal_setup onClose s2 else s2)\<lparr>sc_seen := Some (shown, onClose)\<rparr>)"

definition modal_frame :: "'e place \<Rightarrow> 'e screen \<Rightarrow> 'e screen" where
  "modal_frame d s =
     (if sc_frames s = 0 then s
      else let s1 = s\<lparr>sc_frames := sc_frames s - 1\<rparr> in
        case pl_first d of
          None \<Rightarrow> s1
        | Some e \<Rightarrow> if on_screen s then focus d True e s1 else s1)"

text \<open>A key goes to every listener; the first component of the result are the \<open>onClose\<close> they called.\<close>

definition listener :: "'e place \<Rightarrow> string \<Rightarrow> bool \<Rightarrow> nat \<Rightarrow> nat list \<times> 'e screen \<Rightarrow> nat list \<times> 'e screen" where
  "listener d key shift onClose st = (case st of (called, s) \<Rightarrow>
     case dialog_key key shift (if on_screen s then pl_focusable d else []) (sc_active s) of
       CloseDialog \<Rightarrow> (called @ [onClose], s)
     | FocusOn e \<Rightarrow> (called, focus d True e s)
     | LeaveToBrowser \<Rightarrow> (called, s))"

definition modal_keydown :: "'e place \<Rightarrow> string \<Rightarrow> bool \<Rightarrow> 'e screen \<Rightarrow> nat list \<times> 'e screen" where
  "modal_keydown d key shift s = fold (listener d key shift) (sc_listeners s) ([], s)"

text \<open>
  What happens while a dialog is open: its parent renders again, mostly with a new \<open>onClose\<close>; a frame
  passes; a key is pressed; the user or the browser moves the focus.
\<close>

datatype 'e dialog_event = Rerender nat | FramePassed | KeyPressed string bool | FocusMoved 'e

fun modal_event :: "'e place \<Rightarrow> 'e dialog_event \<Rightarrow> 'e screen \<Rightarrow> 'e screen" where
  "modal_event d (Rerender onClose) s = modal_render d True onClose s"
| "modal_event d FramePassed s = modal_frame d s"
| "modal_event d (KeyPressed key shift) s = snd (modal_keydown d key shift s)"
| "modal_event d (FocusMoved e) s = focus d (on_screen s) e s"

section \<open>What a dialog keeps\<close>

text \<open>
  Of an open dialog: one listener, which calls the \<open>onClose\<close> of the last render, the body does not
  scroll, and the element to return to is the one that was left.
\<close>

definition modal_open :: "'e \<Rightarrow> 'e screen \<Rightarrow> bool" where
  "modal_open opener s \<longleftrightarrow> (\<exists>onClose. sc_seen s = Some (True, onClose) \<and> sc_setup s = Some (opener, onClose)
     \<and> sc_listeners s = [onClose] \<and> sc_overflow s = ''hidden'')"

definition modal_closed :: "'e screen \<Rightarrow> bool" where
  "modal_closed s \<longleftrightarrow> \<not> on_screen s \<and> sc_setup s = None \<and> sc_listeners s = [] \<and> sc_overflow s = []"

lemma focus_fields [simp]:
  "sc_overflow (focus d m e s) = sc_overflow s" "sc_listeners (focus d m e s) = sc_listeners s"
  "sc_frames (focus d m e s) = sc_frames s" "sc_seen (focus d m e s) = sc_seen s"
  "sc_setup (focus d m e s) = sc_setup s"
  by (simp_all add: focus_def)

lemma focus_returns: "pl_takes d e \<Longrightarrow> \<not> pl_inside d e \<Longrightarrow> sc_active (focus d m e s) = e"
  by (simp add: focus_def)

lemma modal_frame_fields [simp]:
  "sc_overflow (modal_frame d s) = sc_overflow s" "sc_listeners (modal_frame d s) = sc_listeners s"
  "sc_seen (modal_frame d s) = sc_seen s" "sc_setup (modal_frame d s) = sc_setup s"
  by (simp_all add: modal_frame_def Let_def split: option.splits)

lemma listener_fields:
  "sc_overflow (snd (listener d key shift c st)) = sc_overflow (snd st)
   \<and> sc_listeners (snd (listener d key shift c st)) = sc_listeners (snd st)
   \<and> sc_seen (snd (listener d key shift c st)) = sc_seen (snd st)
   \<and> sc_setup (snd (listener d key shift c st)) = sc_setup (snd st)"
  by (simp add: listener_def split: prod.splits key_outcome.splits)

lemma fold_listener_fields:
  "sc_overflow (snd (fold (listener d key shift) cs st)) = sc_overflow (snd st)
   \<and> sc_listeners (snd (fold (listener d key shift) cs st)) = sc_listeners (snd st)
   \<and> sc_seen (snd (fold (listener d key shift) cs st)) = sc_seen (snd st)
   \<and> sc_setup (snd (fold (listener d key shift) cs st)) = sc_setup (snd st)"
  by (induction cs arbitrary: st) (simp_all add: listener_fields)

lemma modal_opens:
  "modal_closed s \<Longrightarrow> modal_open (sc_active s) (modal_render d True onClose s)"
  by (auto simp: modal_closed_def modal_open_def modal_render_def modal_setup_def modal_cleanup_def on_screen_def
      Let_def)

text \<open>A new \<open>onClose\<close> cleans up and sets up again, and the focus passes through the opener.\<close>

lemma modal_event_open:
  assumes "pl_takes d opener" and "\<not> pl_inside d opener" and "modal_open opener s"
  shows "modal_open opener (modal_event d e s)"
proof (cases e)
  case (Rerender onClose)
  then show ?thesis using assms
    by (auto simp: modal_open_def modal_render_def modal_setup_def modal_cleanup_def focus_returns Let_def)
qed (use assms(3) fold_listener_fields [of d] in \<open>auto simp: modal_open_def modal_keydown_def\<close>)

lemma modal_events_open:
  assumes "pl_takes d opener" and "\<not> pl_inside d opener" and "modal_open opener s"
  shows "modal_open opener (fold (modal_event d) events s)"
  using assms by (induction events arbitrary: s) (simp_all add: modal_event_open)

lemma modal_closes:
  assumes "pl_takes d opener" and "\<not> pl_inside d opener" and "modal_open opener s"
  shows "modal_closed (modal_render d False onClose s) \<and> sc_active (modal_render d False onClose s) = opener"
  using assms
  by (auto simp: modal_open_def modal_closed_def modal_render_def modal_cleanup_def on_screen_def focus_returns Let_def)

text \<open>
  A dialog gives back what it took. Opened from an element that can hold the focus and closed after
  any renders, frames, keys and moves of the focus, it leaves the focus on that element, the body scrolls
  again and no listener is left; and while it was open Escape called exactly the last \<open>onClose\<close>.
\<close>
lemma modal_gives_back:
  assumes "pl_takes d (sc_active s)" and "\<not> pl_inside d (sc_active s)" and "modal_closed s"
  shows "let v = fold (modal_event d) events (modal_render d True onClose s); w = modal_render d False later v in
    modal_closed w \<and> sc_active w = sc_active s
    \<and> Some (True, hd (sc_listeners v)) = sc_seen v
    \<and> fst (modal_keydown d ''Escape'' shift v) = [hd (sc_listeners v)]"
proof -
  have "modal_open (sc_active s) (fold (modal_event d) events (modal_render d True onClose s))" (is "modal_open _ ?v")
    using modal_events_open [OF assms(1,2)] modal_opens [OF assms(3)] by blast
  moreover from this have "fst (modal_keydown d ''Escape'' shift ?v) = [hd (sc_listeners ?v)]"
    by (auto simp: modal_open_def modal_keydown_def listener_def dialog_key_def)
  ultimately show ?thesis
    using modal_closes [OF assms(1,2)] by (auto simp: modal_open_def Let_def)
qed

text \<open>
  But a parent that renders while the user is in a field takes the focus away: with a new \<open>onClose\<close>
  the next frame moves it to the first element of the dialog, its close button.
\<close>
lemma rerender_steals_focus:
  assumes "modal_open opener s" and "pl_first d = Some e" and "pl_takes d e" and "sc_seen s \<noteq> Some (True, onClose)"
  shows "sc_active (modal_frame d (modal_render d True onClose s)) = e"
  using assms
  by (auto simp: modal_open_def modal_frame_def modal_render_def modal_setup_def modal_cleanup_def on_screen_def
      focus_def Let_def)


section \<open>The menu of the shell\<close>

text \<open>
  The styles the open secondary menu sets, of the body and of the root element, and the scrolling
  position; \<open>mp_saved\<close> is what the effect's body closed over while the menu is open.
\<close>

record page_style =
  st_overflow :: string
  st_position :: string
  st_top :: string
  st_width :: string
  st_rootOverflow :: string

record menu_page =
  mp_style :: page_style
  mp_scroll :: number
  mp_listening :: bool
  mp_saved :: "(page_style \<times> number) option"

definition menu_setup :: "menu_page \<Rightarrow> menu_page" where
  "menu_setup p = p\<lparr>mp_saved := Some (mp_style p, mp_scroll p),
     mp_style := \<lparr>st_overflow = ''hidden'', st_position = ''fixed'',
       st_top = ''-'' @ number_text (mp_scroll p) @ ''px'', st_width = ''100%'', st_rootOverflow = ''hidden''\<rparr>,
     mp_listening := True\<rparr>"

definition menu_cleanup :: "menu_page \<Rightarrow> menu_page" where
  "menu_cleanup p = (case mp_saved p of
      None \<Rightarrow> p
    | Some (style, scroll) \<Rightarrow> p\<lparr>mp_style := style, mp_listening := False, mp_scroll := scroll, mp_saved := None\<rparr>)"

text \<open>The effect after a render in which the menu changed between open and closed.\<close>

definition menu_toggled :: "bool \<Rightarrow> menu_page \<Rightarrow> menu_page" where
  "menu_toggled mobileOpen p = (if mobileOpen then menu_setup (menu_cleanup p) else menu_cleanup p)"

text \<open>
  Closing gives back the styles and the position from before opening, whatever became of both in
  between.
\<close>
lemma menu_gives_back:
  "mp_saved p = None \<Longrightarrow> \<not> mp_listening p \<Longrightarrow>
     menu_toggled False ((menu_toggled True p)\<lparr>mp_style := style, mp_scroll := scroll\<rparr>) = p"
  by (simp add: menu_toggled_def menu_setup_def menu_cleanup_def)

section \<open>Around the landing page\<close>

text \<open>
  The preloader covers the page until its timers have fired; \<open>pr_finish\<close> and \<open>pr_cleanup\<close> are the times they are due.
\<close>

record preloader =
  pr_done :: bool
  pr_removed :: bool
  pr_finish :: "int option"
  pr_cleanup :: "int option"

definition preloader_mount :: "bool \<Rightarrow> int \<Rightarrow> preloader" where
  "preloader_mount reducedMotion now =
     \<lparr>pr_done = reducedMotion, pr_removed = reducedMotion,
      pr_finish = (if reducedMotion then None else Some (now + 900)),
      pr_cleanup = (if reducedMotion then Some (now + 620) else None)\<rparr>"

definition preloader_timer :: "int \<Rightarrow> preloader \<Rightarrow> preloader" where
  "preloader_timer now p = (case pr_finish p of
      Some due \<Rightarrow> if now < due then p else p\<lparr>pr_done := True, pr_finish := None, pr_cleanup := Some (now + 620)\<rparr>
    | None \<Rightarrow> (case pr_cleanup p of
        Some due \<Rightarrow> if now < due then p else p\<lparr>pr_removed := True, pr_cleanup := None\<rparr>
      | None \<Rightarrow> p))"

definition header_pinned :: "number \<Rightarrow> bool" where
  "header_pinned scrollY = (scrollY > 4)"

definition hero_muted :: "bool \<Rightarrow> number \<Rightarrow> bool" where
  "hero_muted reducedMotion scrollY = (\<not> reducedMotion \<and> scrollY > 10)"

definition landing_menu_key :: "string \<Rightarrow> bool \<Rightarrow> bool" where
  "landing_menu_key key menuOpen = (menuOpen \<and> key \<noteq> ''Escape'')"

definition onDemo :: "browser \<Rightarrow> ('l view, unit) act" where
  "onDemo b = push b ToneInfo ''Demo mode'' (Some (''This page previews the product. ''
     @ ''Connect a Coston2 wallet inside the app to run it for real.''))"

text \<open>
  The preloader is never left covering the page: while it is there a timer is due, at most 900 or 620
  milliseconds from the mount or the timer before, and once both have fired it is gone.
\<close>
lemma preloader_waits:
  assumes "p = fold preloader_timer moments (preloader_mount reducedMotion now)"
  shows "pr_removed p \<or> pr_finish p = Some (now + 900) \<or> pr_done p \<and> pr_cleanup p \<noteq> None"
  using assms
  by (induction moments arbitrary: p rule: rev_induct)
    (auto simp: preloader_mount_def preloader_timer_def split: option.splits if_splits)

lemma preloader_goes:
  "now + 900 \<le> t \<Longrightarrow> t + 620 \<le> u \<Longrightarrow> pr_removed (preloader_timer u (preloader_timer t (preloader_mount reducedMotion now)))"
  by (auto simp: preloader_mount_def preloader_timer_def split: option.splits)

end
