(* ===== verification/Chain_Config.thy ===== *)
theory Chain_Config
  imports Startup Seed_Lender Funds_View Dialog_View
begin

text \<open>
  The constants by which the parts of the program must agree: the contract interfaces of the browser
  (\<^verbatim>\<open>web3/abis.ts\<close>), of the relayer (\<^verbatim>\<open>chain.ts\<close>) and of the seeding script, the description of the network
  each of them gives to viem, and the addresses of the pages (\<^verbatim>\<open>router.tsx\<close>) with the links to them.
\<close>

section \<open>Contract interfaces\<close>

text \<open>An entry of an ABI: a parameter of an event is a triple of indexed, type and name.\<close>

datatype abi_item =
    AbiFunction string string "(string \<times> string) list" "(string \<times> string) list"
  | AbiEvent string "(bool \<times> string \<times> string) list"

definition erc20Abi :: "abi_item list" where
  "erc20Abi =
     [AbiFunction ''balanceOf'' ''view'' [(''address'', ''owner'')] [(''uint256'', '''')],
      AbiFunction ''approve'' ''nonpayable'' [(''address'', ''spender''), (''uint256'', ''amount'')] [(''bool'', '''')]]"

definition quietVaultAbi :: "abi_item list" where
  "quietVaultAbi =
     [AbiEvent ''DepositSubmitted''
        [(True, ''bytes32'', ''depositId''), (True, ''address'', ''account''), (True, ''address'', ''token''),
         (False, ''uint256'', ''amount''), (False, ''bytes32'', ''requestId'')],
      AbiEvent ''ConfidentialRequestSubmitted''
        [(True, ''bytes32'', ''requestId''), (True, ''bytes32'', ''command''), (True, ''address'', ''account'')],
      AbiFunction ''deposit'' ''payable'' [(''address'', ''token''), (''uint256'', ''amount'')]
        [(''bytes32'', ''depositId''), (''bytes32'', ''requestId'')],
      AbiFunction ''requestBorrow'' ''payable'' [(''bytes'', ''encryptedAcceptance'')] [(''bytes32'', ''requestId'')],
      AbiFunction ''requestWithdrawal'' ''payable''
        [(''address'', ''token''), (''uint256'', ''amount''), (''address'', ''destination'')]
        [(''bytes32'', ''requestId'')]]"

text \<open>The relayer and the script give theirs as text, which viem parses.\<close>

definition relayer_abi :: "string list" where
  "relayer_abi =
     [''function executeSettlement((uint8 protocolVersion,uint8 settlementType,address account,address token,'' @
        ''uint256 amount,address destination,bytes32 requestId,bytes32 settlementId,uint64 previousSequence,'' @
        ''uint64 nextSequence,bytes32 previousRoot,bytes32 nextRoot,uint64 deadline) settlement,bytes signature)'',
      ''function usedSettlementId(bytes32 settlementId) view returns (bool)'',
      ''function stateSequence() view returns (uint64)'',
      ''function stateRoot() view returns (bytes32)'',
      ''function activeTeeSigner() view returns (address)'',
      ''function currentXrpUsdPrice() view returns (uint64 priceE6,uint64 priceTimestamp)'',
      ''function requestRiskTick() payable returns (bytes32 requestId)'']"

definition relayer_erc20Abi :: "string list" where
  "relayer_erc20Abi = [''function balanceOf(address owner) view returns (uint256)'']"

definition teeManagerAbi :: "string list" where
  "teeManagerAbi =
     [''function getActiveTeeMachines(uint256 extensionId) view returns (address[])'',
      ''function getTeeMachineStatus(address teeId) view returns (uint8)'']"

definition depositEvent :: string where
  "depositEvent = ''event DepositSubmitted(bytes32 indexed depositId,address indexed account,'' @
     ''address indexed token,uint256 amount,bytes32 requestId)''"

definition requestEvent :: string where
  "requestEvent = ''event ConfidentialRequestSubmitted(bytes32 indexed requestId,bytes32 indexed command,'' @
     ''address indexed account)''"

definition settlementEvent :: string where
  "settlementEvent = ''event SettlementExecuted(bytes32 indexed settlementId,uint8 indexed settlementType,'' @
     ''address indexed account,uint64 sequence,bytes32 stateRoot)''"

definition seed_erc20Abi :: "string list" where
  "seed_erc20Abi =
     [''function balanceOf(address owner) view returns (uint256)'',
      ''function approve(address spender, uint256 amount) returns (bool)'']"

definition seed_vaultAbi :: "string list" where
  "seed_vaultAbi =
     [''function deposit(address token, uint256 amount) payable returns (bytes32 depositId, bytes32 requestId)'',
      ''function requestBorrow(bytes encryptedAcceptance) payable returns (bytes32 requestId)'',
      ''function requestWithdrawal(address token, uint256 amount, address destination) payable returns (bytes32 requestId)'',
      ''event DepositSubmitted(bytes32 indexed depositId, address indexed account, address indexed token, uint256 amount, bytes32 requestId)'',
      ''event ConfidentialRequestSubmitted(bytes32 indexed requestId, bytes32 indexed command, address indexed account)'']"

text \<open>An entry as the text of an ABI has it, with what stands between its parameters.\<close>

definition joined :: "string \<Rightarrow> string list \<Rightarrow> string" where
  "joined sep xs = (case xs of [] \<Rightarrow> [] | x # rest \<Rightarrow> x @ concat (map (\<lambda>y. sep @ y) rest))"

definition parameter_text :: "string \<times> string \<Rightarrow> string" where
  "parameter_text p = fst p @ (if snd p = [] then [] else '' '' @ snd p)"

primrec item_text :: "string \<Rightarrow> abi_item \<Rightarrow> string" where
  "item_text sep (AbiFunction name mutability ins outs) =
     ''function '' @ name @ ''('' @ joined sep (map parameter_text ins) @ '')''
     @ (if mutability = ''nonpayable'' then [] else '' '' @ mutability)
     @ (if outs = [] then [] else '' returns ('' @ joined sep (map parameter_text outs) @ '')'')"
| "item_text sep (AbiEvent name ps) =
     ''event '' @ name @ ''(''
     @ joined sep (map (\<lambda>(indexed, ty, name). ty @ (if indexed then '' indexed '' else '' '') @ name) ps) @ '')''"

text \<open>
  Browser, relayer and script see one contract: the events by which the browser learns its request and
  the relayer its jobs are declared alike everywhere, and so are the functions of vault and tokens.
\<close>
lemma interfaces_agree:
  "map (item_text '','') (take 2 quietVaultAbi) = [depositEvent, requestEvent]"
  "map (item_text '', '') (drop 2 quietVaultAbi @ take 2 quietVaultAbi) = seed_vaultAbi"
  "map (item_text '', '') erc20Abi = seed_erc20Abi"
  "map (item_text '','') (take 1 erc20Abi) = relayer_erc20Abi"
  by code_simp+

section \<open>The network\<close>

record chain_definition =
  cd_id :: int
  cd_name :: string
  cd_currency :: "string \<times> string \<times> nat"
  cd_rpc :: "string list"
  cd_explorer :: "(string \<times> string) option"
  cd_testnet :: bool

definition coston2 :: chain_definition where
  "coston2 = \<lparr>cd_id = net_id COSTON2, cd_name = net_name COSTON2, cd_currency = (''Coston2 Flare'', ''C2FLR'', 18),
     cd_rpc = [net_rpcUrl COSTON2], cd_explorer = Some (''Coston2 Explorer'', net_explorerUrl COSTON2),
     cd_testnet = True\<rparr>"

text \<open>The configuration of wagmi: the chain, one transport per chain, and where the wallet is remembered.\<close>

record wagmi_config =
  wg_chains :: "chain_definition list"
  wg_shimDisconnect :: bool
  wg_storageKey :: string
  wg_transports :: "(int \<times> string) list"

definition wagmiConfig :: wagmi_config where
  "wagmiConfig = \<lparr>wg_chains = [coston2], wg_shimDisconnect = True, wg_storageKey = ''quietline.wallet'',
     wg_transports = [(cd_id coston2, net_rpcUrl COSTON2)]\<rparr>"

definition relayer_chain :: "relayer_config \<Rightarrow> chain_definition" where
  "relayer_chain cfg = \<lparr>cd_id = net_id COSTON2, cd_name = net_name COSTON2,
     cd_currency = (''Coston2 Flare'', ''C2FLR'', 18), cd_rpc = [COSTON2_RPC_URL cfg], cd_explorer = None,
     cd_testnet = False\<rparr>"

definition seed_rpcUrl :: "variables \<Rightarrow> string" where
  "seed_rpcUrl vars = (case trimmed vars ''COSTON2_RPC_URL'' of
      Some url \<Rightarrow> url | None \<Rightarrow> ''https://coston2-api.flare.network/ext/C/rpc'')"

definition seed_chain :: "variables \<Rightarrow> chain_definition" where
  "seed_chain vars = \<lparr>cd_id = 114, cd_name = ''Coston2'', cd_currency = (''Coston2 Flare'', ''C2FLR'', 18),
     cd_rpc = [seed_rpcUrl vars], cd_explorer = None, cd_testnet = False\<rparr>"

text \<open>The networks of \<^verbatim>\<open>contracts/hardhat.config.ts\<close>: a key that is none leaves Coston2 without an account.\<close>

definition coston2Accounts :: "variables \<Rightarrow> string list" where
  "coston2Accounts vars = (case vars ''DEPLOYER_PRIVATE_KEY'' of
      Some key \<Rightarrow> if is_hex_of 64 key then [key] else []
    | None \<Rightarrow> [])"

record hardhat_network =
  hn_url :: string
  hn_chainId :: int
  hn_accounts :: "string list option"

definition hardhat_networks :: "variables \<Rightarrow> (string \<times> hardhat_network) list" where
  "hardhat_networks vars =
     [(''localhost'', \<lparr>hn_url = (case vars ''LOCAL_RPC_URL'' of Some url \<Rightarrow> url | None \<Rightarrow> ''http://127.0.0.1:8545''),
        hn_chainId = 31337, hn_accounts = None\<rparr>),
      (''coston2'', \<lparr>hn_url = (case vars ''COSTON2_RPC_URL'' of Some url \<Rightarrow> url
          | None \<Rightarrow> ''https://coston2-api.flare.network/ext/C/rpc''),
        hn_chainId = 114, hn_accounts = Some (coston2Accounts vars)\<rparr>)]"

text \<open>With no node configured every part speaks to the same chain through the same node.\<close>

lemma chains_agree:
  assumes "vars ''COSTON2_RPC_URL'' = None" and "COSTON2_RPC_URL cfg = net_rpcUrl COSTON2"
  shows "relayer_chain cfg = seed_chain vars"
    and "coston2 = (seed_chain vars)\<lparr>cd_explorer := cd_explorer coston2, cd_testnet := True\<rparr>"
    and "(case map_of (hardhat_networks vars) ''coston2'' of
        Some network \<Rightarrow> hn_chainId network = cd_id coston2 \<and> [hn_url network] = cd_rpc coston2
      | None \<Rightarrow> False)"
  using assms
  by (simp_all add: relayer_chain_def seed_chain_def coston2_def COSTON2_def seed_rpcUrl_def trimmed_def
      hardhat_networks_def present_def)

section \<open>The addresses of the pages\<close>

datatype page_element = LandingPage | AppShell | OverviewPage | BorrowPage | EarnPage | ActivityPage
  | SettingsPage | PositionPage

text \<open>A route and its children; a child without a path is the index.\<close>

record route =
  rt_path :: string
  rt_element :: page_element
  rt_children :: "(string option \<times> page_element) list"

definition router :: "route list" where
  "router =
     [\<lparr>rt_path = ''/'', rt_element = LandingPage, rt_children = []\<rparr>,
      \<lparr>rt_path = ''/app'', rt_element = AppShell, rt_children =
         [(None, OverviewPage), (Some ''borrow'', BorrowPage), (Some ''earn'', EarnPage),
          (Some ''activity'', ActivityPage), (Some ''settings'', SettingsPage), (Some ''position'', PositionPage)]\<rparr>]"

text \<open>The address of a page, as the router of React joins paths, with the elements it renders.\<close>

definition addresses_of :: "route \<Rightarrow> (string \<times> page_element list) list" where
  "addresses_of r = (if rt_children r = [] then [(rt_path r, [rt_element r])]
     else map (\<lambda>(path, e). (case path of None \<Rightarrow> rt_path r | Some p \<Rightarrow> rt_path r @ ''/'' @ p, [rt_element r, e]))
       (rt_children r))"

definition page_at :: "string \<Rightarrow> page_element list option" where
  "page_at address = map_of (concat (map addresses_of router)) address"

text \<open>The navigation of the shell; the last component is \<open>end\<close>, that only this very address is marked.\<close>

definition nav :: "(string \<times> string \<times> bool) list" where
  "nav = [(''/app'', ''Overview'', True), (''/app/borrow'', ''Borrow'', False), (''/app/earn'', ''Earn'', False),
     (''/app/activity'', ''Activity'', False), (''/app/settings'', ''Settings'', False)]"

text \<open>Every link leads to a page inside the shell, and no address has two pages.\<close>

lemma links_lead_somewhere:
  "list_all (\<lambda>(to, label, end). \<exists>e. page_at to = Some [AppShell, e]) nav"
  "\<exists>e. page_at (position_route st) = Some [AppShell, e]"
  "distinct (map fst (concat (map addresses_of router)))"
proof -
  have "page_at ''/app'' = Some [AppShell, OverviewPage]" "page_at ''/app/borrow'' = Some [AppShell, BorrowPage]"
    "page_at ''/app/earn'' = Some [AppShell, EarnPage]" "page_at ''/app/activity'' = Some [AppShell, ActivityPage]"
    "page_at ''/app/settings'' = Some [AppShell, SettingsPage]" "page_at ''/app/position'' = Some [AppShell, PositionPage]"
    by (simp_all add: page_at_def router_def addresses_of_def)
  then show "list_all (\<lambda>(to, label, end). \<exists>e. page_at to = Some [AppShell, e]) nav"
    and "\<exists>e. page_at (position_route st) = Some [AppShell, e]"
    by (simp_all add: nav_def position_route_def)
qed (simp add: router_def addresses_of_def)

end
