(* ===== verification/Env_Files.thy ===== *)
theory Env_Files
  imports Wire
begin

text \<open>
  The environment files of the operations scripts, \<^verbatim>\<open>scripts/coston2/lib.mjs\<close>: reading and writing
  them, placeholders, required values and profiles; and the scripts that do nothing but rewrite
  them: \<^verbatim>\<open>configure-hosting.mjs\<close>, \<^verbatim>\<open>configure-indexer.mjs\<close>, \<^verbatim>\<open>rotate-relayer-key.mjs\<close> and
  \<^verbatim>\<open>prepare.mjs\<close>. A path is relative to the root of the repository.
\<close>

section \<open>Objects\<close>

text \<open>
  An object whose members are texts, in the order of insertion: setting a member keeps its place.
  (No name of a variable is an array index, which an object would put first.)
\<close>

type_synonym env_object = "(string \<times> string) list"

fun obj_set :: "string \<Rightarrow> string \<Rightarrow> env_object \<Rightarrow> env_object" where
  "obj_set k v [] = [(k, v)]"
| "obj_set k v ((n, x) # ms) = (if n = k then (k, v) # ms else (n, x) # obj_set k v ms)"

text \<open>\<open>Object.fromEntries\<close>, and the spread \<open>{...base, ...entries}\<close>.\<close>

definition obj_spread :: "env_object \<Rightarrow> env_object \<Rightarrow> env_object" where
  "obj_spread base entries = foldl (\<lambda>o' (k, v). obj_set k v o') base entries"

definition from_entries :: "env_object \<Rightarrow> env_object" where
  "from_entries entries = obj_spread [] entries"

section \<open>Reading and writing\<close>

definition newline :: char where
  "newline = CHR 0x0A"

definition return_char :: char where
  "return_char = CHR 0x0D"

text \<open>\<open>split(/\r?\n/u)\<close>.\<close>

definition drop_return :: "string \<Rightarrow> string" where
  "drop_return s = (if s \<noteq> [] \<and> last s = return_char then butlast s else s)"

definition split_lines :: "string \<Rightarrow> string list" where
  "split_lines s = (let parts = split_on newline s in map drop_return (butlast parts) @ [last parts])"

definition js_trim :: "string \<Rightarrow> string" where
  "js_trim s = trim_end (trim_start s)"

definition is_entry :: "string \<Rightarrow> bool" where
  "is_entry line = (line \<noteq> [] \<and> \<not> prefix ''#'' line \<and> CHR ''='' \<in> set line)"

definition entry_of :: "string \<Rightarrow> string \<times> string" where
  "entry_of line = (let name = takeWhile (\<lambda>c. c \<noteq> CHR ''='') line in (name, drop (Suc (length name)) line))"

definition parse_text :: "string \<Rightarrow> env_object" where
  "parse_text s = from_entries (map entry_of (filter is_entry (map js_trim (split_lines s))))"

type_synonym files = "string \<Rightarrow> string option"

definition parseEnv :: "files \<Rightarrow> string \<Rightarrow> env_object" where
  "parseEnv fs path = (case fs path of None \<Rightarrow> [] | Some s \<Rightarrow> parse_text s)"

fun join_lines :: "string list \<Rightarrow> string" where
  "join_lines [] = []"
| "join_lines [l] = l"
| "join_lines (l # ls) = l @ newline # join_lines ls"

definition env_text :: "env_object \<Rightarrow> string \<Rightarrow> string" where
  "env_text values heading = join_lines
     ([''# '' @ heading, ''# Generated by pnpm coston2:prepare. Do not commit this file.'']
      @ map (\<lambda>(name, x). name @ ''='' @ x) values @ [''''])"

definition writeEnv :: "string \<Rightarrow> env_object \<Rightarrow> string \<Rightarrow> files \<Rightarrow> files" where
  "writeEnv path values heading fs = fs(path \<mapsto> env_text values heading)"

text \<open>A member that is \<open>undefined\<close> is written as that word.\<close>

definition shown_value :: "string option \<Rightarrow> string" where
  "shown_value x = (case x of Some s \<Rightarrow> s | None \<Rightarrow> ''undefined'')"

section \<open>Values\<close>

definition isPlaceholder :: "string option \<Rightarrow> bool" where
  "isPlaceholder x = (case present x of
      None \<Rightarrow> True
    | Some s \<Rightarrow> prefix ''REPLACE_'' s \<or> prefix ''DERIVED_'' s \<or> prefix ''PENDING_'' s
        \<or> prefix ''https://YOUR_'' s \<or> s = ''0x'' @ replicate 40 (CHR ''0''))"

definition requireValue :: "(string \<Rightarrow> string option) \<Rightarrow> string \<Rightarrow> (string \<Rightarrow> bool) option \<Rightarrow> js_error + string" where
  "requireValue values name pattern = (let x = map_option js_trim (values name) in
     if isPlaceholder x then Inl (JsError (name @ '' is not configured''))
     else case pattern of
         Some ok \<Rightarrow> if ok (the x) then Inr (the x) else Inl (JsError (name @ '' has an invalid format''))
       | None \<Rightarrow> Inr (the x))"

text \<open>\<open>/^https:\/\/[^/]+(?:\/.*)?$/u\<close>; \<open>.\<close> matches no line terminator.\<close>

definition is_https_url :: "string \<Rightarrow> bool" where
  "is_https_url s =
     (let rest = drop 8 s; host = takeWhile (\<lambda>c. c \<noteq> CHR ''/'') rest; path = drop (Suc (length host)) rest in
      prefix ''https://'' s \<and> host \<noteq> [] \<and> newline \<notin> set path \<and> return_char \<notin> set path)"

definition is_https :: "string \<Rightarrow> bool" where
  "is_https s = prefix ''https://'' s"

definition strip_trailing_slashes :: "string \<Rightarrow> string" where
  "strip_trailing_slashes s = rev (dropWhile (\<lambda>c. c = CHR ''/'') (rev s))"

record profile_paths =
  pf_root :: string
  pf_relayer :: string
  pf_fcc :: string

definition deploymentProfilePaths :: "(string \<Rightarrow> string option) \<Rightarrow> js_error + profile_paths" where
  "deploymentProfilePaths vars =
     (let profile = (case vars ''QUIETLINE_PROFILE'' of Some p \<Rightarrow> p | None \<Rightarrow> ''v2'') in
      if profile \<noteq> ''v1'' \<and> profile \<noteq> ''v2'' then Inl (JsError ''QUIETLINE_PROFILE must be v1 or v2'')
      else Inr (if profile = ''v2''
        then \<lparr>pf_root = ''.env.v2'', pf_relayer = ''relayer/.env.v2'', pf_fcc = ''fcc/.env.coston2-v2''\<rparr>
        else \<lparr>pf_root = ''.env'', pf_relayer = ''relayer/.env'', pf_fcc = ''fcc/.env.coston2''\<rparr>))"

definition coston2DeploymentPath :: "(string \<Rightarrow> string option) \<Rightarrow> string" where
  "coston2DeploymentPath vars = ''deployments/'' @
     (case vars ''QUIETLINE_DEPLOYMENT_FILE'' of Some p \<Rightarrow> p | None \<Rightarrow> ''coston2-v2.json'')"

section \<open>Scripts\<close>

text \<open>\<open>writeEnv(path, {...parseEnv(path), ...entries}, heading)\<close>.\<close>

definition update_env :: "string \<Rightarrow> env_object \<Rightarrow> string \<Rightarrow> files \<Rightarrow> files" where
  "update_env path entries heading fs = writeEnv path (obj_spread (parseEnv fs path) entries) heading fs"

definition configure_hosting :: "(string \<Rightarrow> string option) \<Rightarrow> (files, unit) act" where
  "configure_hosting vars =
     bindA (liftA (requireValue vars ''FCC_PROXY_URL'' (Some is_https_url))) (\<lambda>proxy.
     bindA (liftA (requireValue vars ''RELAYER_URL'' (Some is_https_url))) (\<lambda>relayer.
     let fccProxyUrl = strip_trailing_slashes proxy; relayerUrl = strip_trailing_slashes relayer in
     thenA (modifyA (update_env ''.env'' [(''FCC_PROXY_URL'', fccProxyUrl), (''RELAYER_URL'', relayerUrl)]
              ''Quietline Coston2 contract deployment''))
     (thenA (modifyA (update_env ''relayer/.env'' [(''FCC_PROXY_URL'', fccProxyUrl)]
              ''Quietline Coston2 relayer''))
     (thenA (modifyA (update_env ''frontend/.env.production'' [(''VITE_RELAYER_URL'', relayerUrl)]
              ''Quietline Coston2 frontend''))
       (modifyA (update_env ''fcc/.env.coston2'' [(''EXT_PROXY_URL'', fccProxyUrl)]
              ''Quietline real FCC deployment''))))))"

definition or_else :: "string option \<Rightarrow> string \<Rightarrow> string" where
  "or_else x d = (case x of Some s \<Rightarrow> s | None \<Rightarrow> d)"

definition configure_indexer :: "(string \<Rightarrow> string option) \<Rightarrow> (files, unit) act" where
  "configure_indexer vars = bindA getA (\<lambda>fs.
     let current = parseEnv fs ''fcc/.env.coston2'' in
     bindA (liftA (requireValue vars ''INDEXER_DB_USER'' None)) (\<lambda>user.
     bindA (liftA (requireValue vars ''INDEXER_DB_PASSWORD'' None)) (\<lambda>password.
       modifyA (writeEnv ''fcc/.env.coston2'' (obj_spread current
         [(''INDEXER_DB_HOST'', or_else (vars ''INDEXER_DB_HOST'') ''34.38.42.208''),
          (''INDEXER_DB_PORT'', or_else (vars ''INDEXER_DB_PORT'') ''3306''),
          (''INDEXER_DB_NAME'', or_else (vars ''INDEXER_DB_NAME'') ''indexer''),
          (''INDEXER_DB_USER'', user), (''INDEXER_DB_PASSWORD'', password)])
         ''Quietline Coston2 simulated judging deployment''))))"

text \<open>\<open>key\<close> is the random wallet's.\<close>

definition rotate_relayer_key :: "string \<Rightarrow> (files, unit) act" where
  "rotate_relayer_key key =
     modifyA (update_env ''relayer/.env'' [(''RELAYER_PRIVATE_KEY'', key)] ''Quietline Coston2 relayer'')"

section \<open>Preparing the profile\<close>

text \<open>
  The random secrets of a run, one per use, the address of a private key, and the time of the last
  commit.
\<close>

record preparation =
  pp_secret :: "string \<Rightarrow> string"
  pp_address :: "string \<Rightarrow> string"
  pp_epoch :: string

definition coston2_rpc :: string where
  "coston2_rpc = ''https://coston2-api.flare.network/ext/C/rpc''"

definition simulatedCodeHash :: string where
  "simulatedCodeHash = ''0x194844cf417dde867073e5ab7199fa4d21fd82b5dbe2bdea8b3d7fc18d10fdc2''"

definition tee_manager :: string where
  "tee_manager = ''0x1a9C4A0f9D76c0b1D91d22E24E573a9b377618aE''"

definition key_needed :: string where
  "key_needed = ''REPLACE_WITH_0X_64_HEX_PRIVATE_KEY''"

definition proxy_needed :: string where
  "proxy_needed = ''REPLACE_WITH_STABLE_PUBLIC_FCC_PROXY_URL''"

definition unless_placeholder :: "string option \<Rightarrow> string \<Rightarrow> string" where
  "unless_placeholder x d = (if isPlaceholder x then d else shown_value x)"

definition operator_address :: "preparation \<Rightarrow> env_object \<Rightarrow> env_object \<Rightarrow> string" where
  "operator_address r existingRoot existingRelayer =
     (let key = or_else (map_of existingRelayer ''RELAYER_PRIVATE_KEY'') '''';
          relayerAddress = (if is_hex_of 64 key then pp_address r key else '''');
          kept = or_else (map_of existingRoot ''OPERATOR_ADDRESS'') ''''
      in if relayerAddress \<noteq> [] then relayerAddress else if is_hex_of 40 kept then kept else '''')"

definition operations_key :: "preparation \<Rightarrow> env_object \<Rightarrow> env_object \<Rightarrow> string" where
  "operations_key r existingRoot existingRelayer = or_else (map_of existingRoot ''OPERATIONS_API_KEY'')
     (or_else (map_of existingRelayer ''OPERATIONS_API_KEY'') (pp_secret r ''OPERATIONS_API_KEY''))"

definition direct_key :: "preparation \<Rightarrow> env_object \<Rightarrow> env_object \<Rightarrow> string" where
  "direct_key r existingRelayer existingFcc = or_else (map_of existingRelayer ''DIRECT_API_KEY'')
     (or_else (map_of existingFcc ''DIRECT_API_KEY'') (pp_secret r ''DIRECT_API_KEY''))"

definition root_entries :: "preparation \<Rightarrow> env_object \<Rightarrow> env_object \<Rightarrow> env_object" where
  "root_entries r rt rl =
     [(''COSTON2_RPC_URL'', coston2_rpc),
      (''DEPLOYER_PRIVATE_KEY'', or_else (map_of rt ''DEPLOYER_PRIVATE_KEY'') key_needed),
      (''OPERATOR_ADDRESS'', operator_address r rt rl),
      (''FCC_PROXY_URL'', or_else (map_of rt ''FCC_PROXY_URL'') proxy_needed),
      (''RELAYER_URL'', or_else (map_of rt ''RELAYER_URL'') ''REPLACE_WITH_PUBLIC_RELAYER_URL''),
      (''OPERATIONS_API_KEY'', operations_key r rt rl),
      (''BACKSTOP_AMOUNT_USDT0'', or_else (map_of rt ''BACKSTOP_AMOUNT_USDT0'') ''10''),
      (''BACKSTOP_CONFIRMATION_TIMEOUT_MS'', or_else (map_of rt ''BACKSTOP_CONFIRMATION_TIMEOUT_MS'') ''900000'')]"

definition relayer_entries :: "preparation \<Rightarrow> env_object \<Rightarrow> env_object \<Rightarrow> env_object \<Rightarrow> env_object" where
  "relayer_entries r rt rl fc =
     [(''PORT'', or_else (map_of rl ''PORT'') ''8787''),
      (''HOST'', or_else (map_of rl ''HOST'') ''0.0.0.0''),
      (''DATABASE_PATH'', or_else (map_of rl ''DATABASE_PATH'') ''/data/relayer.db''),
      (''SESSION_SECRET'', or_else (map_of rl ''SESSION_SECRET'') (pp_secret r ''SESSION_SECRET'')),
      (''OPERATIONS_API_KEY'', operations_key r rt rl),
      (''FCC_PROXY_URL'', or_else (map_of rl ''FCC_PROXY_URL'') proxy_needed),
      (''DIRECT_API_KEY'', direct_key r rl fc),
      (''COSTON2_RPC_URL'', coston2_rpc),
      (''QUIET_VAULT'', or_else (map_of rl ''QUIET_VAULT'') ''PENDING_CONTRACT_DEPLOYMENT''),
      (''TEE_MANAGER'', or_else (map_of rl ''TEE_MANAGER'') tee_manager),
      (''EXTENSION_ID'', or_else (map_of rl ''EXTENSION_ID'') ''PENDING_EXTENSION_REGISTRATION''),
      (''RELAYER_PRIVATE_KEY'', or_else (map_of rl ''RELAYER_PRIVATE_KEY'') key_needed),
      (''START_BLOCK'', or_else (map_of rl ''START_BLOCK'') ''PENDING_CONTRACT_DEPLOYMENT''),
      (''POLL_INTERVAL_MS'', or_else (map_of rl ''POLL_INTERVAL_MS'') ''2000''),
      (''RISK_TICK_INTERVAL_MS'', or_else (map_of rl ''RISK_TICK_INTERVAL_MS'') ''3600000''),
      (''FCC_INSTRUCTION_FEE_WEI'', or_else (map_of rl ''FCC_INSTRUCTION_FEE_WEI'') ''1000000000000''),
      (''FRONTEND_ORIGIN'', ''https://quietline.vercel.app''),
      (''LOG_LEVEL'', or_else (map_of rl ''LOG_LEVEL'') ''info'')]"

definition frontend_entries :: "env_object \<Rightarrow> env_object" where
  "frontend_entries fe =
     [(''VITE_RELAYER_URL'', or_else (map_of fe ''VITE_RELAYER_URL'') ''REPLACE_WITH_PUBLIC_RELAYER_URL''),
      (''VITE_FCC_INSTRUCTION_FEE_WEI'', or_else (map_of fe ''VITE_FCC_INSTRUCTION_FEE_WEI'') ''1000000000000'')]"

definition fcc_entries :: "preparation \<Rightarrow> env_object \<Rightarrow> env_object \<Rightarrow> env_object" where
  "fcc_entries r rl fc =
     [(''CHAIN_URL'', coston2_rpc),
      (''SOURCE_DATE_EPOCH'', pp_epoch r),
      (''EXTENSION_ID'', or_else (map_of fc ''EXTENSION_ID'') ''PENDING_EXTENSION_REGISTRATION''),
      (''INITIAL_OWNER'', or_else (map_of fc ''INITIAL_OWNER'') ''DERIVED_AFTER_DEPLOYER_KEY_IS_SET''),
      (''GOVERNANCE_SIGNERS'', or_else (map_of fc ''GOVERNANCE_SIGNERS'') ''DERIVED_AFTER_DEPLOYER_KEY_IS_SET''),
      (''GOVERNANCE_THRESHOLD'', or_else (map_of fc ''GOVERNANCE_THRESHOLD'') ''1''),
      (''QUIET_VAULT'', or_else (map_of fc ''QUIET_VAULT'') ''PENDING_CONTRACT_DEPLOYMENT''),
      (''STATE_ENCRYPTION_KEY'', or_else (map_of fc ''STATE_ENCRYPTION_KEY'') (pp_secret r ''STATE_ENCRYPTION_KEY'')),
      (''PROXY_PRIVATE_KEY'', or_else (map_of fc ''PROXY_PRIVATE_KEY'') (pp_secret r ''PROXY_PRIVATE_KEY'')),
      (''DIRECT_API_KEY'', direct_key r rl fc),
      (''FCC_CODE_HASH'', unless_placeholder (map_of fc ''FCC_CODE_HASH'') simulatedCodeHash),
      (''INDEXER_DB_HOST'', unless_placeholder (map_of fc ''INDEXER_DB_HOST'') ''34.38.42.208''),
      (''INDEXER_DB_PORT'', or_else (map_of fc ''INDEXER_DB_PORT'') ''3306''),
      (''INDEXER_DB_NAME'', unless_placeholder (map_of fc ''INDEXER_DB_NAME'') ''indexer''),
      (''INDEXER_DB_USER'', or_else (map_of fc ''INDEXER_DB_USER'') ''PENDING_FLARE_INDEXER_ACCESS''),
      (''INDEXER_DB_PASSWORD'', or_else (map_of fc ''INDEXER_DB_PASSWORD'') ''PENDING_FLARE_INDEXER_ACCESS''),
      (''NORMAL_PROXY_URL'', ''https://tee-proxy-coston2-1.flare.rocks''),
      (''EXT_PROXY_URL'', or_else (map_of fc ''EXT_PROXY_URL'') proxy_needed),
      (''MODE'', ''1''), (''SIMULATED_TEE'', ''true'')]"

text \<open>The four files are read first and written afterwards.\<close>

definition prepare_profile :: "preparation \<Rightarrow> files \<Rightarrow> files" where
  "prepare_profile r fs =
     (let rt = parseEnv fs ''.env''; rl = parseEnv fs ''relayer/.env'';
          fe = parseEnv fs ''frontend/.env.production''; fc = parseEnv fs ''fcc/.env.coston2''
      in writeEnv ''fcc/.env.coston2'' (obj_spread fc (fcc_entries r rl fc))
           ''Quietline Coston2 simulated judging deployment''
         (writeEnv ''frontend/.env.production'' (obj_spread fe (frontend_entries fe)) ''Quietline Coston2 frontend''
         (writeEnv ''relayer/.env'' (obj_spread rl (relayer_entries r rt rl fc)) ''Quietline Coston2 relayer''
         (writeEnv ''.env'' (obj_spread rt (root_entries r rt rl)) ''Quietline Coston2 contract deployment'' fs))))"

section \<open>Lemmas on objects\<close>

lemma map_of_obj_set: "map_of (obj_set k v ms) = (map_of ms)(k \<mapsto> v)"
  by (induction k v ms rule: obj_set.induct) auto

lemma obj_set_same: "map_of ms k = Some v \<Longrightarrow> obj_set k v ms = ms"
  by (induction k v ms rule: obj_set.induct) (auto split: if_splits)

lemma keys_obj_set: "set (map fst (obj_set k v ms)) = insert k (set (map fst ms))"
  by (induction k v ms rule: obj_set.induct) auto

lemma distinct_obj_set: "distinct (map fst ms) \<Longrightarrow> distinct (map fst (obj_set k v ms))"
  using keys_obj_set by (induction k v ms rule: obj_set.induct) auto

lemma set_obj_set: "set (obj_set k v ms) \<subseteq> insert (k, v) (set ms)"
  by (induction k v ms rule: obj_set.induct) auto

lemma obj_spread_simps [simp]:
  "obj_spread base [] = base" "obj_spread base ((k, v) # es) = obj_spread (obj_set k v base) es"
  by (simp_all add: obj_spread_def)

lemma map_of_spread: "distinct (map fst es) \<Longrightarrow> map_of (obj_spread base es) = map_of base ++ map_of es"
proof (induction es arbitrary: base)
  case (Cons e es)
  obtain k v where e: "e = (k, v)" by (cases e)
  have "map_of es k = None" using Cons.prems by (auto simp: e map_of_eq_None_iff)
  then show ?case using Cons by (auto simp: e map_of_obj_set map_add_def fun_eq_iff split: option.split)
qed simp

lemma distinct_spread: "distinct (map fst base) \<Longrightarrow> distinct (map fst (obj_spread base es))"
  by (induction es arbitrary: base) (auto simp: distinct_obj_set)

lemma set_spread: "set (obj_spread base es) \<subseteq> set base \<union> set es"
proof (induction es arbitrary: base)
  case (Cons e es)
  obtain k v where e: "e = (k, v)" by (cases e)
  show ?case using Cons.IH [of "obj_set k v base"] set_obj_set [of k v base] by (auto simp: e)
qed simp

lemma spread_idle: "\<forall>(k, v) \<in> set es. map_of base k = Some v \<Longrightarrow> obj_spread base es = base"
  by (induction es arbitrary: base) (auto simp: obj_set_same)

lemma spread_again: "distinct (map fst es) \<Longrightarrow> obj_spread (obj_spread base es) es = obj_spread base es"
  by (rule spread_idle) (auto simp: map_of_spread map_add_def map_of_is_SomeI)

lemma spread_append: "distinct (map fst (base @ es)) \<Longrightarrow> obj_spread base es = base @ es"
proof (induction es arbitrary: base)
  case (Cons e es)
  obtain k v where e: "e = (k, v)" by (cases e)
  have "obj_set k v base = base @ [(k, v)]" if "k \<notin> set (map fst base)" for base
    using that by (induction k v base rule: obj_set.induct) auto
  then show ?case using Cons.IH [of "base @ [e]"] Cons.prems by (auto simp: e)
qed simp

lemma from_entries_distinct: "distinct (map fst es) \<Longrightarrow> from_entries es = es"
  using spread_append [of "[]" es] by (simp add: from_entries_def)

section \<open>Lemmas on lines\<close>

lemma split_on_none: "d \<notin> set s \<Longrightarrow> split_on d s = [s]"
  by (induction d s rule: split_on.induct) auto

lemma split_on_cons: "d \<notin> set l \<Longrightarrow> split_on d (l @ d # s) = l # split_on d s"
  by (induction l) auto

lemma split_join: "ls \<noteq> [] \<Longrightarrow> \<forall>l \<in> set ls. newline \<notin> set l \<Longrightarrow> split_on newline (join_lines ls) = ls"
  by (induction ls rule: join_lines.induct) (auto simp: split_on_none split_on_cons)

lemma split_on_ne: "split_on d s \<noteq> []"
  by (induction d s rule: split_on.induct) (auto split: list.splits)

lemma split_on_clean: "l \<in> set (split_on d s) \<Longrightarrow> d \<notin> set l"
proof (induction d s arbitrary: l rule: split_on.induct)
  case (2 d c s)
  obtain p ps where ps: "split_on d s = p # ps" using split_on_ne [of d s] by (cases "split_on d s") auto
  show ?case using 2 by (auto simp: ps split: if_splits)
qed simp

lemma split_lines_clean: "l \<in> set (split_lines s) \<Longrightarrow> newline \<notin> set l"
proof -
  assume l: "l \<in> set (split_lines s)"
  have "\<exists>m \<in> set (split_on newline s). set l \<subseteq> set m"
  proof (cases "l = last (split_on newline s)")
    case True
    then show ?thesis using split_on_ne by (intro bexI [of _ l]) auto
  next
    case False
    then obtain m where "m \<in> set (butlast (split_on newline s))" "l = drop_return m"
      using l by (auto simp: split_lines_def Let_def)
    then show ?thesis
      by (intro bexI [of _ m]) (auto simp: drop_return_def in_set_butlastD dest: in_set_butlastD)
  qed
  then show ?thesis using split_on_clean by blast
qed

lemma dropWhile_idem: "dropWhile P (dropWhile P xs) = dropWhile P xs"
  by (induction xs) auto

lemma trim_end_append: "trim_end s @ rev (takeWhile is_space (rev s)) = s"
  by (simp add: trim_end_def rev_append [symmetric] del: rev_append)

lemma trim_end_fixed: "trim_end s = s \<longleftrightarrow> s = [] \<or> \<not> is_space (last s)"
proof (cases s rule: rev_cases)
  case (snoc t c)
  have "length (dropWhile is_space (rev t)) < Suc (length t)"
    using length_dropWhile_le [of is_space "rev t"] by simp
  then show ?thesis by (auto simp: snoc trim_end_def dest: arg_cong [of _ _ length])
qed (simp add: trim_end_def)

lemma trim_start_fixed: "trim_start s = s \<longleftrightarrow> s = [] \<or> \<not> is_space (hd s)"
proof (cases s)
  case (Cons c t)
  have "length (dropWhile is_space t) < Suc (length t)"
    using length_dropWhile_le [of is_space t] by simp
  then show ?thesis by (auto simp: Cons trim_start_def dest: arg_cong [of _ _ length])
qed (simp add: trim_start_def)

lemma js_trim_ends: "js_trim s = [] \<or> (\<not> is_space (hd (js_trim s)) \<and> \<not> is_space (last (js_trim s)))"
proof -
  let ?t = "trim_start s"
  have a: "?t = [] \<or> \<not> is_space (hd ?t)"
    by (metis dropWhile_idem trim_start_def trim_start_fixed)
  have b: "trim_end ?t = [] \<or> \<not> is_space (last (trim_end ?t))"
    by (metis dropWhile_idem rev_rev_ident trim_end_def trim_end_fixed)
  have "hd (trim_end ?t) = hd ?t" if "trim_end ?t \<noteq> []"
    using that trim_end_append [of ?t] by (metis hd_append2)
  moreover have "?t \<noteq> []" if "trim_end ?t \<noteq> []"
    using that by (auto simp: trim_end_def)
  ultimately show ?thesis using a b by (auto simp: js_trim_def)
qed

lemma js_trim_fixed: "js_trim s = s \<longleftrightarrow> s = [] \<or> (\<not> is_space (hd s) \<and> \<not> is_space (last s))"
proof
  assume "js_trim s = s"
  then show "s = [] \<or> (\<not> is_space (hd s) \<and> \<not> is_space (last s))" using js_trim_ends [of s] by simp
next
  assume "s = [] \<or> (\<not> is_space (hd s) \<and> \<not> is_space (last s))"
  then show "js_trim s = s" using trim_start_fixed [of s] trim_end_fixed [of s] by (auto simp: js_trim_def)
qed

lemma js_trim_idem: "js_trim (js_trim s) = js_trim s"
  using js_trim_ends js_trim_fixed by blast

lemma set_js_trim: "set (js_trim s) \<subseteq> set s"
  by (auto simp: js_trim_def trim_end_def trim_start_def) (metis set_dropWhileD set_rev)

section \<open>What a file can hold\<close>

definition value_ok :: "string \<Rightarrow> bool" where
  "value_ok v = (newline \<notin> set v \<and> (v = [] \<or> \<not> is_space (last v)))"

definition name_ok :: "string \<Rightarrow> bool" where
  "name_ok n = (CHR ''='' \<notin> set n \<and> newline \<notin> set n \<and> \<not> prefix ''#'' n \<and> (n = [] \<or> \<not> is_space (hd n)))"

definition env_ok :: "env_object \<Rightarrow> bool" where
  "env_ok values = (distinct (map fst values) \<and> list_all (\<lambda>(n, v). name_ok n \<and> value_ok v) values)"

definition entry_line :: "string \<times> string \<Rightarrow> string" where
  "entry_line = (\<lambda>(name, x). name @ ''='' @ x)"

lemma is_space_chars: "is_space newline" "is_space return_char" "\<not> is_space (CHR ''='')" "\<not> is_space (CHR ''#'')"
  "\<not> is_space (CHR ''.'')"
  by code_simp+

lemma entry_line_facts:
  assumes "name_ok n" and "value_ok v"
  shows "newline \<notin> set (entry_line (n, v))" "js_trim (drop_return (entry_line (n, v))) = entry_line (n, v)"
    "is_entry (entry_line (n, v))" "entry_of (entry_line (n, v)) = (n, v)"
proof -
  let ?l = "entry_line (n, v)"
  have ends: "\<not> is_space (hd ?l)" "\<not> is_space (last ?l)"
    using assms is_space_chars by (cases n; auto simp: entry_line_def name_ok_def value_ok_def)+
  then have "drop_return ?l = ?l" using is_space_chars by (auto simp: drop_return_def)
  then show "js_trim (drop_return ?l) = ?l" using ends by (simp add: js_trim_fixed)
  show "newline \<notin> set ?l" using assms by (auto simp: entry_line_def name_ok_def value_ok_def newline_def)
  show "is_entry ?l" using assms by (cases n) (auto simp: is_entry_def entry_line_def name_ok_def)
  have "takeWhile (\<lambda>c. c \<noteq> CHR ''='') (n @ CHR ''='' # v) = n"
    using assms by (subst takeWhile_append2) (auto simp: name_ok_def)
  then show "entry_of ?l = (n, v)" by (simp add: entry_of_def entry_line_def Let_def)
qed

lemma not_entry_comment: "\<not> is_entry (js_trim (drop_return (CHR ''#'' # r)))"
proof -
  have comment: "\<not> is_entry (js_trim (CHR ''#'' # t))" for t
  proof -
    let ?s = "CHR ''#'' # t"
    have start: "trim_start ?s = ?s" by (simp add: trim_start_def is_space_chars)
    obtain w where w: "trim_end ?s @ w = ?s" using trim_end_append by blast
    then have "trim_end ?s = [] \<or> prefix ''#'' (trim_end ?s)" by (cases "trim_end ?s") auto
    then show ?thesis by (auto simp: js_trim_def start is_entry_def)
  qed
  have "\<exists>t. drop_return (CHR ''#'' # r) = CHR ''#'' # t"
    by (auto simp: drop_return_def return_char_def)
  then show ?thesis using comment by force
qed

lemma parse_lines:
  assumes "list_all (\<lambda>(n, v). name_ok n \<and> value_ok v) values"
  shows "map entry_of (filter is_entry (map (js_trim \<circ> drop_return) (map entry_line values))) = values"
  using assms by (induction "values") (auto simp: entry_line_facts)

lemma env_text_parses:
  assumes "env_ok values" and "newline \<notin> set heading"
  shows "parse_text (env_text values heading) = values"
proof -
  let ?second = "''# Generated by pnpm coston2:prepare. Do not commit this file.''"
  let ?body = "(''# '' @ heading) # ?second # map entry_line values"
  have second: "newline \<notin> set ?second" by code_simp
  have "split_on newline (env_text values heading) = ?body @ ['''']"
    using assms second unfolding env_text_def entry_line_def [symmetric]
    by (subst split_join) (use entry_line_facts(1) in \<open>auto simp: env_ok_def list_all_iff is_space_chars newline_def\<close>)
  then have lines: "split_lines (env_text values heading) = map drop_return ?body @ ['''']"
    by (simp add: split_lines_def Let_def)
  have "filter is_entry (map js_trim (map drop_return ?body @ ['''']))
      = filter is_entry (map (js_trim \<circ> drop_return) (map entry_line values))"
    using not_entry_comment by (simp add: is_entry_def js_trim_def trim_end_def trim_start_def comp_def)
  then show ?thesis
    using parse_lines [of "values"] assms(1) unfolding parse_text_def lines
    by (simp add: from_entries_distinct env_ok_def)
qed

lemma entry_of_ok:
  assumes "is_entry l" and "js_trim l = l" and "newline \<notin> set l"
  shows "(case entry_of l of (n, v) \<Rightarrow> name_ok n \<and> value_ok v)"
proof -
  let ?n = "takeWhile (\<lambda>c. c \<noteq> CHR ''='') l" and ?r = "dropWhile (\<lambda>c. c \<noteq> CHR ''='') l"
  have parts: "l = ?n @ ?r" by simp
  have "?r \<noteq> []" using assms(1) by (auto simp: is_entry_def)
  then obtain v where r: "?r = CHR ''='' # v" by (cases "?r") (use hd_dropWhile [of "\<lambda>c. c \<noteq> CHR ''=''" l] in auto)
  have "drop (Suc (length ?n)) l = v"
    using arg_cong [OF parts, of "drop (Suc (length ?n))"] by (simp add: r)
  then have e: "entry_of l = (?n, v)" by (simp add: entry_of_def Let_def)
  have ends: "\<not> is_space (hd l)" "\<not> is_space (last l)"
    using assms(1,2) by (auto simp: js_trim_fixed is_entry_def)
  have "CHR ''='' \<notin> set ?n" by (auto dest: set_takeWhileD)
  moreover have "set ?n \<subseteq> set l" "set v \<subseteq> set l" using parts r by (metis Un_upper1 Un_upper2 set_append set_subset_Cons subset_trans)+
  moreover have "\<not> prefix ''#'' ?n" using assms(1) parts by (metis is_entry_def prefix_append prefix_order.trans)
  moreover have "?n = [] \<or> \<not> is_space (hd ?n)" using ends(1) parts by (metis hd_append2)
  moreover have "v = [] \<or> \<not> is_space (last v)" using ends(2) parts r by (metis last_ConsR last_appendR list.distinct(1))
  ultimately show ?thesis using assms(3) by (auto simp: e name_ok_def value_ok_def)
qed

lemma parse_text_ok: "env_ok (parse_text s)"
proof -
  let ?es = "map entry_of (filter is_entry (map js_trim (split_lines s)))"
  have "\<forall>e \<in> set ?es. case e of (n, v) \<Rightarrow> name_ok n \<and> value_ok v"
  proof
    fix e assume "e \<in> set ?es"
    then obtain l where l: "l \<in> set (split_lines s)" "is_entry (js_trim l)" "e = entry_of (js_trim l)" by auto
    have "newline \<notin> set (js_trim l)" using split_lines_clean [OF l(1)] set_js_trim by blast
    then show "case e of (n, v) \<Rightarrow> name_ok n \<and> value_ok v"
      using entry_of_ok [OF l(2) js_trim_idem] l(3) by simp
  qed
  moreover have "set (parse_text s) \<subseteq> set ?es"
    using set_spread [of "[]" ?es] unfolding parse_text_def from_entries_def by simp
  ultimately have "\<forall>e \<in> set (parse_text s). case e of (n, v) \<Rightarrow> name_ok n \<and> value_ok v" by blast
  moreover have "distinct (map fst (parse_text s))" by (simp add: parse_text_def from_entries_def distinct_spread)
  ultimately show ?thesis by (simp add: env_ok_def list_all_iff)
qed

lemma parseEnv_ok: "env_ok (parseEnv fs path)"
  by (simp add: parseEnv_def parse_text_ok split: option.split) (simp add: env_ok_def)

lemma spread_ok:
  "env_ok base \<Longrightarrow> list_all (\<lambda>(n, v). name_ok n \<and> value_ok v) es \<Longrightarrow> env_ok (obj_spread base es)"
  using set_spread [of base es] by (auto simp: env_ok_def list_all_iff distinct_spread)

section \<open>Preparing again\<close>

text \<open>The values of a preparation can be held by a file.\<close>

definition preparation_ok :: "preparation \<Rightarrow> bool" where
  "preparation_ok r = ((\<forall>use. value_ok (pp_secret r use)) \<and> (\<forall>key. value_ok (pp_address r key)) \<and> value_ok (pp_epoch r))"

lemma or_else_ok: "(\<And>v. x = Some v \<Longrightarrow> value_ok v) \<Longrightarrow> value_ok d \<Longrightarrow> value_ok (or_else x d)"
  by (simp add: or_else_def split: option.split)

lemma unless_ok: "(\<And>v. x = Some v \<Longrightarrow> value_ok v) \<Longrightarrow> value_ok d \<Longrightarrow> value_ok (unless_placeholder x d)"
  by (auto simp: unless_placeholder_def shown_value_def isPlaceholder_def present_def split: option.splits)

lemma lookup_ok: "env_ok ms \<Longrightarrow> map_of ms n = Some v \<Longrightarrow> value_ok v"
  by (auto simp: env_ok_def list_all_iff dest: map_of_SomeD)

lemma lookup_else:
  "env_ok ms \<Longrightarrow> value_ok d \<Longrightarrow> value_ok (or_else (map_of ms n) d)"
  "env_ok ms \<Longrightarrow> value_ok d \<Longrightarrow> value_ok (unless_placeholder (map_of ms n) d)"
  by (auto intro: or_else_ok unless_ok lookup_ok)

lemma literal_values:
  "value_ok coston2_rpc" "value_ok simulatedCodeHash" "value_ok tee_manager" "value_ok key_needed"
  "value_ok proxy_needed" "value_ok []" "value_ok ''REPLACE_WITH_PUBLIC_RELAYER_URL''" "value_ok ''10''"
  "value_ok ''900000''" "value_ok ''8787''" "value_ok ''0.0.0.0''" "value_ok ''/data/relayer.db''"
  "value_ok ''PENDING_CONTRACT_DEPLOYMENT''" "value_ok ''PENDING_EXTENSION_REGISTRATION''" "value_ok ''2000''"
  "value_ok ''3600000''" "value_ok ''1000000000000''" "value_ok ''https://quietline.vercel.app''"
  "value_ok ''info''" "value_ok ''DERIVED_AFTER_DEPLOYER_KEY_IS_SET''" "value_ok ''1''"
  "value_ok ''34.38.42.208''" "value_ok ''3306''" "value_ok ''indexer''"
  "value_ok ''PENDING_FLARE_INDEXER_ACCESS''" "value_ok ''https://tee-proxy-coston2-1.flare.rocks''"
  "value_ok ''true''"
  by code_simp+

lemma literal_names: "list_all (\<lambda>(n, v). name_ok n) (root_entries r a b)" "list_all (\<lambda>(n, v). name_ok n) (relayer_entries r a b c)"
  "list_all (\<lambda>(n, v). name_ok n) (frontend_entries a)" "list_all (\<lambda>(n, v). name_ok n) (fcc_entries r a b)"
  by (simp_all add: root_entries_def relayer_entries_def frontend_entries_def fcc_entries_def name_ok_def newline_def)
    code_simp+

lemma distinct_names: "distinct (map fst (root_entries r a b))" "distinct (map fst (relayer_entries r a b c))"
  "distinct (map fst (frontend_entries a))" "distinct (map fst (fcc_entries r a b))"
  by (simp_all add: root_entries_def relayer_entries_def frontend_entries_def fcc_entries_def)

lemma keys_ok:
  assumes "preparation_ok r" and "env_ok rt" and "env_ok rl" and "env_ok fc"
  shows "value_ok (operations_key r rt rl)" "value_ok (direct_key r rl fc)" "value_ok (operator_address r rt rl)"
proof -
  show "value_ok (operations_key r rt rl)" "value_ok (direct_key r rl fc)"
    unfolding operations_key_def direct_key_def
    using assms by (simp_all add: lookup_else preparation_ok_def)
  have "value_ok (or_else (map_of rt ''OPERATOR_ADDRESS'') '''')"
    by (rule lookup_else(1) [OF assms(2) literal_values(6)])
  then show "value_ok (operator_address r rt rl)"
    using assms(1) by (simp add: operator_address_def Let_def preparation_ok_def literal_values)
qed

lemma entries_ok:
  assumes "preparation_ok r" and "env_ok rt" and "env_ok rl" and "env_ok fe" and "env_ok fc"
  shows "list_all (\<lambda>(n, v). value_ok v) (root_entries r rt rl)"
    "list_all (\<lambda>(n, v). value_ok v) (relayer_entries r rt rl fc)"
    "list_all (\<lambda>(n, v). value_ok v) (frontend_entries fe)"
    "list_all (\<lambda>(n, v). value_ok v) (fcc_entries r rl fc)"
proof -
  have secrets: "value_ok (pp_secret r use)" "value_ok (pp_epoch r)" for "use"
    using assms(1) by (simp_all add: preparation_ok_def)
  note rules = secrets keys_ok [OF assms(1) assms(2,3,5)] literal_values
    lookup_else [OF assms(2)] lookup_else [OF assms(3)] lookup_else [OF assms(4)] lookup_else [OF assms(5)]
  show "list_all (\<lambda>(n, v). value_ok v) (root_entries r rt rl)"
    unfolding root_entries_def by (simp add: rules)
  show "list_all (\<lambda>(n, v). value_ok v) (relayer_entries r rt rl fc)"
    unfolding relayer_entries_def by (simp add: rules)
  show "list_all (\<lambda>(n, v). value_ok v) (frontend_entries fe)"
    unfolding frontend_entries_def by (simp add: rules)
  show "list_all (\<lambda>(n, v). value_ok v) (fcc_entries r rl fc)"
    unfolding fcc_entries_def by (simp add: rules)
qed

lemma parse_written:
  "env_ok vs \<Longrightarrow> newline \<notin> set heading \<Longrightarrow> parseEnv (writeEnv path vs heading fs) path = vs"
  "q \<noteq> path \<Longrightarrow> parseEnv (writeEnv path vs heading fs) q = parseEnv fs q"
  by (simp_all add: parseEnv_def writeEnv_def env_text_parses)


lemma entries_both:
  "list_all (\<lambda>(n, v). name_ok n) es \<Longrightarrow> list_all (\<lambda>(n, v). value_ok v) es \<Longrightarrow>
   list_all (\<lambda>(n, v). name_ok n \<and> value_ok v) es"
  by (auto simp: list_all_iff)

text \<open>What the four files hold afterwards.\<close>

lemma prepared_files:
  fixes fs :: files
  assumes "preparation_ok r"
  defines "rt \<equiv> parseEnv fs ''.env''" and "rl \<equiv> parseEnv fs ''relayer/.env''"
    and "fe \<equiv> parseEnv fs ''frontend/.env.production''" and "fc \<equiv> parseEnv fs ''fcc/.env.coston2''"
  shows "parseEnv (prepare_profile r fs) ''.env'' = obj_spread rt (root_entries r rt rl)"
    "parseEnv (prepare_profile r fs) ''relayer/.env'' = obj_spread rl (relayer_entries r rt rl fc)"
    "parseEnv (prepare_profile r fs) ''frontend/.env.production'' = obj_spread fe (frontend_entries fe)"
    "parseEnv (prepare_profile r fs) ''fcc/.env.coston2'' = obj_spread fc (fcc_entries r rl fc)"
proof -
  have ok: "env_ok rt" "env_ok rl" "env_ok fe" "env_ok fc"
    by (simp_all add: rt_def rl_def fe_def fc_def parseEnv_ok)
  note written = spread_ok [OF ok(1) entries_both [OF literal_names(1) entries_ok(1) [OF assms(1) ok]]]
    spread_ok [OF ok(2) entries_both [OF literal_names(2) entries_ok(2) [OF assms(1) ok]]]
    spread_ok [OF ok(3) entries_both [OF literal_names(3) entries_ok(3) [OF assms(1) ok]]]
    spread_ok [OF ok(4) entries_both [OF literal_names(4) entries_ok(4) [OF assms(1) ok]]]
  show "parseEnv (prepare_profile r fs) ''.env'' = obj_spread rt (root_entries r rt rl)"
    "parseEnv (prepare_profile r fs) ''relayer/.env'' = obj_spread rl (relayer_entries r rt rl fc)"
    "parseEnv (prepare_profile r fs) ''frontend/.env.production'' = obj_spread fe (frontend_entries fe)"
    "parseEnv (prepare_profile r fs) ''fcc/.env.coston2'' = obj_spread fc (fcc_entries r rl fc)"
    unfolding prepare_profile_def Let_def rt_def [symmetric] rl_def [symmetric] fe_def [symmetric] fc_def [symmetric]
    by (simp_all add: parse_written written newline_def)
qed

lemma lookups:
  "map_of (obj_spread base (root_entries r a b)) = map_of base ++ map_of (root_entries r a b)"
  "map_of (obj_spread base (relayer_entries r a b c)) = map_of base ++ map_of (relayer_entries r a b c)"
  "map_of (obj_spread base (frontend_entries a)) = map_of base ++ map_of (frontend_entries a)"
  "map_of (obj_spread base (fcc_entries r a b)) = map_of base ++ map_of (fcc_entries r a b)"
  by (simp_all add: map_of_spread distinct_names)

lemma unless_again: "unless_placeholder (Some (unless_placeholder x d)) d = unless_placeholder x d"
  by (cases x) (auto simp: unless_placeholder_def shown_value_def isPlaceholder_def present_def)

lemma key_needed_not_hex: "\<not> is_hex_of 64 key_needed" "\<not> is_hex_of 64 []" "\<not> is_hex_of 40 []"
  by code_simp+

text \<open>A second run, with other random secrets, arrives at the same entries.\<close>

lemma entries_again:
  assumes "rt' = obj_spread rt (root_entries r rt rl)" and "rl' = obj_spread rl (relayer_entries r rt rl fc)"
    and "fe' = obj_spread fe (frontend_entries fe)" and "fc' = obj_spread fc (fcc_entries r rl fc)"
  shows "root_entries (r\<lparr>pp_secret := f\<rparr>) rt' rl' = root_entries r rt rl"
    "relayer_entries (r\<lparr>pp_secret := f\<rparr>) rt' rl' fc' = relayer_entries r rt rl fc"
    "frontend_entries fe' = frontend_entries fe"
    "fcc_entries (r\<lparr>pp_secret := f\<rparr>) rl' fc' = fcc_entries r rl fc"
proof -
  have ops: "operations_key (r\<lparr>pp_secret := f\<rparr>) rt' rl' = operations_key r rt rl"
    unfolding operations_key_def [of "r\<lparr>pp_secret := f\<rparr>"] assms(1) lookups
    by (simp add: map_add_def root_entries_def or_else_def)
  have dir: "direct_key (r\<lparr>pp_secret := f\<rparr>) rl' fc' = direct_key r rl fc"
    unfolding direct_key_def [of "r\<lparr>pp_secret := f\<rparr>"] assms(2) lookups
    by (simp add: map_add_def relayer_entries_def or_else_def)
  have opr: "operator_address (r\<lparr>pp_secret := f\<rparr>) rt' rl' = operator_address r rt rl"
  proof -
    have key: "map_of rl' ''RELAYER_PRIVATE_KEY'' = Some (or_else (map_of rl ''RELAYER_PRIVATE_KEY'') key_needed)"
      unfolding assms(2) lookups by (simp add: map_add_def relayer_entries_def)
    have kept: "map_of rt' ''OPERATOR_ADDRESS'' = Some (operator_address r rt rl)"
      unfolding assms(1) lookups by (simp add: map_add_def root_entries_def)
    show ?thesis
      using key_needed_not_hex
      by (cases "map_of rl ''RELAYER_PRIVATE_KEY''")
        (auto simp: operator_address_def [of "r\<lparr>pp_secret := f\<rparr>"] key kept Let_def or_else_def,
         auto simp: operator_address_def Let_def or_else_def)
  qed
  show "root_entries (r\<lparr>pp_secret := f\<rparr>) rt' rl' = root_entries r rt rl"
    unfolding root_entries_def [of "r\<lparr>pp_secret := f\<rparr>"] ops opr unfolding assms(1) lookups
    by (simp add: map_add_def root_entries_def or_else_def)
  show "relayer_entries (r\<lparr>pp_secret := f\<rparr>) rt' rl' fc' = relayer_entries r rt rl fc"
    unfolding relayer_entries_def [of "r\<lparr>pp_secret := f\<rparr>"] ops dir unfolding assms(2) lookups
    by (simp add: map_add_def relayer_entries_def or_else_def)
  show "frontend_entries fe' = frontend_entries fe"
    unfolding frontend_entries_def [of fe'] unfolding assms(3) lookups
    by (simp add: map_add_def frontend_entries_def or_else_def)
  show "fcc_entries (r\<lparr>pp_secret := f\<rparr>) rl' fc' = fcc_entries r rl fc"
    unfolding fcc_entries_def [of "r\<lparr>pp_secret := f\<rparr>"] dir unfolding assms(4) lookups
    by (simp add: map_add_def fcc_entries_def or_else_def unless_again)
qed

section \<open>Properties\<close>

text \<open>
  C29. Rewriting an environment file is exact: whatever the file held, reading it back gives the
  old entries in their order with the new values in place and new names at the end, and no other
  file changes. (Only the comments of the old file are lost.)
\<close>
theorem update_env_exact:
  assumes "list_all (\<lambda>(n, v). name_ok n \<and> value_ok v) entries" and "newline \<notin> set heading"
  shows "parseEnv (update_env path entries heading fs) path = obj_spread (parseEnv fs path) entries
    \<and> (update_env path entries heading fs)(path := fs path) = fs"
  using parse_written(1) [OF spread_ok [OF parseEnv_ok assms(1)] assms(2)]
  by (simp add: update_env_def) (simp add: writeEnv_def)

theorem update_env_exact_witness:
  "parseEnv (update_env ''f'' [(''B'', ''2''), (''C'', '''')] ''h'' (\<lambda>_. Some ''A=1 # x'')) ''f''
     = [(''A'', ''1 # x''), (''B'', ''2''), (''C'', '''')]"
proof -
  have ok: "list_all (\<lambda>(n, v). name_ok n \<and> value_ok v) [(''B'', ''2''), (''C'', '''')]" "newline \<notin> set ''h''"
    by code_simp+
  have "obj_spread (parseEnv (\<lambda>_. Some ''A=1 # x'') ''f'') [(''B'', ''2''), (''C'', '''')]
      = [(''A'', ''1 # x''), (''B'', ''2''), (''C'', '''')]"
    by code_simp
  then show ?thesis using update_env_exact [OF ok] by metis
qed

text \<open>
  C30. Preparing the deployment profile again changes nothing: the four files a run leaves are the
  files the next run leaves, so no secret that was generated once is ever replaced and no value
  that was filled in is lost.
\<close>
theorem prepare_idempotent:
  assumes "preparation_ok r"
  shows "prepare_profile (r\<lparr>pp_secret := f\<rparr>) (prepare_profile r fs) = prepare_profile r fs"
proof -
  let ?rt = "parseEnv fs ''.env''" and ?rl = "parseEnv fs ''relayer/.env''"
  let ?fe = "parseEnv fs ''frontend/.env.production''" and ?fc = "parseEnv fs ''fcc/.env.coston2''"
  show ?thesis
    unfolding prepare_profile_def [of "r\<lparr>pp_secret := f\<rparr>"] Let_def prepared_files [OF assms]
      entries_again [OF refl refl refl refl]
    by (simp add: spread_again distinct_names) (simp add: prepare_profile_def Let_def writeEnv_def fun_upd_twist)
qed

theorem prepare_idempotent_witness:
  "prepare_profile \<lparr>pp_secret = (\<lambda>_. ''new''), pp_address = (\<lambda>_. ''0xa''), pp_epoch = ''1''\<rparr>
     (prepare_profile \<lparr>pp_secret = (\<lambda>_. ''old''), pp_address = (\<lambda>_. ''0xa''), pp_epoch = ''1''\<rparr> (\<lambda>_. None))
   = prepare_profile \<lparr>pp_secret = (\<lambda>_. ''old''), pp_address = (\<lambda>_. ''0xa''), pp_epoch = ''1''\<rparr> (\<lambda>_. None)"
proof -
  have "value_ok ''old''" "value_ok ''0xa''" "value_ok ''1''" by code_simp+
  then show ?thesis
    using prepare_idempotent [of "\<lparr>pp_secret = (\<lambda>_. ''old''), pp_address = (\<lambda>_. ''0xa''), pp_epoch = ''1''\<rparr>"
        "\<lambda>_. ''new''" "\<lambda>_. None"]
    by (simp add: preparation_ok_def)
qed

end
