(* ===== verification/Operations.thy ===== *)
theory Operations
  imports Env_Files Js_Number Codec
begin

text \<open>
  The operations scripts under \<^verbatim>\<open>scripts/coston2\<close> that act on the deployment: preparing the second
  profile, registering the extension and the confidential machine, pausing and retiring machines,
  and the checks before a deployment. Commands, the proxy, the chain and key libraries are the
  surroundings; files are those of \<open>Env_Files\<close>.
\<close>

section \<open>Surroundings\<close>

datatype ops_call =
    ORun string "string list"
  | OInfo string
  | OSleep nat
  | OActive string number
  | OOwner string string
  | OStatus string string
  | OPause string string
  | OMined string
  | ORpc string "string list"
text \<open>
  A response of the proxy: its status, whether its bytes arrive, and its body as JSON. A command
  also gets an environment and a directory, which no answer here distinguishes.
\<close>

record proxy_answer =
  px_status :: int
  px_bytes :: "js_error + unit"
  px_info :: "js_error + fcc_info"

text \<open>What \<open>getTeeMachineStatus\<close> gives; ethers marks a revert with \<open>CALL_EXCEPTION\<close>.\<close>

datatype status_answer = StatusIs number | CallException js_error | StatusError js_error

text \<open>The members of a deployment manifest the scripts read; \<open>null\<close> and absent are \<open>None\<close>.\<close>

record deployment =
  dp_protocolVersion :: "number option"
  dp_quietVault :: "string option"
  dp_extensionId :: "number option"
  dp_startBlock :: "number option"
  dp_teeSigner :: "string option"
  dp_manager :: "string option"

record ops_env =
  o_run :: "ops_call list \<Rightarrow> js_error + string"
  o_info :: "ops_call list \<Rightarrow> js_error + proxy_answer"
  o_active :: "ops_call list \<Rightarrow> js_error + string list"
  o_owner :: "ops_call list \<Rightarrow> js_error + string"
  o_status :: "ops_call list \<Rightarrow> status_answer"
  o_pause :: "ops_call list \<Rightarrow> js_error + string"
  o_mined :: "ops_call list \<Rightarrow> js_error + number"
  o_rpc :: "ops_call list \<Rightarrow> js_error + string"
  o_getAddress :: "string \<Rightarrow> js_error + string"
  o_computeAddress :: "string \<Rightarrow> js_error + string"
  o_keyAddress :: "string \<Rightarrow> string \<Rightarrow> js_error + string"
  o_parseDeployment :: "string \<Rightarrow> js_error + deployment"
  o_showDeployment :: "deployment \<Rightarrow> string \<Rightarrow> string"
  o_parseManager :: "string \<Rightarrow> js_error + string"

text \<open>The files, and the calls made, newest first.\<close>

record ops =
  op_files :: files
  op_calls :: "ops_call list"

definition askO :: "(ops_call list \<Rightarrow> 'a) \<Rightarrow> ops_call \<Rightarrow> (ops, 'a) act" where
  "askO f c = (\<lambda>s. let h = c # op_calls s in Some (Inr (f h), s\<lparr>op_calls := h\<rparr>))"

definition askOE :: "(ops_call list \<Rightarrow> js_error + 'a) \<Rightarrow> ops_call \<Rightarrow> (ops, 'a) act" where
  "askOE f c = bindA (askO f c) liftA"

definition inFiles :: "(files, 'a) act \<Rightarrow> (ops, 'a) act" where
  "inFiles m = (\<lambda>s. case m (op_files s) of
      None \<Rightarrow> None
    | Some (r, fs) \<Rightarrow> Some (r, s\<lparr>op_files := fs\<rparr>))"

definition run_command :: "ops_env \<Rightarrow> string \<Rightarrow> string list \<Rightarrow> (ops, string) act" where
  "run_command e command args = askOE (o_run e) (ORun command args)"

definition sleep :: "nat \<Rightarrow> (ops, unit) act" where
  "sleep ms = askO (\<lambda>_. ()) (OSleep ms)"

text \<open>\<open>readJson\<close> of a manifest, and the texts of members as the scripts use them.\<close>

definition readDeployment :: "ops_env \<Rightarrow> string \<Rightarrow> (ops, deployment) act" where
  "readDeployment e path = bindA getA (\<lambda>s. liftA (case op_files s path of
      None \<Rightarrow> Inl (JsError (''ENOENT: no such file or directory, open '' @ path))
    | Some t \<Rightarrow> o_parseDeployment e t))"

definition member_address :: "ops_env \<Rightarrow> string option \<Rightarrow> js_error + string" where
  "member_address e x = (case x of Some a \<Rightarrow> o_getAddress e a | None \<Rightarrow> Inl (JsError ''invalid address''))"

definition managerOf :: "deployment \<Rightarrow> js_error + string" where
  "managerOf d = (case dp_manager d of
      Some m \<Rightarrow> Inr m
    | None \<Rightarrow> Inl (JsError ''invalid value for Contract target''))"

definition number_shown :: "number option \<Rightarrow> string" where
  "number_shown x = (case x of Some n \<Rightarrow> number_text n | None \<Rightarrow> ''undefined'')"

section \<open>The second profile\<close>

definition prepare_v2_profile :: "preparation \<Rightarrow> (string \<Rightarrow> string option) \<Rightarrow> deployment \<Rightarrow> (files, unit) act" where
  "prepare_v2_profile r vars d = bindA getA (\<lambda>fs.
     let publicDomain = or_else (vars ''V2_PUBLIC_DOMAIN'') ''v2.43-157-63-199.sslip.io'';
         publicUrl = ''https://'' @ publicDomain;
         deployerKey = map_of (parseEnv fs ''.env'') ''DEPLOYER_PRIVATE_KEY'';
         relayerKey = map_of (parseEnv fs ''relayer/.env'') ''RELAYER_PRIVATE_KEY'';
         currentFcc = map_of (parseEnv fs ''fcc/.env.coston2'');
         extension = number_text (case dp_extensionId d of Some n \<Rightarrow> n | None \<Rightarrow> 0)
     in if dp_protocolVersion d \<noteq> Some 2 \<or> present (dp_quietVault d) = None then
          throw (JsError ''deployments/coston2-v2.json is not a deployed V2 manifest'')
        else if \<not> is_hex_of 64 (or_else deployerKey '''') then
          throw (JsError ''The current root .env does not contain DEPLOYER_PRIVATE_KEY'')
        else if \<not> is_hex_of 64 (or_else relayerKey '''') then
          throw (JsError ''The current relayer .env does not contain RELAYER_PRIVATE_KEY'')
        else let deployer = pp_address r (the deployerKey); relayer = pp_address r (the relayerKey) in
          thenA (modifyA (writeEnv ''.env.v2''
            [(''COSTON2_RPC_URL'', coston2_rpc), (''DEPLOYER_PRIVATE_KEY'', the deployerKey),
             (''OPERATOR_ADDRESS'', relayer), (''FCC_PROXY_URL'', publicUrl),
             (''RELAYER_URL'', publicUrl @ ''/api''),
             (''OPERATIONS_API_KEY'', pp_secret r ''OPERATIONS_API_KEY''),
             (''V2_PUBLIC_DOMAIN'', publicDomain), (''V2_PUBLIC_URL'', publicUrl),
             (''BACKSTOP_AMOUNT_USDT0'', ''10''), (''BACKSTOP_CONFIRMATION_TIMEOUT_MS'', ''900000'')]
            ''Quietline Coston2 V2 contract deployment''))
          (thenA (modifyA (writeEnv ''fcc/.env.coston2-v2''
            [(''CHAIN_URL'', coston2_rpc), (''SOURCE_DATE_EPOCH'', pp_epoch r), (''EXTENSION_ID'', extension),
             (''INITIAL_OWNER'', deployer), (''GOVERNANCE_SIGNERS'', deployer), (''GOVERNANCE_THRESHOLD'', ''1''),
             (''QUIET_VAULT'', shown_value (dp_quietVault d)),
             (''STATE_ENCRYPTION_KEY'', pp_secret r ''STATE_ENCRYPTION_KEY''),
             (''PROXY_PRIVATE_KEY'', pp_secret r ''PROXY_PRIVATE_KEY''),
             (''DIRECT_API_KEY'', pp_secret r ''DIRECT_API_KEY''), (''FCC_CODE_HASH'', simulatedCodeHash),
             (''INDEXER_DB_HOST'', shown_value (currentFcc ''INDEXER_DB_HOST'')),
             (''INDEXER_DB_PORT'', shown_value (currentFcc ''INDEXER_DB_PORT'')),
             (''INDEXER_DB_NAME'', shown_value (currentFcc ''INDEXER_DB_NAME'')),
             (''INDEXER_DB_USER'', shown_value (currentFcc ''INDEXER_DB_USER'')),
             (''INDEXER_DB_PASSWORD'', shown_value (currentFcc ''INDEXER_DB_PASSWORD'')),
             (''NORMAL_PROXY_URL'', ''https://tee-proxy-coston2-1.flare.rocks''),
             (''EXT_PROXY_URL'', publicUrl), (''MODE'', ''1''), (''SIMULATED_TEE'', ''true''),
             (''V2_PUBLIC_DOMAIN'', publicDomain)]
            ''Quietline Coston2 V2 simulated FCC deployment''))
          (modifyA (writeEnv ''relayer/.env.v2''
            [(''PORT'', ''8787''), (''HOST'', ''0.0.0.0''), (''DATABASE_PATH'', ''/data/relayer-v2.db''),
             (''SESSION_SECRET'', pp_secret r ''SESSION_SECRET''),
             (''OPERATIONS_API_KEY'', pp_secret r ''OPERATIONS_API_KEY''),
             (''FCC_PROXY_URL'', ''http://tee-proxy:6664''), (''DIRECT_API_KEY'', pp_secret r ''DIRECT_API_KEY''),
             (''COSTON2_RPC_URL'', coston2_rpc), (''QUIET_VAULT'', shown_value (dp_quietVault d)),
             (''TEE_MANAGER'', tee_manager), (''EXTENSION_ID'', extension), (''RELAYER_PRIVATE_KEY'', the relayerKey),
             (''START_BLOCK'', number_shown (dp_startBlock d)), (''POLL_INTERVAL_MS'', ''2000''),
             (''RISK_TICK_INTERVAL_MS'', ''3600000''), (''FCC_INSTRUCTION_FEE_WEI'', ''1000000000000''),
             (''FRONTEND_ORIGIN'', ''https://quietline.vercel.app''), (''LOG_LEVEL'', ''info'')]
            ''Quietline Coston2 V2 relayer''))))"

section \<open>Pausing and retiring machines\<close>

record machine_access =
  ma_manager :: string
  ma_wallet :: string
  ma_signer :: string
  ma_extension :: "number option"

text \<open>What both scripts set up first.\<close>

definition machine_setup :: "ops_env \<Rightarrow> (string \<Rightarrow> string option) \<Rightarrow> (js_error + 'a) \<Rightarrow>
    ('a \<Rightarrow> string \<Rightarrow> js_error + unit) \<Rightarrow> (ops, machine_access \<times> 'a) act" where
  "machine_setup e vars extra check =
     bindA (liftA (deploymentProfilePaths vars)) (\<lambda>paths.
     bindA getA (\<lambda>s.
     let rootEnv = map_of (parseEnv (op_files s) (pf_root paths)) in
     bindA (readDeployment e (coston2DeploymentPath vars)) (\<lambda>d.
     bindA (liftA (requireValue rootEnv ''DEPLOYER_PRIVATE_KEY'' (Some (is_hex_of 64)))) (\<lambda>key.
     bindA (liftA (requireValue rootEnv ''COSTON2_RPC_URL'' (Some is_https))) (\<lambda>rpc.
     bindA (liftA extra) (\<lambda>x.
     bindA (liftA (member_address e (dp_teeSigner d))) (\<lambda>signer.
     bindA (liftA (check x signer)) (\<lambda>_.
     bindA (liftA (o_computeAddress e key)) (\<lambda>wallet.
     bindA (liftA (managerOf d)) (\<lambda>manager.
       ret (\<lparr>ma_manager = manager, ma_wallet = wallet, ma_signer = signer, ma_extension = dp_extensionId d\<rparr>, x)))))))))))"

definition pause_machine :: "ops_env \<Rightarrow> machine_access \<Rightarrow> string \<Rightarrow> string \<Rightarrow> (ops, unit) act" where
  "pause_machine e m tee failure =
     bindA (askOE (o_pause e) (OPause (ma_manager m) tee)) (\<lambda>hash.
     bindA (askOE (o_mined e) (OMined hash)) (\<lambda>status.
       if status \<noteq> 1 then throw (JsError failure) else ret ()))"

definition machine_owner :: "ops_env \<Rightarrow> machine_access \<Rightarrow> string \<Rightarrow> (ops, string) act" where
  "machine_owner e m tee = bindA (askOE (o_owner e) (OOwner (ma_manager m) tee)) (\<lambda>o'. liftA (o_getAddress e o'))"

definition machine_status :: "ops_env \<Rightarrow> string \<Rightarrow> string \<Rightarrow> (ops, status_answer) act" where
  "machine_status e manager tee = askO (o_status e) (OStatus manager tee)"

definition status_number :: "status_answer \<Rightarrow> js_error + number" where
  "status_number a = (case a of StatusIs n \<Rightarrow> Inr n | CallException x \<Rightarrow> Inl x | StatusError x \<Rightarrow> Inl x)"

definition pause_stale_machine :: "ops_env \<Rightarrow> (string \<Rightarrow> string option) \<Rightarrow> (ops, unit) act" where
  "pause_stale_machine e vars =
     bindA (machine_setup e vars
         (case requireValue vars ''STALE_TEE_ID'' (Some (is_hex_of 40)) of
            Inl x \<Rightarrow> Inl x | Inr a \<Rightarrow> o_getAddress e a)
         (\<lambda>stale signer. if stale = signer
            then Inl (JsError ''Refusing to pause the currently configured TEE signer'') else Inr ()))
       (\<lambda>(m, stale).
       bindA (machine_owner e m stale) (\<lambda>owner.
       if owner \<noteq> ma_wallet m then
         throw (JsError (''TEE '' @ stale @ '' is owned by '' @ owner @ '', not the deployer''))
       else bindA (bindA (machine_status e (ma_manager m) stale) (\<lambda>a. liftA (status_number a))) (\<lambda>status.
         if status \<noteq> 2 then ret ()
         else thenA (pause_machine e m stale ''TEE pause transaction reverted'')
           (bindA (bindA (machine_status e (ma_manager m) stale) (\<lambda>a. liftA (status_number a))) (\<lambda>final.
             if final = 2 then throw (JsError ''TEE remains active after pause confirmation'') else ret ())))))"

fun all_addresses :: "ops_env \<Rightarrow> string list \<Rightarrow> js_error + string list" where
  "all_addresses e [] = Inr []"
| "all_addresses e (a # as) = (case o_getAddress e a of
      Inl x \<Rightarrow> Inl x
    | Inr b \<Rightarrow> (case all_addresses e as of Inl x \<Rightarrow> Inl x | Inr bs \<Rightarrow> Inr (b # bs)))"

definition active_machines :: "ops_env \<Rightarrow> machine_access \<Rightarrow> (ops, string list) act" where
  "active_machines e m = (case ma_extension m of
      None \<Rightarrow> throw (JsError ''invalid BigNumberish value'')
    | Some n \<Rightarrow> bindA (askOE (o_active e) (OActive (ma_manager m) n)) (\<lambda>as. liftA (all_addresses e as)))"

definition retire_one :: "ops_env \<Rightarrow> machine_access \<Rightarrow> string \<Rightarrow> (ops, unit) act" where
  "retire_one e m tee =
     (if tee = ma_signer m then ret ()
      else bindA (machine_owner e m tee) (\<lambda>owner.
        if owner \<noteq> ma_wallet m then
          throw (JsError (''Unexpected active TEE '' @ tee @ '' is owned by '' @ owner
            @ ''; refusing an unsafe cutover''))
        else pause_machine e m tee (''Could not pause stale TEE '' @ tee)))"

definition found_text :: "string list \<Rightarrow> string" where
  "found_text as = (if as = [] then ''none''
     else concat (butlast (concat (map (\<lambda>a. [a, '', '']) as))))"

definition retire_with :: "ops_env \<Rightarrow> machine_access \<Rightarrow> (ops, unit) act" where
  "retire_with e m =
     bindA (active_machines e m) (\<lambda>active.
     if ma_signer m \<notin> set active then
       throw (JsError (''Configured signer '' @ ma_signer m @ '' is not active for extension ''
         @ number_shown (ma_extension m)))
     else thenA (forA active (retire_one e m))
       (bindA (active_machines e m) (\<lambda>remaining.
         if remaining \<noteq> [ma_signer m] then
           throw (JsError (''Extension '' @ number_shown (ma_extension m)
             @ '' must have exactly one active TEE; found '' @ found_text remaining))
         else ret ())))"

definition retire_stale_machines :: "ops_env \<Rightarrow> (string \<Rightarrow> string option) \<Rightarrow> (ops, unit) act" where
  "retire_stale_machines e vars =
     bindA (machine_setup e vars (Inr ()) (\<lambda>_ _. Inr ())) (\<lambda>(m, _). retire_with e m)"

section \<open>Registering the extension\<close>

text \<open>The last match of \<open>/0x[0-9a-fA-F]{64}/g\<close>: matches do not overlap.\<close>

fun hex_matches :: "nat \<Rightarrow> string \<Rightarrow> string list" where
  "hex_matches n [] = []"
| "hex_matches n (c # cs) =
     (if is_hex_of n (take (n + 2) (c # cs))
      then take (n + 2) (c # cs) # hex_matches n (drop (n + 1) cs)
      else hex_matches n cs)"

definition addresses_file :: string where
  "addresses_file = ''fcc/coston2-addresses.json''"

definition sync_tooling :: "ops_env \<Rightarrow> (ops, string) act" where
  "sync_tooling e = run_command e ''node'' [''scripts/coston2/sync-fcc-tooling.mjs'']"

definition nibble :: "nat \<Rightarrow> char" where
  "nibble d = (if d < 10 then digit_char d else char_of (87 + d))"

fun hex_digits_of :: "nat \<Rightarrow> string" where
  "hex_digits_of n = (if n < 16 then [nibble n] else hex_digits_of (n div 16) @ [nibble (n mod 16)])"

declare hex_digits_of.simps [simp del]

definition extension_hex :: "nat \<Rightarrow> string" where
  "extension_hex n = ''0x'' @ pad_left 64 (hex_digits_of n)"

definition write_deployment :: "ops_env \<Rightarrow> string \<Rightarrow> deployment \<Rightarrow> (ops, unit) act" where
  "write_deployment e path d = modifyA (\<lambda>s. s\<lparr>op_files := (op_files s)(path \<mapsto>
     o_showDeployment e d (case op_files s path of Some t \<Rightarrow> t | None \<Rightarrow> []))\<rparr>)"

definition write_env :: "string \<Rightarrow> env_object \<Rightarrow> string \<Rightarrow> (ops, unit) act" where
  "write_env path entries heading = modifyA (\<lambda>s. s\<lparr>op_files := writeEnv path entries heading (op_files s)\<rparr>)"

text \<open>The members the script changes keep the other members of the manifest: \<open>o_showDeployment\<close> gets both.\<close>

definition register_extension :: "ops_env \<Rightarrow> (string \<Rightarrow> string option) \<Rightarrow> (ops, unit) act" where
  "register_extension e vars =
     thenA (sync_tooling e)
     (bindA (liftA (deploymentProfilePaths vars)) (\<lambda>paths.
      bindA getA (\<lambda>s.
      let rootEnv = map_of (parseEnv (op_files s) (pf_root paths)); fccEnv = parseEnv (op_files s) (pf_fcc paths);
          relayerEnv = parseEnv (op_files s) (pf_relayer paths); path = coston2DeploymentPath vars in
      bindA (liftA (requireValue rootEnv ''DEPLOYER_PRIVATE_KEY'' (Some (is_hex_of 64)))) (\<lambda>key.
      bindA (readDeployment e path) (\<lambda>d.
      bindA (liftA (requireValue (\<lambda>_. dp_quietVault d) ''QUIET_VAULT'' (Some (is_hex_of 40)))) (\<lambda>vault.
      bindA (liftA (o_computeAddress e key)) (\<lambda>owner.
      bindA (run_command e ''go'' [''run'', ''./cmd/register-extension'', ''-a'', addresses_file, ''-c'',
               shown_value (rootEnv ''COSTON2_RPC_URL''), ''--instructionSender'', vault]) (\<lambda>output.
      case hex_matches 64 output of
        [] \<Rightarrow> throw (JsError ''official FCC tooling did not return an extension ID'')
      | ids \<Rightarrow>
          (case digits_to_nat 16 (drop 2 (last ids)) of
             None \<Rightarrow> throw (JsError ''Cannot convert to a BigInt'')
           | Some n \<Rightarrow>
               if of_nat n > max_safe_integer then
                 throw (JsError ''FCC extension ID exceeds JavaScript's safe integer range'')
               else let d' = d\<lparr>dp_extensionId := Some (of_nat n)\<rparr> in
                 thenA (write_deployment e path d')
                 (thenA (write_env (pf_fcc paths) (obj_spread fccEnv
                    [(''EXTENSION_ID'', extension_hex n), (''INITIAL_OWNER'', owner),
                     (''GOVERNANCE_SIGNERS'', owner), (''QUIET_VAULT'', vault)]) ''Quietline real FCC deployment'')
                 (bindA (liftA (managerOf d')) (\<lambda>manager.
                  thenA (write_env (pf_relayer paths) (obj_spread relayerEnv
                    [(''QUIET_VAULT'', vault), (''TEE_MANAGER'', manager),
                     (''EXTENSION_ID'', number_shown (dp_extensionId d')),
                     (''START_BLOCK'', number_shown (dp_startBlock d'))]) ''Quietline Coston2 relayer'')
                  (thenA (run_command e ''corepack'' [''pnpm'', ''--filter'', ''@quietline/contracts'',
                      ''set-extension:coston2'']) (ret ()))))))))))))))"

section \<open>Registering the machine\<close>

definition proxy_failure :: "int \<Rightarrow> js_error" where
  "proxy_failure status = JsError (''proxy returned '' @ show_int status)"

definition answered_ok :: "proxy_answer \<Rightarrow> bool" where
  "answered_ok a = (200 \<le> px_status a \<and> px_status a \<le> 299)"

text \<open>One try of \<open>waitForStableProxy\<close>; \<open>None\<close> is success.\<close>

definition probe :: "ops_env \<Rightarrow> string \<Rightarrow> (ops, js_error option) act" where
  "probe e url = bindA (askO (o_info e) (OInfo url)) (\<lambda>r. ret (case r of
      Inl x \<Rightarrow> Some x
    | Inr a \<Rightarrow> if \<not> answered_ok a then Some (proxy_failure (px_status a))
        else (case px_bytes a of Inl x \<Rightarrow> Some x | Inr _ \<Rightarrow> None)))"

definition unstable :: "js_error option \<Rightarrow> js_error" where
  "unstable x = JsError (''FCC proxy did not stabilize: ''
     @ (case x of Some err \<Rightarrow> ''Error: '' @ error_message err | None \<Rightarrow> ''undefined''))"

text \<open>\<open>left\<close> attempts are left, \<open>n\<close> successes were consecutive.\<close>

fun stable_loop :: "ops_env \<Rightarrow> string \<Rightarrow> nat \<Rightarrow> nat \<Rightarrow> js_error option \<Rightarrow> (ops, unit) act" where
  "stable_loop e url 0 n lastError = throw (unstable lastError)"
| "stable_loop e url (Suc left) n lastError = bindA (probe e url) (\<lambda>outcome.
     case outcome of
       None \<Rightarrow> if n + 1 \<ge> 3 then ret () else thenA (sleep 2000) (stable_loop e url left (n + 1) lastError)
     | Some x \<Rightarrow> thenA (sleep 2000) (stable_loop e url left 0 (Some x)))"

definition waitForStableProxy :: "ops_env \<Rightarrow> string \<Rightarrow> (ops, unit) act" where
  "waitForStableProxy e url = stable_loop e url 30 0 None"

text \<open>\<open>left\<close> further attempts are allowed after this one.\<close>

fun retry_loop :: "ops_env \<Rightarrow> string \<Rightarrow> string \<Rightarrow> string list \<Rightarrow> nat \<Rightarrow> (ops, string) act" where
  "retry_loop e url command args left =
     tryA (run_command e command args) (\<lambda>x. case left of
       0 \<Rightarrow> throw x
     | Suc k \<Rightarrow> thenA (sleep 10000) (thenA (waitForStableProxy e url) (retry_loop e url command args k)))"

definition runWithRetry :: "ops_env \<Rightarrow> string \<Rightarrow> string \<Rightarrow> string list \<Rightarrow> (ops, string) act" where
  "runWithRetry e url command args = retry_loop e url command args 3"

definition machineIdentity :: "ops_env \<Rightarrow> string \<Rightarrow> (ops, string) act" where
  "machineIdentity e url = bindA (askOE (o_info e) (OInfo url)) (\<lambda>a.
     if \<not> answered_ok a then throw (proxy_failure (px_status a))
     else bindA (liftA (px_info a)) (\<lambda>info.
       let key = (case info_machine_key info of Some k \<Rightarrow> Some k | None \<Rightarrow> info_tee_key info) in
       case (present (Option.bind key pk_x), present (Option.bind key pk_y)) of
         (Some x, Some y) \<Rightarrow> liftA (o_keyAddress e x y)
       | _ \<Rightarrow> throw (JsError ''FCC proxy info does not contain the TEE public key'')))"

text \<open>A status of 2 is production; a reverted read counts as 0.\<close>

definition machineIsProduction :: "ops_env \<Rightarrow> string \<Rightarrow> (ops, bool) act" where
  "machineIsProduction e url =
     bindA (machineIdentity e url) (\<lambda>tee.
     bindA getA (\<lambda>s.
     bindA (liftA (case op_files s addresses_file of
         None \<Rightarrow> Inl (JsError (''ENOENT: no such file or directory, open '' @ addresses_file))
       | Some t \<Rightarrow> o_parseManager e t)) (\<lambda>manager.
     bindA (machine_status e manager tee) (\<lambda>a. case a of
         StatusIs n \<Rightarrow> ret (n = 2)
       | CallException _ \<Rightarrow> ret False
       | StatusError x \<Rightarrow> throw x))))"

definition register_args :: "string \<Rightarrow> string \<Rightarrow> string option \<Rightarrow> string list" where
  "register_args rpc url normal = [''run'', ''./cmd/register-tee'', ''-a'', addresses_file, ''-c'', rpc, ''-p'', url,
     ''-h'', url, ''-ep'', shown_value normal, ''-state'', ''.cache/register-tee.state'', ''-command'', ''rRap'']"

text \<open>The part that puts the machine into production, or finds it there.\<close>

definition ensure_production :: "ops_env \<Rightarrow> string \<Rightarrow> string list \<Rightarrow> (ops, unit) act" where
  "ensure_production e url args =
     bindA (machineIsProduction e url) (\<lambda>production.
     if production then ret ()
     else thenA (tryA (runWithRetry e url ''go'' args) (\<lambda>x.
         bindA (machineIsProduction e url) (\<lambda>final. if \<not> final then throw x else ret [])))
       (ret ()))"

definition register_machine :: "ops_env \<Rightarrow> (string \<Rightarrow> string option) \<Rightarrow> (ops, unit) act" where
  "register_machine e vars =
     thenA (sync_tooling e)
     (bindA (liftA (deploymentProfilePaths vars)) (\<lambda>paths.
      bindA getA (\<lambda>s.
      let rootEnv = map_of (parseEnv (op_files s) (pf_root paths));
          fccEnv = map_of (parseEnv (op_files s) (pf_fcc paths));
          rpc = shown_value (rootEnv ''COSTON2_RPC_URL'') in
      bindA (liftA (requireValue rootEnv ''DEPLOYER_PRIVATE_KEY'' (Some (is_hex_of 64)))) (\<lambda>key.
      bindA (liftA (requireValue fccEnv ''EXT_PROXY_URL'' (Some is_https))) (\<lambda>url.
      bindA (liftA (requireValue fccEnv ''INITIAL_OWNER'' (Some (is_hex_of 40)))) (\<lambda>owner.
      bindA (liftA (requireValue fccEnv ''EXTENSION_ID'' (Some (is_hex_of 64)))) (\<lambda>_.
      if fccEnv ''SIMULATED_TEE'' \<noteq> Some ''true'' \<or> fccEnv ''MODE'' \<noteq> Some ''1'' then
        throw (JsError ''Coston2 judging registration requires SIMULATED_TEE=true and MODE=1'')
      else
        thenA (waitForStableProxy e url)
        (thenA (runWithRetry e url ''go'' [''run'', ''./cmd/allow-tee-version'', ''-a'', addresses_file, ''-c'', rpc,
            ''-p'', url, ''-version'', ''quietline-v0.1.1''])
        (thenA (runWithRetry e url ''go'' [''run'', ''./cmd/set-governance'', ''-a'', addresses_file, ''-c'', rpc,
            ''-p'', url])
        (thenA (ensure_production e url (register_args rpc url (fccEnv ''NORMAL_PROXY_URL'')))
        (thenA (runWithRetry e url ''corepack'' [''pnpm'', ''--filter'', ''@quietline/contracts'', ''configure:coston2''])
        (thenA (runWithRetry e url ''corepack'' [''pnpm'', ''--filter'', ''@quietline/contracts'', ''verify:coston2''])
        (bindA (readDeployment e (coston2DeploymentPath vars)) (\<lambda>d.
         bindA (liftA (managerOf d)) (\<lambda>manager.
         bindA getA (\<lambda>t.
         thenA (write_env (pf_relayer paths) (obj_spread (parseEnv (op_files t) (pf_relayer paths))
            [(''TEE_MANAGER'', manager), (''EXTENSION_ID'', number_shown (dp_extensionId d))]) ''Quietline Coston2 relayer'')
         (thenA (run_command e ''node'' [''scripts/coston2/retire-stale-machines.mjs'']) (ret ()))))))))))))))))))"

section \<open>Checks before a deployment\<close>

datatype check_status = CheckReady | CheckWaiting | CheckFailed

type_synonym checks = "(string \<times> check_status) list"

definition ready_if :: "bool \<Rightarrow> check_status \<Rightarrow> check_status" where
  "ready_if ok other = (if ok then CheckReady else other)"

definition chain_rpc :: "ops_env \<Rightarrow> string \<Rightarrow> string list \<Rightarrow> (ops, string) act" where
  "chain_rpc e meth params = askOE (o_rpc e) (ORpc meth params)"

definition required_contracts :: "(string \<times> string) list" where
  "required_contracts =
     [(''FlareTeeManager'', ''0x1a9C4A0f9D76c0b1D91d22E24E573a9b377618aE''),
      (''FTSOv2'', ''0xC4e9c78EA53db782E28f28Fdf80BaF59336B304d''),
      (''FXRP'', ''0x0b6A3645c240605887a5532109323A3E12273dc7''),
      (''USDT0'', ''0xC1A5B41512496B80903D1f32d6dEa3a73212E71F'')]"


definition contract_checks :: "ops_env \<Rightarrow> (ops, checks) act" where
  "contract_checks e = eachA (\<lambda>(name, address).
     bindA (chain_rpc e ''eth_getCode'' [address, ''latest'']) (\<lambda>code.
       ret (name, ready_if (code \<noteq> ''0x'') CheckFailed))) required_contracts"

definition value_checks :: "env_object \<Rightarrow> env_object \<Rightarrow> env_object \<Rightarrow> checks" where
  "value_checks rt rl fc = map (\<lambda>(name, x). (name, if isPlaceholder x then CheckWaiting else CheckReady))
     [(''DEPLOYER_PRIVATE_KEY'', map_of rt ''DEPLOYER_PRIVATE_KEY''),
      (''RELAYER_PRIVATE_KEY'', map_of rl ''RELAYER_PRIVATE_KEY''),
      (''FCC_PROXY_URL'', map_of fc ''EXT_PROXY_URL''), (''FCC_CODE_HASH'', map_of fc ''FCC_CODE_HASH''),
      (''INDEXER_DB_HOST'', map_of fc ''INDEXER_DB_HOST''), (''INDEXER_DB_NAME'', map_of fc ''INDEXER_DB_NAME''),
      (''INDEXER_DB_USER'', map_of fc ''INDEXER_DB_USER''),
      (''INDEXER_DB_PASSWORD'', map_of fc ''INDEXER_DB_PASSWORD'')]"

definition balance_check :: "ops_env \<Rightarrow> string \<times> string \<times> int \<Rightarrow> (ops, string \<times> check_status) act" where
  "balance_check e = (\<lambda>(name, address, minimum).
     bindA (chain_rpc e ''eth_getBalance'' [address, ''latest'']) (\<lambda>t. case string_to_bigint t of
         None \<Rightarrow> throw (JsError ''Cannot convert to a BigInt'')
       | Some balance \<Rightarrow> ret (name @ '' (>= '' @ show_int (minimum div 10 ^ 18) @ '')'',
           ready_if (minimum \<le> balance) CheckWaiting)))"

definition wallet_checks :: "ops_env \<Rightarrow> env_object \<Rightarrow> env_object \<Rightarrow> (ops, checks) act" where
  "wallet_checks e rt rl =
     (let deployerKey = or_else (map_of rt ''DEPLOYER_PRIVATE_KEY'') '''';
          relayerKey = or_else (map_of rl ''RELAYER_PRIVATE_KEY'') '''' in
      if is_hex_of 64 deployerKey \<and> is_hex_of 64 relayerKey then
        bindA (liftA (o_computeAddress e deployerKey)) (\<lambda>deployer.
        bindA (liftA (o_computeAddress e relayerKey)) (\<lambda>relayer.
        bindA (balance_check e (''Deployer C2FLR'', deployer, 1000000000000000000)) (\<lambda>c1.
        bindA (balance_check e (''Relayer C2FLR'', relayer, 2000000000000000000)) (\<lambda>c2.
          ret [(''Separate wallet roles'', ready_if (lower deployer \<noteq> lower relayer) CheckFailed), c1, c2]))))
      else ret [])"

definition machine_checks :: "ops_env \<Rightarrow> deployment \<Rightarrow> (ops, checks) act" where
  "machine_checks e d = (case (dp_extensionId d, dp_teeSigner d) of
      (Some n, Some tee) \<Rightarrow>
        if is_safe_integer n \<and> n \<ge> 65536 \<and> is_hex_of 40 tee then
          bindA (liftA (managerOf d)) (\<lambda>manager.
          bindA (askOE (o_active e) (OActive manager n)) (\<lambda>as.
          bindA (liftA (all_addresses e as)) (\<lambda>active.
          bindA (if length active = 1 then bindA (liftA (o_getAddress e tee)) (\<lambda>t. ret (hd active = t)) else ret False)
            (\<lambda>ok. ret [(''Exactly one active FCC machine'', ready_if ok CheckFailed)]))))
        else ret []
    | _ \<Rightarrow> ret [])"

text \<open>The table that is printed; the exit code is 1 when a check failed.\<close>

definition preflight :: "ops_env \<Rightarrow> (string \<Rightarrow> string option) \<Rightarrow> (ops, checks \<times> bool) act" where
  "preflight e vars =
     bindA (liftA (deploymentProfilePaths vars)) (\<lambda>paths.
     bindA getA (\<lambda>s.
     let rt = parseEnv (op_files s) (pf_root paths); rl = parseEnv (op_files s) (pf_relayer paths);
         fc = parseEnv (op_files s) (pf_fcc paths) in
     bindA (readDeployment e (coston2DeploymentPath vars)) (\<lambda>d.
     bindA (chain_rpc e ''eth_chainId'' []) (\<lambda>chainId.
     bindA (contract_checks e) (\<lambda>contracts.
     bindA (askOE (o_info e) (OInfo (shown_value (map_of fc ''NORMAL_PROXY_URL'')))) (\<lambda>proxy.
     bindA (wallet_checks e rt rl) (\<lambda>wallets.
     bindA (machine_checks e d) (\<lambda>machines.
     bindA (outcomeA (run_command e ''docker'' [''info''])) (\<lambda>docker.
       let checks = [(''Coston2 RPC'', ready_if (chainId = ''0x72'') CheckFailed)] @ contracts
         @ [(''Official FTDC proxy'', ready_if (answered_ok proxy) CheckFailed)] @ value_checks rt rl fc @ wallets
         @ [(''Simulated judging mode'', ready_if (map_of fc ''MODE'' = Some ''1''
              \<and> map_of fc ''SIMULATED_TEE'' = Some ''true'') CheckFailed)] @ machines
         @ [(''Docker engine'', case docker of Inr _ \<Rightarrow> CheckReady | Inl _ \<Rightarrow> CheckWaiting)]
       in ret (checks, list_ex (\<lambda>c. snd c = CheckFailed) checks))))))))))"

section \<open>Tooling and images\<close>

text \<open>
  \<open>present\<close> is whether the clone exists; removing a broken one is not modelled beyond the clone
  that follows it. The commands are run in the clone.
\<close>

definition sync_fcc_tooling :: "ops_env \<Rightarrow> bool \<Rightarrow> string \<Rightarrow> string \<Rightarrow> (ops, unit) act" where
  "sync_fcc_tooling e cloned repository commit =
     thenA (if cloned then ret []
       else run_command e ''git'' [''clone'', ''--filter=blob:none'', repository, ''.cache/fce-extension-scaffold''])
     (thenA (run_command e ''git'' [''fetch'', ''--depth'', ''1'', ''origin'', commit])
     (thenA (run_command e ''git'' [''checkout'', ''--detach'', commit])
     (bindA (run_command e ''git'' [''rev-parse'', ''HEAD'']) (\<lambda>out. let actual = js_trim out in
       if actual \<noteq> commit then
         throw (JsError (''FCC tooling commit mismatch: expected '' @ commit @ '', got '' @ actual))
       else ret ()))))"

definition build_images :: "ops_env \<Rightarrow> string option \<Rightarrow> (ops, unit) act" where
  "build_images e argument =
     bindA (run_command e ''git'' [''log'', ''-1'', ''--format=%ct'']) (\<lambda>out.
     let target = or_else argument ''all'' in
     if target \<notin> {''all'', ''extension'', ''relayer''} then
       throw (JsError ''image target must be all, extension, or relayer'')
     else
       thenA (if target \<noteq> ''relayer'' then run_command e ''docker'' [''build'', ''--build-arg'',
           ''SOURCE_DATE_EPOCH='' @ js_trim out, ''-t'', ''quietline-extension:v0.1.2'', ''extension''] else ret [])
       (thenA (if target \<noteq> ''extension'' then run_command e ''docker'' [''build'', ''-f'', ''relayer/Dockerfile'',
           ''-t'', ''quietline-relayer:v0.1.2'', ''.''] else ret [])
         (ret ())))"

section \<open>Calls\<close>

lemma wp_askO [wp_simps]:
  "wp (askO f c) Q E s = Q (f (c # op_calls s)) (s\<lparr>op_calls := c # op_calls s\<rparr>)"
  by (simp add: wp_def askO_def Let_def)

lemma wp_askOE [wp_simps]:
  "wp (askOE f c) Q E s = (case f (c # op_calls s) of
      Inl x \<Rightarrow> E x (s\<lparr>op_calls := c # op_calls s\<rparr>)
    | Inr y \<Rightarrow> Q y (s\<lparr>op_calls := c # op_calls s\<rparr>))"
  by (simp add: askOE_def wp_simps)

lemma total_asks [intro!, simp]: "total (askO f c)" "total (askOE g c)"
  by (simp_all add: total_def ends_def askO_def askOE_def act_defs Let_def split: sum.splits)

lemma total_commands [intro!, simp]: "total (run_command e c a)" "total (sleep n)" "total (chain_rpc e c a)"
  by (simp_all add: run_command_def sleep_def chain_rpc_def)

section \<open>Retiring\<close>

text \<open>
  Among the calls since the history was \<open>old\<close>, newest first, every machine paused is not the
  configured one and was just found to be owned by the deployer.
\<close>

fun careful :: "ops_env \<Rightarrow> machine_access \<Rightarrow> ops_call list \<Rightarrow> ops_call list \<Rightarrow> bool" where
  "careful e m old [] = True"
| "careful e m old (c # new) = (careful e m old new \<and> (case c of
      OPause manager tee \<Rightarrow> tee \<noteq> ma_signer m \<and> (case new of
          OOwner manager' tee' # _ \<Rightarrow> manager' = manager \<and> tee' = tee
            \<and> (case o_owner e (new @ old) of Inl _ \<Rightarrow> False | Inr o' \<Rightarrow> o_getAddress e o' = Inr (ma_wallet m))
        | _ \<Rightarrow> False)
    | _ \<Rightarrow> True))"

lemma careful_append:
  "careful e m old n1 \<Longrightarrow> careful e m (n1 @ old) n2 \<Longrightarrow> careful e m old (n2 @ n1)"
  by (induction n2) (auto split: ops_call.splits list.splits)

definition carefully :: "ops_env \<Rightarrow> machine_access \<Rightarrow> ops \<Rightarrow> ops \<Rightarrow> bool" where
  "carefully e m s t = (\<exists>new. op_calls t = new @ op_calls s \<and> careful e m (op_calls s) new)"

interpretation careful_frame: frame "carefully e m" for e m
proof
  show "carefully e m s s" for s by (auto simp: carefully_def)
  show "carefully e m s u" if st: "carefully e m s t" and tu: "carefully e m t u" for s t u
  proof -
    obtain n1 n2 where "op_calls t = n1 @ op_calls s" "careful e m (op_calls s) n1"
      "op_calls u = n2 @ op_calls t" "careful e m (op_calls t) n2"
      using st tu by (auto simp: carefully_def)
    then show ?thesis using careful_append [of e m "op_calls s" n1 n2] by (auto simp: carefully_def)
  qed
qed

lemma careful_ask:
  "(\<And>mg tee. c \<noteq> OPause mg tee) \<Longrightarrow> keeps (carefully e m) (askOE f c)"
  by (auto simp: keeps_def carefully_def askOE_def askO_def bindA_def liftA_def Let_def split: ops_call.split
      intro!: exI [of _ "[c]"])

lemma careful_active: "keeps (carefully e m) (active_machines e m)"
  unfolding active_machines_def
  by (auto intro!: careful_frame.keeps_intros careful_ask split: option.split)

lemma careful_one: "keeps (carefully e m) (retire_one e m tee)"
proof (rule wp_keeps)
  fix s
  have owner: "carefully e m s (s\<lparr>op_calls := OOwner mg t # op_calls s\<rparr>)" for mg t
    by (auto simp: carefully_def intro!: exI [of _ "[OOwner mg t]"])
  have pause: "carefully e m s (s\<lparr>op_calls := xs @ OPause (ma_manager m) tee # OOwner (ma_manager m) tee # op_calls s\<rparr>)"
    if "tee \<noteq> ma_signer m" "o_owner e (OOwner (ma_manager m) tee # op_calls s) = Inr w"
      "o_getAddress e w = Inr (ma_wallet m)" "xs = [] \<or> (\<exists>h. xs = [OMined h])" for w xs
    using that by (auto simp: carefully_def
        intro!: exI [of _ "xs @ [OPause (ma_manager m) tee, OOwner (ma_manager m) tee]"])
  show "wp (retire_one e m tee) (\<lambda>_. carefully e m s) (\<lambda>_. carefully e m s) s"
    using owner pause [of _ "[]"] pause [of _ "[OMined h]" for h] careful_frame.refl
    by (auto simp: retire_one_def machine_owner_def pause_machine_def wp_simps split: sum.split)
qed

lemma careful_retire: "keeps (carefully e m) (retire_with e m)"
  unfolding retire_with_def
  by (auto intro!: careful_frame.keeps_intros careful_active careful_one)

lemma total_retire [intro!]: "total (retire_one e m tee)" "total (active_machines e m)" "total (retire_with e m)"
proof -
  show one: "total (retire_one e m tee)" for tee
    unfolding retire_one_def machine_owner_def pause_machine_def by (auto intro!: total_intros)
  show active: "total (active_machines e m)"
    unfolding active_machines_def by (auto intro!: total_intros split: option.split)
  show "total (retire_with e m)"
    unfolding retire_with_def by (auto intro!: total_intros one active)
qed

text \<open>The last thing asked was which machines are active, and the answer is the configured one alone.\<close>

definition only_signer_active :: "ops_env \<Rightarrow> machine_access \<Rightarrow> ops \<Rightarrow> bool" where
  "only_signer_active e m s = (case op_calls s of
      OActive manager n # _ \<Rightarrow> manager = ma_manager m \<and> ma_extension m = Some n
        \<and> (case o_active e (op_calls s) of Inl _ \<Rightarrow> False | Inr as \<Rightarrow> all_addresses e as = Inr [ma_signer m])
    | _ \<Rightarrow> False)"

lemma retire_leaves: "leaves (\<lambda>_. only_signer_active e m) (retire_with e m)"
proof -
  have last: "wp (active_machines e m) (\<lambda>as s. as = [ma_signer m] \<longrightarrow> only_signer_active e m s) (\<lambda>_ _. True) s" for s
    by (auto simp: active_machines_def only_signer_active_def wp_simps split: option.split sum.split)
  have inner: "leaves (\<lambda>_. only_signer_active e m) (bindA (active_machines e m) (\<lambda>remaining.
         if remaining \<noteq> [ma_signer m] then throw (err remaining) else ret ()))" for err
  proof -
    have w: "wp (bindA (active_machines e m) (\<lambda>remaining.
         if remaining \<noteq> [ma_signer m] then throw (err remaining) else ret ())) (\<lambda>_. only_signer_active e m) (\<lambda>_ _. True) s" for s
      unfolding wp_bindA by (rule wp_mono [OF last]) (auto simp: wp_simps)
    show ?thesis unfolding leaves_def by (blast intro: wp_Some [OF w])
  qed
  show ?thesis
    unfolding retire_with_def by (rule leaves_bindA) (simp add: leaves_thenA leaves_throw inner)
qed

section \<open>Retrying\<close>

definition answers_at :: "ops_env \<Rightarrow> ops_call list \<Rightarrow> bool" where
  "answers_at e h = (case o_info e h of
      Inl _ \<Rightarrow> False
    | Inr a \<Rightarrow> answered_ok a \<and> (case px_bytes a of Inl _ \<Rightarrow> False | Inr _ \<Rightarrow> True))"

text \<open>The history ends with \<open>n\<close> good probes, each slept on.\<close>

fun streak :: "ops_env \<Rightarrow> string \<Rightarrow> nat \<Rightarrow> ops_call list \<Rightarrow> bool" where
  "streak e url 0 h = True"
| "streak e url (Suc n) (OSleep ms # OInfo u # h) = (u = url \<and> answers_at e (OInfo u # h) \<and> streak e url n h)"
| "streak e url (Suc n) h = False"

definition stable_at :: "ops_env \<Rightarrow> string \<Rightarrow> ops_call list \<Rightarrow> bool" where
  "stable_at e url h = (case h of
      OInfo u # t \<Rightarrow> u = url \<and> answers_at e h \<and> streak e url 2 t
    | _ \<Rightarrow> False)"

text \<open>At most \<open>k\<close> probes and sleeps more, and no command.\<close>

definition probes_within :: "nat \<Rightarrow> ops \<Rightarrow> ops \<Rightarrow> bool" where
  "probes_within k s t = (op_files t = op_files s \<and> (\<exists>new. op_calls t = new @ op_calls s \<and> length new \<le> 2 * k
     \<and> list_all (\<lambda>c. case c of OInfo _ \<Rightarrow> True | OSleep _ \<Rightarrow> True | _ \<Rightarrow> False) new))"

lemma wp_probe [wp_simps]:
  "wp (probe e url) Q E s = Q (if answers_at e (OInfo url # op_calls s) then None
     else Some (case o_info e (OInfo url # op_calls s) of
         Inl x \<Rightarrow> x
       | Inr a \<Rightarrow> if \<not> answered_ok a then proxy_failure (px_status a) else projl (px_bytes a)))
     (s\<lparr>op_calls := OInfo url # op_calls s\<rparr>)"
  by (simp add: probe_def wp_simps answers_at_def split: sum.split)

lemma wp_sleep [wp_simps]: "wp (sleep ms) Q E s = Q () (s\<lparr>op_calls := OSleep ms # op_calls s\<rparr>)"
  by (simp add: sleep_def wp_simps)

lemma probes_later:
  assumes "probes_within k (s\<lparr>op_calls := OSleep ms # OInfo url # op_calls s\<rparr>) t"
  shows "probes_within (Suc k) s t"
proof -
  obtain new where "op_calls t = new @ OSleep ms # OInfo url # op_calls s" "length new \<le> 2 * k"
    "list_all (\<lambda>c. case c of OInfo _ \<Rightarrow> True | OSleep _ \<Rightarrow> True | _ \<Rightarrow> False) new" "op_files t = op_files s"
    using assms by (auto simp: probes_within_def)
  then show ?thesis
    by (auto simp: probes_within_def intro!: exI [of _ "new @ [OSleep ms, OInfo url]"])
qed

lemma stable_loop_wp:
  "streak e url n (op_calls s) \<Longrightarrow> n \<le> 2 \<Longrightarrow>
   wp (stable_loop e url k n x)
     (\<lambda>_ t. probes_within k s t \<and> stable_at e url (op_calls t)) (\<lambda>_ t. probes_within k s t) s"
proof (induction k arbitrary: n x s)
  case 0
  then show ?case by (auto simp: wp_simps probes_within_def)
next
  case (Suc k)
  let ?t = "s\<lparr>op_calls := OInfo url # op_calls s\<rparr>"
  have one: "probes_within (Suc k) s ?t"
    by (auto simp: probes_within_def intro!: exI [of _ "[OInfo url]"])
  have again: "wp (stable_loop e url k n' x') (\<lambda>_ t. probes_within (Suc k) s t \<and> stable_at e url (op_calls t))
      (\<lambda>_ t. probes_within (Suc k) s t) (s\<lparr>op_calls := OSleep ms # OInfo url # op_calls s\<rparr>)"
    if "streak e url n' (OSleep ms # OInfo url # op_calls s)" "n' \<le> 2" for n' x' ms
    by (rule wp_mono [OF Suc.IH [of n' "s\<lparr>op_calls := OSleep ms # OInfo url # op_calls s\<rparr>" x']])
      (use that probes_later in auto)
  show ?case
  proof (cases "answers_at e (OInfo url # op_calls s)")
    case True
    then show ?thesis
      using Suc.prems again [of "Suc n"] one
      by (cases "n = 2") (simp_all add: wp_simps stable_at_def)
  next
    case False
    then show ?thesis using again [of 0] by (simp add: wp_simps)
  qed
qed

lemma total_stable: "total (stable_loop e url k n x)"
  by (induction k arbitrary: n x) (auto simp: probe_def intro!: total_intros split: option.split)

lemma stable_proxy_wp:
  "wp (waitForStableProxy e url) (\<lambda>_ t. probes_within 30 s t \<and> stable_at e url (op_calls t))
     (\<lambda>_ t. probes_within 30 s t) s"
  unfolding waitForStableProxy_def by (rule stable_loop_wp) simp_all

text \<open>The runs among some calls.\<close>

definition runs_in :: "ops_call list \<Rightarrow> ops_call list" where
  "runs_in h = filter (\<lambda>c. case c of ORun _ _ \<Rightarrow> True | _ \<Rightarrow> False) h"

lemma runs_in_simps [simp]:
  "runs_in [] = []" "runs_in (xs @ ys) = runs_in xs @ runs_in ys"
  "runs_in (ORun c a # xs) = ORun c a # runs_in xs" "runs_in (OSleep n # xs) = runs_in xs"
  by (simp_all add: runs_in_def)

text \<open>At most \<open>k\<close> runs of one command, and at most \<open>62 * k\<close> calls in all.\<close>

definition runs_within :: "string \<Rightarrow> string list \<Rightarrow> nat \<Rightarrow> ops \<Rightarrow> ops \<Rightarrow> bool" where
  "runs_within command args k s t = (op_files t = op_files s \<and> (\<exists>new. op_calls t = new @ op_calls s
     \<and> 1 \<le> length (runs_in new) \<and> length (runs_in new) \<le> k \<and> set (runs_in new) = {ORun command args}
     \<and> length new \<le> 62 * k))"

lemma no_runs: "probes_within k s t \<Longrightarrow> \<exists>new. op_calls t = new @ op_calls s \<and> runs_in new = [] \<and> length new \<le> 2 * k
    \<and> op_files t = op_files s"
  by (auto simp: probes_within_def runs_in_def list_all_iff filter_empty_conv split: ops_call.splits
      intro!: exI)

lemma retry_loop_wp:
  "wp (retry_loop e url command args k)
     (\<lambda>out t. runs_within command args (Suc k) s t
        \<and> (\<exists>h. op_calls t = ORun command args # h \<and> o_run e (op_calls t) = Inr out))
     (\<lambda>_ t. runs_within command args (Suc k) s t) s"
proof (induction k arbitrary: s)
  case 0
  have "runs_within command args (Suc 0) s (s\<lparr>op_calls := ORun command args # op_calls s\<rparr>)"
    by (auto simp: runs_within_def intro!: exI [of _ "[ORun command args]"])
  then show ?case by (auto simp: run_command_def wp_simps split: sum.split)
next
  case (Suc k)
  let ?t = "s\<lparr>op_calls := ORun command args # op_calls s\<rparr>"
  have one: "runs_within command args (Suc (Suc k)) s ?t"
    by (auto simp: runs_within_def intro!: exI [of _ "[ORun command args]"])
  have waited: "runs_within command args (Suc (Suc k)) s u"
    if p: "probes_within 30 (s\<lparr>op_calls := OSleep ms # ORun command args # op_calls s\<rparr>) u" for ms u
  proof -
    obtain new where "op_calls u = new @ OSleep ms # ORun command args # op_calls s" "runs_in new = []"
      "length new \<le> 60" "op_files u = op_files s"
      using no_runs [OF p] by auto
    then show ?thesis
      by (auto simp: runs_within_def intro!: exI [of _ "new @ [OSleep ms, ORun command args]"])
  qed
  have more: "runs_within command args (Suc (Suc k)) s v"
    if u: "probes_within 30 (s\<lparr>op_calls := OSleep ms # ORun command args # op_calls s\<rparr>) u"
      and v: "runs_within command args (Suc k) u v" for ms u v
  proof -
    obtain new where new: "op_calls u = new @ OSleep ms # ORun command args # op_calls s" "runs_in new = []"
      "length new \<le> 60" "op_files u = op_files s"
      using no_runs [OF u] by auto
    obtain later where "op_calls v = later @ op_calls u" "length (runs_in later) \<le> Suc k"
      "set (runs_in later) = {ORun command args}" "length later \<le> 62 * Suc k" "op_files v = op_files u"
      using v by (auto simp: runs_within_def)
    then show ?thesis
      using new by (auto simp: runs_within_def
          intro!: exI [of _ "later @ new @ [OSleep ms, ORun command args]"])
  qed
  show ?case
  proof (cases "o_run e (ORun command args # op_calls s)")
    case (Inr out)
    then show ?thesis using one by (simp add: run_command_def wp_simps)
  next
    case (Inl x)
    have "wp (waitForStableProxy e url) (\<lambda>_. wp (retry_loop e url command args k)
        (\<lambda>out t. runs_within command args (Suc (Suc k)) s t
           \<and> (\<exists>h. op_calls t = ORun command args # h \<and> o_run e (op_calls t) = Inr out))
        (\<lambda>_ t. runs_within command args (Suc (Suc k)) s t))
      (\<lambda>_ t. runs_within command args (Suc (Suc k)) s t)
      (s\<lparr>op_calls := OSleep ms # ORun command args # op_calls s\<rparr>)" for ms
      by (rule wp_mono [OF stable_proxy_wp])
        (auto intro: waited more wp_mono [OF Suc.IH] simp del: retry_loop.simps)
    then show ?thesis using Inl by (simp add: run_command_def wp_simps)
  qed
qed

lemma total_retry: "total (retry_loop e url command args k)"
  by (induction k) (auto simp: waitForStableProxy_def intro!: total_intros total_stable split: nat.split)

section \<open>A missing entry in the second profile\<close>

text \<open>What the first profile lacks the second one names with the word \<open>undefined\<close>, no placeholder.\<close>

lemma v2_profile_undefined:
  assumes "prepare_v2_profile r vars d fs = Some (Inr (), fs')"
    and "map_of (parseEnv fs ''fcc/.env.coston2'') ''INDEXER_DB_HOST'' = None"
  shows "(\<exists>vs heading. fs' ''fcc/.env.coston2-v2'' = Some (env_text vs heading)
      \<and> map_of vs ''INDEXER_DB_HOST'' = Some ''undefined'') \<and> \<not> isPlaceholder (Some ''undefined'')"
proof (rule conjI)
  show "\<exists>vs heading. fs' ''fcc/.env.coston2-v2'' = Some (env_text vs heading)
      \<and> map_of vs ''INDEXER_DB_HOST'' = Some ''undefined''"
    using assms
    by (auto simp: prepare_v2_profile_def act_defs writeEnv_def shown_value_def Let_def split: if_splits
        intro!: exI)
  show "\<not> isPlaceholder (Some ''undefined'')" by code_simp
qed

section \<open>Properties\<close>

text \<open>
  C24. Retiring stale machines always ends. It pauses a machine only when it is not the configured
  signer and was just found to be owned by the deployer, and it succeeds only when the manager's
  last answer was that the configured signer is the one active machine; without a usable profile,
  manifest or key it asks nothing.
\<close>
theorem retire_leaves_one:
  "\<exists>r q. retire_stale_machines e vars s = Some (r, q)
    \<and> (case machine_setup e vars (Inr ()) (\<lambda>_ _. Inr ()) s of
         None \<Rightarrow> False
       | Some (Inl x, _) \<Rightarrow> r = Inl x \<and> q = s
       | Some (Inr (m, _), _) \<Rightarrow> carefully e m s q
           \<and> (case r of Inl _ \<Rightarrow> True | Inr _ \<Rightarrow> only_signer_active e m q))"
proof -
  have prepared: "\<exists>r. machine_setup e vars (Inr ()) (\<lambda>_ _. Inr ()) s = Some (r, s)"
    by (auto simp: machine_setup_def readDeployment_def act_defs Let_def split: sum.split)
  then obtain r0 where r0: "machine_setup e vars (Inr ()) (\<lambda>_ _. Inr ()) s = Some (r0, s)" by blast
  show ?thesis
  proof (cases r0)
    case (Inl x)
    then show ?thesis by (simp add: retire_stale_machines_def bindA_def r0)
  next
    case (Inr mx)
    obtain m where m: "mx = (m, ())" by (cases mx) auto
    obtain r q where run: "retire_with e m s = Some (r, q)"
      using total_ends [OF total_retire(3)] by (rule endsE)
    then show ?thesis
      using keepsD [OF careful_retire run] leavesD [OF retire_leaves, of e m s]
      by (auto simp: retire_stale_machines_def bindA_def r0 Inr m split: sum.split)
  qed
qed

text \<open>
  A command that is retried is run at least once and at most four times, with at most thirty
  probes of the proxy after each failure, and always comes to an end; its output is what the last
  of these runs printed, and no file changes.
\<close>
lemma runWithRetry_bounded:
  "\<exists>r q. runWithRetry e url command args s = Some (r, q) \<and> runs_within command args 4 s q
    \<and> (case r of Inl _ \<Rightarrow> True
       | Inr out \<Rightarrow> hd (op_calls q) = ORun command args \<and> o_run e (op_calls q) = Inr out)"
proof -
  obtain r q where run: "retry_loop e url command args 3 s = Some (r, q)"
    using total_ends [OF total_retry] by (rule endsE)
  then show ?thesis
    using retry_loop_wp [of e url command args 3 s]
    by (cases r) (auto simp: runWithRetry_def wp_def simp del: retry_loop.simps)
qed

text \<open>
  Waiting for the proxy asks it at most thirty times and ends; it returns only after three
  good answers in a row, two seconds apart.
\<close>
lemma waitForStableProxy_stable:
  "\<exists>r q. waitForStableProxy e url s = Some (r, q) \<and> probes_within 30 s q
    \<and> (case r of Inl _ \<Rightarrow> True | Inr _ \<Rightarrow> stable_at e url (op_calls q))"
proof -
  obtain r q where run: "waitForStableProxy e url s = Some (r, q)"
    using total_ends [OF total_stable] unfolding waitForStableProxy_def by (rule endsE)
  then show ?thesis
    using stable_proxy_wp [of e url s] by (cases r) (auto simp: wp_def)
qed

end
