(* ===== verification/Proxy_Config.thy ===== *)
theory Proxy_Config
  imports Env_Files Js_Number
begin

text \<open>
  Rendering the proxy's configuration, \<^verbatim>\<open>fcc/render-proxy-config.mjs\<close>: the checks of the environment,
  the escapes of a TOML text, and \<open>replaceAll\<close> with the patterns a replacement text may contain.
\<close>

section \<open>Replacement\<close>

text \<open>
  \<open>$$\<close>, \<open>$&\<close>, \<open>$`\<close> and \<open>$'\<close> stand for a dollar, the match, and what is before and after it; the
  text before the match and the text after it are arguments.
\<close>

fun expand_replacement :: "string \<Rightarrow> string \<Rightarrow> string \<Rightarrow> string \<Rightarrow> string" where
  "expand_replacement before matched after (CHR ''$'' # c # cs) =
     (if c = CHR ''$'' then CHR ''$'' # expand_replacement before matched after cs
      else if c = CHR ''&'' then matched @ expand_replacement before matched after cs
      else if c = CHR 0x60 then before @ expand_replacement before matched after cs
      else if c = CHR 0x27 then after @ expand_replacement before matched after cs
      else CHR ''$'' # expand_replacement before matched after (c # cs))"
| "expand_replacement before matched after (c # cs) = c # expand_replacement before matched after cs"
| "expand_replacement before matched after [] = []"

text \<open>\<open>s.replaceAll(pattern, value)\<close> for a pattern that is not empty; \<open>before\<close> has been passed.\<close>

function replace_from :: "string \<Rightarrow> string \<Rightarrow> string \<Rightarrow> string \<Rightarrow> string" where
  "replace_from pattern x before s =
     (if s = [] \<or> pattern = [] then s
      else if prefix pattern s
      then expand_replacement before pattern (drop (length pattern) s) x
        @ replace_from pattern x (before @ pattern) (drop (length pattern) s)
      else hd s # replace_from pattern x (before @ [hd s]) (tl s))"
  by pat_completeness auto
termination
  by (relation "measure (\<lambda>(pattern, x, before, s). length s)") (auto simp: prefix_def)

declare replace_from.simps [simp del]

definition replaceAll :: "string \<Rightarrow> string \<Rightarrow> string \<Rightarrow> string" where
  "replaceAll pattern x s = replace_from pattern x [] s"

section \<open>Rendering\<close>

definition quote_char :: char where
  "quote_char = CHR 0x22"

definition backslash :: char where
  "backslash = CHR 0x5C"

text \<open>Both calls replace one character by two, without a dollar.\<close>

definition escapeToml :: "string \<Rightarrow> string" where
  "escapeToml x = replaceAll [quote_char] [backslash, quote_char] (replaceAll [backslash] [backslash, backslash] x)"

definition required_variables :: "string list" where
  "required_variables = [''INDEXER_DB_HOST'', ''INDEXER_DB_PORT'', ''INDEXER_DB_NAME'', ''INDEXER_DB_USER'',
     ''INDEXER_DB_PASSWORD'', ''GOVERNANCE_SIGNERS'', ''GOVERNANCE_THRESHOLD'', ''FCC_CODE_HASH'']"

definition is_code_hash :: "string \<Rightarrow> bool" where
  "is_code_hash s =
     (let digits = (if prefix ''0x'' s then drop 2 s else if prefix ''sha256:'' s then drop 7 s else s) in
      length digits = 64 \<and> list_all (\<lambda>c. char_digit c \<noteq> None) digits)"

definition placeholder :: "string \<Rightarrow> string" where
  "placeholder name = ''{{'' @ name @ ''}}''"

text \<open>\<open>/\{\{[A-Z0-9_]+\}\}/\<close> somewhere in the text.\<close>

definition name_char :: "char \<Rightarrow> bool" where
  "name_char c = (let n = (of_char c :: nat) in (65 \<le> n \<and> n \<le> 90) \<or> (48 \<le> n \<and> n \<le> 57) \<or> n = 95)"

fun unresolved :: "string \<Rightarrow> bool" where
  "unresolved [] = False"
| "unresolved (c # cs) =
     ((prefix ''{{'' (c # cs) \<and> takeWhile name_char (drop 2 (c # cs)) \<noteq> []
        \<and> prefix ''}}'' (dropWhile name_char (drop 2 (c # cs)))) \<or> unresolved cs)"

fun comma_list :: "string list \<Rightarrow> string" where
  "comma_list [] = []"
| "comma_list [s] = s"
| "comma_list (s # ss) = s @ '', '' @ comma_list ss"

definition signer_list :: "string \<Rightarrow> string list" where
  "signer_list s = filter (\<lambda>x. x \<noteq> []) (map js_trim (split_on (CHR '','') s))"

definition positive_integer :: "numeric \<Rightarrow> bool" where
  "positive_integer x = (case x of None \<Rightarrow> False | Some n \<Rightarrow> is_integer n \<and> n \<ge> 1)"

definition replacements :: "(string \<Rightarrow> string option) \<Rightarrow> js_error + (string \<times> string) list" where
  "replacements vars =
     (let var = (\<lambda>n. or_else (vars n) '''');
          missing = find (\<lambda>n. js_trim (var n) = []) required_variables;
          port = number_of_text (var ''INDEXER_DB_PORT'');
          threshold = number_of_text (var ''GOVERNANCE_THRESHOLD'');
          signers = signer_list (var ''GOVERNANCE_SIGNERS'')
      in case missing of
           Some n \<Rightarrow> Inl (JsError (n @ '' is required''))
         | None \<Rightarrow>
             if \<not> positive_integer port \<or> the port > 65535 then
               Inl (JsError ''INDEXER_DB_PORT must be an integer from 1 to 65535'')
             else if \<not> positive_integer threshold then
               Inl (JsError ''GOVERNANCE_THRESHOLD must be a positive integer'')
             else if of_nat (length signers) < the threshold \<or> list_ex (\<lambda>s. \<not> is_hex_of 40 s) signers then
               Inl (JsError ''GOVERNANCE_SIGNERS must contain enough comma-separated EVM addresses'')
             else if \<not> is_code_hash (var ''FCC_CODE_HASH'') then
               Inl (JsError ''FCC_CODE_HASH must be a 32-byte hexadecimal hash'')
             else Inr [(''INDEXER_DB_HOST'', escapeToml (var ''INDEXER_DB_HOST'')),
               (''INDEXER_DB_PORT'', number_text (the port)),
               (''INDEXER_DB_NAME'', escapeToml (var ''INDEXER_DB_NAME'')),
               (''INDEXER_DB_USER'', escapeToml (var ''INDEXER_DB_USER'')),
               (''INDEXER_DB_PASSWORD'', escapeToml (var ''INDEXER_DB_PASSWORD'')),
               (''GOVERNANCE_SIGNERS_TOML'', comma_list (map (\<lambda>s. [quote_char] @ s @ [quote_char]) signers)),
               (''GOVERNANCE_THRESHOLD'', number_text (the threshold)),
               (''FCC_CODE_HASH'', var ''FCC_CODE_HASH'')])"

definition substitute :: "(string \<times> string) list \<Rightarrow> string \<Rightarrow> string" where
  "substitute rs template = foldl (\<lambda>out (name, x). replaceAll (placeholder name) x out) template rs"

definition render_proxy_config :: "(string \<Rightarrow> string option) \<Rightarrow> string \<Rightarrow> js_error + string" where
  "render_proxy_config vars template = (case replacements vars of
      Inl e \<Rightarrow> Inl e
    | Inr rs \<Rightarrow> let out = substitute rs template in
        if unresolved out then Inl (JsError ''proxy config contains unresolved template variables'') else Inr out)"

section \<open>What a replacement gives\<close>

lemma expand_plain: "CHR ''$'' \<notin> set x \<Longrightarrow> expand_replacement before matched after x = x"
  by (induction before matched after x rule: expand_replacement.induct) auto

lemma replace_char:
  "CHR ''$'' \<notin> set x \<Longrightarrow> replace_from [p] x before s = concat (map (\<lambda>c. if c = p then x else [c]) s)"
proof (induction s arbitrary: before)
  case Nil
  then show ?case by (simp add: replace_from.simps)
next
  case (Cons c s)
  then show ?case by (subst replace_from.simps) (auto simp: expand_plain)
qed

text \<open>What a TOML reader makes of the escapes between quotes.\<close>

fun read_toml :: "string \<Rightarrow> string" where
  "read_toml (c # d # cs) = (if c = backslash then d # read_toml cs else c # read_toml (d # cs))"
| "read_toml cs = cs"

lemma escapeToml_eq:
  "escapeToml s = concat (map (\<lambda>c. if c = backslash \<or> c = quote_char then [backslash, c] else [c]) s)"
  by (induction s) (simp_all add: escapeToml_def replaceAll_def replace_char backslash_def quote_char_def)

lemma read_toml_plain: "c \<noteq> backslash \<Longrightarrow> read_toml (c # s) = c # read_toml s"
  by (cases s) auto

text \<open>No quote is left that the text before it does not escape.\<close>

fun quotes_escaped :: "string \<Rightarrow> bool" where
  "quotes_escaped [] = True"
| "quotes_escaped (c # cs) = (if c = backslash then cs \<noteq> [] \<and> quotes_escaped (tl cs)
     else c \<noteq> quote_char \<and> quotes_escaped cs)"

lemma escapeToml_reads: "read_toml (escapeToml s) = s \<and> quotes_escaped (escapeToml s)"
  unfolding escapeToml_eq
  by (induction s) (auto simp: read_toml_plain backslash_def quote_char_def)

lemma replaceAll_dollars: "replaceAll ''{{P}}'' ''a$$b'' ''pw={{P}}'' = ''pw=a$b''"
  by code_simp

end
