(* ===== verification/Deploy_Scripts.thy ===== *)
theory Deploy_Scripts
  imports Env_Files Crypto
begin

text \<open>
  The deployment scripts under \<^verbatim>\<open>contracts/scripts\<close>: deploying locally and on Coston2, binding the
  extension and the confidential machine to the vault, granting the operator, funding the backstop
  and verifying a deployment. Hardhat's provider and signers, the contracts on the chain and the
  proxy are the surroundings, which answer from the whole history of calls; a manifest is the value
  its JSON file holds.
\<close>

section \<open>Surroundings\<close>

record manifest =
  mf_network :: string
  mf_chainId :: number
  mf_protocolVersion :: number
  mf_quietPolicy :: address
  mf_quietVault :: address
  mf_extensionId :: number
  mf_teeSigner :: address
  mf_codeHash :: hex
  mf_startBlock :: number
  mf_flareTeeManager :: address
  mf_ftsoV2 :: address
  mf_fxrp :: address
  mf_usdt0 :: address

datatype deployment_target = LocalTarget | Coston2Target | Coston2V2Target

text \<open>A contract is its address, a call of it the function and the arguments as texts.\<close>

datatype hh_call =
    HGetSigners
  | HGetChainId
  | HGetCode address
  | HGetBlock
  | HDeploy string "string list"
  | HRead address string "string list"
  | HSend address string "string list" int
  | HMined hex
  | HFetch string
  | HSleep nat
  | HNow

text \<open>The mined receipt: its block and, per event of the vault, the name and request identifier.\<close>

record mined =
  mn_blockNumber :: number
  mn_events :: "(string \<times> hex) option list"

text \<open>
  The JSON of \<open>/info\<close>; a member that may be missing is an option, and a number is what \<open>Number\<close> makes
  of the member, \<open>None\<close> for \<open>NaN\<close>.
\<close>

record tee_payload =
  tp_chainId :: numeric
  tp_teeKey :: "public_key option"

record machine_payload =
  mp_extensionId :: numeric
  mp_codeHash :: "string option"

record info_payload =
  ip_teeInfo :: "tee_payload option"
  ip_machineData :: "machine_payload option"
  ip_attestation :: "string option"

record 'b http_answer =
  ha_status :: int
  ha_text :: "js_error + string"
  ha_json :: "js_error + 'b"

record operational_job =
  oj_status :: job_status
  oj_error :: "string option"
  oj_txHash :: "hex option"

record hh_env =
  h_signers :: "hh_call list \<Rightarrow> js_error + address list"
  h_chainId :: "hh_call list \<Rightarrow> js_error + int"
  h_code :: "hh_call list \<Rightarrow> js_error + hex"
  h_block :: "hh_call list \<Rightarrow> js_error + number \<times> number"
  h_deploy :: "hh_call list \<Rightarrow> js_error + address \<times> hex"
  h_int :: "hh_call list \<Rightarrow> js_error + int"
  h_text :: "hh_call list \<Rightarrow> js_error + string"
  h_bool :: "hh_call list \<Rightarrow> js_error + bool"
  h_send :: "hh_call list \<Rightarrow> js_error + hex"
  h_mined :: "hh_call list \<Rightarrow> js_error + mined"
  h_info :: "hh_call list \<Rightarrow> js_error + info_payload option http_answer"
  h_job :: "hh_call list \<Rightarrow> js_error + operational_job http_answer"
  h_now :: "hh_call list \<Rightarrow> int"
  h_isAddress :: "string \<Rightarrow> bool"
  h_getAddress :: "string \<Rightarrow> string"
  h_computeAddress :: "string \<Rightarrow> js_error + string"
  h_parseUnits :: "string \<Rightarrow> nat \<Rightarrow> js_error + int"
  h_formatUnits :: "int \<Rightarrow> nat \<Rightarrow> string"
  h_infoUrl :: "string \<Rightarrow> js_error + string"
  h_jobUrl :: "string \<Rightarrow> string \<Rightarrow> js_error + string"

record hardhat =
  hs_calls :: "hh_call list"
  hs_manifests :: "deployment_target \<Rightarrow> manifest option"

definition askH :: "(hh_call list \<Rightarrow> 'a) \<Rightarrow> hh_call \<Rightarrow> (hardhat, 'a) act" where
  "askH f c = (\<lambda>s. let h = c # hs_calls s in Some (Inr (f h), s\<lparr>hs_calls := h\<rparr>))"

definition askHE :: "(hh_call list \<Rightarrow> js_error + 'a) \<Rightarrow> hh_call \<Rightarrow> (hardhat, 'a) act" where
  "askHE f c = bindA (askH f c) liftA"

text \<open>\<open>await (await contract.f(...)).wait()\<close>.\<close>

definition transact :: "hh_env \<Rightarrow> address \<Rightarrow> string \<Rightarrow> string list \<Rightarrow> int \<Rightarrow> (hardhat, hex \<times> mined) act" where
  "transact e contract f args wei =
     bindA (askHE (h_send e) (HSend contract f args wei)) (\<lambda>hash.
     bindA (askHE (h_mined e) (HMined hash)) (\<lambda>receipt. ret (hash, receipt)))"

section \<open>Shared\<close>

definition zero_address :: address where
  "zero_address = ''0x'' @ replicate 40 (CHR ''0'')"

definition zero_hash :: hex where
  "zero_hash = ''0x'' @ replicate 64 (CHR ''0'')"

definition c2_flareTeeManager :: address where
  "c2_flareTeeManager = ''0x1a9C4A0f9D76c0b1D91d22E24E573a9b377618aE''"

definition c2_ftsoV2 :: address where
  "c2_ftsoV2 = ''0xC4e9c78EA53db782E28f28Fdf80BaF59336B304d''"

definition c2_fxrp :: address where
  "c2_fxrp = ''0x0b6A3645c240605887a5532109323A3E12273dc7''"

definition c2_usdt0 :: address where
  "c2_usdt0 = ''0xC1A5B41512496B80903D1f32d6dEa3a73212E71F''"

definition c2_xrpUsdFeedId :: hex where
  "c2_xrpUsdFeedId = ''0x015852502f55534400000000000000000000000000''"

definition writeDeployment :: "manifest \<Rightarrow> deployment_target \<Rightarrow> (hardhat, unit) act" where
  "writeDeployment m target = modifyA (\<lambda>s. s\<lparr>hs_manifests := (hs_manifests s)(target \<mapsto> m)\<rparr>)"

definition readManifest :: "deployment_target \<Rightarrow> (hardhat, manifest) act" where
  "readManifest target = bindA getA (\<lambda>s. liftA (case hs_manifests s target of
      Some m \<Rightarrow> Inr m
    | None \<Rightarrow> Inl (JsError ''ENOENT: no such file or directory'')))"

definition requireCode :: "hh_env \<Rightarrow> string \<times> address \<Rightarrow> (hardhat, unit) act" where
  "requireCode e = (\<lambda>(label, address). bindA (askHE (h_code e) (HGetCode address)) (\<lambda>code.
     if code = ''0x'' then throw (JsError (label @ '' has no deployed bytecode at '' @ address)) else ret ()))"

definition requiredAddress :: "hh_env \<Rightarrow> (string \<Rightarrow> string option) \<Rightarrow> string \<Rightarrow> js_error + address" where
  "requiredAddress e vars name = (case present (vars name) of
      None \<Rightarrow> Inl (JsError (name @ '' must be a non-zero EVM address''))
    | Some x \<Rightarrow> if \<not> h_isAddress e x \<or> x = zero_address
        then Inl (JsError (name @ '' must be a non-zero EVM address''))
        else Inr (h_getAddress e x))"

definition wrong_chain :: "int \<Rightarrow> js_error" where
  "wrong_chain n = JsError (''expected Coston2 chain 114, got '' @ show_int n)"

section \<open>Deploying\<close>

definition deploy_coston2 :: "hh_env \<Rightarrow> (string \<Rightarrow> string option) \<Rightarrow> (hardhat, unit) act" where
  "deploy_coston2 e vars =
     bindA (askHE (h_signers e) HGetSigners) (\<lambda>signers. case signers of
       [] \<Rightarrow> throw (JsError ''DEPLOYER_PRIVATE_KEY is required and must belong to a funded Coston2 wallet'')
     | deployer # _ \<Rightarrow>
         bindA (askHE (h_chainId e) HGetChainId) (\<lambda>chainId.
         if chainId \<noteq> 114 then throw (wrong_chain chainId)
         else bindA (liftA (case present (vars ''OPERATOR_ADDRESS'') of
             Some _ \<Rightarrow> requiredAddress e vars ''OPERATOR_ADDRESS'' | None \<Rightarrow> Inr deployer)) (\<lambda>operator.
           bindA (mapA (requireCode e) [(''FlareTeeManager'', c2_flareTeeManager), (''FTSOv2'', c2_ftsoV2),
               (''FXRP'', c2_fxrp), (''USDT0'', c2_usdt0)]) (\<lambda>_.
           bindA (askHE (h_deploy e) (HDeploy ''QuietPolicy'' [])) (\<lambda>(policy, policyTx).
           bindA (askHE (h_mined e) (HMined policyTx)) (\<lambda>_.
           bindA (askHE (h_deploy e) (HDeploy ''QuietVault'' [c2_flareTeeManager, c2_flareTeeManager, c2_ftsoV2,
               c2_xrpUsdFeedId, c2_fxrp, c2_usdt0, deployer, operator])) (\<lambda>(vault, vaultTx).
           bindA (askHE (h_mined e) (HMined vaultTx)) (\<lambda>receipt.
             writeDeployment \<lparr>mf_network = ''coston2'', mf_chainId = 114, mf_protocolVersion = 2,
               mf_quietPolicy = policy, mf_quietVault = vault, mf_extensionId = 0, mf_teeSigner = zero_address,
               mf_codeHash = or_else (vars ''FCC_CODE_HASH'') zero_hash,
               mf_startBlock = mn_blockNumber receipt, mf_flareTeeManager = c2_flareTeeManager,
               mf_ftsoV2 = c2_ftsoV2, mf_fxrp = c2_fxrp, mf_usdt0 = c2_usdt0\<rparr> Coston2V2Target)))))))) "

definition deploy_one :: "hh_env \<Rightarrow> string \<Rightarrow> string list \<Rightarrow> (hardhat, address \<times> hex) act" where
  "deploy_one e name args = askHE (h_deploy e) (HDeploy name args)"

text \<open>The address of a signer that may not be there.\<close>

definition signer_at :: "address list \<Rightarrow> nat \<Rightarrow> js_error + address" where
  "signer_at signers i = (if i < length signers then Inr (signers ! i)
     else Inl (JsError ''Cannot read properties of undefined (reading 'address')''))"

definition deploy_local :: "hh_env \<Rightarrow> (hardhat, unit) act" where
  "deploy_local e =
     bindA (askHE (h_signers e) HGetSigners) (\<lambda>signers.
         bindA (deploy_one e ''MockTeeExtensionRegistry'' []) (\<lambda>(registry, t1).
         bindA (liftA (signer_at signers 1)) (\<lambda>teeSigner.
         bindA (deploy_one e ''MockTeeMachineRegistry'' [teeSigner]) (\<lambda>(machines, t2).
         bindA (deploy_one e ''MockFtsoV2'' []) (\<lambda>(ftso, t3).
         bindA (deploy_one e ''MockERC20'' [''FTestXRP'', ''FXRP'', ''6'']) (\<lambda>(fxrp, t4).
         bindA (deploy_one e ''MockERC20'' [''Test USDT0'', ''USDT0'', ''6'']) (\<lambda>(usdt0, t5).
         bindA (deploy_one e ''QuietPolicy'' []) (\<lambda>(policy, t6).
         bindA (liftA (signer_at signers 0)) (\<lambda>admin.
         bindA (deploy_one e ''QuietVault'' [registry, machines, ftso, c2_xrpUsdFeedId, fxrp, usdt0, admin, admin])
           (\<lambda>(vault, t7).
         bindA (mapA (\<lambda>t. askHE (h_mined e) (HMined t)) [t1, t2, t3, t4, t5, t6, t7]) (\<lambda>_.
         bindA (transact e registry ''setSender'' [''65536'', vault] 0) (\<lambda>_.
         bindA (transact e vault ''setExtensionId'' [''65536''] 0) (\<lambda>_.
         bindA (transact e vault ''setTeeSigner'' [teeSigner] 0) (\<lambda>_.
         bindA (askHE (h_block e) HGetBlock) (\<lambda>(number, timestamp).
         bindA (transact e ftso ''setPrice'' [''600000000000000000'', number_text timestamp] 0) (\<lambda>_.
           writeDeployment \<lparr>mf_network = ''local'', mf_chainId = 31337, mf_protocolVersion = 2,
             mf_quietPolicy = policy, mf_quietVault = vault, mf_extensionId = 65536, mf_teeSigner = teeSigner,
             mf_codeHash = zero_hash, mf_startBlock = number, mf_flareTeeManager = registry, mf_ftsoV2 = ftso,
             mf_fxrp = fxrp, mf_usdt0 = usdt0\<rparr> LocalTarget))))))))))))))))"

definition seed_local :: "hh_env \<Rightarrow> (hardhat, unit) act" where
  "seed_local e =
     bindA (readManifest LocalTarget) (\<lambda>d.
     bindA (askHE (h_signers e) HGetSigners) (\<lambda>signers.
     bindA (eachA (\<lambda>(token, to_whom, units). bindA (liftA to_whom) (\<lambda>holder.
         askHE (h_send e) (HSend token ''mint'' [holder, units] 0)))
       [(mf_fxrp d, signer_at signers 1, ''25000000''), (mf_usdt0 d, signer_at signers 2, ''10000000''),
        (mf_usdt0 d, signer_at signers 3, ''10000000''), (mf_usdt0 d, Inr (mf_quietVault d), ''20000000'')]) (\<lambda>hashes.
     bindA (mapA (\<lambda>hash. askHE (h_mined e) (HMined hash)) hashes) (\<lambda>_. ret ()))))"

section \<open>The extension and the machine\<close>

definition set_extension_id :: "hh_env \<Rightarrow> (hardhat, unit) act" where
  "set_extension_id e =
     bindA (readManifest Coston2V2Target) (\<lambda>d.
     if mf_extensionId d < 65536 then
       throw (JsError ''deployments/coston2-v2.json does not contain a public FCC extension ID'')
     else bindA (askHE (h_int e) (HRead (mf_quietVault d) ''extensionId'' [])) (\<lambda>current.
     bindA (liftA (bigint_of_number (mf_extensionId d))) (\<lambda>wanted.
       if current = wanted then ret ()
       else if current \<noteq> 0 then
         throw (JsError (''QuietVault already uses FCC extension '' @ show_int current @ ''; expected ''
           @ number_text (mf_extensionId d)))
       else bindA (transact e (mf_quietVault d) ''setExtensionId'' [number_text (mf_extensionId d)] 0) (\<lambda>_. ret ()))))"

definition machineInfo :: "info_payload option \<Rightarrow> bool \<Rightarrow> js_error + tee_payload \<times> machine_payload \<times> string" where
  "machineInfo payload allowSimulated = (case payload of
      None \<Rightarrow> Inl (JsError ''FCC /info returned an invalid payload'')
    | Some info \<Rightarrow> (case (ip_teeInfo info, ip_machineData info) of
        (Some tee, Some machine) \<Rightarrow> (case present (ip_attestation info) of
            None \<Rightarrow> Inl (JsError ''FCC /info did not include an attestation value'')
          | Some attestation \<Rightarrow>
              if attestation = ''magic_pass'' \<and> \<not> allowSimulated then
                Inl (JsError ''FCC /info uses simulated attestation but SIMULATED_TEE is not enabled'')
              else Inr (tee, machine, attestation))
      | _ \<Rightarrow> Inl (JsError ''FCC /info did not include both teeInfo and machineData'')))"

definition info_uint :: "numeric \<Rightarrow> string \<Rightarrow> js_error + number" where
  "info_uint x name = (case x of
      Some n \<Rightarrow> if \<not> is_safe_integer n \<or> n < 0 then Inl (JsError (''FCC /info '' @ name @ '' is invalid'')) else Inr n
    | None \<Rightarrow> Inl (JsError (''FCC /info '' @ name @ '' is invalid'')))"

definition signerFromPublicKey :: "hh_env \<Rightarrow> public_key option \<Rightarrow> js_error + address" where
  "signerFromPublicKey e key = (case (Option.bind key pk_x, Option.bind key pk_y) of
      (Some x, Some y) \<Rightarrow>
        if is_hex_of 64 x \<and> is_hex_of 64 y then h_computeAddress e (''0x04'' @ drop 2 x @ drop 2 y)
        else Inl (JsError ''FCC /info did not include a valid secp256k1 public key'')
    | _ \<Rightarrow> Inl (JsError ''FCC /info did not include a valid secp256k1 public key''))"

definition codeHash_ok :: "string option \<Rightarrow> bool \<Rightarrow> js_error + hex" where
  "codeHash_ok x allowSimulated = (case x of
      None \<Rightarrow> Inl (JsError ''FCC /info did not include a non-zero measured code hash'')
    | Some c \<Rightarrow>
        if \<not> is_hex_of 64 c \<or> c = zero_hash then
          Inl (JsError ''FCC /info did not include a non-zero measured code hash'')
        else if allowSimulated \<and> lower c \<noteq> simulatedCodeHash then
          Inl (JsError ''simulated FCC /info returned an unexpected code hash'')
        else Inr c)"

definition http_ok :: "'b http_answer \<Rightarrow> bool" where
  "http_ok r = (200 \<le> ha_status r \<and> ha_status r \<le> 299)"

text \<open>What the vault is told, in order, and the manifest that records it.\<close>

definition bind_extension :: "hh_env \<Rightarrow> address \<Rightarrow> number \<Rightarrow> (hardhat, number) act" where
  "bind_extension e vault machineExtensionId =
     bindA (askHE (h_int e) (HRead vault ''extensionId'' [])) (\<lambda>current.
     thenA (if current = 0
         then thenA (transact e vault ''setExtensionId'' [number_text machineExtensionId] 0) (ret ()) else ret ())
     (bindA (askHE (h_int e) (HRead vault ''extensionId'' [])) (\<lambda>now.
      let extensionId = fl (of_int now) in
      if machineExtensionId \<noteq> extensionId then
        throw (JsError (''FCC machine extension ID does not match QuietVault extension '' @ number_text extensionId))
      else ret extensionId)))"

definition bind_signer :: "hh_env \<Rightarrow> address \<Rightarrow> tee_payload \<Rightarrow> (hardhat, address) act" where
  "bind_signer e vault tee =
     bindA (liftA (signerFromPublicKey e (tp_teeKey tee))) (\<lambda>teeSigner.
     bindA (askHE (h_text e) (HRead vault ''activeTeeSigner'' [])) (\<lambda>configured.
     thenA (if lower configured \<noteq> lower teeSigner
         then thenA (transact e vault ''setTeeSigner'' [teeSigner] 0) (ret ()) else ret ())
       (ret teeSigner)))"

definition bind_machine ::
    "hh_env \<Rightarrow> manifest \<Rightarrow> number \<Rightarrow> tee_payload \<Rightarrow> machine_payload \<Rightarrow> bool \<Rightarrow> (hardhat, unit) act" where
  "bind_machine e d machineExtensionId tee machine allowSimulated =
     bindA (bind_extension e (mf_quietVault d) machineExtensionId) (\<lambda>extensionId.
     bindA (bind_signer e (mf_quietVault d) tee) (\<lambda>teeSigner.
     bindA (liftA (codeHash_ok (mp_codeHash machine) allowSimulated)) (\<lambda>codeHash.
       writeDeployment (d\<lparr>mf_extensionId := extensionId, mf_teeSigner := teeSigner, mf_codeHash := codeHash\<rparr>)
         Coston2V2Target)))"

definition configure_extension :: "hh_env \<Rightarrow> (string \<Rightarrow> string option) \<Rightarrow> (hardhat, unit) act" where
  "configure_extension e vars =
     bindA (readManifest Coston2V2Target) (\<lambda>d.
     bindA (liftA (case present (vars ''FCC_PROXY_URL'') of
         None \<Rightarrow> Inl (JsError ''FCC_PROXY_URL is required'') | Some u \<Rightarrow> h_infoUrl e u)) (\<lambda>url.
     bindA (askHE (h_info e) (HFetch url)) (\<lambda>response.
     if \<not> http_ok response then throw (JsError (''FCC /info returned '' @ show_int (ha_status response)))
     else let allowSimulated = (vars ''SIMULATED_TEE'' = Some ''true'') in
       bindA (liftA (ha_json response)) (\<lambda>payload.
       bindA (liftA (machineInfo payload allowSimulated)) (\<lambda>(tee, machine, attestation).
       bindA (liftA (info_uint (tp_chainId tee) ''teeInfo.chainId'')) (\<lambda>chainId.
       if chainId \<noteq> 114 then
         throw (JsError (''FCC machine is on chain '' @ number_text chainId @ '', expected 114''))
       else bindA (liftA (info_uint (mp_extensionId machine) ''machineData.extensionId'')) (\<lambda>machineExtensionId.
         if machineExtensionId < 65536 then
           throw (JsError ''FCC machine is not configured for a public extension'')
         else bind_machine e d machineExtensionId tee machine allowSimulated)))))))"

text \<open>\<open>vars\<close> are the variables after dotenv loaded \<^verbatim>\<open>relayer/.env\<close>.\<close>

definition configure_operator :: "hh_env \<Rightarrow> (string \<Rightarrow> string option) \<Rightarrow> (hardhat, unit) act" where
  "configure_operator e vars =
     (let key = or_else (vars ''RELAYER_PRIVATE_KEY'') '''' in
      if \<not> is_hex_of 64 key then throw (JsError ''RELAYER_PRIVATE_KEY is required in relayer/.env'')
      else bindA (readManifest Coston2V2Target) (\<lambda>d.
        bindA (liftA (h_computeAddress e key)) (\<lambda>relayer.
        bindA (askHE (h_text e) (HRead (mf_quietVault d) ''OPERATOR_ROLE'' [])) (\<lambda>role.
        bindA (askHE (h_bool e) (HRead (mf_quietVault d) ''hasRole'' [role, relayer])) (\<lambda>has.
          if has then ret ()
          else bindA (transact e (mf_quietVault d) ''grantRole'' [role, relayer] 0) (\<lambda>_. ret ()))))))"

section \<open>Verifying\<close>

record verified_deployment =
  vd_chainId :: number
  vd_extensionId :: number
  vd_teeSigner :: address
  vd_fxrp :: address
  vd_usdt0 :: address
  vd_stateSequence :: number
  vd_stateRoot :: hex

definition verify_deployment :: "hh_env \<Rightarrow> (hardhat, verified_deployment) act" where
  "verify_deployment e =
     bindA (readManifest Coston2V2Target) (\<lambda>d.
     let vault = mf_quietVault d in
     bindA (mapA (requireCode e) [(''QuietPolicy'', mf_quietPolicy d), (''QuietVault'', vault),
         (''FlareTeeManager'', mf_flareTeeManager d), (''FTSOv2'', mf_ftsoV2 d), (''FXRP'', mf_fxrp d),
         (''USDT0'', mf_usdt0 d)]) (\<lambda>_.
     bindA (askHE (h_chainId e) HGetChainId) (\<lambda>chainId.
     bindA (askHE (h_int e) (HRead vault ''extensionId'' [])) (\<lambda>extensionId.
     bindA (askHE (h_text e) (HRead vault ''activeTeeSigner'' [])) (\<lambda>teeSigner.
     bindA (askHE (h_text e) (HRead vault ''fxrp'' [])) (\<lambda>fxrp.
     bindA (askHE (h_text e) (HRead vault ''usdt0'' [])) (\<lambda>usdt0.
     bindA (askHE (h_int e) (HRead vault ''stateSequence'' [])) (\<lambda>stateSequence.
     bindA (askHE (h_text e) (HRead vault ''stateRoot'' [])) (\<lambda>stateRoot.
       if fl (of_int chainId) \<noteq> 114 then throw (JsError ''deployment is not on Coston2'')
       else if fl (of_int extensionId) \<noteq> mf_extensionId d \<or> fl (of_int extensionId) < 65536 then
         throw (JsError ''manifest extension ID does not match the configured vault'')
       else if lower teeSigner \<noteq> lower (mf_teeSigner d) then
         throw (JsError ''manifest TEE signer does not match the vault'')
       else ret \<lparr>vd_chainId = fl (of_int chainId), vd_extensionId = fl (of_int extensionId), vd_teeSigner = teeSigner,
         vd_fxrp = fxrp, vd_usdt0 = usdt0, vd_stateSequence = fl (of_int stateSequence), vd_stateRoot = stateRoot\<rparr>)))))))))"

section \<open>Funding the backstop\<close>

definition requiredText :: "(string \<Rightarrow> string option) \<Rightarrow> string \<Rightarrow> js_error + string" where
  "requiredText vars name = (case present (map_option js_trim (vars name)) of
      None \<Rightarrow> Inl (JsError (name @ '' is required'')) | Some x \<Rightarrow> Inr x)"

definition positiveDuration :: "(string \<Rightarrow> string option) \<Rightarrow> string \<Rightarrow> number \<Rightarrow> js_error + number" where
  "positiveDuration vars name fallback = (case present (vars name) of
      None \<Rightarrow> Inr fallback
    | Some raw \<Rightarrow> (case number_of_text raw of
        Some n \<Rightarrow> if is_safe_integer n \<and> n > 0 then Inr n
          else Inl (JsError (name @ '' must be a positive integer''))
      | None \<Rightarrow> Inl (JsError (name @ '' must be a positive integer''))))"

definition nowH :: "hh_env \<Rightarrow> (hardhat, int) act" where
  "nowH e = askH (h_now e) HNow"

definition sleepH :: "nat \<Rightarrow> (hardhat, unit) act" where
  "sleepH ms = askH (\<lambda>_. ()) (HSleep ms)"

text \<open>One poll: \<open>None\<close> is to poll again. The request carries the operations key in a header.\<close>

definition poll_confirmation :: "hh_env \<Rightarrow> string \<Rightarrow> string \<Rightarrow> (hardhat, operational_job option) act" where
  "poll_confirmation e relayerUrl externalKey =
     bindA (liftA (h_jobUrl e (strip_trailing_slashes relayerUrl @ ''/'') externalKey)) (\<lambda>url.
     bindA (askHE (h_job e) (HFetch url)) (\<lambda>response.
     if ha_status response = 404 then ret None
     else if \<not> http_ok response then
       bindA (liftA (ha_text response)) (\<lambda>body.
         throw (JsError (''relayer returned '' @ show_int (ha_status response) @ '': '' @ body)))
     else bindA (liftA (ha_json response)) (\<lambda>job.
       if oj_status job = Failed then
         throw (JsError (''FCC backstop request failed: '' @ or_else (oj_error job) ''unknown error''))
       else if oj_status job = Confirmed then ret (Some job)
       else ret None)))"

partial_function (option) confirmation_loop ::
    "hh_env \<Rightarrow> string \<Rightarrow> string \<Rightarrow> int \<Rightarrow> hardhat \<Rightarrow> ((js_error + operational_job) \<times> hardhat) option" where
  "confirmation_loop e relayerUrl externalKey deadline s = bindA (nowH e) (\<lambda>now s1.
     if now < deadline then
       bindA (poll_confirmation e relayerUrl externalKey) (\<lambda>answer s2.
         case answer of
           Some job \<Rightarrow> ret job s2
         | None \<Rightarrow> bindA (sleepH 2000) (\<lambda>_ s3. confirmation_loop e relayerUrl externalKey deadline s3) s2) s1
     else throw (JsError (''timed out waiting for '' @ externalKey @ '' to be confirmed'')) s1) s"

definition waitForConfirmation :: "hh_env \<Rightarrow> string \<Rightarrow> string \<Rightarrow> number \<Rightarrow> (hardhat, operational_job) act" where
  "waitForConfirmation e relayerUrl externalKey timeoutMs =
     bindA (nowH e) (\<lambda>started. confirmation_loop e relayerUrl externalKey (started + \<lfloor>timeoutMs\<rfloor>))"

definition backstop_fee :: int where
  "backstop_fee = 1000000000000"

fun funded_event :: "(string \<times> hex) option list \<Rightarrow> hex option" where
  "funded_event [] = None"
| "funded_event (Some (name, requestId) # es) = (if name = ''BackstopFunded'' then Some requestId else funded_event es)"
| "funded_event (None # es) = funded_event es"

record backstop =
  bk_operator :: address
  bk_vault :: address
  bk_token :: address
  bk_amount :: int
  bk_relayerUrl :: string
  bk_timeoutMs :: number

text \<open>Everything that is checked before a transaction is sent.\<close>

definition backstop_checks :: "hh_env \<Rightarrow> (string \<Rightarrow> string option) \<Rightarrow> (hardhat, backstop) act" where
  "backstop_checks e vars =
     bindA (readManifest Coston2V2Target) (\<lambda>d.
     bindA (askHE (h_signers e) HGetSigners) (\<lambda>signers.
     bindA (askHE (h_chainId e) HGetChainId) (\<lambda>chainId.
     if chainId \<noteq> 114 then throw (wrong_chain chainId)
     else if mf_extensionId d < 65536 then
       throw (JsError ''the deployment manifest does not contain a configured public FCC extension'')
     else
       bindA (liftA (requiredText vars ''BACKSTOP_AMOUNT_USDT0'')) (\<lambda>text.
       bindA (liftA (h_parseUnits e text 6)) (\<lambda>amount.
       if amount = 0 then throw (JsError ''BACKSTOP_AMOUNT_USDT0 must be greater than zero'')
       else
         bindA (liftA (requiredText vars ''RELAYER_URL'')) (\<lambda>relayerUrl.
         bindA (liftA (requiredText vars ''OPERATIONS_API_KEY'')) (\<lambda>_.
         bindA (liftA (positiveDuration vars ''BACKSTOP_CONFIRMATION_TIMEOUT_MS'' 900000)) (\<lambda>timeoutMs.
         bindA (askHE (h_text e) (HRead (mf_quietVault d) ''OPERATOR_ROLE'' [])) (\<lambda>role.
         case signers of
           [] \<Rightarrow> throw (JsError ''Cannot read properties of undefined (reading 'address')'')
         | operator # _ \<Rightarrow>
           bindA (askHE (h_bool e) (HRead (mf_quietVault d) ''hasRole'' [role, operator])) (\<lambda>has.
           if \<not> has then throw (JsError (operator @ '' does not hold QuietVault OPERATOR_ROLE''))
           else bindA (askHE (h_int e) (HRead (mf_usdt0 d) ''balanceOf'' [operator])) (\<lambda>balance.
             if balance < amount then
               throw (JsError (''operator has '' @ h_formatUnits e balance 6 @ '' testUSDT0; ''
                 @ h_formatUnits e amount 6 @ '' required''))
             else ret \<lparr>bk_operator = operator, bk_vault = mf_quietVault d, bk_token = mf_usdt0 d, bk_amount = amount,
               bk_relayerUrl = relayerUrl, bk_timeoutMs = timeoutMs\<rparr>)))))))))))"

definition approve_backstop :: "hh_env \<Rightarrow> backstop \<Rightarrow> (hardhat, unit) act" where
  "approve_backstop e k =
     bindA (askHE (h_int e) (HRead (bk_token k) ''allowance'' [bk_operator k, bk_vault k])) (\<lambda>allowance.
       if allowance < bk_amount k then
         bindA (transact e (bk_token k) ''approve'' [bk_vault k, show_int (bk_amount k)] 0) (\<lambda>_. ret ())
       else ret ())"

definition send_backstop :: "hh_env \<Rightarrow> backstop \<Rightarrow> (hardhat, hex \<times> operational_job) act" where
  "send_backstop e k =
     bindA (transact e (bk_vault k) ''fundBackstop'' [show_int (bk_amount k)] backstop_fee) (\<lambda>(hash, receipt).
     case funded_event (mn_events receipt) of
       None \<Rightarrow> throw (JsError ''BackstopFunded event was not found in the receipt'')
     | Some requestId \<Rightarrow>
         bindA (waitForConfirmation e (bk_relayerUrl k) (chain_key requestId) (bk_timeoutMs k)) (\<lambda>job.
           ret (hash, job)))"

definition fund_backstop :: "hh_env \<Rightarrow> (string \<Rightarrow> string option) \<Rightarrow> (hardhat, hex \<times> operational_job) act" where
  "fund_backstop e vars = bindA (backstop_checks e vars) (\<lambda>k. thenA (approve_backstop e k) (send_backstop e k))"

section \<open>Calls\<close>

lemma wp_askH [wp_simps]:
  "wp (askH f c) Q E s = Q (f (c # hs_calls s)) (s\<lparr>hs_calls := c # hs_calls s\<rparr>)"
  by (simp add: wp_def askH_def Let_def)

lemma wp_askHE [wp_simps]:
  "wp (askHE f c) Q E s = (case f (c # hs_calls s) of
      Inl x \<Rightarrow> E x (s\<lparr>hs_calls := c # hs_calls s\<rparr>)
    | Inr y \<Rightarrow> Q y (s\<lparr>hs_calls := c # hs_calls s\<rparr>))"
  by (simp add: askHE_def wp_simps)

lemma total_hardhat [intro!, simp]:
  "total (askH f c)" "total (askHE g c)" "total (readManifest target)" "total (writeDeployment d target)"
  by (simp_all add: total_def ends_def askH_def askHE_def readManifest_def writeDeployment_def act_defs Let_def
      split: sum.splits option.splits)

lemma total_transact [intro!, simp]: "total (transact e c f args wei)"
  unfolding transact_def by (auto intro!: total_intros)

text \<open>The transactions asked for, newest first.\<close>

fun is_send :: "hh_call \<Rightarrow> bool" where
  "is_send (HSend c f args wei) = True"
| "is_send _ = False"

definition hh_sent :: "hardhat \<Rightarrow> hh_call list" where
  "hh_sent s = filter is_send (hs_calls s)"

lemma hh_sent_call [simp]: "hh_sent (s\<lparr>hs_calls := h\<rparr>) = filter is_send h" "filter is_send (hs_calls s) = hh_sent s"
    "hh_sent (s\<lparr>hs_manifests := m\<rparr>) = hh_sent s" "hh_sent \<lparr>hs_calls = h, hs_manifests = m\<rparr> = filter is_send h"
  by (simp_all add: hh_sent_def)

text \<open>What a frame needs for everything that only asks.\<close>

locale quiet_hardhat = frame R for R :: "hardhat \<Rightarrow> hardhat \<Rightarrow> bool" +
  assumes asks: "\<not> is_send c \<Longrightarrow> R s (s\<lparr>hs_calls := c # hs_calls s\<rparr>)"
begin

lemma keeps_askH: "\<not> is_send c \<Longrightarrow> keeps R (askH f c)"
  by (auto simp: keeps_def askH_def Let_def asks)

lemma keeps_askHE: "\<not> is_send c \<Longrightarrow> keeps R (askHE f c)"
  unfolding askHE_def by (intro keeps_bindA keeps_askH keeps_liftA)

lemma keeps_readManifest: "keeps R (readManifest target)"
  unfolding readManifest_def by (intro keeps_bindA keeps_getA keeps_liftA)

lemma keeps_requireCode: "keeps R (requireCode e p)"
  unfolding requireCode_def
  by (auto intro!: keeps_bindA keeps_askHE keeps_throw keeps_ret split: prod.split)

lemmas keeps_asking = keeps_intros keeps_askH keeps_askHE keeps_readManifest keeps_requireCode

lemma keeps_verify_deployment: "keeps R (verify_deployment e)"
  unfolding verify_deployment_def Let_def by (auto intro!: keeps_asking)

lemma keeps_backstop_checks: "keeps R (backstop_checks e vars)"
  unfolding backstop_checks_def by (auto intro!: keeps_asking split: list.split)

lemma keeps_poll_confirmation: "keeps R (poll_confirmation e url key)"
  unfolding poll_confirmation_def by (auto intro!: keeps_asking)

end

definition nothing_told :: "hardhat \<Rightarrow> hardhat \<Rightarrow> bool" where
  "nothing_told s t = (hh_sent t = hh_sent s \<and> hs_manifests t = hs_manifests s)"

definition asks_on :: "hardhat \<Rightarrow> hardhat \<Rightarrow> bool" where
  "asks_on s t = suffix (hs_calls s) (hs_calls t)"

interpretation told: quiet_hardhat nothing_told
  by unfold_locales (auto simp: nothing_told_def)

interpretation asking: quiet_hardhat asks_on
  by unfold_locales (auto simp: asks_on_def suffix_def)

section \<open>Waiting for the confirmation\<close>

definition hh_clock_ok :: "hh_env \<Rightarrow> bool" where
  "hh_clock_ok e = (\<forall>h c. h_now e h \<le> h_now e (c # h)
     \<and> (\<forall>d. 1 \<le> d \<longrightarrow> h_now e h + 1 \<le> h_now e (HSleep d # h)))"

lemma hh_clock_along: "hh_clock_ok e \<Longrightarrow> suffix h k \<Longrightarrow> h_now e h \<le> h_now e k"
proof -
  assume ok: "hh_clock_ok e" and "suffix h k"
  then obtain xs where k: "k = xs @ h" by (auto simp: suffix_def)
  show ?thesis unfolding k
    by (induction xs) (use ok in \<open>auto simp: hh_clock_ok_def intro: order_trans\<close>)
qed

lemma poll_confirmed:
  "leaves (\<lambda>answer _. \<forall>job. answer = Some job \<longrightarrow> oj_status job = Confirmed) (poll_confirmation e url key)"
  unfolding poll_confirmation_def
  by (auto intro!: leaves_bindA leaves_throw leaves_retI)

lemma total_poll_confirmation [intro!, simp]: "total (poll_confirmation e url key)"
  unfolding poll_confirmation_def by (auto intro!: total_intros)

definition confirmation_turn ::
    "hh_env \<Rightarrow> string \<Rightarrow> string \<Rightarrow> int \<Rightarrow> (hardhat, operational_job) act \<Rightarrow> (hardhat, operational_job) act" where
  "confirmation_turn e url key deadline again = bindA (nowH e) (\<lambda>now.
     if now < deadline then bindA (poll_confirmation e url key) (\<lambda>answer.
       case answer of Some job \<Rightarrow> ret job | None \<Rightarrow> bindA (sleepH 2000) (\<lambda>_. again))
     else throw (JsError (''timed out waiting for '' @ key @ '' to be confirmed'')))"

lemma confirmation_loop_turn:
  "confirmation_loop e url key deadline = confirmation_turn e url key deadline (confirmation_loop e url key deadline)"
  by (rule ext, subst confirmation_loop.simps)
    (auto simp: confirmation_turn_def body_simps split: option.split prod.split sum.split)

lemma confirmation_loop_rule:
  assumes run: "confirmation_loop e url key deadline s = Some q"
  shows "nothing_told s (snd q) \<and> asks_on s (snd q) \<and> (\<forall>job. fst q = Inr job \<longrightarrow> oj_status job = Confirmed)"
proof (rule confirmation_loop.raw_induct [where P = "\<lambda>e url key deadline s q. nothing_told s (snd q)
    \<and> asks_on s (snd q) \<and> (\<forall>job. fst q = Inr job \<longrightarrow> oj_status job = Confirmed)", OF _ run], goal_cases)
  case IH: (1 loop e url key deadline s q)
  define again where "again = loop e url key deadline"
  have again: "keeps nothing_told again" "keeps asks_on again" "leaves (\<lambda>job _. oj_status job = Confirmed) again"
    using IH(1) by (fastforce simp: again_def keeps_def leaves_def)+
  let ?m = "confirmation_turn e url key deadline again"
  have "keeps nothing_told ?m" "keeps asks_on ?m"
    unfolding confirmation_turn_def nowH_def sleepH_def
    by (auto intro!: told.keeps_asking told.keeps_poll_confirmation asking.keeps_asking asking.keeps_poll_confirmation
        again split: option.split)
  moreover have "leaves (\<lambda>job _. oj_status job = Confirmed) ?m"
    unfolding confirmation_turn_def
    by (auto intro!: leaves_bindA leaves_bindA_result [OF poll_confirmed] leaves_throw leaves_retI again
        split: option.split)
  moreover have "?m s = Some q"
    using IH(2) unfolding again_def [symmetric] confirmation_turn_def by (simp only: body_simps)
  ultimately show ?case by (cases q) (auto dest: keepsD leavesD)
qed

lemma confirmation_loop_ends:
  assumes ok: "hh_clock_ok e"
  shows "ends (confirmation_loop e url key deadline) s"
proof (induction "nat (deadline - h_now e (hs_calls s))" arbitrary: s rule: less_induct)
  case less
  let ?h = "HNow # hs_calls s"
  have step: "h_now e (hs_calls s) \<le> h_now e ?h" using ok by (simp add: hh_clock_ok_def)
  have again: "ends (confirmation_loop e url key deadline) (t\<lparr>hs_calls := HSleep 2000 # hs_calls t\<rparr>)"
    if "h_now e ?h < deadline" and "suffix ?h (hs_calls t)" for t
  proof (rule less.hyps)
    have "h_now e (hs_calls t) + 1 \<le> h_now e (HSleep 2000 # hs_calls t)" using ok by (simp add: hh_clock_ok_def)
    then show "nat (deadline - h_now e (hs_calls (t\<lparr>hs_calls := HSleep 2000 # hs_calls t\<rparr>)))
        < nat (deadline - h_now e (hs_calls s))"
      using that(1) hh_clock_along [OF ok that(2)] step by simp
  qed
  have "ends (confirmation_turn e url key deadline (confirmation_loop e url key deadline)) s"
    unfolding confirmation_turn_def nowH_def sleepH_def
    by (auto simp: ends_bindA wp_simps total_ends asks_on_def
        intro!: wp_frame [OF asking.keeps_poll_confirmation] again split: option.split)
  then show ?case using confirmation_loop_turn by metis
qed

lemma waitForConfirmation_wp:
  "wp (waitForConfirmation e url key ms) (\<lambda>job t. nothing_told s t \<and> oj_status job = Confirmed)
     (\<lambda>_ t. nothing_told s t) s"
proof (rule wpI)
  fix job t assume "waitForConfirmation e url key ms s = Some (Inr job, t)"
  then show "nothing_told s t \<and> oj_status job = Confirmed"
    by (auto simp: waitForConfirmation_def nowH_def askH_def bindA_def Let_def nothing_told_def
        dest!: confirmation_loop_rule)
next
  fix x t assume "waitForConfirmation e url key ms s = Some (Inl x, t)"
  then show "nothing_told s t"
    by (auto simp: waitForConfirmation_def nowH_def askH_def bindA_def Let_def nothing_told_def
        dest!: confirmation_loop_rule)
qed

lemma total_waitForConfirmation: "hh_clock_ok e \<Longrightarrow> total (waitForConfirmation e url key ms)"
  unfolding waitForConfirmation_def nowH_def
  by (intro total_bindA total_hardhat) (simp add: total_def confirmation_loop_ends)

section \<open>Funding the backstop\<close>

text \<open>The transactions asked for since a history, newest first, with the manifests left alone.\<close>

definition told_only :: "hh_call list \<Rightarrow> hardhat \<Rightarrow> hardhat \<Rightarrow> bool" where
  "told_only new s t = (hh_sent t = new @ hh_sent s \<and> hs_manifests t = hs_manifests s)"

lemma told_only_trans: "told_only xs s t \<Longrightarrow> told_only ys t u \<Longrightarrow> told_only (ys @ xs) s u"
  by (auto simp: told_only_def)

lemma told_only_none: "told_only [] s t \<longleftrightarrow> nothing_told s t"
  by (simp add: told_only_def nothing_told_def)

lemma transact_wp: "wp (transact e c f args wei) (\<lambda>_. told_only [HSend c f args wei] s)
    (\<lambda>_. told_only [HSend c f args wei] s) s"
  by (auto simp: transact_def wp_simps told_only_def split: sum.split)

definition approval_call :: "backstop \<Rightarrow> hh_call" where
  "approval_call k = HSend (bk_token k) ''approve'' [bk_vault k, show_int (bk_amount k)] 0"

definition funding_call :: "backstop \<Rightarrow> hh_call" where
  "funding_call k = HSend (bk_vault k) ''fundBackstop'' [show_int (bk_amount k)] backstop_fee"

lemma approve_backstop_wp: "wp (approve_backstop e k)
    (\<lambda>_ t. told_only [] s t \<or> told_only [approval_call k] s t)
    (\<lambda>_ t. told_only [] s t \<or> told_only [approval_call k] s t) s"
  unfolding approve_backstop_def
  by (auto simp: wp_simps told_only_def approval_call_def transact_def split: sum.split)

lemma send_backstop_wp: "wp (send_backstop e k)
    (\<lambda>(hash, job) t. told_only [funding_call k] s t \<and> oj_status job = Confirmed)
    (\<lambda>_ t. told_only [funding_call k] s t) s"
proof -
  have wait: "wp (waitForConfirmation e url key ms) (\<lambda>job t. told_only [funding_call k] s t \<and> oj_status job = Confirmed)
      (\<lambda>_ t. told_only [funding_call k] s t) u" if "told_only [funding_call k] s u" for url key ms u
    by (rule wp_mono [OF waitForConfirmation_wp [where s = u]])
      (use that in \<open>auto simp: told_only_def nothing_told_def\<close>)
  show ?thesis
    unfolding send_backstop_def wp_bindA
    by (rule wp_mono [OF transact_wp [where s = s]])
      (auto simp: wp_simps wp_ret_eta funding_call_def [symmetric] intro!: wait split: option.split)
qed

lemma total_fund_backstop: "hh_clock_ok e \<Longrightarrow> total (fund_backstop e vars)"
  unfolding fund_backstop_def backstop_checks_def approve_backstop_def send_backstop_def
  by (auto intro!: total_intros total_waitForConfirmation split: list.split option.split prod.split)

lemma backstop_checks_wp: "wp (backstop_checks e vars) (\<lambda>k t. nothing_told s t \<and> bk_amount k \<noteq> 0
      \<and> (\<exists>d. hs_manifests s Coston2V2Target = Some d \<and> bk_vault k = mf_quietVault d \<and> bk_token k = mf_usdt0 d
        \<and> 65536 \<le> mf_extensionId d)) (\<lambda>_. nothing_told s) s"
  unfolding backstop_checks_def readManifest_def
  by (auto simp: wp_simps nothing_told_def split: sum.split option.split list.split)

text \<open>Surroundings in which everything is granted, the clock counting calls and sleeps.\<close>

definition hh_time :: "hh_call list \<Rightarrow> int" where
  "hh_time h = int (length h) + sum_list (map (\<lambda>c. case c of HSleep d \<Rightarrow> int d | _ \<Rightarrow> 0) h)"

definition sample_info :: info_payload where
  "sample_info = \<lparr>ip_teeInfo = Some \<lparr>tp_chainId = Some 114, tp_teeKey = Some
       \<lparr>pk_x = Some (''0x'' @ replicate 64 (CHR ''1'')), pk_y = Some (''0x'' @ replicate 64 (CHR ''2''))\<rparr>\<rparr>,
     ip_machineData = Some \<lparr>mp_extensionId = Some 65536, mp_codeHash = Some (''0x'' @ replicate 64 (CHR ''3''))\<rparr>,
     ip_attestation = Some ''quote''\<rparr>"

definition sample_hardhat_env :: hh_env where
  "sample_hardhat_env = \<lparr>h_signers = (\<lambda>_. Inr [''0xa'', ''0xb'']), h_chainId = (\<lambda>_. Inr 114),
     h_code = (\<lambda>_. Inr ''0x60''), h_block = (\<lambda>_. Inr (7, 9)), h_deploy = (\<lambda>_. Inr (''0xd'', ''0xe'')),
     h_int = (\<lambda>h. case h of HRead _ f _ # _ \<Rightarrow> Inr (if f = ''extensionId'' then 65536
        else if f = ''balanceOf'' then 5000000 else 0) | _ \<Rightarrow> Inr 0),
     h_text = (\<lambda>_. Inr ''0xc''), h_bool = (\<lambda>_. Inr True), h_send = (\<lambda>_. Inr ''0xf''),
     h_mined = (\<lambda>_. Inr \<lparr>mn_blockNumber = 8, mn_events = [None, Some (''BackstopFunded'', ''0x07'')]\<rparr>),
     h_info = (\<lambda>_. Inr \<lparr>ha_status = 200, ha_text = Inr [], ha_json = Inr (Some sample_info)\<rparr>),
     h_job = (\<lambda>_. Inr \<lparr>ha_status = 200, ha_text = Inr [],
        ha_json = Inr \<lparr>oj_status = Confirmed, oj_error = None, oj_txHash = Some ''0x9''\<rparr>\<rparr>),
     h_now = hh_time, h_isAddress = (\<lambda>_. True), h_getAddress = (\<lambda>x. x), h_computeAddress = (\<lambda>_. Inr ''0xc''),
     h_parseUnits = (\<lambda>_ _. Inr 4000000), h_formatUnits = (\<lambda>_ _. ''4.0''), h_infoUrl = (\<lambda>u. Inr u),
     h_jobUrl = (\<lambda>u _. Inr u)\<rparr>"

definition sample_manifest :: manifest where
  "sample_manifest = \<lparr>mf_network = ''coston2'', mf_chainId = 114, mf_protocolVersion = 2, mf_quietPolicy = ''0x1'',
     mf_quietVault = ''0x2'', mf_extensionId = 65536, mf_teeSigner = ''0xc'', mf_codeHash = zero_hash,
     mf_startBlock = 1, mf_flareTeeManager = ''0x3'', mf_ftsoV2 = ''0x4'', mf_fxrp = ''0x5'', mf_usdt0 = ''0x6''\<rparr>"

definition sample_hardhat :: hardhat where
  "sample_hardhat = \<lparr>hs_calls = [], hs_manifests = [Coston2V2Target \<mapsto> sample_manifest]\<rparr>"

lemma sample_hh_clock_ok: "hh_clock_ok sample_hardhat_env"
  by (auto simp: hh_clock_ok_def sample_hardhat_env_def hh_time_def split: hh_call.split)

text \<open>What one run of the script may come to, given what its checks found.\<close>

lemma checks_found: "wp (backstop_checks e vars) (\<lambda>k t. backstop_checks e vars s = Some (Inr k, t) \<and> nothing_told s t
      \<and> bk_amount k \<noteq> 0 \<and> (\<exists>d. hs_manifests s Coston2V2Target = Some d \<and> bk_vault k = mf_quietVault d
        \<and> bk_token k = mf_usdt0 d)) (\<lambda>_. nothing_told s) s"
proof -
  have "wp (backstop_checks e vars) (\<lambda>k t. backstop_checks e vars s = Some (Inr k, t)) (\<lambda>_ _. True) s"
    by (rule wpI) auto
  from wp_conj [OF this backstop_checks_wp [of e vars s]] show ?thesis
    by (rule wp_mono) auto
qed

lemma told_after: "nothing_told s t \<Longrightarrow> told_only new t u \<Longrightarrow> told_only new s u"
  by (simp add: told_only_def nothing_told_def)

lemma approve_then_send_wp: "wp (thenA (approve_backstop e k) (send_backstop e k))
    (\<lambda>(hash, job) t. oj_status job = Confirmed
      \<and> (told_only [funding_call k] s t \<or> told_only [funding_call k, approval_call k] s t))
    (\<lambda>_ t. \<exists>new. told_only new s t
      \<and> new \<in> {[], [approval_call k], [funding_call k], [funding_call k, approval_call k]}) s"
proof (rule wp_then_via [where P = "\<lambda>t. told_only [] s t \<or> told_only [approval_call k] s t"])
  show "wp (approve_backstop e k) (\<lambda>_ t. told_only [] s t \<or> told_only [approval_call k] s t)
     (\<lambda>_ t. \<exists>new. told_only new s t
      \<and> new \<in> {[], [approval_call k], [funding_call k], [funding_call k, approval_call k]}) s"
    by (rule wp_mono [OF approve_backstop_wp]) auto
next
  fix t assume t: "told_only [] s t \<or> told_only [approval_call k] s t"
  have all: "told_only [funding_call k] s u \<or> told_only [funding_call k, approval_call k] s u"
    if "told_only [funding_call k] t u" for u
    using t told_only_trans [OF _ that] by fastforce
  show "wp (send_backstop e k) (\<lambda>(hash, job) t. oj_status job = Confirmed
      \<and> (told_only [funding_call k] s t \<or> told_only [funding_call k, approval_call k] s t))
    (\<lambda>_ t. \<exists>new. told_only new s t
      \<and> new \<in> {[], [approval_call k], [funding_call k], [funding_call k, approval_call k]}) t"
    by (rule wp_mono [OF send_backstop_wp]) (use all in auto)
qed

section \<open>Properties\<close>

text \<open>
  C19. Funding the backstop always comes to an end under a clock that advances, and changes no
  manifest. It asks for nothing before every check has passed, and then for at most an approval and
  after it one funding of the same nonzero amount to the manifest's vault; it returns only when the
  funding was sent and the relayer reported its job as confirmed.
\<close>
theorem fund_backstop_sends_once:
  assumes "hh_clock_ok e"
  shows "\<exists>r t new. fund_backstop e vars s = Some (r, t) \<and> told_only new s t
    \<and> (case r of Inl _ \<Rightarrow> True | Inr (hash, job) \<Rightarrow> oj_status job = Confirmed)
    \<and> (isl r \<and> new = [] \<or> (\<exists>k u d. backstop_checks e vars s = Some (Inr k, u) \<and> bk_amount k \<noteq> 0
        \<and> hs_manifests s Coston2V2Target = Some d \<and> bk_vault k = mf_quietVault d \<and> bk_token k = mf_usdt0 d
        \<and> (isl r \<and> new = [approval_call k] \<or> new = [funding_call k] \<or> new = [funding_call k, approval_call k])))"
proof -
  let ?C = "\<lambda>k. \<exists>u d. backstop_checks e vars s = Some (Inr k, u) \<and> bk_amount k \<noteq> 0
    \<and> hs_manifests s Coston2V2Target = Some d \<and> bk_vault k = mf_quietVault d \<and> bk_token k = mf_usdt0 d"
  have "wp (fund_backstop e vars)
     (\<lambda>(hash, job) t. oj_status job = Confirmed \<and> (\<exists>k. ?C k \<and> (told_only [funding_call k] s t
        \<or> told_only [funding_call k, approval_call k] s t)))
     (\<lambda>_ t. told_only [] s t \<or> (\<exists>k new. ?C k \<and> told_only new s t
        \<and> new \<in> {[], [approval_call k], [funding_call k], [funding_call k, approval_call k]})) s"
    unfolding fund_backstop_def wp_bindA
  proof (rule wp_mono [OF checks_found], goal_cases)
    case (1 k t)
    then have C: "?C k" and t: "nothing_told s t" by blast+
    show ?case
      by (rule wp_mono [OF approve_then_send_wp [where s = t]]) (use C told_after [OF t] in blast)+
  qed (simp add: told_only_none)
  moreover obtain r t where run: "fund_backstop e vars s = Some (r, t)"
    using total_ends [OF total_fund_backstop [OF assms]] by (rule endsE)
  ultimately show ?thesis
    by (cases r) (fastforce dest: wp_Some wp_Some_throw)+
qed

theorem fund_backstop_sends_once_witness:
  "\<exists>r t new. fund_backstop sample_hardhat_env (\<lambda>_. Some ''1'') sample_hardhat = Some (r, t)
    \<and> told_only new sample_hardhat t \<and> (isl r \<and> new = [] \<or> new \<noteq> [])"
  using fund_backstop_sends_once [OF sample_hh_clock_ok, of "\<lambda>_. Some ''1''" sample_hardhat] by fastforce

section \<open>Configuring the extension\<close>

definition extension_call :: "manifest \<Rightarrow> number \<Rightarrow> hh_call" where
  "extension_call d n = HSend (mf_quietVault d) ''setExtensionId'' [number_text n] 0"

definition signer_call :: "manifest \<Rightarrow> address \<Rightarrow> hh_call" where
  "signer_call d a = HSend (mf_quietVault d) ''setTeeSigner'' [a] 0"

text \<open>The vault's extension as it was last read is the machine's.\<close>

definition extension_read :: "hh_env \<Rightarrow> manifest \<Rightarrow> number \<Rightarrow> bool" where
  "extension_read e d n = (\<exists>h x. h_int e (HRead (mf_quietVault d) ''extensionId'' [] # h) = Inr x \<and> fl (of_int x) = n)"

lemma bind_extension_wp: "wp (bind_extension e (mf_quietVault d) n)
    (\<lambda>x t. x = n \<and> extension_read e d n \<and> (told_only [] s t \<or> told_only [extension_call d n] s t))
    (\<lambda>_ t. told_only [] s t \<or> told_only [extension_call d n] s t) s"
proof -
  let ?P = "\<lambda>t. told_only [] s t \<or> told_only [extension_call d n] s t"
  have told: "?P (t\<lparr>hs_calls := HRead a f args # hs_calls t\<rparr>)" if "?P t" for t a f args
    using that by (auto simp: told_only_def)
  have again: "wp (bindA (askHE (h_int e) (HRead (mf_quietVault d) ''extensionId'' [])) (\<lambda>now.
      let extensionId = fl (of_int now) in if n \<noteq> extensionId then throw (x extensionId) else ret extensionId))
    (\<lambda>x t. x = n \<and> extension_read e d n \<and> ?P t) (\<lambda>_. ?P) t" if "?P t" for t x
    using told [OF that] by (auto simp: wp_simps Let_def extension_read_def split: sum.split)
  have first: "wp (if b then thenA (transact e (mf_quietVault d) ''setExtensionId'' [number_text n] 0) (ret ()) else ret ())
     (\<lambda>_. ?P) (\<lambda>_. ?P) t" if "told_only [] s t" for t b
    using that told_only_trans [OF that]
    by (auto simp: wp_simps extension_call_def intro!: wp_mono [OF transact_wp])
  have start: "told_only [] s (s\<lparr>hs_calls := HRead a f args # hs_calls s\<rparr>)" for a f args
    by (simp add: told_only_def)
  show ?thesis
  proof (cases "h_int e (HRead (mf_quietVault d) ''extensionId'' [] # hs_calls s)")
    case (Inl x)
    then show ?thesis using start by (simp add: bind_extension_def wp_bindA wp_askHE)
  next
    case (Inr current)
    show ?thesis
      unfolding bind_extension_def wp_bindA [of "askHE (h_int e) (HRead (mf_quietVault d) ''extensionId'' [])"
          "\<lambda>current. thenA (K current) L" for K L] wp_askHE Inr sum.case
      by (rule wp_then_via [OF first [OF start] again])
  qed
qed

lemma bind_signer_wp: "wp (bind_signer e (mf_quietVault d) tee)
    (\<lambda>a t. signerFromPublicKey e (tp_teeKey tee) = Inr a \<and> (told_only [] s t \<or> told_only [signer_call d a] s t))
    (\<lambda>_ t. told_only [] s t \<or> (\<exists>a. signerFromPublicKey e (tp_teeKey tee) = Inr a \<and> told_only [signer_call d a] s t)) s"
  unfolding bind_signer_def transact_def
  by (auto simp: wp_simps told_only_def signer_call_def split: sum.split)

text \<open>What the vault may have been told, newest first, for a machine's extension and its signer.\<close>

definition binding_calls :: "manifest \<Rightarrow> number \<Rightarrow> js_error + address \<Rightarrow> hh_call list \<Rightarrow> bool" where
  "binding_calls d n signer calls = (calls = [] \<or> calls = [extension_call d n] \<or> (\<exists>a. signer = Inr a
     \<and> (calls = [signer_call d a] \<or> calls = [signer_call d a, extension_call d n])))"

lemma binding_calls_first:
  "told_only [] s t \<or> told_only [extension_call d n] s t \<Longrightarrow> told_only [] t u \<Longrightarrow>
   \<exists>calls. told_only calls s u \<and> binding_calls d n signer calls"
  using told_only_trans unfolding binding_calls_def by fastforce

lemma binding_calls_both:
  "told_only [] s t \<or> told_only [extension_call d n] s t \<Longrightarrow> told_only [] t u \<or> told_only [signer_call d a] t u \<Longrightarrow>
   \<exists>calls. told_only calls s u \<and> binding_calls d n (Inr a) calls"
  using told_only_trans unfolding binding_calls_def by fastforce

lemma bind_machine_wp: "wp (bind_machine e d n tee machine simulated)
    (\<lambda>_ t. \<exists>a c calls. signerFromPublicKey e (tp_teeKey tee) = Inr a
      \<and> codeHash_ok (mp_codeHash machine) simulated = Inr c \<and> extension_read e d n
      \<and> hs_manifests t = (hs_manifests s)(Coston2V2Target \<mapsto> d\<lparr>mf_extensionId := n, mf_teeSigner := a, mf_codeHash := c\<rparr>)
      \<and> hh_sent t = calls @ hh_sent s \<and> binding_calls d n (Inr a) calls)
    (\<lambda>_ t. \<exists>calls. told_only calls s t \<and> binding_calls d n (signerFromPublicKey e (tp_teeKey tee)) calls) s"
  unfolding bind_machine_def
proof (rule wp_bind_via, rule wp_mono [OF bind_extension_wp])
  show "x = n \<and> extension_read e d n \<and> (told_only [] s t \<or> told_only [extension_call d n] s t) \<Longrightarrow>
     x = n \<and> extension_read e d n \<and> (told_only [] s t \<or> told_only [extension_call d n] s t)" for x t .
  show "told_only [] s t \<or> told_only [extension_call d n] s t \<Longrightarrow>
     \<exists>calls. told_only calls s t \<and> binding_calls d n (signerFromPublicKey e (tp_teeKey tee)) calls" for t
    by (auto simp: binding_calls_def)
next
  fix x t assume t: "x = n \<and> extension_read e d n \<and> (told_only [] s t \<or> told_only [extension_call d n] s t)"
  show "wp (bindA (bind_signer e (mf_quietVault d) tee) (\<lambda>teeSigner.
      bindA (liftA (codeHash_ok (mp_codeHash machine) simulated)) (\<lambda>codeHash.
        writeDeployment (d\<lparr>mf_extensionId := x, mf_teeSigner := teeSigner, mf_codeHash := codeHash\<rparr>) Coston2V2Target)))
    (\<lambda>_ t. \<exists>a c calls. signerFromPublicKey e (tp_teeKey tee) = Inr a
      \<and> codeHash_ok (mp_codeHash machine) simulated = Inr c \<and> extension_read e d n
      \<and> hs_manifests t = (hs_manifests s)(Coston2V2Target \<mapsto> d\<lparr>mf_extensionId := n, mf_teeSigner := a, mf_codeHash := c\<rparr>)
      \<and> hh_sent t = calls @ hh_sent s \<and> binding_calls d n (Inr a) calls)
    (\<lambda>_ t. \<exists>calls. told_only calls s t \<and> binding_calls d n (signerFromPublicKey e (tp_teeKey tee)) calls) t"
    unfolding wp_bindA
  proof (rule wp_mono [OF bind_signer_wp])
    fix a u assume a: "signerFromPublicKey e (tp_teeKey tee) = Inr a \<and> (told_only [] t u \<or> told_only [signer_call d a] t u)"
    then obtain calls where u: "told_only calls s u" "binding_calls d n (Inr a) calls"
      using binding_calls_both t by blast
    show "wp (liftA (codeHash_ok (mp_codeHash machine) simulated)) (\<lambda>c. wp (writeDeployment
        (d\<lparr>mf_extensionId := x, mf_teeSigner := a, mf_codeHash := c\<rparr>) Coston2V2Target)
      (\<lambda>_ t. \<exists>a c calls. signerFromPublicKey e (tp_teeKey tee) = Inr a
        \<and> codeHash_ok (mp_codeHash machine) simulated = Inr c \<and> extension_read e d n
        \<and> hs_manifests t = (hs_manifests s)(Coston2V2Target \<mapsto> d\<lparr>mf_extensionId := n, mf_teeSigner := a, mf_codeHash := c\<rparr>)
        \<and> hh_sent t = calls @ hh_sent s \<and> binding_calls d n (Inr a) calls)
      (\<lambda>_ t. \<exists>calls. told_only calls s t \<and> binding_calls d n (signerFromPublicKey e (tp_teeKey tee)) calls))
      (\<lambda>_ t. \<exists>calls. told_only calls s t \<and> binding_calls d n (signerFromPublicKey e (tp_teeKey tee)) calls) u"
    proof (cases "codeHash_ok (mp_codeHash machine) simulated")
      case (Inl y)
      then show ?thesis using a u by (auto simp: wp_liftA)
    next
      case (Inr c)
      have kept: "hs_manifests u = hs_manifests s" "hh_sent (u\<lparr>hs_manifests := x\<rparr>) = calls @ hh_sent s" for x
        using u(1) by (simp_all add: told_only_def)
      show ?thesis
        unfolding writeDeployment_def wp_liftA wp_modifyA Inr sum.case
        by (rule exI [of _ a], rule exI [of _ c], rule exI [of _ calls]) (use a t u(2) kept in simp)
    qed
  next
    fix y u assume "told_only [] t u
      \<or> (\<exists>a. signerFromPublicKey e (tp_teeKey tee) = Inr a \<and> told_only [signer_call d a] t u)"
    then show "\<exists>calls. told_only calls s u \<and> binding_calls d n (signerFromPublicKey e (tp_teeKey tee)) calls"
    proof (elim disjE exE conjE)
      assume "told_only [] t u"
      then show ?thesis using binding_calls_first t by blast
    next
      fix a assume "signerFromPublicKey e (tp_teeKey tee) = Inr a" "told_only [signer_call d a] t u"
      then show ?thesis using binding_calls_both [of s t d n u a] t by simp
    qed
  qed
qed

text \<open>What the machine has to answer: attested, on Coston2, for a public extension.\<close>

definition machine_admitted ::
    "info_payload option \<Rightarrow> bool \<Rightarrow> number \<Rightarrow> tee_payload \<Rightarrow> machine_payload \<Rightarrow> bool" where
  "machine_admitted payload simulated n tee machine = (\<exists>attestation.
     machineInfo payload simulated = Inr (tee, machine, attestation)
     \<and> attestation \<noteq> [] \<and> (attestation = ''magic_pass'' \<longrightarrow> simulated)
     \<and> info_uint (tp_chainId tee) ''teeInfo.chainId'' = Inr 114
     \<and> info_uint (mp_extensionId machine) ''machineData.extensionId'' = Inr n \<and> 65536 \<le> n)"

lemma machineInfo_attested:
  "machineInfo payload simulated = Inr (tee, machine, attestation) \<Longrightarrow>
   attestation \<noteq> [] \<and> (attestation = ''magic_pass'' \<longrightarrow> simulated)"
  by (auto simp: machineInfo_def present_def split: option.splits if_splits)

definition machine_answer :: "hh_env \<Rightarrow> hardhat \<Rightarrow> info_payload option \<Rightarrow> bool" where
  "machine_answer e s payload = (\<exists>url response. h_info e (HFetch url # hs_calls s) = Inr response
     \<and> http_ok response \<and> ha_json response = Inr payload)"

definition configured_with ::
    "hh_env \<Rightarrow> (string \<Rightarrow> string option) \<Rightarrow> hardhat \<Rightarrow> js_error + unit \<Rightarrow> hardhat \<Rightarrow> hh_call list \<Rightarrow> bool" where
  "configured_with e vars s r t calls = (\<exists>d payload n tee machine.
     hs_manifests s Coston2V2Target = Some d \<and> machine_answer e s payload
     \<and> machine_admitted payload (vars ''SIMULATED_TEE'' = Some ''true'') n tee machine
     \<and> binding_calls d n (signerFromPublicKey e (tp_teeKey tee)) calls
     \<and> (case r of Inl _ \<Rightarrow> hs_manifests t = hs_manifests s
        | Inr _ \<Rightarrow> extension_read e d n \<and> (\<exists>a c. signerFromPublicKey e (tp_teeKey tee) = Inr a
          \<and> codeHash_ok (mp_codeHash machine) (vars ''SIMULATED_TEE'' = Some ''true'') = Inr c
          \<and> hs_manifests t = (hs_manifests s)(Coston2V2Target \<mapsto>
              d\<lparr>mf_extensionId := n, mf_teeSigner := a, mf_codeHash := c\<rparr>))))"

lemma total_bind_machine: "total (bind_machine e d n tee machine simulated)"
  unfolding bind_machine_def bind_extension_def bind_signer_def Let_def by (auto intro!: total_intros)

lemma total_configure_extension: "total (configure_extension e vars)"
  unfolding configure_extension_def Let_def
  by (auto intro!: total_intros total_bind_machine split: prod.split)

lemma configure_extension_wp: "wp (configure_extension e vars)
    (\<lambda>_ t. \<exists>calls. hh_sent t = calls @ hh_sent s \<and> configured_with e vars s (Inr ()) t calls)
    (\<lambda>x t. \<exists>calls. hh_sent t = calls @ hh_sent s \<and> hs_manifests t = hs_manifests s
      \<and> (calls = [] \<or> configured_with e vars s (Inl x) t calls)) s"
  (is "wp _ ?Q ?E s")
proof -
  let ?sim = "vars ''SIMULATED_TEE'' = Some ''true''"
  have early: "?E x (s\<lparr>hs_calls := HFetch url # hs_calls s\<rparr>)" "?E x s" for x url
    by simp_all
  have bound: "wp (bind_machine e d n tee machine ?sim) ?Q ?E (s\<lparr>hs_calls := HFetch url # hs_calls s\<rparr>)"
    if d: "hs_manifests s Coston2V2Target = Some d"
      and ok: "h_info e (HFetch url # hs_calls s) = Inr response" "http_ok response" "ha_json response = Inr payload"
      and payload: "machineInfo payload ?sim = Inr (tee, machine, attestation)"
        "info_uint (tp_chainId tee) ''teeInfo.chainId'' = Inr 114"
        "info_uint (mp_extensionId machine) ''machineData.extensionId'' = Inr n" "\<not> n < 65536"
    for d payload n tee machine url response attestation
  proof -
    have "machine_answer e s payload" "machine_admitted payload ?sim n tee machine"
      using ok payload machineInfo_attested [OF payload(1)]
      by (auto simp: machine_answer_def machine_admitted_def)
    with d show ?thesis
      by (intro wp_mono [OF bind_machine_wp]) (fastforce simp: configured_with_def told_only_def)+
  qed
  show ?thesis
    unfolding configure_extension_def readManifest_def Let_def
    by (auto simp: wp_simps early split: sum.split option.split prod.split) (rule bound; assumption)
qed


text \<open>The vault is told the new signer before the measured code is checked, and is not told back.\<close>

lemma signer_before_code_hash:
  fixes tee machine env
  defines "tee \<equiv> the (ip_teeInfo sample_info)"
    and "machine \<equiv> \<lparr>mp_extensionId = Some 65536, mp_codeHash = Some zero_hash\<rparr>"
    and "env \<equiv> sample_hardhat_env\<lparr>h_text := \<lambda>_. Inr ''0x99'', h_info := \<lambda>_. Inr \<lparr>ha_status = 200, ha_text = Inr [],
        ha_json = Inr (Some (sample_info\<lparr>ip_machineData := Some machine\<rparr>))\<rparr>\<rparr>"
  shows "\<exists>t. configure_extension env [''FCC_PROXY_URL'' \<mapsto> ''https://proxy''] sample_hardhat
     = Some (Inl (JsError ''FCC /info did not include a non-zero measured code hash''), t)
   \<and> hh_sent t = [signer_call sample_manifest ''0xc'']"
proof -
  have info: "machineInfo (Some (sample_info\<lparr>ip_machineData := Some machine\<rparr>)) False = Inr (tee, machine, ''quote'')"
    by (simp add: tee_def machine_def machineInfo_def sample_info_def present_def)
  have chain: "info_uint (tp_chainId tee) name = Inr 114" "info_uint (mp_extensionId machine) name = Inr 65536" for name
    by (simp_all add: tee_def machine_def info_uint_def sample_info_def is_safe_integer_def is_integer_def max_safe_integer_def)
  have signer: "signerFromPublicKey (env) (tp_teeKey tee) = Inr ''0xc''"
  proof -
    have "is_hex_of 64 (''0x'' @ replicate 64 (CHR ''1''))" "is_hex_of 64 (''0x'' @ replicate 64 (CHR ''2''))"
      by code_simp+
    then show ?thesis by (simp add: tee_def env_def signerFromPublicKey_def sample_info_def sample_hardhat_env_def)
  qed
  have code: "codeHash_ok (mp_codeHash machine) False
      = Inl (JsError ''FCC /info did not include a non-zero measured code hash'')"
    by (simp add: machine_def codeHash_ok_def)
  have env: "h_infoUrl env u = Inr u" "h_info env h = Inr \<lparr>ha_status = 200, ha_text = Inr [],
        ha_json = Inr (Some (sample_info\<lparr>ip_machineData := Some machine\<rparr>))\<rparr>"
      "h_int env (HRead v ''extensionId'' xs # h) = Inr 65536" "h_text env h = Inr ''0x99''"
      "h_send env h = Inr ''0xf''" "h_mined env h =
         Inr \<lparr>mn_blockNumber = 8, mn_events = [None, Some (''BackstopFunded'', ''0x07'')]\<rparr>" for u v xs h
    by (simp_all add: env_def sample_hardhat_env_def)
  have "wp (configure_extension env [''FCC_PROXY_URL'' \<mapsto> ''https://proxy'']) (\<lambda>_ _. False)
     (\<lambda>x t. x = JsError ''FCC /info did not include a non-zero measured code hash''
       \<and> hh_sent t = [signer_call sample_manifest ''0xc'']) sample_hardhat"
    using fl_integer [of 65536]
    by (simp add: configure_extension_def bind_machine_def bind_extension_def bind_signer_def transact_def
        readManifest_def wp_simps sample_hardhat_def present_def http_ok_def info chain signer code env
        signer_call_def lower_def hh_sent_call)
  moreover obtain r t where "configure_extension env [''FCC_PROXY_URL'' \<mapsto> ''https://proxy''] sample_hardhat = Some (r, t)"
    using total_ends [OF total_configure_extension] by (rule endsE)
  ultimately show ?thesis by (cases r) (auto dest: wp_Some wp_Some_throw)
qed

section \<open>The other scripts\<close>

text \<open>Verifying only reads, and what it returns agrees with the manifest.\<close>

lemma verify_deployment_wp: "wp (verify_deployment e) (\<lambda>v t. nothing_told s t \<and> vd_chainId v = 114
      \<and> (\<exists>d. hs_manifests s Coston2V2Target = Some d \<and> vd_extensionId v = mf_extensionId d
        \<and> 65536 \<le> mf_extensionId d \<and> lower (vd_teeSigner v) = lower (mf_teeSigner d)))
    (\<lambda>_. nothing_told s) s"
proof (cases "hs_manifests s Coston2V2Target")
  case None
  then show ?thesis by (simp add: verify_deployment_def readManifest_def wp_simps nothing_told_def)
next
  case (Some d)
  have "keeps nothing_told (mapA (requireCode e) cs)" for cs
    by (intro told.keeps_asking)
  then show ?thesis
    unfolding verify_deployment_def readManifest_def
    by (simp add: wp_bindA wp_getA wp_liftA Some Let_def del: mapA.simps)
      (rule wp_frame, blast, auto simp: wp_simps nothing_told_def split: sum.split)
qed

text \<open>A deployment is recorded with no extension and no signer yet; a failed one is not recorded.\<close>

lemma deploy_coston2_wp: "wp (deploy_coston2 e vars)
    (\<lambda>_ t. \<exists>d. hs_manifests t Coston2V2Target = Some d
      \<and> (\<forall>x. x \<noteq> Coston2V2Target \<longrightarrow> hs_manifests t x = hs_manifests s x) \<and> mf_chainId d = 114 \<and> mf_extensionId d = 0
      \<and> mf_teeSigner d = zero_address)
    (\<lambda>_ t. hs_manifests t = hs_manifests s) s"
proof -
  have codes: "keeps nothing_told (mapA (requireCode e) cs)" for cs
    by (intro told.keeps_asking)
  show ?thesis
    unfolding deploy_coston2_def
    by (auto simp: wp_simps writeDeployment_def nothing_told_def simp del: mapA.simps split: sum.split list.split option.split
        intro!: wp_frame [OF codes])
qed

lemma set_extension_id_wp: "wp (set_extension_id e)
    (\<lambda>_ t. told_only [] s t \<or> (\<exists>d. hs_manifests s Coston2V2Target = Some d
      \<and> told_only [extension_call d (mf_extensionId d)] s t))
    (\<lambda>_ t. told_only [] s t \<or> (\<exists>d. hs_manifests s Coston2V2Target = Some d
      \<and> told_only [extension_call d (mf_extensionId d)] s t)) s"
  unfolding set_extension_id_def readManifest_def transact_def extension_call_def
  by (auto simp: wp_simps told_only_def split: sum.split option.split)

end
