(* ===== verification/Spec2Isabelle.thy ===== *)
theory Spec2Isabelle
  imports Startup Session_Spec Seed_Run Shell_View Connect_View Borrow_View Funds_View Position_View Landing_View Chain_Config
    Operations Proxy_Config Deploy_Scripts
begin

text \<open>
  Quietline is a confidential lending market: wallets deposit into a vault contract on Flare's
  Coston2, a confidential extension (FCC) keeps the private accounts and signs settlements, a relayer
  carries instructions and settlements between the two, and a browser application seals the user's
  actions for the extension. This development models the TypeScript of the relayer
  (\<^verbatim>\<open>relayer/src\<close>), of the shared package (\<^verbatim>\<open>packages/protocol/src\<close>) and of the browser's logic
  (\<^verbatim>\<open>frontend/src\<close>: \<^verbatim>\<open>lib\<close>, \<^verbatim>\<open>store\<close>, \<^verbatim>\<open>hooks\<close>, and the handlers and effects of its
  components and pages),
  and the operator's scripts (\<^verbatim>\<open>frontend/scripts/seed-lender.mjs\<close>, \<^verbatim>\<open>scripts/coston2\<close>,
  \<^verbatim>\<open>contracts/scripts\<close>, \<^verbatim>\<open>fcc/render-proxy-config.mjs\<close>).

  \<^bold>\<open>Conventions.\<close> An asynchronous function is an action (\<open>Prelude\<close>): from a state it does not return,
  throws, or returns, and what it did before a throw stays done. A \<open>try\<close>, a \<open>finally\<close> and
  \<open>Promise.all\<close> are combinators of actions. A loop over the wall clock is a \<open>partial_function\<close>, and a
  theorem says when it ends; nothing is bounded by fuel. \<open>wp\<close> is the weakest precondition of an action,
  \<open>ends\<close> that it ends, and \<open>keeps R\<close> that it preserves a frame \<open>R\<close>; the locale \<open>frame\<close> proves once how
  frames compose, its extensions \<open>quiet\<close>, \<open>quiet_page\<close> and \<open>quiet_store\<close> carry the lemmas of the browser,
  and every one is interpreted for the relations the properties use. What is not code of the repository
  (the chain, the FCC proxy, the relayer as the browser sees it, the wallet, the clock, random
  generators, the libraries of cryptography) is a parameter: \<open>env\<close> in \<open>World\<close>, \<open>browser\<close> in \<open>Browser\<close>, \<open>ops_env\<close> in
  \<open>Operations\<close>, \<open>hh_env\<close> in \<open>Deploy_Scripts\<close>. Each of its functions answers from the whole history of calls, so a theorem for every parameter covers every
  sequence of answers. Laws that a theorem relies on (the clock advances, digests have 32 bytes, both
  sides of a key exchange agree) are named hypotheses, and witnesses show that they can hold.
  The relayer's bigints are \<open>int\<close>; the browser's numbers are the rationals that finite doubles denote, with
  the rounding of IEEE 754 after every operation (\<open>Js_Number\<close>). A text is its UTF-8 bytes.

  \<^bold>\<open>The relayer.\<close>
  \<^item> \<open>Wire\<close>, \<open>World\<close>: the data that crosses its boundaries, and its surroundings.
  \<^item> \<open>Store\<close> (\<^verbatim>\<open>db.ts\<close>): the SQLite tables as a record, one definition per method. Lemmas: ids and keys stay
    unique, an update writes exactly its patch, creation is idempotent, challenges are used once, the
    scheduler takes an oldest runnable job, opening is idempotent.
  \<^item> \<open>Fcc\<close> (\<^verbatim>\<open>fcc.ts\<close>) and \<open>Chain\<close> (\<^verbatim>\<open>chain.ts\<close>): the clients. Polling ends; a settlement is executed at
    most once; logs become instructions in block order.
  \<^item> \<open>Orchestrator\<close> and \<open>Drain\<close> (\<^verbatim>\<open>orchestrator.ts\<close>): the course of a job with its error and recovery paths, and
    the work loop, alone and as a step relation in which requests arrive at any moment. Processing ends,
    pays only what the extension signed, touches no other job; the loop works everything off and no
    wake-up is lost.
  \<^item> \<open>Indexer\<close> (\<^verbatim>\<open>indexer.ts\<close>, \<^verbatim>\<open>keeper.ts\<close>): polls over contiguous ranges of blocks, their replay, the risk tick.
  \<^item> \<open>Codec\<close>, \<open>Auth\<close> (\<^verbatim>\<open>auth.ts\<close>): challenges, sessions and bearer tokens.
  \<^item> \<open>Protocol\<close> (\<^verbatim>\<open>packages/protocol\<close>) and \<open>Server\<close> (\<^verbatim>\<open>server.ts\<close>): the schemas, and every route as an action.
  \<^item> \<open>Startup\<close> (\<^verbatim>\<open>config.ts\<close>, \<^verbatim>\<open>main.ts\<close>): the settings and the order of start and shutdown.

  \<^bold>\<open>The browser.\<close>
  \<^item> \<open>Js_Text\<close>, \<open>Js_Number\<close>, \<open>Private_Types\<close>: the parts of JavaScript it uses, and \<^verbatim>\<open>lib/privateTypes.ts\<close>.
  \<^item> \<open>Session_Store\<close> (\<^verbatim>\<open>store/useQuietline.ts\<close>): one definition per action of the store and what is persisted;
    \<open>Session_Spec\<close> states the abstract session it refines.
  \<^item> \<open>Browser\<close>: calls, answers and the page's state. \<open>Client_Api\<close> (\<^verbatim>\<open>lib/api.ts\<close>): the routes and the loops that wait.
  \<^item> \<open>Crypto\<close> (\<^verbatim>\<open>lib/crypto.ts\<close>): ECIES, the key derivation and the padding. Round trip, authenticity, buckets.
  \<^item> \<open>Settlement_View\<close>: \<^verbatim>\<open>receipts.ts\<close>, \<^verbatim>\<open>transactions.ts\<close>, \<^verbatim>\<open>borrowSettlement.ts\<close>, \<^verbatim>\<open>refreshSettlement.ts\<close>,
    \<^verbatim>\<open>earnMetrics.ts\<close>, \<^verbatim>\<open>statement.ts\<close>.
  \<^item> \<open>Private_Actions\<close> and \<open>Vault_Actions\<close> (\<^verbatim>\<open>hooks/usePrivateActions.ts\<close>): the sealed actions, the queue of
    mutations, deposit, borrow and withdrawal. A settled action is never reported as failed, a
    transaction is never sent twice.
  \<^item> \<open>Ui\<close> (\<^verbatim>\<open>components/ui.tsx\<close>): toasts, the view of a component beside the page, effects with their
    dependencies and timers. \<open>Shell_View\<close> (\<^verbatim>\<open>components/AppShell.tsx\<close>): the effects of the shell, and as a
    step relation its runs under any order of renders, wallet changes and timers; a session is closed at
    its expiry, the page follows the wallet, a notice is shown once. \<open>Connect_View\<close>
    (\<^verbatim>\<open>components/ConnectQuietline.tsx\<close>): connecting opens only a verified session.
  \<^item> \<open>Page_View\<close>: what the pages of \<^verbatim>\<open>frontend/src/pages\<close> share: typed numbers with NaN and the infinities,
    handlers that show one toast and put their state back, what the wallet was asked to sign.
  \<^item> \<open>Borrow_View\<close> (\<^verbatim>\<open>BorrowPage.tsx\<close>): the request of a quote with its checks, its acceptance, and the
    stages as a step relation whose every run accepts only the quote on the screen.
  \<^item> \<open>Funds_View\<close> (\<^verbatim>\<open>OverviewPage.tsx\<close>, \<^verbatim>\<open>EarnPage.tsx\<close>): the dialogs for deposits, withdrawals and
    mandates, and the figures of both pages; a dialog sends or signs only what its balance covers.
  \<^item> \<open>Position_View\<close> (\<^verbatim>\<open>PositionPage.tsx\<close>, \<^verbatim>\<open>ActivityPage.tsx\<close>, \<^verbatim>\<open>SettingsPage.tsx\<close>): repayment, the stress
    test, the readers of private state, and the reading of an attestation.
  \<^item> \<open>Landing_View\<close> (\<^verbatim>\<open>LandingPage.tsx\<close>): the market it polls and the figures of its preview.
  \<^item> \<open>Dialog_View\<close>: what a dialog and the menus do to focus, scrolling and listeners; they give back what
    they took. \<open>Chain_Config\<close> (\<^verbatim>\<open>web3\<close>, \<^verbatim>\<open>router.tsx\<close>, and the constants of \<^verbatim>\<open>chain.ts\<close>, the seeding script and
    \<^verbatim>\<open>hardhat.config.ts\<close>): interfaces, networks and addresses by which the parts agree.

  \<^bold>\<open>The scripts.\<close>
  \<^item> \<open>Seed_Lender\<close> holds the client and helpers of the seeding script, \<open>Seed_Run\<close> its course. A request is tried
    a bounded number of times and one that moves something only once; the lender's part deposits at most once.
  \<^item> \<open>Env_Files\<close> (\<^verbatim>\<open>scripts/coston2/lib.mjs\<close> and the scripts that write environment files): files are a map
    from paths to texts. Rewriting is exact, preparing twice changes nothing.
  \<^item> \<open>Operations\<close> (the other scripts there): pausing and retiring machines, registering the extension and the
    machine with their retries, the preflight. \<open>Proxy_Config\<close>: the proxy's configuration from its template.
  \<^item> \<open>Deploy_Scripts\<close> (\<^verbatim>\<open>contracts/scripts\<close>): deployment, binding the machine to the vault, the backstop.

  \<^bold>\<open>Bounds.\<close> Waiting loops have a deadline in milliseconds and sleep between their polls, so a clock that
  advances with each wait ends them. The figures of the lender's page are exact while the sums stay
  below \<open>2 ^ 53\<close>; amounts below \<open>2 ^ 50\<close> base units survive the division by a million that shows them.

  \<^bold>\<open>Not modelled.\<close> Markup, charts, the mounting of React (\<^verbatim>\<open>main.tsx\<close>), what the landing page does on
  moves of the pointer and when elements come into view, the Solidity vault and the Go extension (other languages;
  parameters here), what a script prints, Fastify's routing and serialisation, timers beyond their firing, and logging. NaN and the
  infinities are values of \<open>Page_View\<close>'s \<open>double\<close>, where text a user typed may give them; the numbers that
  come from the extension and the relayer are finite.
\<close>

end
